(* ===== verification/Vee_Prelude.thy ===== *)
theory Vee_Prelude
  imports Main "HOL-Library.Word" "HOL-Library.Char_ord" "HOL-Library.List_Lexorder"
begin

text \<open>
  The prelude of the development: the parts of the Go language and of its
  standard library that the components use, and the generic lemmas they share.

  A Go string is a list of bytes; it is modelled by \<^typ>\<open>string\<close>, a list of
  \<^typ>\<open>char\<close>, and the order of \<^theory_text>\<open>List_Lexorder\<close> on it is Go's byte-wise
  string order.  The functions of package \<open>strings\<close> keep their Go names.  Where
  Go consults Unicode tables (\<open>TrimSpace\<close>, \<open>Fields\<close>, \<open>ToLower\<close>) the model treats
  the ASCII range, which is what vee's names, sizes and command outputs use.
  Errors are values: an operation returns \<open>Inl\<close> of an error constructor or
  \<open>Inr\<close> of its result.
\<close>

named_theorems go_str \<open>characteristic facts of the string functions\<close>

named_theorems go_num \<open>characteristic facts of number printing and parsing\<close>

type_synonym byte = "8 word"

type_synonym time = int

type_synonym ('e, 'a) result = "'e + 'a"

subsection \<open>Results\<close>

fun bind_r :: "('e, 'a) result \<Rightarrow> ('a \<Rightarrow> ('e, 'b) result) \<Rightarrow> ('e, 'b) result" where
  "bind_r (Inl e) f = Inl e"
| "bind_r (Inr a) f = f a"

fun is_ok :: "('e, 'a) result \<Rightarrow> bool" where
  "is_ok (Inl e) = False"
| "is_ok (Inr a) = True"

lemma bind_r_Inr_iff: "bind_r r f = Inr b \<longleftrightarrow> (\<exists>a. r = Inr a \<and> f a = Inr b)"
  by (cases r) auto

lemma is_ok_iff: "is_ok r \<longleftrightarrow> (\<exists>a. r = Inr a)"
  by (cases r) auto

subsection \<open>Package strings\<close>

fun HasPrefix :: "string \<Rightarrow> string \<Rightarrow> bool" where
  "HasPrefix s [] = True"
| "HasPrefix [] (p # ps) = False"
| "HasPrefix (c # s) (p # ps) = (c = p \<and> HasPrefix s ps)"

definition HasSuffix :: "string \<Rightarrow> string \<Rightarrow> bool" where
  "HasSuffix s p = HasPrefix (rev s) (rev p)"

definition TrimPrefix :: "string \<Rightarrow> string \<Rightarrow> string" where
  "TrimPrefix s p = (if HasPrefix s p then drop (length p) s else s)"

definition TrimSuffix :: "string \<Rightarrow> string \<Rightarrow> string" where
  "TrimSuffix s p = (if HasSuffix s p then take (length s - length p) s else s)"

definition CutPrefix :: "string \<Rightarrow> string \<Rightarrow> string option" where
  "CutPrefix s p = (if HasPrefix s p then Some (drop (length p) s) else None)"

fun Contains :: "string \<Rightarrow> string \<Rightarrow> bool" where
  "Contains [] sub = (sub = [])"
| "Contains (c # s) sub = (HasPrefix (c # s) sub \<or> Contains s sub)"

fun SplitC :: "char \<Rightarrow> string \<Rightarrow> string list" where
  "SplitC d [] = [[]]"
| "SplitC d (x # xs) =
     (if x = d then [] # SplitC d xs
      else (case SplitC d xs of [] \<Rightarrow> [[x]] | y # ys \<Rightarrow> (x # y) # ys))"

fun CutC :: "char \<Rightarrow> string \<Rightarrow> (string \<times> string) option" where
  "CutC d [] = None"
| "CutC d (x # xs) =
     (if x = d then Some ([], xs)
      else (case CutC d xs of None \<Rightarrow> None | Some (a, b) \<Rightarrow> Some (x # a, b)))"

definition LastCutC :: "char \<Rightarrow> string \<Rightarrow> (string \<times> string) option" where
  "LastCutC d s =
     (case CutC d (rev s) of None \<Rightarrow> None | Some (a, b) \<Rightarrow> Some (rev b, rev a))"

fun Join :: "string list \<Rightarrow> string \<Rightarrow> string" where
  "Join [] sep = []"
| "Join [x] sep = x"
| "Join (x # y # ys) sep = x @ sep @ Join (y # ys) sep"

definition is_space :: "char \<Rightarrow> bool" where
  "is_space c = (c \<in> set [CHR 0x09, CHR 0x0A, CHR 0x0B, CHR 0x0C, CHR 0x0D, CHR '' ''])"

definition TrimRightF :: "(char \<Rightarrow> bool) \<Rightarrow> string \<Rightarrow> string" where
  "TrimRightF P s = rev (dropWhile P (rev s))"

definition TrimF :: "(char \<Rightarrow> bool) \<Rightarrow> string \<Rightarrow> string" where
  "TrimF P s = TrimRightF P (dropWhile P s)"

definition TrimSpace :: "string \<Rightarrow> string" where
  "TrimSpace s = TrimF is_space s"

fun FieldsAcc :: "string \<Rightarrow> string \<Rightarrow> string list" where
  "FieldsAcc acc [] = (if acc = [] then [] else [rev acc])"
| "FieldsAcc acc (c # s) =
     (if is_space c then (if acc = [] then FieldsAcc [] s else rev acc # FieldsAcc [] s)
      else FieldsAcc (c # acc) s)"

definition Fields :: "string \<Rightarrow> string list" where
  "Fields s = FieldsAcc [] s"

definition lower_char :: "char \<Rightarrow> char" where
  "lower_char c = (if CHR ''A'' \<le> c \<and> c \<le> CHR ''Z'' then char_of (of_char c + 32 :: nat) else c)"

definition upper_char :: "char \<Rightarrow> char" where
  "upper_char c = (if CHR ''a'' \<le> c \<and> c \<le> CHR ''z'' then char_of (of_char c - 32 :: nat) else c)"

definition ToLower :: "string \<Rightarrow> string" where
  "ToLower s = map lower_char s"

definition ToUpper :: "string \<Rightarrow> string" where
  "ToUpper s = map upper_char s"

fun ReplaceC :: "char \<Rightarrow> string \<Rightarrow> string \<Rightarrow> string" where
  "ReplaceC d r [] = []"
| "ReplaceC d r (c # s) = (if c = d then r @ ReplaceC d r s else c # ReplaceC d r s)"

definition nl :: string where
  "nl = [CHR 0x0A]"

definition Lines :: "string \<Rightarrow> string list" where
  "Lines s = SplitC (CHR 0x0A) s"

subsection \<open>Decimal numbers\<close>

definition is_digit :: "char \<Rightarrow> bool" where
  "is_digit c = (CHR ''0'' \<le> c \<and> c \<le> CHR ''9'')"

definition digit_val :: "char \<Rightarrow> nat" where
  "digit_val c = of_char c - 48"

definition digit_char :: "nat \<Rightarrow> char" where
  "digit_char n = char_of (48 + n)"

fun dec :: "nat \<Rightarrow> string" where
  "dec n = (if n < 10 then [digit_char n] else dec (n div 10) @ [digit_char (n mod 10)])"

declare dec.simps [simp del]

definition Itoa :: "int \<Rightarrow> string" where
  "Itoa i = (if i < 0 then CHR ''-'' # dec (nat (- i)) else dec (nat i))"

definition dec_val :: "string \<Rightarrow> nat" where
  "dec_val s = foldl (\<lambda>a c. 10 * a + digit_val c) 0 s"

definition parse_dec :: "string \<Rightarrow> nat option" where
  "parse_dec s = (if s \<noteq> [] \<and> list_all is_digit s then Some (dec_val s) else None)"

definition ParseUint64 :: "string \<Rightarrow> nat option" where
  "ParseUint64 s =
     (case parse_dec s of None \<Rightarrow> None | Some n \<Rightarrow> if n < 2 ^ 64 then Some n else None)"

definition parse_sint :: "string \<Rightarrow> int option" where
  "parse_sint s =
     (case s of
        [] \<Rightarrow> None
      | c # cs \<Rightarrow>
          if c = CHR ''-'' then map_option (\<lambda>n. - int n) (parse_dec cs)
          else if c = CHR ''+'' then map_option int (parse_dec cs)
          else map_option int (parse_dec s))"

definition ParseInt64 :: "string \<Rightarrow> int option" where
  "ParseInt64 s =
     (case parse_sint s of
        None \<Rightarrow> None
      | Some i \<Rightarrow> if - (2 ^ 63) \<le> i \<and> i < 2 ^ 63 then Some i else None)"

text \<open>\<open>strconv.Atoi\<close> is \<open>ParseInt\<close> at the width of \<open>int\<close>, 64 bits on the hosts vee runs on.\<close>

abbreviation Atoi :: "string \<Rightarrow> int option" where
  "Atoi \<equiv> ParseInt64"

subsection \<open>Package path/filepath (Unix)\<close>

text \<open>\<open>clean_comps\<close> is the loop of \<open>filepath.Clean\<close> over the path's elements; the
  accumulator holds the elements already written, last one first.\<close>

fun clean_comps :: "bool \<Rightarrow> string list \<Rightarrow> string list \<Rightarrow> string list" where
  "clean_comps rooted acc [] = rev acc"
| "clean_comps rooted acc (c # cs) =
     (if c = [] \<or> c = ''.'' then clean_comps rooted acc cs
      else if c = ''..'' then
        (case acc of
           [] \<Rightarrow> if rooted then clean_comps rooted [] cs else clean_comps rooted [''..''] cs
         | a # as \<Rightarrow> if a = ''..'' then clean_comps rooted (''..'' # acc) cs
                     else clean_comps rooted as cs)
      else clean_comps rooted (c # acc) cs)"

definition IsAbs :: "string \<Rightarrow> bool" where
  "IsAbs p = HasPrefix p ''/''"

definition Clean :: "string \<Rightarrow> string" where
  "Clean p =
     (if p = [] then ''.''
      else let rooted = IsAbs p;
               out = Join (clean_comps rooted [] (SplitC (CHR ''/'') p)) ''/''
           in if rooted then CHR ''/'' # out else if out = [] then ''.'' else out)"

definition PathJoin :: "string list \<Rightarrow> string" where
  "PathJoin elems =
     (let es = filter (\<lambda>e. e \<noteq> []) elems in if es = [] then [] else Clean (Join es ''/''))"

definition PathDir :: "string \<Rightarrow> string" where
  "PathDir p =
     (case LastCutC (CHR ''/'') p of None \<Rightarrow> ''.'' | Some (a, b) \<Rightarrow> Clean (a @ ''/''))"

definition PathBase :: "string \<Rightarrow> string" where
  "PathBase p =
     (if p = [] then ''.''
      else let q = TrimRightF (\<lambda>c. c = CHR ''/'') p
           in if q = [] then ''/''
              else (case LastCutC (CHR ''/'') q of None \<Rightarrow> q | Some (a, b) \<Rightarrow> b))"

text \<open>\<open>filepath.Abs\<close>: the working directory is \<^const>\<open>None\<close> where \<open>os.Getwd\<close> fails.\<close>

definition PathAbs :: "string option \<Rightarrow> string \<Rightarrow> string option" where
  "PathAbs cwd p =
     (if IsAbs p then Some (Clean p)
      else map_option (\<lambda>d. PathJoin [d, p]) cwd)"

text \<open>The elements of a clean path, and \<open>filepath.Rel\<close> on them: \<^const>\<open>None\<close> when one path is
  absolute and the other is not, or when the first element that differs is a \<open>..\<close> of the base.\<close>

definition path_comps :: "string \<Rightarrow> string list" where
  "path_comps p = filter (\<lambda>c. c \<noteq> []) (SplitC (CHR ''/'') p)"

fun rel_comps :: "string list \<Rightarrow> string list \<Rightarrow> string list option" where
  "rel_comps (b # bs) (t # ts) =
     (if b = t then rel_comps bs ts
      else if b = ''..'' then None
      else Some (map (\<lambda>_. ''..'') (b # bs) @ t # ts))"
| "rel_comps bs ts = Some (map (\<lambda>_. ''..'') bs @ ts)"

definition PathRel :: "string \<Rightarrow> string \<Rightarrow> string option" where
  "PathRel basepath targpath =
     (let b0 = Clean basepath; t = Clean targpath in
      if t = b0 then Some ''.''
      else let b = (if b0 = ''.'' then [] else b0) in
           if IsAbs b \<noteq> IsAbs t then None
           else map_option (\<lambda>cs. Join cs ''/'') (rel_comps (path_comps b) (path_comps t)))"

subsection \<open>Lemmas on strings\<close>

lemma HasPrefix_iff [go_str]: "HasPrefix s p \<longleftrightarrow> (\<exists>t. s = p @ t)"
  by (induction s p rule: HasPrefix.induct) auto

lemma HasPrefix_append [simp]: "HasPrefix (p @ t) p"
  by (simp add: HasPrefix_iff)

lemma HasPrefix_refl [simp]: "HasPrefix s s"
  by (induction s) auto

lemma HasSuffix_iff [go_str]: "HasSuffix s p \<longleftrightarrow> (\<exists>t. s = t @ p)"
  unfolding HasSuffix_def HasPrefix_iff by (metis rev_append rev_rev_ident)

lemma TrimPrefix_append [simp]: "TrimPrefix (p @ s) p = s"
  by (simp add: TrimPrefix_def)

lemma TrimSuffix_append [simp]: "TrimSuffix (s @ p) p = s"
  by (auto simp: TrimSuffix_def HasSuffix_iff)

lemma CutPrefix_Some_iff [go_str]: "CutPrefix s p = Some t \<longleftrightarrow> s = p @ t"
  by (auto simp: CutPrefix_def HasPrefix_iff)

lemma Contains_iff [go_str]: "Contains s sub \<longleftrightarrow> (\<exists>a b. s = a @ sub @ b)"
proof (induction s)
  case Nil
  then show ?case by auto
next
  case (Cons c s)
  have "(\<exists>a b. c # s = a @ sub @ b) \<longleftrightarrow>
        (\<exists>b. c # s = sub @ b) \<or> (\<exists>a b. s = a @ sub @ b)"
    by (metis append_Cons append_Nil list.inject neq_Nil_conv)
  then show ?case by (simp add: Cons HasPrefix_iff)
qed

lemma SplitC_nonempty [simp]: "SplitC d s \<noteq> []"
  by (induction s) (auto split: list.splits)

lemma SplitC_no_sep: "x \<in> set (SplitC d s) \<Longrightarrow> d \<notin> set x"
proof (induction s arbitrary: x)
  case (Cons c s)
  then show ?case by (cases "SplitC d s") (auto split: if_splits)
qed auto

lemma SplitC_append_sep:
  "d \<notin> set a \<Longrightarrow> SplitC d (a @ d # b) = a # SplitC d b"
  by (induction a) auto

lemma SplitC_no_sep_id: "d \<notin> set a \<Longrightarrow> SplitC d a = [a]"
  by (induction a) auto

lemma SplitC_Join:
  assumes "xs \<noteq> []" and "\<And>x. x \<in> set xs \<Longrightarrow> d \<notin> set x"
  shows "SplitC d (Join xs [d]) = xs"
  using assms
proof (induction xs "[d]" rule: Join.induct)
  case (2 x)
  then show ?case by (simp add: SplitC_no_sep_id)
next
  case (3 x y ys)
  then show ?case using SplitC_append_sep [of d x "Join (y # ys) [d]"] by simp
qed simp

lemma Join_SplitC: "Join (SplitC d s) [d] = s"
proof (induction s)
  case (Cons c s)
  show ?case
  proof (cases "c = d")
    case True
    obtain y ys where "SplitC d s = y # ys" by (cases "SplitC d s") auto
    with True Cons show ?thesis by simp
  next
    case False
    obtain y ys where y: "SplitC d s = y # ys" by (cases "SplitC d s") auto
    show ?thesis using False Cons by (cases ys) (simp_all add: y)
  qed
qed simp

lemma CutC_Some [go_str]: "CutC d s = Some (a, b) \<Longrightarrow> s = a @ d # b \<and> d \<notin> set a"
proof (induction s arbitrary: a b)
  case (Cons x xs)
  then show ?case
    by (cases "CutC d xs") (auto split: if_splits)
qed simp

lemma CutC_None [go_str]: "CutC d s = None \<longleftrightarrow> d \<notin> set s"
proof (induction s)
  case (Cons x xs)
  then show ?case by (cases "CutC d xs") (auto split: if_splits)
qed simp

lemma CutC_append: "d \<notin> set a \<Longrightarrow> CutC d (a @ d # b) = Some (a, b)"
  by (induction a) auto

lemma LastCutC_Some: "LastCutC d s = Some (a, b) \<Longrightarrow> s = a @ d # b \<and> d \<notin> set b"
proof -
  assume "LastCutC d s = Some (a, b)"
  then have "CutC d (rev s) = Some (rev b, rev a)"
    by (auto simp: LastCutC_def split: option.splits)
  then have "rev s = rev b @ d # rev a" and "d \<notin> set (rev b)"
    by (auto dest: CutC_Some)
  then show ?thesis
    by (metis append.assoc append_Cons append_Nil rev_append rev_rev_ident rev.simps(2)
        set_rev)
qed

lemma LastCutC_append: "d \<notin> set b \<Longrightarrow> LastCutC d (a @ d # b) = Some (a, b)"
proof -
  assume b: "d \<notin> set b"
  have "CutC d (rev (a @ d # b)) = Some (rev b, rev a)"
    using CutC_append [of d "rev b" "rev a"] b by simp
  then show ?thesis by (simp add: LastCutC_def)
qed

subsection \<open>Lemmas on decimal numbers\<close>

lemma of_char_digit_char [simp]: "n < 10 \<Longrightarrow> of_char (digit_char n) = 48 + n"
  by (simp add: digit_char_def)

lemma digit_val_digit_char [simp]: "n < 10 \<Longrightarrow> digit_val (digit_char n) = n"
  by (simp add: digit_val_def)

lemma is_digit_iff: "is_digit c \<longleftrightarrow> 48 \<le> (of_char c :: nat) \<and> (of_char c :: nat) \<le> 57"
  by (simp add: is_digit_def less_eq_char_def)

lemma is_digit_digit_char [simp]: "n < 10 \<Longrightarrow> is_digit (digit_char n)"
  by (simp add: is_digit_iff)

lemma dec_nonempty [simp]: "dec n \<noteq> []"
  by (subst dec.simps) simp

lemma list_all_digit_dec [simp]: "list_all is_digit (dec n)"
  by (induction n rule: dec.induct) (subst dec.simps, simp)

lemma dec_val_append: "dec_val (s @ [c]) = 10 * dec_val s + digit_val c"
  by (simp add: dec_val_def)

lemma dec_val_dec [simp]: "dec_val (dec n) = n"
proof (induction n rule: dec.induct)
  case (1 n)
  show ?case
  proof (cases "n < 10")
    case True
    then show ?thesis by (subst dec.simps) (simp add: dec_val_def)
  next
    case False
    then show ?thesis using 1 by (subst dec.simps) (simp add: dec_val_append)
  qed
qed

lemma parse_dec_dec [go_num, simp]: "parse_dec (dec n) = Some n"
  by (simp add: parse_dec_def)

lemma ParseUint64_dec [go_num]: "n < 2 ^ 64 \<Longrightarrow> ParseUint64 (dec n) = Some n"
  by (simp add: ParseUint64_def)

lemma ParseUint64_bound [go_num]: "ParseUint64 s = Some n \<Longrightarrow> n < 2 ^ 64"
  by (auto simp: ParseUint64_def split: option.splits if_splits)

lemma dec_digits: "c \<in> set (dec n) \<Longrightarrow> is_digit c"
  using list_all_digit_dec [of n] by (simp add: list_all_iff)

lemma dec_hd: "\<exists>c cs. dec n = c # cs \<and> is_digit c"
proof -
  obtain c cs where c: "dec n = c # cs" by (cases "dec n") auto
  then have "is_digit c" using dec_digits [of c n] by simp
  with c show ?thesis by blast
qed

lemma parse_sint_dec: "parse_sint (dec n) = Some (int n)"
proof -
  obtain c cs where c: "dec n = c # cs" and d: "is_digit c" using dec_hd by blast
  have "c \<noteq> CHR ''-''" and "c \<noteq> CHR ''+''" using d by (auto simp: is_digit_iff)
  then show ?thesis
    using parse_dec_dec [of n] by (simp add: parse_sint_def c)
qed

lemma ParseInt64_dec [go_num]: "n < 2 ^ 63 \<Longrightarrow> ParseInt64 (dec n) = Some (int n)"
  by (simp add: ParseInt64_def parse_sint_dec)

lemma ParseInt64_bounds [go_num]: "ParseInt64 s = Some i \<Longrightarrow> - (2 ^ 63) \<le> i \<and> i < 2 ^ 63"
  by (auto simp: ParseInt64_def split: option.splits if_splits)

lemma dec_no_char [simp]: "\<not> is_digit c \<Longrightarrow> c \<notin> set (dec n)"
  using dec_digits by blast

lemma digit_char_table [go_num]:
  "digit_char 0 = CHR ''0''" "digit_char 1 = CHR ''1''" "digit_char (Suc 0) = CHR ''1''"
  "digit_char 2 = CHR ''2''" "digit_char (Suc (Suc 0)) = CHR ''2''" "digit_char 3 = CHR ''3''" "digit_char 4 = CHR ''4''"
  "digit_char 5 = CHR ''5''" "digit_char 6 = CHR ''6''" "digit_char 7 = CHR ''7''"
  "digit_char 8 = CHR ''8''" "digit_char 9 = CHR ''9''"
  by code_simp+

lemma dec_inject [simp]: "dec m = dec n \<longleftrightarrow> m = n"
  by (metis dec_val_dec)

subsection \<open>Lemmas on lists\<close>

lemma distinct_map_filter: "distinct (map f xs) \<Longrightarrow> distinct (map f (filter P xs))"
  by (induction xs) auto

lemma map_of_filter_fst:
  "map_of (filter (\<lambda>kv. P (fst kv)) xs) k = (if P k then map_of xs k else None)"
  by (induction xs) auto

lemma find_None_iff_filter: "List.find P xs = None \<longleftrightarrow> filter P xs = []"
  by (induction xs) auto

lemma list_ex_filter: "list_ex P (filter Q xs) \<longleftrightarrow> list_ex (\<lambda>x. Q x \<and> P x) xs"
  by (induction xs) auto

lemma HasPrefix_sep: "d \<notin> set p \<Longrightarrow> HasPrefix (a @ d # b) p \<longleftrightarrow> HasPrefix a p"
  by (induction a p rule: HasPrefix.induct) auto

lemma Contains_sep:
  "d \<notin> set sub \<Longrightarrow> Contains (a @ d # b) sub \<longleftrightarrow> Contains a sub \<or> Contains b sub"
proof (induction a)
  case Nil
  then show ?case by (cases sub) auto
next
  case (Cons c a)
  then show ?case using HasPrefix_sep [of d sub "c # a" b] by auto
qed

lemma dropWhile_all: "list_all P xs \<Longrightarrow> dropWhile P xs = []"
  by (induction xs) auto

lemma find_append: "List.find P (xs @ ys) = (case List.find P xs of None \<Rightarrow> List.find P ys | r \<Rightarrow> r)"
  by (induction xs) auto

lemma list_ex_find: "list_ex P xs \<longleftrightarrow> (\<exists>x. List.find P xs = Some x)"
  by (induction xs) auto

subsection \<open>Keyed tables\<close>

text \<open>The contract of the tables vee keeps by key (the resize table, the tunnel registry, the
  configuration and state stores): what a lookup returns after an insertion or a removal, and that
  both keep the table well formed.  A client that runs any sequence of operations then sees the
  finite map the same sequence computes (\<open>lookup_run\<close>).\<close>

datatype ('k, 'v) table_op = Put 'v | Del 'k

fun map_op :: "('v \<Rightarrow> 'k) \<Rightarrow> ('k \<rightharpoonup> 'v) \<Rightarrow> ('k, 'v) table_op \<Rightarrow> ('k \<rightharpoonup> 'v)" where
  "map_op key m (Put v) = m(key v \<mapsto> v)"
| "map_op key m (Del k) = m(k := None)"

fun table_step :: "('t \<Rightarrow> 'v \<Rightarrow> 't) \<Rightarrow> ('t \<Rightarrow> 'k \<Rightarrow> 't) \<Rightarrow> 't \<Rightarrow> ('k, 'v) table_op \<Rightarrow> 't" where
  "table_step put del t (Put v) = put t v"
| "table_step put del t (Del k) = del t k"

fun op_valid :: "('v \<Rightarrow> bool) \<Rightarrow> ('k, 'v) table_op \<Rightarrow> bool" where
  "op_valid valid (Put v) = valid v"
| "op_valid valid (Del k) = True"

locale keyed_table =
  fixes wf :: "'t \<Rightarrow> bool"
    and valid :: "'v \<Rightarrow> bool"
    and key :: "'v \<Rightarrow> 'k"
    and lookup :: "'t \<Rightarrow> 'k \<Rightarrow> 'v option"
    and put :: "'t \<Rightarrow> 'v \<Rightarrow> 't"
    and del :: "'t \<Rightarrow> 'k \<Rightarrow> 't"
  assumes wf_put: "wf t \<Longrightarrow> valid v \<Longrightarrow> wf (put t v)"
    and wf_del: "wf t \<Longrightarrow> wf (del t k)"
    and lookup_put: "wf t \<Longrightarrow> valid v \<Longrightarrow> lookup (put t v) = (lookup t)(key v \<mapsto> v)"
    and lookup_del: "wf t \<Longrightarrow> lookup (del t k) = (lookup t)(k := None)"
begin

lemma wf_step: "wf t \<Longrightarrow> op_valid valid x \<Longrightarrow> wf (table_step put del t x)"
  by (cases x) (auto intro: wf_put wf_del)

lemma lookup_step:
  "wf t \<Longrightarrow> op_valid valid x \<Longrightarrow> lookup (table_step put del t x) = map_op key (lookup t) x"
  by (cases x) (auto simp: lookup_put lookup_del)

lemma wf_run: "wf t \<Longrightarrow> list_all (op_valid valid) xs \<Longrightarrow> wf (foldl (table_step put del) t xs)"
  by (induction xs arbitrary: t) (auto intro: wf_step)

lemma lookup_run:
  "wf t \<Longrightarrow> list_all (op_valid valid) xs \<Longrightarrow>
   lookup (foldl (table_step put del) t xs) = foldl (map_op key) (lookup t) xs"
proof (induction xs arbitrary: t)
  case (Cons x xs)
  have "wf (table_step put del t x)" using Cons.prems by (auto intro: wf_step)
  then show ?case using Cons by (simp add: lookup_step)
qed simp

lemma put_last_wins:
  assumes "wf t" "valid v" "valid w" "key v = key w"
  shows "lookup (put (put t v) w) = lookup (put t w)"
  using assms by (simp add: lookup_put wf_put)

end

subsection \<open>Lemmas on paths\<close>

definition plain_comp :: "string \<Rightarrow> bool" where
  "plain_comp c = (c \<noteq> [] \<and> c \<noteq> ''.'' \<and> c \<noteq> ''..'' \<and> CHR ''/'' \<notin> set c)"

lemma clean_comps_append:
  "clean_comps r acc (a @ b) = clean_comps r (rev (clean_comps r acc a)) b"
  by (induction r acc a rule: clean_comps.induct) (auto split: list.splits)

lemma clean_comps_plain: "list_all plain_comp cs \<Longrightarrow> clean_comps r acc cs = rev acc @ cs"
  by (induction cs arbitrary: acc) (auto simp: plain_comp_def)

lemma clean_comps_empty_skip: "clean_comps r acc ([] # cs) = clean_comps r acc cs"
  by simp

text \<open>The output of the loop of a rooted path has only plain elements; that of a relative path has
  them behind the \<open>..\<close> it starts with.\<close>

lemma clean_comps_rooted:
  "list_all (\<lambda>c. CHR ''/'' \<notin> set c) cs \<Longrightarrow> list_all plain_comp acc \<Longrightarrow>
   list_all plain_comp (clean_comps True acc cs)"
proof (induction "True" acc cs rule: clean_comps.induct)
  case (2 acc c cs)
  then show ?case by (cases acc) (auto simp: plain_comp_def)
qed (simp add: list_all_iff)

fun rel_acc :: "string list \<Rightarrow> bool" where
  "rel_acc [] = True"
| "rel_acc (a # as) = (if a = ''..'' then list_all (\<lambda>c. c = ''..'') as else plain_comp a \<and> rel_acc as)"

lemma clean_comps_relative:
  "list_all (\<lambda>c. CHR ''/'' \<notin> set c) cs \<Longrightarrow> rel_acc acc \<Longrightarrow> rel_acc (rev (clean_comps False acc cs))"
proof (induction "False" acc cs rule: clean_comps.induct)
  case (2 acc c cs)
  then show ?case by (cases acc) (auto simp: plain_comp_def)
qed simp

lemma rel_acc_plain: "rel_acc acc \<Longrightarrow> acc \<noteq> [] \<Longrightarrow> last acc \<noteq> ''..'' \<Longrightarrow> list_all plain_comp acc"
proof (induction acc)
  case (Cons a as)
  then show ?case by (cases as rule: rev_cases) (auto split: if_splits simp: plain_comp_def)
qed simp

lemma SplitC_slash_free: "list_all (\<lambda>c. CHR ''/'' \<notin> set c) (SplitC (CHR ''/'') p)"
  by (auto simp: list_all_iff dest: SplitC_no_sep)

lemma SplitC_Join_plain:
  "list_all plain_comp cs \<Longrightarrow> cs \<noteq> [] \<Longrightarrow> SplitC (CHR ''/'') (Join cs ''/'') = cs"
  by (rule SplitC_Join) (auto simp: plain_comp_def list_all_iff)

lemma Join_append:
  "xs \<noteq> [] \<Longrightarrow> ys \<noteq> [] \<Longrightarrow> Join (xs @ ys) sep = Join xs sep @ sep @ Join ys sep"
proof (induction xs sep rule: Join.induct)
  case (2 x sep)
  then show ?case by (cases ys) auto
qed auto

lemma SplitC_append_str:
  "SplitC d (a @ d # b) = SplitC d a @ SplitC d b"
proof (induction a)
  case (Cons x a)
  then show ?case by (cases "SplitC d a") auto
qed simp

lemma IsAbs_cases: "IsAbs p \<Longrightarrow> \<exists>r. p = CHR ''/'' # r"
  by (cases p) (auto simp: IsAbs_def)

lemma IsAbs_append: "IsAbs p \<Longrightarrow> IsAbs (p @ q)"
  by (cases p) (auto simp: IsAbs_def)

text \<open>Joining an absolute directory and a clean relative path that does not climb: the result is the
  clean directory followed by the path's elements.\<close>

lemma Clean_rooted:
  assumes "IsAbs p"
  shows "Clean p = CHR ''/'' # Join (clean_comps True [] (SplitC (CHR ''/'') p)) ''/''"
  using assms by (auto simp: Clean_def IsAbs_def Let_def)

lemma PathJoin_below:
  assumes "IsAbs root" and "list_all plain_comp cs" and "cs \<noteq> []"
  shows "PathJoin [root, Join cs ''/''] =
         CHR ''/'' # Join (clean_comps True [] (SplitC (CHR ''/'') root) @ cs) ''/''"
proof -
  have ne: "root \<noteq> []" using assms(1) by (auto simp: IsAbs_def)
  have "Join cs ''/'' \<noteq> []" using assms(2,3) by (cases "(cs, ''/'')" rule: Join.cases) (auto simp: plain_comp_def)
  then have "PathJoin [root, Join cs ''/''] = Clean (root @ ''/'' @ Join cs ''/'')"
    using ne by (simp add: PathJoin_def)
  also have "\<dots> = CHR ''/'' # Join (clean_comps True [] (SplitC (CHR ''/'') root @ cs)) ''/''"
    using assms ne
    by (subst Clean_rooted) (auto simp: IsAbs_append SplitC_append_str SplitC_Join_plain)
  also have "clean_comps True [] (SplitC (CHR ''/'') root @ cs) =
             clean_comps True [] (SplitC (CHR ''/'') root) @ cs"
    using assms(2) by (simp add: clean_comps_append clean_comps_plain)
  finally show ?thesis .
qed

text \<open>Clean absolute paths, by their elements.\<close>

definition abs_path :: "string list \<Rightarrow> string" where
  "abs_path cs = CHR ''/'' # Join cs ''/''"

definition root_comps :: "string \<Rightarrow> string list" where
  "root_comps p = clean_comps True [] (SplitC (CHR ''/'') p)"

lemma root_comps_plain: "list_all plain_comp (root_comps p)"
  unfolding root_comps_def by (rule clean_comps_rooted) (simp_all add: SplitC_slash_free)

lemma PathJoin_abs: "IsAbs p \<Longrightarrow> plain_comp c \<Longrightarrow> PathJoin [p, c] = abs_path (root_comps p @ [c])"
  using PathJoin_below [of p "[c]"] by (simp add: abs_path_def root_comps_def)

lemma abs_path_IsAbs [simp]: "IsAbs (abs_path cs)"
  by (simp add: abs_path_def IsAbs_def)

lemma Join_plain_empty: "list_all plain_comp cs \<Longrightarrow> Join cs ''/'' = [] \<longleftrightarrow> cs = []"
  by (cases "(cs, ''/'')" rule: Join.cases) (auto simp: plain_comp_def)

lemma root_comps_abs_path: "list_all plain_comp cs \<Longrightarrow> root_comps (abs_path cs) = cs"
proof (cases "cs = []")
  case False
  assume "list_all plain_comp cs"
  then show ?thesis
    using False by (simp add: root_comps_def abs_path_def SplitC_Join_plain clean_comps_plain)
qed (simp add: root_comps_def abs_path_def)

lemma abs_path_inj:
  assumes "list_all plain_comp as" and "list_all plain_comp bs"
  shows "abs_path as = abs_path bs \<longleftrightarrow> as = bs"
  by (metis assms root_comps_abs_path)

lemma abs_path_Join:
  "list_all plain_comp cs \<Longrightarrow> plain_comp c \<Longrightarrow> PathJoin [abs_path cs, c] = abs_path (cs @ [c])"
  by (simp add: PathJoin_abs root_comps_abs_path)

lemma abs_path_append: "abs_path (cs @ [c]) @ s = abs_path (cs @ [c @ s])"
  by (cases "cs = []") (simp_all add: abs_path_def Join_append)

lemma PathDir_abs_path:
  assumes "list_all plain_comp cs" and "plain_comp c"
  shows "PathDir (abs_path (cs @ [c])) = abs_path cs"
proof (cases "cs = []")
  case True
  have "LastCutC (CHR ''/'') (abs_path (cs @ [c])) = Some ([], c)"
    using LastCutC_append [of "CHR ''/''" c "[]"] assms(2) True by (simp add: abs_path_def plain_comp_def)
  then show ?thesis using True by (simp add: PathDir_def) (simp add: Clean_def IsAbs_def abs_path_def)
next
  case False
  have eq: "abs_path (cs @ [c]) = abs_path cs @ CHR ''/'' # c"
    using False by (simp add: abs_path_def Join_append)
  have "LastCutC (CHR ''/'') (abs_path (cs @ [c])) = Some (abs_path cs, c)"
    using LastCutC_append [of "CHR ''/''" c "abs_path cs"] assms(2) by (simp add: eq plain_comp_def)
  moreover have "Clean (abs_path cs @ ''/'') = abs_path (root_comps (abs_path cs))"
    by (subst Clean_rooted)
      (simp_all add: IsAbs_def SplitC_append_str clean_comps_append root_comps_def abs_path_def)
  ultimately show ?thesis using assms(1) by (simp add: PathDir_def root_comps_abs_path)
qed

subsection \<open>Lemmas on searches, filters and trimming\<close>

lemma find_key_iff:
  assumes "distinct (map key xs)"
  shows "List.find (\<lambda>s. key s = k) xs = Some x \<longleftrightarrow> x \<in> set xs \<and> key x = k"
  using assms by (induction xs) auto

lemma find_key_cong:
  assumes "distinct (map key xs)" and "distinct (map key ys)"
    and "\<And>x. key x = k \<Longrightarrow> x \<in> set xs \<longleftrightarrow> x \<in> set ys"
  shows "List.find (\<lambda>s. key s = k) xs = List.find (\<lambda>s. key s = k) ys"
proof -
  have "List.find (\<lambda>s. key s = k) xs = Some x \<longleftrightarrow> List.find (\<lambda>s. key s = k) ys = Some x" for x
    using assms by (auto simp: find_key_iff)
  then show ?thesis by (metis option.exhaust)
qed

lemma find_filter_key:
  "distinct (map key xs) \<Longrightarrow>
   List.find (\<lambda>s. key s = k) (filter P xs) =
     (case List.find (\<lambda>s. key s = k) xs of None \<Rightarrow> None | Some s \<Rightarrow> if P s then Some s else None)"
proof (induction xs)
  case (Cons a xs)
  show ?case
  proof (cases "key a = k")
    case True
    then have "List.find (\<lambda>s. key s = k) (filter P xs) = None" using Cons.prems by (auto simp: find_None_iff image_iff)
    then show ?thesis using True by simp
  qed (use Cons in simp)
qed simp

lemma map_filter_append [simp]: "List.map_filter f (xs @ ys) = List.map_filter f xs @ List.map_filter f ys"
  by (induction xs) (auto simp: List.map_filter_simps split: option.splits)

lemma set_map_filter: "set (List.map_filter f xs) = {y. \<exists>x \<in> set xs. f x = Some y}"
  by (induction xs) (auto simp: List.map_filter_simps split: option.splits)

lemma distinct_map_filter_keys:
  assumes "distinct (map key xs)" and "\<And>x y. f x = Some y \<Longrightarrow> fst y = key x"
  shows "distinct (map fst (List.map_filter f xs))"
  using assms by (induction xs) (force simp: List.map_filter_simps set_map_filter split: option.splits)+

lemma map_of_rev: "distinct (map fst xs) \<Longrightarrow> map_of (rev xs) = map_of xs"
  by (rule map_of_inject_set [THEN iffD2]) (auto simp: rev_map [symmetric])

lemma TrimRightF_append:
  assumes "l \<noteq> []" and "\<not> P (last l)"
  shows "TrimRightF P (l @ r) = l @ TrimRightF P r"
proof -
  have l: "dropWhile P (rev l) = rev l" using assms by (cases l rule: rev_cases) simp_all
  show ?thesis
  proof (cases "list_all P r")
    case True
    then have "dropWhile P (rev r @ rev l) = rev l" "dropWhile P (rev r) = []"
      using l dropWhile_append2 [of "rev r" P "rev l"] by (simp_all add: list_all_iff)
    then show ?thesis by (simp add: TrimRightF_def)
  next
    case False
    then obtain x where "x \<in> set (rev r)" "\<not> P x" by (auto simp: list_all_iff)
    then show ?thesis by (simp add: TrimRightF_def dropWhile_append1)
  qed
qed

lemma TrimRightF_last: "TrimRightF P s \<noteq> [] \<Longrightarrow> \<not> P (last (TrimRightF P s))"
  by (simp add: TrimRightF_def last_rev hd_dropWhile)

lemma TrimRightF_hd: "TrimRightF P s \<noteq> [] \<Longrightarrow> hd (TrimRightF P s) = hd s"
  unfolding TrimRightF_def
  by (metis hd_append2 rev_append rev_rev_ident takeWhile_dropWhile_id)

lemma set_TrimF: "x \<in> set (TrimF P s) \<Longrightarrow> x \<in> set s"
  by (metis TrimF_def TrimRightF_def set_dropWhileD set_rev)

lemma TrimF_ends:
  assumes "TrimF P s \<noteq> []"
  shows "\<not> P (hd (TrimF P s))" "\<not> P (last (TrimF P s))"
proof -
  have ne: "dropWhile P s \<noteq> []" using assms by (intro notI) (simp add: TrimF_def TrimRightF_def)
  show "\<not> P (hd (TrimF P s))"
    using hd_dropWhile [OF ne] TrimRightF_hd [of P "dropWhile P s"] assms by (simp add: TrimF_def)
  show "\<not> P (last (TrimF P s))" using TrimRightF_last assms by (simp add: TrimF_def)
qed

lemma TrimF_label:
  assumes "l \<noteq> []" and "\<not> P (hd l)" and "\<not> P (last l)"
  shows "TrimF P (l @ r) = l @ TrimRightF P r"
proof -
  have "dropWhile P (l @ r) = l @ r" using assms(1,2) by (cases l) simp_all
  then show ?thesis using TrimRightF_append [OF assms(1), of P r] assms(3) by (simp add: TrimF_def)
qed

lemma CutC_none: "c \<notin> set s \<Longrightarrow> CutC c s = None"
  by (induction s) auto

subsection \<open>Shell words\<close>

text \<open>How a POSIX shell reads one word: \<open>quoted\<close> is whether the position is inside single quotes.
  Outside, only letters, digits, a backslash and what it escapes, and quotes are taken; any other
  character but the separating blank is special, and the reader gives up.\<close>

fun sh_word :: "bool \<Rightarrow> string \<Rightarrow> (string \<times> string) option" where
  "sh_word q [] = (if q then None else Some ([], []))"
| "sh_word True (c # s) =
     (if c = CHR 0x27 then sh_word False s else map_option (apfst (Cons c)) (sh_word True s))"
| "sh_word False (c # s) =
     (if c = CHR '' '' then Some ([], c # s)
      else if c = CHR 0x27 then sh_word True s
      else if c = CHR 0x5C then (case s of [] \<Rightarrow> None | d # s' \<Rightarrow> map_option (apfst (Cons d)) (sh_word False s'))
      else None)"

lemma sh_word_quoted: "CHR 0x27 \<notin> set t \<Longrightarrow> sh_word True (t @ r) = map_option (apfst (append t)) (sh_word True r)"
  by (induction t) (cases "sh_word True r"; auto)+

lemma sh_word_escaped:
  "sh_word True (ReplaceC CHR 0x27 [CHR 0x27, CHR 0x5C, CHR 0x27, CHR 0x27] s @ CHR 0x27 # r) =
   map_option (apfst (append s)) (sh_word False r)"
  by (induction s) (cases "sh_word False r"; auto)+

end
