(* ===== verification/Hashes.thy ===== *)
theory Hashes
  imports Vee_Prelude
begin

unbundle bit_operations_syntax

text \<open>
  The two hash functions of Go's standard library that vee calls: \<open>crypto/sha1\<close>
  (FIPS 180-4, behind the MAC address and vsock CID derived from a VM name) and
  \<open>crypto/sha512\<close> (behind \<open>internal/shacrypt\<close>).  Both work on lists of bytes and are
  executable.  The lemmas give the digest lengths, which is all the client proofs use.
\<close>

subsection \<open>Big-endian words and padding\<close>

definition be_word :: "byte list \<Rightarrow> 'a::len word" where
  "be_word bs = foldl (\<lambda>a b. push_bit 8 a OR ucast b) 0 bs"

definition be_bytes :: "nat \<Rightarrow> 'a::len word \<Rightarrow> byte list" where
  "be_bytes n w = map (\<lambda>i. ucast (drop_bit (8 * (n - 1 - i)) w)) [0..<n]"

fun chunks :: "nat \<Rightarrow> byte list \<Rightarrow> byte list list" where
  "chunks n bs = (if n = 0 \<or> bs = [] then [] else take n bs # chunks n (drop n bs))"

declare chunks.simps [simp del]

definition md_pad :: "nat \<Rightarrow> nat \<Rightarrow> byte list \<Rightarrow> byte list" where
  "md_pad block lenbytes m =
     m @ [0x80] @ replicate ((block - (length m + 1 + lenbytes) mod block) mod block) 0
       @ be_bytes lenbytes (word_of_nat (8 * length m) :: 128 word)"

subsection \<open>SHA-1\<close>

type_synonym w32 = "32 word"

type_synonym sha1_state = "w32 \<times> w32 \<times> w32 \<times> w32 \<times> w32"

definition sha1_f :: "nat \<Rightarrow> w32 \<Rightarrow> w32 \<Rightarrow> w32 \<Rightarrow> w32" where
  "sha1_f t x y z =
     (if t < 20 then (x AND y) XOR (NOT x AND z)
      else if t < 40 then x XOR y XOR z
      else if t < 60 then (x AND y) XOR (x AND z) XOR (y AND z)
      else x XOR y XOR z)"

definition sha1_k :: "nat \<Rightarrow> w32" where
  "sha1_k t = (if t < 20 then 0x5A827999 else if t < 40 then 0x6ED9EBA1
               else if t < 60 then 0x8F1BBCDC else 0xCA62C1D6)"

fun sha1_schedule :: "nat \<Rightarrow> w32 list \<Rightarrow> w32 list" where
  "sha1_schedule 0 ws = ws"
| "sha1_schedule (Suc n) ws =
     (let l = length ws
      in sha1_schedule n
           (ws @ [word_rotl 1 (ws ! (l - 3) XOR ws ! (l - 8) XOR ws ! (l - 14) XOR ws ! (l - 16))]))"

fun sha1_rounds :: "nat \<Rightarrow> w32 list \<Rightarrow> sha1_state \<Rightarrow> sha1_state" where
  "sha1_rounds t [] st = st"
| "sha1_rounds t (w # ws) (a, b, c, d, e) =
     sha1_rounds (Suc t) ws
       (word_rotl 5 a + sha1_f t b c d + e + sha1_k t + w, a, word_rotl 30 b, c, d)"

definition sha1_block :: "sha1_state \<Rightarrow> byte list \<Rightarrow> sha1_state" where
  "sha1_block st bs =
     (let (a, b, c, d, e) = st;
          ws = sha1_schedule 64 (map be_word (chunks 4 bs));
          (a', b', c', d', e') = sha1_rounds 0 ws st
      in (a + a', b + b', c + c', d + d', e + e'))"

definition sha1_init :: sha1_state where
  "sha1_init = (0x67452301, 0xEFCDAB89, 0x98BADCFE, 0x10325476, 0xC3D2E1F0)"

definition sha1 :: "byte list \<Rightarrow> byte list" where
  "sha1 m =
     (let (a, b, c, d, e) = foldl sha1_block sha1_init (chunks 64 (md_pad 64 8 m))
      in be_bytes 4 a @ be_bytes 4 b @ be_bytes 4 c @ be_bytes 4 d @ be_bytes 4 e)"

subsection \<open>SHA-512\<close>

type_synonym w64 = "64 word"

definition sha512_k :: "w64 list" where
  "sha512_k = [
     0x428A2F98D728AE22, 0x7137449123EF65CD, 0xB5C0FBCFEC4D3B2F,
     0xE9B5DBA58189DBBC, 0x3956C25BF348B538, 0x59F111F1B605D019,
     0x923F82A4AF194F9B, 0xAB1C5ED5DA6D8118, 0xD807AA98A3030242,
     0x12835B0145706FBE, 0x243185BE4EE4B28C, 0x550C7DC3D5FFB4E2,
     0x72BE5D74F27B896F, 0x80DEB1FE3B1696B1, 0x9BDC06A725C71235,
     0xC19BF174CF692694, 0xE49B69C19EF14AD2, 0xEFBE4786384F25E3,
     0x0FC19DC68B8CD5B5, 0x240CA1CC77AC9C65, 0x2DE92C6F592B0275,
     0x4A7484AA6EA6E483, 0x5CB0A9DCBD41FBD4, 0x76F988DA831153B5,
     0x983E5152EE66DFAB, 0xA831C66D2DB43210, 0xB00327C898FB213F,
     0xBF597FC7BEEF0EE4, 0xC6E00BF33DA88FC2, 0xD5A79147930AA725,
     0x06CA6351E003826F, 0x142929670A0E6E70, 0x27B70A8546D22FFC,
     0x2E1B21385C26C926, 0x4D2C6DFC5AC42AED, 0x53380D139D95B3DF,
     0x650A73548BAF63DE, 0x766A0ABB3C77B2A8, 0x81C2C92E47EDAEE6,
     0x92722C851482353B, 0xA2BFE8A14CF10364, 0xA81A664BBC423001,
     0xC24B8B70D0F89791, 0xC76C51A30654BE30, 0xD192E819D6EF5218,
     0xD69906245565A910, 0xF40E35855771202A, 0x106AA07032BBD1B8,
     0x19A4C116B8D2D0C8, 0x1E376C085141AB53, 0x2748774CDF8EEB99,
     0x34B0BCB5E19B48A8, 0x391C0CB3C5C95A63, 0x4ED8AA4AE3418ACB,
     0x5B9CCA4F7763E373, 0x682E6FF3D6B2B8A3, 0x748F82EE5DEFB2FC,
     0x78A5636F43172F60, 0x84C87814A1F0AB72, 0x8CC702081A6439EC,
     0x90BEFFFA23631E28, 0xA4506CEBDE82BDE9, 0xBEF9A3F7B2C67915,
     0xC67178F2E372532B, 0xCA273ECEEA26619C, 0xD186B8C721C0C207,
     0xEADA7DD6CDE0EB1E, 0xF57D4F7FEE6ED178, 0x06F067AA72176FBA,
     0x0A637DC5A2C898A6, 0x113F9804BEF90DAE, 0x1B710B35131C471B,
     0x28DB77F523047D84, 0x32CAAB7B40C72493, 0x3C9EBE0A15C9BEBC,
     0x431D67C49C100D4C, 0x4CC5D4BECB3E42B6, 0x597F299CFC657E2A,
     0x5FCB6FAB3AD6FAEC, 0x6C44198C4A475817]"

definition sha512_init :: "w64 list" where
  "sha512_init = [
     0x6A09E667F3BCC908, 0xBB67AE8584CAA73B,
     0x3C6EF372FE94F82B, 0xA54FF53A5F1D36F1,
     0x510E527FADE682D1, 0x9B05688C2B3E6C1F,
     0x1F83D9ABFB41BD6B, 0x5BE0CD19137E2179]"

definition sha512_schedule_step :: "w64 list \<Rightarrow> w64" where
  "sha512_schedule_step ws =
     (let l = length ws;
          x = ws ! (l - 15);
          y = ws ! (l - 2);
          s0 = word_rotr 1 x XOR word_rotr 8 x XOR drop_bit 7 x;
          s1 = word_rotr 19 y XOR word_rotr 61 y XOR drop_bit 6 y
      in s1 + ws ! (l - 7) + s0 + ws ! (l - 16))"

fun sha512_schedule :: "nat \<Rightarrow> w64 list \<Rightarrow> w64 list" where
  "sha512_schedule 0 ws = ws"
| "sha512_schedule (Suc n) ws = sha512_schedule n (ws @ [sha512_schedule_step ws])"

fun sha512_round :: "w64 list \<Rightarrow> w64 \<times> w64 \<Rightarrow> w64 list" where
  "sha512_round [a, b, c, d, e, f, g, h] (k, w) =
     (let s1 = word_rotr 14 e XOR word_rotr 18 e XOR word_rotr 41 e;
          ch = (e AND f) XOR (NOT e AND g);
          t1 = h + s1 + ch + k + w;
          s0 = word_rotr 28 a XOR word_rotr 34 a XOR word_rotr 39 a;
          mj = (a AND b) XOR (a AND c) XOR (b AND c)
      in [t1 + s0 + mj, a, b, c, d + t1, e, f, g])"
| "sha512_round st kw = st"

definition sha512_block :: "w64 list \<Rightarrow> byte list \<Rightarrow> w64 list" where
  "sha512_block st bs =
     map2 (+) st (foldl sha512_round st
                   (zip sha512_k (sha512_schedule 64 (map be_word (chunks 8 bs)))))"

definition sha512 :: "byte list \<Rightarrow> byte list" where
  "sha512 m = concat (map (be_bytes 8) (foldl sha512_block sha512_init (chunks 128 (md_pad 128 16 m))))"

subsection \<open>Digest lengths\<close>

lemma length_be_bytes [simp]: "length (be_bytes n w) = n"
  by (simp add: be_bytes_def)

lemma length_sha1 [simp]: "length (sha1 m) = 20"
  by (simp add: sha1_def split: prod.splits)

lemma length_sha512_round [simp]: "length (sha512_round st kw) = length st"
  by (cases "(st, kw)" rule: sha512_round.cases) (auto simp: Let_def)

lemma length_sha512_rounds: "length (foldl sha512_round st kws) = length st"
  by (induction kws arbitrary: st) auto

lemma length_sha512_block [simp]: "length (sha512_block st bs) = length st"
  by (simp add: sha512_block_def length_sha512_rounds)

lemma length_sha512_blocks: "length (foldl sha512_block st bss) = length st"
  by (induction bss arbitrary: st) auto

lemma length_sha512 [simp]: "length (sha512 m) = 64"
proof -
  have len: "length (concat (map (be_bytes 8) ws)) = 8 * length ws" for ws :: "w64 list"
    by (induction ws) auto
  show ?thesis by (simp add: sha512_def len length_sha512_blocks sha512_init_def)
qed

end
