(* ===== verification/Shacrypt.thy ===== *)
theory Shacrypt
  imports Hashes
begin

unbundle bit_operations_syntax

text \<open>
  \<open>internal/shacrypt/shacrypt.go\<close>: the SHA-512 variant of SHA-crypt that seeds the
  credentials of unattended installers.  A \<open>hash.Hash\<close> that is being written to is the
  list of the bytes written so far, and \<open>Sum\<close> applies \<^const>\<open>sha512\<close> to it.  The source of
  randomness of \<open>GenerateHash\<close> is the list of bytes \<open>rand.Read\<close> delivered, or
  \<^const>\<open>None\<close> when it failed.
\<close>

datatype crypt_error = SaltLength nat | SaltChar char | RandFailed

definition defaultRounds :: nat where
  "defaultRounds = 5000"

definition saltAlphabet :: string where
  "saltAlphabet = ''./0123456789ABCDEFGHIJKLMNOPQRSTUVWXYZabcdefghijklmnopqrstuvwxyz''"

definition maxSaltLen :: nat where
  "maxSaltLen = 16"

definition bytes_of :: "string \<Rightarrow> byte list" where
  "bytes_of s = map (\<lambda>c. word_of_nat (of_char c)) s"

function writeRepeated :: "byte list \<Rightarrow> byte list \<Rightarrow> nat \<Rightarrow> byte list" where
  "writeRepeated h digest n =
     (if n > 64 then writeRepeated (h @ digest) digest (n - 64) else h @ take n digest)"
  by pat_completeness auto
termination by (relation "measure (\<lambda>(h, digest, n). n)") auto

function expand :: "byte list \<Rightarrow> nat \<Rightarrow> byte list" where
  "expand digest n = (if n > 64 then digest @ expand digest (n - 64) else take n digest)"
  by pat_completeness auto
termination by (relation "measure (\<lambda>(digest, n). n)") auto

declare writeRepeated.simps [simp del] expand.simps [simp del]

definition triples :: "(nat \<times> nat \<times> nat) list" where
  "triples =
     [(0, 21, 42), (22, 43, 1), (44, 2, 23), (3, 24, 45), (25, 46, 4), (47, 5, 26),
      (6, 27, 48), (28, 49, 7), (50, 8, 29), (9, 30, 51), (31, 52, 10), (53, 11, 32),
      (12, 33, 54), (34, 55, 13), (56, 14, 35), (15, 36, 57), (37, 58, 16), (59, 17, 38),
      (18, 39, 60), (40, 61, 19), (62, 20, 41)]"

text \<open>\<open>emit k w\<close> is the inner loop of \<open>encode\<close>: \<open>k\<close> characters, low six bits first.\<close>

fun emit :: "nat \<Rightarrow> w32 \<Rightarrow> string" where
  "emit 0 w = []"
| "emit (Suc k) w = saltAlphabet ! unat (w AND 0x3F) # emit k (drop_bit 6 w)"

definition triple_word :: "byte list \<Rightarrow> nat \<times> nat \<times> nat \<Rightarrow> w32" where
  "triple_word digest = (\<lambda>(i, j, k).
     push_bit 16 (ucast (digest ! i)) OR push_bit 8 (ucast (digest ! j)) OR ucast (digest ! k))"

definition encode :: "byte list \<Rightarrow> string" where
  "encode digest =
     concat (map (\<lambda>t. emit 4 (triple_word digest t)) triples) @ emit 2 (ucast (digest ! 63))"

function bit_writes :: "byte list \<Rightarrow> byte list \<Rightarrow> nat \<Rightarrow> byte list" where
  "bit_writes digestB password cnt =
     (if cnt > 0
      then (if odd cnt then digestB else password) @ bit_writes digestB password (cnt div 2)
      else [])"
  by pat_completeness auto
termination by (relation "measure (\<lambda>(b, p, cnt). cnt)") auto

declare bit_writes.simps [simp del]

definition round_input :: "byte list \<Rightarrow> byte list \<Rightarrow> byte list \<Rightarrow> nat \<Rightarrow> byte list" where
  "round_input p s c i =
     (if i mod 2 \<noteq> 0 then p else c) @
     (if i mod 3 \<noteq> 0 then s else []) @
     (if i mod 7 \<noteq> 0 then p else []) @
     (if i mod 2 \<noteq> 0 then c else p)"

definition sha512crypt :: "byte list \<Rightarrow> byte list \<Rightarrow> nat \<Rightarrow> string" where
  "sha512crypt password salt rounds =
     (let digestB = sha512 (password @ salt @ password);
          a = writeRepeated (password @ salt) digestB (length password);
          digestA = sha512 (a @ bit_writes digestB password (length password));
          p = expand (sha512 (concat (replicate (length password) password))) (length password);
          s = expand (sha512 (concat (replicate (16 + unat (digestA ! 0)) salt))) (length salt);
          c = foldl (\<lambda>c i. sha512 (round_input p s c i)) digestA [0..<rounds]
      in encode c)"

definition Sha512Crypt :: "string \<Rightarrow> string \<Rightarrow> (crypt_error, string) result" where
  "Sha512Crypt password salt =
     (if salt = [] \<or> length salt > maxSaltLen then Inl (SaltLength (length salt))
      else case List.find (\<lambda>c. c \<notin> set saltAlphabet) salt of
             Some c \<Rightarrow> Inl (SaltChar c)
           | None \<Rightarrow> Inr (''$6$'' @ salt @ ''$'' @
                         sha512crypt (bytes_of password) (bytes_of salt) defaultRounds))"

definition GenerateHash :: "byte list option \<Rightarrow> string \<Rightarrow> (crypt_error, string) result" where
  "GenerateHash rand password =
     (case rand of
        None \<Rightarrow> Inl RandFailed
      | Some raw \<Rightarrow>
          Sha512Crypt password (map (\<lambda>b. saltAlphabet ! (unat b mod length saltAlphabet)) raw))"

subsection \<open>The alphabet\<close>

lemma length_saltAlphabet [simp]: "length saltAlphabet = 64"
  by (simp add: saltAlphabet_def)

lemma distinct_saltAlphabet: "distinct saltAlphabet"
  by (simp add: saltAlphabet_def)

lemma dollar_notin_saltAlphabet: "CHR ''$'' \<notin> set saltAlphabet"
  by (simp add: saltAlphabet_def)

definition index_of :: "'a list \<Rightarrow> 'a \<Rightarrow> nat" where
  "index_of xs x = length (takeWhile (\<lambda>y. y \<noteq> x) xs)"

lemma index_of_nth:
  assumes "distinct xs" and "i < length xs"
  shows "index_of xs (xs ! i) = i"
proof -
  have "takeWhile (\<lambda>y. y \<noteq> xs ! i) xs = take i xs"
    using assms by (intro takeWhile_eq_take_P_nth) (auto simp: nth_eq_iff_index_eq)
  then show ?thesis using assms by (simp add: index_of_def)
qed

lemma nth_index_of: "x \<in> set xs \<Longrightarrow> xs ! index_of xs x = x"
  unfolding index_of_def by (induction xs) auto

lemma index_of_lt: "x \<in> set xs \<Longrightarrow> index_of xs x < length xs"
  unfolding index_of_def by (induction xs) auto

subsection \<open>The encoding and its inverse\<close>

text \<open>The decoder is the reference the encoding is compared with: sextets are read back
  low first and the byte permutation is undone.\<close>

fun sextets :: "string \<Rightarrow> nat" where
  "sextets [] = 0"
| "sextets (c # cs) = index_of saltAlphabet c + 64 * sextets cs"

definition perm :: "nat list" where
  "perm = concat (map (\<lambda>(i, j, k). [i, j, k]) triples) @ [63]"

fun ungroup :: "string \<Rightarrow> nat list" where
  "ungroup (a # b # c # d # cs) =
     (let w = sextets [a, b, c, d]
      in (w div 65536) # (w div 256 mod 256) # (w mod 256) # ungroup cs)"
| "ungroup cs = [sextets cs]"

definition decode :: "string \<Rightarrow> byte list" where
  "decode s = (let bs = ungroup s in map (\<lambda>k. word_of_nat (bs ! index_of perm k)) [0..<length bs])"

lemma and_3F: "unat (w AND 0x3F :: w32) = unat w mod 64"
proof -
  have "w AND 0x3F = take_bit 6 w"
    by (simp add: take_bit_eq_mask mask_eq_exp_minus_1)
  then show ?thesis by (simp add: take_bit_eq_mod unat_mod_distrib)
qed

lemma sextets_emit: "sextets (emit k w) = unat w mod 64 ^ k"
proof (induction k arbitrary: w)
  case (Suc k)
  have "unat (drop_bit 6 w) = unat w div 64"
    by (simp add: drop_bit_eq_div unat_div_distrib)
  then show ?case
    using Suc by (simp add: and_3F index_of_nth distinct_saltAlphabet mod_mult2_eq
        flip: mult.commute [of 64])
qed simp

lemma unat_triple_word:
  "unat (triple_word d (i, j, k)) =
     unat (d ! i) * 65536 + unat (d ! j) * 256 + unat (d ! k)"
proof -
  let ?a = "ucast (d ! i) :: w32" and ?b = "ucast (d ! j) :: w32" and ?c = "ucast (d ! k) :: w32"
  have lt: "unat b < 256" for b :: byte
    using unsigned_less [of b] by simp
  have u: "unat (ucast b :: w32) = unat b" for b :: byte
    using lt [of b] by (simp add: unsigned_ucast_eq take_bit_eq_mod)
  have eq: "triple_word d (i, j, k) = push_bit 16 ?a + (push_bit 8 ?b + ?c)"
    unfolding triple_word_def prod.case
    by (subst (1 2) disjunctive_add) (auto simp: bit_simps dest: bit_imp_le_length)
  have pb: "push_bit n w = word_of_nat (unat w * 2 ^ n)" for n and w :: w32
    by (simp add: push_bit_eq_mult)
  have "triple_word d (i, j, k) =
      word_of_nat (unat (d ! i) * 65536 + (unat (d ! j) * 256 + unat (d ! k)))"
    unfolding eq pb u by (simp add: u)
  then have "unat (triple_word d (i, j, k)) =
      (unat (d ! i) * 65536 + (unat (d ! j) * 256 + unat (d ! k))) mod 2 ^ 32"
    by (simp only: unat_of_nat) simp
  then show ?thesis
    using lt [of "d ! i"] lt [of "d ! j"] lt [of "d ! k"] by simp
qed

lemma length_emit [simp]: "length (emit k w) = k"
  by (induction k arbitrary: w) auto

lemma emit_alphabet: "set (emit k w) \<subseteq> set saltAlphabet"
proof (induction k arbitrary: w)
  case (Suc k)
  have "unat (w AND 0x3F) < 64" by (simp add: and_3F)
  then show ?case using Suc by simp
qed simp

lemma byte_lt: "unat (b :: byte) < 256"
  using unsigned_less [of b] by simp

lemma base256:
  fixes i j k :: nat
  assumes "j < 256" and "k < 256"
  shows "(i * 65536 + j * 256 + k) div 65536 = i"
    and "(i * 65536 + j * 256 + k) div 256 mod 256 = j"
    and "(i * 65536 + j * 256 + k) mod 256 = k"
proof -
  have eq: "i * 65536 + j * 256 + k = k + (j + i * 256) * 256" by simp
  have d: "(k + (j + i * 256) * 256) div 256 = j + i * 256"
    using assms(2) by simp
  have "(k + (j + i * 256) * 256) div 65536 = (k + (j + i * 256) * 256) div 256 div 256"
    by (simp flip: div_mult2_eq)
  then show "(i * 65536 + j * 256 + k) div 65536 = i"
    unfolding eq d using assms(1) by simp
  show "(i * 65536 + j * 256 + k) div 256 mod 256 = j"
    unfolding eq d using assms(1) by simp
  show "(i * 65536 + j * 256 + k) mod 256 = k"
    unfolding eq using assms(2) by (simp only: mod_mult_self1 mod_less)
qed

lemma ungroup_emit4:
  "ungroup (emit 4 (triple_word d (i, j, k)) @ cs) =
     unat (d ! i) # unat (d ! j) # unat (d ! k) # ungroup cs"
proof -
  let ?w = "triple_word d (i, j, k)"
  obtain c1 c2 c3 c4 where e: "emit 4 ?w = [c1, c2, c3, c4]"
    by (simp add: numeral_eq_Suc)
  have "sextets [c1, c2, c3, c4] = unat ?w mod 64 ^ 4"
    using sextets_emit [of 4 ?w] by (simp only: e)
  also have "\<dots> = unat (d ! i) * 65536 + unat (d ! j) * 256 + unat (d ! k)"
    unfolding unat_triple_word
    using byte_lt [of "d ! i"] byte_lt [of "d ! j"] byte_lt [of "d ! k"] by simp
  finally have w: "sextets [c1, c2, c3, c4] =
      unat (d ! i) * 65536 + unat (d ! j) * 256 + unat (d ! k)" .
  show ?thesis
    unfolding e using base256 [OF byte_lt [of "d ! j"] byte_lt [of "d ! k"], of "unat (d ! i)"]
    by (simp add: w Let_def del: sextets.simps)
qed

lemma ungroup_groups:
  "ungroup (concat (map (\<lambda>t. emit 4 (triple_word d t)) ts) @ cs) =
     map (\<lambda>n. unat (d ! n)) (concat (map (\<lambda>(i, j, k). [i, j, k]) ts)) @ ungroup cs"
  by (induction ts) (auto simp: ungroup_emit4)

lemma ungroup_emit2: "ungroup (emit 2 (ucast (b :: byte))) = [unat b]"
proof -
  let ?w = "ucast b :: w32"
  obtain c1 c2 where e: "emit 2 ?w = [c1, c2]"
    by (simp add: numeral_2_eq_2)
  have "unat ?w = unat b"
    using byte_lt [of b] by (simp add: unsigned_ucast_eq take_bit_eq_mod)
  moreover have "sextets [c1, c2] = unat ?w mod 64 ^ 2"
    using sextets_emit [of 2 ?w] by (simp only: e)
  ultimately have "sextets [c1, c2] = unat b"
    using byte_lt [of b] by simp
  then show ?thesis by (simp add: e del: sextets.simps)
qed

lemma ungroup_encode: "ungroup (encode d) = map (\<lambda>n. unat (d ! n)) perm"
  by (simp add: encode_def ungroup_groups ungroup_emit2 perm_def)

lemma perm_complete: "k < 64 \<Longrightarrow> k \<in> set perm"
proof -
  assume "k < 64"
  moreover have "list_all (\<lambda>k. List.member perm k) [0..<64]" by code_simp
  ultimately show ?thesis by (simp add: list_all_iff)
qed

lemma length_perm: "length perm = 64"
  by (simp add: perm_def triples_def)

lemma decode_encode_digest:
  assumes "length d = 64"
  shows "decode (encode d) = d"
proof (intro nth_equalityI)
  show len: "length (decode (encode d)) = length d"
    using assms by (simp add: decode_def Let_def ungroup_encode length_perm)
  fix k assume "k < length (decode (encode d))"
  then have k: "k < length perm" using len assms by (simp add: length_perm)
  then have p: "k \<in> set perm" by (intro perm_complete) (simp add: length_perm)
  show "decode (encode d) ! k = d ! k"
    using k by (simp add: decode_def Let_def ungroup_encode index_of_lt [OF p] nth_index_of [OF p])
qed

lemma length_groups: "length (concat (map (\<lambda>t. emit 4 (f t)) ts)) = 4 * length ts"
  by (induction ts) auto

lemma length_encode: "length (encode d) = 86"
  by (simp add: encode_def length_groups triples_def)

lemma encode_alphabet: "set (encode d) \<subseteq> set saltAlphabet"
  using emit_alphabet by (auto simp: encode_def)

subsection \<open>Repetition and truncation\<close>

lemma expand_length_nth:
  assumes "length d = 64"
  shows "length (expand d n) = n \<and> (\<forall>i < n. expand d n ! i = d ! (i mod 64))"
  using assms
proof (induction d n rule: expand.induct)
  case (1 d n)
  show ?case
  proof (cases "n > 64")
    case True
    have IH: "length (expand d (n - 64)) = n - 64"
             "\<forall>i < n - 64. expand d (n - 64) ! i = d ! (i mod 64)"
      using 1 True by auto
    have eq: "expand d n = d @ expand d (n - 64)" using True by (subst expand.simps) simp
    have "expand d n ! i = d ! (i mod 64)" if "i < n" for i
    proof (cases "i < 64")
      case True
      then show ?thesis using 1(2) by (simp add: eq nth_append)
    next
      case False
      then have "(i - 64) mod 64 = i mod 64" by (simp add: le_mod_geq)
      then show ?thesis using False that IH(2) 1(2) by (simp add: eq nth_append)
    qed
    then show ?thesis using True IH(1) 1(2) by (simp add: eq)
  next
    case False
    then show ?thesis using 1(2) by (subst (1 2) expand.simps) auto
  qed
qed

lemma expand_nth: "length d = 64 \<Longrightarrow> expand d n = map (\<lambda>i. d ! (i mod 64)) [0..<n]"
  using expand_length_nth [of d n] by (intro nth_equalityI) auto

lemma writeRepeated_expand: "writeRepeated h d n = h @ expand d n"
proof (induction h d n rule: writeRepeated.induct)
  case (1 h d n)
  then show ?case
    by (subst writeRepeated.simps, subst expand.simps) simp
qed

lemma bit_writes_bits:
  "n < 2 ^ k \<Longrightarrow> k = 0 \<or> 2 ^ (k - 1) \<le> n \<Longrightarrow>
   bit_writes b p n = concat (map (\<lambda>i. if bit n i then b else p) [0..<k])"
proof (induction b p n arbitrary: k rule: bit_writes.induct)
  case (1 b p n)
  show ?case
  proof (cases "n = 0")
    case True
    then show ?thesis using 1(3) by (subst bit_writes.simps) auto
  next
    case False
    then obtain m where k: "k = Suc m" using 1(2) by (cases k) auto
    have lt: "n div 2 < 2 ^ m" using 1(2) k by auto
    have ge: "m = 0 \<or> 2 ^ (m - 1) \<le> n div 2" using 1(3) k by (cases m) auto
    have IH: "bit_writes b p (n div 2) = concat (map (\<lambda>i. if bit (n div 2) i then b else p) [0..<m])"
      using 1(1) [OF _ lt ge] False by simp
    have "bit_writes b p n = (if odd n then b else p) @ bit_writes b p (n div 2)"
      using False by (subst bit_writes.simps) simp
    also have "\<dots> = concat (map (\<lambda>i. if bit n i then b else p) [0..<Suc m])"
      unfolding IH upt_conv_Cons [OF zero_less_Suc]
      by (simp add: bit_0 map_Suc_upt [symmetric] comp_def bit_Suc del: upt_Suc)
    finally show ?thesis by (simp only: k)
  qed
qed

text \<open>The construction as SHA-crypt states it: the digest of B, P and S repeated byte by
  byte, and one block per binary digit of the key length.\<close>

definition cycle :: "byte list \<Rightarrow> nat \<Rightarrow> byte list" where
  "cycle d n = map (\<lambda>i. d ! (i mod 64)) [0..<n]"

fun bitlen :: "nat \<Rightarrow> nat" where
  "bitlen n = (if n = 0 then 0 else Suc (bitlen (n div 2)))"

declare bitlen.simps [simp del]

lemma bitlen_bounds: "n < 2 ^ bitlen n \<and> (bitlen n = 0 \<or> 2 ^ (bitlen n - 1) \<le> n)"
proof (induction n rule: bitlen.induct)
  case (1 n)
  show ?case
  proof (cases "n = 0")
    case False
    then have IH: "n div 2 < 2 ^ bitlen (n div 2)"
                  "bitlen (n div 2) = 0 \<or> 2 ^ (bitlen (n div 2) - 1) \<le> n div 2"
      using 1 by auto
    have b: "bitlen n = Suc (bitlen (n div 2))" using False by (subst bitlen.simps) simp
    have "2 ^ bitlen (n div 2) \<le> n"
      using IH(2) False by (cases "bitlen (n div 2)") auto
    then show ?thesis using IH(1) by (simp add: b)
  qed (simp add: bitlen.simps)
qed

lemma bit_writes_bitlen:
  "bit_writes b p n = concat (map (\<lambda>i. if bit n i then b else p) [0..<bitlen n])"
  using bit_writes_bits bitlen_bounds by blast

definition crypt_ref :: "byte list \<Rightarrow> byte list \<Rightarrow> nat \<Rightarrow> string" where
  "crypt_ref key salt rounds =
     (let n = length key;
          B = sha512 (key @ salt @ key);
          A = sha512 (key @ salt @ cycle B n @
                concat (map (\<lambda>i. if bit n i then B else key) [0..<bitlen n]));
          P = cycle (sha512 (concat (replicate n key))) n;
          S = cycle (sha512 (concat (replicate (16 + unat (A ! 0)) salt))) (length salt)
      in encode (foldl (\<lambda>c i. sha512 (round_input P S c i)) A [0..<rounds]))"

subsection \<open>Properties\<close>

text \<open>C30: the crypt base-64 encoding of a 64-byte digest is a bijection onto its image: the
  decoder that undoes the byte permutation recovers the digest, so two different digests never
  print the same, and the text is 86 characters of the crypt alphabet.\<close>

theorem encode_roundtrip:
  assumes "length digest = 64"
  shows "decode (encode digest) = digest \<and> length (encode digest) = 86 \<and>
         set (encode digest) \<subseteq> set saltAlphabet"
  using decode_encode_digest [OF assms] length_encode encode_alphabet by blast

theorem encode_roundtrip_witness:
  "length (replicate 64 (0xA5 :: byte)) = 64 \<and>
   decode (encode (replicate 64 0xA5)) = replicate 64 0xA5"
  using encode_roundtrip [of "replicate 64 0xA5"] by simp


text \<open>C34: hashing succeeds exactly for a salt of 1 to 16 characters of the crypt alphabet, and
  the result is a well-formed crypt string: split at its dollar signs it is the scheme 6, the
  salt as given, and 86 characters of the alphabet.\<close>

theorem Sha512Crypt_wellformed:
  "(case Sha512Crypt password salt of
      Inr h \<Rightarrow> (\<exists>hash. SplitC (CHR ''$'') h = [[], ''6'', salt, hash] \<and>
                       length hash = 86 \<and> set hash \<subseteq> set saltAlphabet)
    | Inl e \<Rightarrow> True)
   \<and> is_ok (Sha512Crypt password salt) =
       (1 \<le> length salt \<and> length salt \<le> 16 \<and> set salt \<subseteq> set saltAlphabet)"
proof -
  define hash where "hash = sha512crypt (bytes_of password) (bytes_of salt) defaultRounds"
  have hash: "length hash = 86" "set hash \<subseteq> set saltAlphabet"
    by (simp_all add: hash_def sha512crypt_def Let_def length_encode encode_alphabet)
  then have nd: "CHR ''$'' \<notin> set hash" using dollar_notin_saltAlphabet by blast
  have split: "SplitC (CHR ''$'') (''$6$'' @ salt @ ''$'' @ hash) = [[], ''6'', salt, hash]"
    if "set salt \<subseteq> set saltAlphabet"
  proof -
    have "CHR ''$'' \<notin> set salt" using that dollar_notin_saltAlphabet by blast
    then show ?thesis
      using SplitC_append_sep [of "CHR ''$''" salt hash] SplitC_no_sep_id [OF nd] by simp
  qed
  show ?thesis
  proof (cases "salt = [] \<or> length salt > maxSaltLen")
    case True
    then show ?thesis by (auto simp: Sha512Crypt_def maxSaltLen_def)
  next
    case False
    then have len: "1 \<le> length salt \<and> length salt \<le> 16"
      by (cases salt) (auto simp: maxSaltLen_def)
    show ?thesis
    proof (cases "List.find (\<lambda>c. c \<notin> set saltAlphabet) salt")
      case None
      then have ok: "Sha512Crypt password salt = Inr (''$6$'' @ salt @ ''$'' @ hash)"
        using False by (simp add: Sha512Crypt_def hash_def)
      have good: "set salt \<subseteq> set saltAlphabet" using None by (auto simp: find_None_iff)
      show ?thesis unfolding ok sum.case is_ok.simps split [OF good] using good hash len by blast
    next
      case (Some c)
      then have "Sha512Crypt password salt = Inl (SaltChar c)"
        using False by (simp add: Sha512Crypt_def)
      moreover have "\<not> set salt \<subseteq> set saltAlphabet" using Some by (force simp: find_Some_iff)
      ultimately show ?thesis by simp
    qed
  qed
qed

end
