(* ===== verification/Platform.thy ===== *)
theory Platform
  imports Vee_Prelude
begin

text \<open>
  \<open>internal/platform\<close>, \<open>internal/backend\<close> and \<open>internal/cpu\<close>: the host-derived defaults and
  capability gates, the backend names, and the vCPU topology.  The Go runtime constants and the
  sysfs file the code reads are the fields of \<open>Host\<close>.
\<close>

record Host =
  goos :: string
  goarch :: string
  cwd :: "string option"
  smt_file :: "string option"

subsection \<open>platform.go\<close>

definition IsMacOS :: "Host \<Rightarrow> bool" where "IsMacOS h = (goos h = ''darwin'')"

definition IsLinux :: "Host \<Rightarrow> bool" where "IsLinux h = (goos h = ''linux'')"

definition IsWindows :: "Host \<Rightarrow> bool" where "IsWindows h = (goos h = ''windows'')"

definition GuestArchForHostArch :: "string \<Rightarrow> string" where
  "GuestArchForHostArch a =
     (if a = ''arm64'' then ''aarch64'' else if a = ''amd64'' then ''x86_64'' else ''x86_64'')"

definition DefaultGuestArch :: "Host \<Rightarrow> string" where
  "DefaultGuestArch h = GuestArchForHostArch (goarch h)"

definition DefaultAccelerator :: "Host \<Rightarrow> string" where
  "DefaultAccelerator h =
     (if goos h = ''darwin'' then ''hvf'' else if goos h = ''linux'' then ''kvm''
      else if goos h = ''windows'' then ''whpx'' else ''tcg'')"

definition MachineTypeForArch :: "string \<Rightarrow> string" where
  "MachineTypeForArch arch =
     (if arch = ''aarch64'' \<or> arch = ''arm64'' then ''virt'' else ''q35'')"

definition DefaultMachineType :: "Host \<Rightarrow> string" where
  "DefaultMachineType h = MachineTypeForArch (DefaultGuestArch h)"

definition QemuBinaryName :: "string \<Rightarrow> string" where
  "QemuBinaryName arch = ''qemu-system-'' @ arch"

definition DefaultQemuBinaryName :: "Host \<Rightarrow> string" where
  "DefaultQemuBinaryName h = QemuBinaryName (DefaultGuestArch h)"

definition SupportsVFIO :: "Host \<Rightarrow> bool" where "SupportsVFIO h = (goos h = ''linux'')"

definition SupportsVsock :: "Host \<Rightarrow> bool" where "SupportsVsock h = (goos h = ''linux'')"

definition SupportsVirtiofsd :: "Host \<Rightarrow> bool" where "SupportsVirtiofsd h = (goos h = ''linux'')"

definition SupportsBridgeNetworking :: "Host \<Rightarrow> bool" where
  "SupportsBridgeNetworking h = (goos h = ''linux'')"

definition SupportsCPUPinning :: "Host \<Rightarrow> bool" where "SupportsCPUPinning h = (goos h = ''linux'')"

definition SupportsSwTPM :: "Host \<Rightarrow> bool" where "SupportsSwTPM h = (goos h = ''linux'')"

subsection \<open>backend.go\<close>

definition QEMU :: string where "QEMU = ''qemu''"

definition VZ :: string where "VZ = ''vz''"

definition Valid_backend :: "string \<Rightarrow> bool" where
  "Valid_backend n = (n = [] \<or> n = QEMU \<or> n = VZ)"

record StartResult =
  sr_PID :: int
  sr_ControlSocket :: string
  sr_GuestAgentSocket :: string
  sr_LeaseBaseline :: nat

subsection \<open>topology.go\<close>

definition ThreadsPerCore :: "Host \<Rightarrow> int" where
  "ThreadsPerCore h =
     (case smt_file h of None \<Rightarrow> 1 | Some data \<Rightarrow> if TrimSpace data = ''2'' then 2 else 1)"

definition AdjustSMP :: "Host \<Rightarrow> int \<Rightarrow> int \<Rightarrow> int \<Rightarrow> int \<Rightarrow> int \<times> int \<times> int" where
  "AdjustSMP h cpus sockets cores threads =
     (if threads = 2 then
        (if sockets = 0 then 1 else sockets, if cores = 0 then cpus else cores, 2)
      else if ThreadsPerCore h = 2 \<and> cpus mod 2 = 0 then (1, cpus div 2, 2)
      else (1, cpus, 1))"

subsection \<open>Lemmas\<close>

lemma AdjustSMP_default_topology:
  assumes "threads \<noteq> 2" and "AdjustSMP h cpus sockets cores threads = (s, c, t)"
  shows "s * c * t = cpus \<and> (t = 1 \<or> t = 2)"
  using assms by (auto simp: AdjustSMP_def split: if_splits)

text \<open>Go's \<open>%\<close> truncates towards zero and HOL's \<open>mod\<close> rounds down; the guard compares the
  result with zero only, where the two agree.\<close>

lemma native_arch_machine:
  "MachineTypeForArch (GuestArchForHostArch a) =
     (if a = ''arm64'' then ''virt'' else ''q35'')"
  by (simp add: MachineTypeForArch_def GuestArchForHostArch_def)

end
