(* ===== verification/Config.thy ===== *)
theory Config
  imports Platform
begin

text \<open>
  \<open>internal/vm/config.go\<close> and \<open>internal/vm/state.go\<close>: the persisted configuration and runtime
  state of a VM, one record per Go struct with the fields in the order of the source, and the
  methods on them.  Pointers that may be nil are options; \<open>time.Time\<close> is an integer instant.
  A record field carries a short prefix naming its struct.
\<close>

subsection \<open>Configuration\<close>

record DiskConfig =
  dc_Path :: string
  dc_Size :: string
  dc_Format :: string
  dc_Interface :: string
  dc_Media :: string
  dc_Cache :: string
  dc_Readonly :: bool
  dc_BackingFile :: string
  dc_Serial :: string
  dc_Passthrough :: bool
  dc_ImageFile :: bool
  dc_BootIndex :: int
  dc_InstallISO :: bool
  dc_Scratch :: bool

definition IsInstallISO :: "DiskConfig \<Rightarrow> bool" where
  "IsInstallISO d = (dc_InstallISO d \<or> dc_Media d = ''cdrom'')"

definition IsScratch :: "DiskConfig \<Rightarrow> bool" where
  "IsScratch d = dc_Scratch d"

record NICConfig =
  nc_Mode :: string
  nc_Bridge :: string
  nc_Model :: string
  nc_MAC :: string
  nc_HostFwds :: "string list"

definition GPUNone :: string where "GPUNone = ''none''"

definition GPUVirtio :: string where "GPUVirtio = ''virtio''"

definition GPUPassthrough :: string where "GPUPassthrough = ''passthrough''"

definition GPUAppleGFX :: string where "GPUAppleGFX = ''apple-gfx''"

definition GPUHelios :: string where "GPUHelios = ''helios''"

record GPUConfig =
  gc_Mode :: string
  gc_PCIAddr :: string
  gc_ExtraVFIOAddrs :: "string list"
  gc_ROMFile :: string
  gc_ROMBar :: bool
  gc_RebindReset :: bool
  gc_RebindResetDriver :: string
  gc_AntiDetect :: bool
  gc_GLBackend :: string
  gc_Venus :: bool
  gc_HostMem :: string
  gc_Pointer :: string
  gc_VNC :: string
  gc_RenderNode :: string
  gc_disableGL :: bool

record MacOSConfig =
  mc_AuxiliaryStorage :: string
  mc_HardwareModel :: "byte list"
  mc_MachineIdentifier :: "byte list"
  mc_ScreenSharingGrantPending :: bool
  mc_ScreenSharingUnsupported :: bool
  mc_DisplayWidthPx :: int
  mc_DisplayHeightPx :: int
  mc_DisplayPPI :: int
  mc_MinCPUs :: nat
  mc_MinMemoryBytes :: nat

record UEFIConfig =
  uc_Enabled :: bool
  uc_CodePath :: string
  uc_VarsPath :: string

record SPICEConfig =
  sc_Port :: int
  sc_DisableTicketing :: bool

record VirtiofsMount =
  vm_SocketPath :: string
  vm_SharedDir :: string
  vm_Tag :: string
  vm_Readonly :: bool

record TPMConfig =
  tc_Enabled :: bool

record CloudInitWriteFile =
  wf_Path :: string
  wf_Content :: string
  wf_Permissions :: string
  wf_Owner :: string
  wf_Defer :: bool
  wf_Encoding :: string

record CloudInitConfig =
  ci_Hostname :: string
  ci_User :: string
  ci_Password :: string
  ci_DefaultUser :: string
  ci_SSHKeys :: "string list"
  ci_Packages :: "string list"
  ci_RunCmds :: "string list"
  ci_WriteFiles :: "CloudInitWriteFile list"

record SeedFile =
  sf_Name :: string
  sf_Content :: string

record ServiceEntry =
  se_Name :: string
  se_Port :: int
  se_Protocol :: string

record VMConfig =
  Name :: string
  Template :: string
  Backend :: string
  Arch :: string
  QemuBinary :: string
  QemuEnv :: "string list"
  Memory :: string
  CPUs :: int
  Sockets :: int
  Cores :: int
  Threads :: int
  CPUModel :: string
  CPUFlags :: "string list"
  MachineType :: string
  Nested :: bool
  Globals :: "string list"
  Disks :: "DiskConfig list"
  NIC :: NICConfig
  GPU :: GPUConfig
  UEFI :: UEFIConfig
  MacOS :: "MacOSConfig option"
  SPICE :: "SPICEConfig option"
  VirtiofsMounts :: "VirtiofsMount list"
  CloudInit :: "CloudInitConfig option"
  SeedFiles :: "SeedFile list"
  TPM :: "TPMConfig option"
  SSHUser :: string
  SSHHost :: string
  SSHShare :: bool
  Vsock :: bool
  VsockCID :: nat
  Headless :: bool
  SSHPort :: int
  GuestAgent :: bool
  ExtraDevices :: "string list"
  InstallDevices :: "string list"
  VGA :: string
  Hostname :: string
  TrueNASAPIKey :: string
  TrueNASUser :: string
  VPNProvider :: string
  Services :: "ServiceEntry list"
  CPUPinning :: "int list"
  RTC :: string
  AutoStart :: bool
  SkipInstall :: bool
  Kernel :: string
  Cmdline :: string
  Initrd :: string
  CreatedAt :: time

definition VMConfig_BackendName :: "VMConfig \<Rightarrow> string" where
  "VMConfig_BackendName c = (if Backend c = [] then QEMU else Backend c)"

definition WindowsGuest :: "VMConfig \<Rightarrow> bool" where
  "WindowsGuest c = Contains (ToLower (Template c)) ''windows''"

definition SSHUsername :: "VMConfig \<Rightarrow> string" where
  "SSHUsername c =
     (if SSHUser c \<noteq> [] then SSHUser c
      else case CloudInit c of
             None \<Rightarrow> []
           | Some ci \<Rightarrow> if ci_User ci \<noteq> [] then ci_User ci else ci_DefaultUser ci)"

subsection \<open>Runtime state\<close>

definition InstallStatePending :: string where "InstallStatePending = ''pending''"

definition InstallStateReady :: string where "InstallStateReady = ''ready''"

definition DesiredStateRunning :: string where "DesiredStateRunning = ''running''"

definition DesiredStateStopped :: string where "DesiredStateStopped = ''stopped''"

definition ShutdownReasonUser :: string where "ShutdownReasonUser = ''user''"

definition ShutdownReasonGuest :: string where "ShutdownReasonGuest = ''guest''"

definition ShutdownReasonCrash :: string where "ShutdownReasonCrash = ''crash''"

definition ShutdownReasonHost :: string where "ShutdownReasonHost = ''host''"

definition ShutdownReasonReboot :: string where "ShutdownReasonReboot = ''reboot''"

lemmas state_consts =
  InstallStatePending_def InstallStateReady_def DesiredStateRunning_def DesiredStateStopped_def
  ShutdownReasonUser_def ShutdownReasonGuest_def ShutdownReasonCrash_def ShutdownReasonHost_def
  ShutdownReasonReboot_def

record HealthCheck =
  hc_Name :: string
  hc_OK :: bool
  hc_Detail :: string

record VMState =
  PID :: int
  st_Backend :: string
  QMPSocket :: string
  QGASocket :: string
  ControlSocket :: string
  LeaseBaseline :: nat
  SPICEPort :: int
  st_SSHPort :: int
  VirtiofsdPIDs :: "int list"
  StartedAt :: "time option"
  Running :: bool
  InstallState :: string
  InstalledAt :: "time option"
  DesiredState :: string
  LastShutdownReason :: string
  BootPhase :: string
  PhaseStartedAt :: "time option"
  LastPanicLine :: string
  PostInstallChecks :: "HealthCheck list"
  PostInstallCheckedAt :: "time option"

text \<open>The zero value \<open>VMState{}\<close>.\<close>

definition VMState_zero :: VMState where
  "VMState_zero =
     \<lparr>PID = 0, st_Backend = [], QMPSocket = [], QGASocket = [], ControlSocket = [],
      LeaseBaseline = 0, SPICEPort = 0, st_SSHPort = 0, VirtiofsdPIDs = [], StartedAt = None,
      Running = False, InstallState = [], InstalledAt = None, DesiredState = [],
      LastShutdownReason = [], BootPhase = [], PhaseStartedAt = None, LastPanicLine = [],
      PostInstallChecks = [], PostInstallCheckedAt = None\<rparr>"

definition VMState_BackendName :: "VMState option \<Rightarrow> string" where
  "VMState_BackendName s =
     (case s of None \<Rightarrow> QEMU | Some st \<Rightarrow> if st_Backend st = [] then QEMU else st_Backend st)"

subsection \<open>Zero values\<close>

text \<open>The zero values of the configuration structs, from which concrete configurations are
  written by record update.\<close>

definition DiskConfig_zero :: DiskConfig where
  "DiskConfig_zero =
     \<lparr>dc_Path = [], dc_Size = [], dc_Format = [], dc_Interface = [], dc_Media = [],
      dc_Cache = [], dc_Readonly = False, dc_BackingFile = [], dc_Serial = [],
      dc_Passthrough = False, dc_ImageFile = False, dc_BootIndex = 0, dc_InstallISO = False,
      dc_Scratch = False\<rparr>"

definition NICConfig_zero :: NICConfig where
  "NICConfig_zero =
     \<lparr>nc_Mode = [], nc_Bridge = [], nc_Model = [], nc_MAC = [], nc_HostFwds = []\<rparr>"

definition GPUConfig_zero :: GPUConfig where
  "GPUConfig_zero =
     \<lparr>gc_Mode = [], gc_PCIAddr = [], gc_ExtraVFIOAddrs = [], gc_ROMFile = [], gc_ROMBar = False,
      gc_RebindReset = False, gc_RebindResetDriver = [], gc_AntiDetect = False,
      gc_GLBackend = [], gc_Venus = False, gc_HostMem = [], gc_Pointer = [], gc_VNC = [],
      gc_RenderNode = [], gc_disableGL = False\<rparr>"

definition UEFIConfig_zero :: UEFIConfig where
  "UEFIConfig_zero = \<lparr>uc_Enabled = False, uc_CodePath = [], uc_VarsPath = []\<rparr>"

definition CloudInitConfig_zero :: CloudInitConfig where
  "CloudInitConfig_zero =
     \<lparr>ci_Hostname = [], ci_User = [], ci_Password = [], ci_DefaultUser = [], ci_SSHKeys = [],
      ci_Packages = [], ci_RunCmds = [], ci_WriteFiles = []\<rparr>"

definition VMConfig_zero :: VMConfig where
  "VMConfig_zero =
     \<lparr>Name = [], Template = [], Backend = [], Arch = [], QemuBinary = [], QemuEnv = [],
      Memory = [], CPUs = 0, Sockets = 0, Cores = 0, Threads = 0, CPUModel = [], CPUFlags = [],
      MachineType = [], Nested = False, Globals = [], Disks = [], NIC = NICConfig_zero,
      GPU = GPUConfig_zero, UEFI = UEFIConfig_zero, MacOS = None, SPICE = None,
      VirtiofsMounts = [], CloudInit = None, SeedFiles = [], TPM = None, SSHUser = [],
      SSHHost = [], SSHShare = False, Vsock = False, VsockCID = 0, Headless = False,
      SSHPort = 0, GuestAgent = False, ExtraDevices = [], InstallDevices = [], VGA = [],
      Hostname = [], TrueNASAPIKey = [], TrueNASUser = [], VPNProvider = [], Services = [],
      CPUPinning = [], RTC = [], AutoStart = False, SkipInstall = False, Kernel = [],
      Cmdline = [], Initrd = [], CreatedAt = 0\<rparr>"

subsection \<open>The directory of a VM\<close>

definition vmDir :: "string \<Rightarrow> string \<Rightarrow> string" where
  "vmDir storagePath nm = PathJoin [storagePath, nm]"

end
