(* ===== verification/Json.thy ===== *)
theory Json
  imports Config "HOL-Library.Monad_Syntax"
begin

text \<open>
  The JSON documents in which the database and \<open>state.json\<close> hold a configuration and a state:
  \<open>json.Marshal\<close> and \<open>json.Unmarshal\<close> of \<open>encoding/json\<close> on the structs of
  \<open>internal/vm/config.go\<close> and \<open>internal/vm/state.go\<close>, driven by their \<open>json\<close> tags.  A document is
  the parsed value; byte slices (base64) and instants (RFC 3339) are leaves of their own, and the
  empty list is Go's nil slice.  A field matches a member by its tag without regard to case (ASCII),
  null members change nothing, unknown members are skipped, and a member of another type or out of
  the range of its integer type is an error.  The unexported field \<open>disableGL\<close> is not part of the
  document.
\<close>

named_theorems json_rt \<open>decoding what was encoded\<close>

datatype json =
  JNull | JBool bool | JInt int | JStr string | JBytes "byte list" | JTime time
| JArr "json list" | JObj "(string \<times> json) list"

definition decodable :: "json \<Rightarrow> bool" where
  "decodable j = (case j of JNull \<Rightarrow> True | JObj fs \<Rightarrow> True | _ \<Rightarrow> False)"

definition nonnull :: "json option \<Rightarrow> json option" where
  "nonnull v = (if v = Some JNull then None else v)"

text \<open>The last member for the field, null members skipped.\<close>

fun jget_members :: "(string \<times> json) list \<Rightarrow> string \<Rightarrow> json option" where
  "jget_members [] k = None"
| "jget_members ((k', v) # fs) k =
     (case jget_members fs k of
        Some w \<Rightarrow> Some w
      | None \<Rightarrow> if ToLower k' = k then nonnull (Some v) else None)"

definition jget :: "json \<Rightarrow> string \<Rightarrow> json option" where
  "jget j k = (case j of JObj fs \<Rightarrow> jget_members fs k | _ \<Rightarrow> None)"

text \<open>An object from its fields, those left out by \<open>omitempty\<close> being \<^const>\<open>None\<close>.\<close>

definition jobj :: "(string \<times> json option) list \<Rightarrow> json" where
  "jobj ms = JObj (List.map_filter (\<lambda>(k, v). map_option (Pair k) v) ms)"

definition unless :: "bool \<Rightarrow> json \<Rightarrow> json option" where
  "unless z j = (if z then None else Some j)"

definition enc_str :: "string \<Rightarrow> json" where "enc_str s = JStr s"

definition enc_bool :: "bool \<Rightarrow> json" where "enc_bool b = JBool b"

definition enc_int :: "int \<Rightarrow> json" where "enc_int i = JInt i"

definition enc_u64 :: "nat \<Rightarrow> json" where "enc_u64 n = JInt (int n)"

definition enc_u32 :: "nat \<Rightarrow> json" where "enc_u32 n = JInt (int n)"

definition enc_time :: "time \<Rightarrow> json" where "enc_time t = JTime t"

definition enc_bytes :: "byte list \<Rightarrow> json" where
  "enc_bytes bs = (if bs = [] then JNull else JBytes bs)"

definition enc_list :: "('a \<Rightarrow> json) \<Rightarrow> 'a list \<Rightarrow> json" where
  "enc_list f xs = (if xs = [] then JNull else JArr (map f xs))"

definition enc_ptr :: "('a \<Rightarrow> json) \<Rightarrow> 'a option \<Rightarrow> json" where
  "enc_ptr f p = (case p of None \<Rightarrow> JNull | Some x \<Rightarrow> f x)"

definition enc_strs :: "string list \<Rightarrow> json" where "enc_strs = enc_list enc_str"

definition enc_ints :: "int list \<Rightarrow> json" where "enc_ints = enc_list enc_int"

definition enc_ptime :: "time option \<Rightarrow> json" where "enc_ptime = enc_ptr enc_time"

definition int64 :: "int \<Rightarrow> bool" where
  "int64 i = (- (2 ^ 63) \<le> i \<and> i < 2 ^ 63)"

definition dec_str :: "json option \<Rightarrow> string option" where
  "dec_str v = (case v of None \<Rightarrow> Some [] | Some JNull \<Rightarrow> Some [] | Some (JStr s) \<Rightarrow> Some s | _ \<Rightarrow> None)"

definition dec_bool :: "json option \<Rightarrow> bool option" where
  "dec_bool v = (case v of None \<Rightarrow> Some False | Some (JBool b) \<Rightarrow> Some b | _ \<Rightarrow> None)"

definition dec_int :: "json option \<Rightarrow> int option" where
  "dec_int v =
     (case v of None \<Rightarrow> Some 0 | Some JNull \<Rightarrow> Some 0
      | Some (JInt i) \<Rightarrow> if int64 i then Some i else None | _ \<Rightarrow> None)"

definition dec_uint :: "nat \<Rightarrow> json option \<Rightarrow> nat option" where
  "dec_uint w v =
     (case v of None \<Rightarrow> Some 0
      | Some (JInt i) \<Rightarrow> if 0 \<le> i \<and> i < 2 ^ w then Some (nat i) else None | _ \<Rightarrow> None)"

definition dec_u64 :: "json option \<Rightarrow> nat option" where "dec_u64 = dec_uint 64"

definition dec_u32 :: "json option \<Rightarrow> nat option" where "dec_u32 = dec_uint 32"

definition dec_time :: "json option \<Rightarrow> time option" where
  "dec_time v = (case v of None \<Rightarrow> Some 0 | Some (JTime t) \<Rightarrow> Some t | _ \<Rightarrow> None)"

definition dec_bytes :: "json option \<Rightarrow> byte list option" where
  "dec_bytes v = (case v of None \<Rightarrow> Some [] | Some (JBytes bs) \<Rightarrow> Some bs | _ \<Rightarrow> None)"

definition dec_list :: "(json \<Rightarrow> 'a option) \<Rightarrow> json option \<Rightarrow> 'a list option" where
  "dec_list f v = (case v of None \<Rightarrow> Some [] | Some (JArr xs) \<Rightarrow> those (map f xs) | _ \<Rightarrow> None)"

definition dec_ptr :: "(json \<Rightarrow> 'a option) \<Rightarrow> json option \<Rightarrow> 'a option option" where
  "dec_ptr f v = (case v of None \<Rightarrow> Some None | Some j \<Rightarrow> map_option Some (f j))"

definition dec_struct :: "(json \<Rightarrow> 'a option) \<Rightarrow> json option \<Rightarrow> 'a option" where
  "dec_struct f v = f (case v of None \<Rightarrow> JNull | Some j \<Rightarrow> j)"

definition dec_strs :: "json option \<Rightarrow> string list option" where
  "dec_strs = dec_list (\<lambda>j. dec_str (Some j))"

definition dec_ints :: "json option \<Rightarrow> int list option" where
  "dec_ints = dec_list (\<lambda>j. dec_int (Some j))"

definition dec_ptime :: "json option \<Rightarrow> time option option" where
  "dec_ptime = dec_ptr (\<lambda>j. dec_time (Some j))"

subsection \<open>Codec lemmas\<close>

lemma jobj_object [simp]: "jobj ms \<noteq> JNull" "decodable (jobj ms)"
  by (simp_all add: jobj_def decodable_def)

definition good_keys :: "string list \<Rightarrow> bool" where
  "good_keys ks = (distinct ks \<and> list_all (\<lambda>k. ToLower k = k) ks)"

lemma jget_jobj:
  assumes "good_keys (map fst ms)"
  shows "jget (jobj ms) k = Option.bind (map_of ms k) nonnull"
  using assms
proof (induction ms)
  case (Cons m ms)
  obtain k' v where m: "m = (k', v)" by force
  have "jget (jobj ms) k = Option.bind (map_of ms k) nonnull" and low: "ToLower k' = k'"
    using Cons m by (auto simp: good_keys_def)
  then have IH: "jget_members (List.map_filter (\<lambda>(k, v). map_option (Pair k) v) ms) k =
                   Option.bind (map_of ms k) nonnull"
    by (simp add: jget_def jobj_def)
  have "map_of ms k' = None" using Cons.prems(1) m by (simp add: map_of_eq_None_iff good_keys_def)
  moreover have "nonnull None = None" by (simp add: nonnull_def)
  ultimately show ?case
    using IH low by (cases v) (auto simp: m jget_def jobj_def map_filter_simps split: option.splits)
qed (simp add: jget_def jobj_def map_filter_simps)

lemma those_map: "list_all (\<lambda>x. f (g x) = Some x) xs \<Longrightarrow> those (map f (map g xs)) = Some xs"
  by (induction xs) auto

lemma prim_rt [json_rt]:
  "dec_str (nonnull (Some (enc_str s))) = Some s"
  "dec_str (nonnull (unless (s = []) (enc_str s))) = Some s"
  "dec_bool (nonnull (Some (enc_bool b))) = Some b"
  "dec_bool (nonnull (unless (\<not> b) (enc_bool b))) = Some b"
  "int64 i \<Longrightarrow> dec_int (nonnull (Some (enc_int i))) = Some i"
  "int64 i \<Longrightarrow> dec_int (nonnull (unless (i = 0) (enc_int i))) = Some i"
  "n < 2 ^ 64 \<Longrightarrow> dec_u64 (nonnull (unless (n = 0) (enc_u64 n))) = Some n"
  "n < 2 ^ 32 \<Longrightarrow> dec_u32 (nonnull (unless (n = 0) (enc_u32 n))) = Some n"
  "dec_time (nonnull (Some (enc_time t))) = Some t"
  "dec_bytes (nonnull (Some (enc_bytes bs))) = Some bs"
  by (auto simp: nonnull_def unless_def enc_str_def dec_str_def enc_bool_def dec_bool_def enc_int_def
      dec_int_def enc_u64_def enc_u32_def dec_u64_def dec_u32_def dec_uint_def enc_time_def dec_time_def
      enc_bytes_def dec_bytes_def)

lemma list_rt [json_rt]:
  assumes "list_all (\<lambda>x. f (g x) = Some x) xs"
  shows "dec_list f (nonnull (Some (enc_list g xs))) = Some xs"
    and "dec_list f (nonnull (unless (xs = []) (enc_list g xs))) = Some xs"
  using those_map [of f g xs] assms by (auto simp: nonnull_def unless_def enc_list_def dec_list_def comp_def)

lemma ptr_rt [json_rt]:
  assumes "pred_option (\<lambda>x. f (g x) = Some x \<and> g x \<noteq> JNull) p"
  shows "dec_ptr f (nonnull (unless (p = None) (enc_ptr g p))) = Some p"
  using assms by (cases p) (auto simp: nonnull_def unless_def enc_ptr_def dec_ptr_def)

lemma struct_rt [json_rt]:
  "j \<noteq> JNull \<Longrightarrow> dec_struct f (nonnull (Some j)) = f j"
  by (simp add: nonnull_def dec_struct_def)

lemma derived_rt [json_rt]:
  "dec_strs (nonnull (unless (ss = []) (enc_strs ss))) = Some ss"
  "list_all int64 is \<Longrightarrow> dec_ints (nonnull (unless (is = []) (enc_ints is))) = Some is"
  "dec_ptime (nonnull (unless (p = None) (enc_ptime p))) = Some p"
proof -
  show "dec_strs (nonnull (unless (ss = []) (enc_strs ss))) = Some ss"
    unfolding dec_strs_def enc_strs_def by (rule list_rt(2)) (simp add: list_all_iff dec_str_def enc_str_def)
  show "dec_ints (nonnull (unless (is = []) (enc_ints is))) = Some is" if "list_all int64 is"
    unfolding dec_ints_def enc_ints_def
    by (rule list_rt(2)) (use that in \<open>simp add: list_all_iff dec_int_def enc_int_def\<close>)
  show "dec_ptime (nonnull (unless (p = None) (enc_ptime p))) = Some p"
    unfolding dec_ptime_def enc_ptime_def
    by (rule ptr_rt) (cases p, simp_all add: dec_time_def enc_time_def)
qed

subsection \<open>The structs\<close>

definition fields_DiskConfig :: "DiskConfig \<Rightarrow> (string \<times> json option) list" where
  "fields_DiskConfig c =
     [(''path'', Some (enc_str (dc_Path c))),
      (''size'', Some (enc_str (dc_Size c))),
      (''format'', Some (enc_str (dc_Format c))),
      (''interface'', Some (enc_str (dc_Interface c))),
      (''media'', Some (enc_str (dc_Media c))),
      (''cache'', Some (enc_str (dc_Cache c))),
      (''readonly'', Some (enc_bool (dc_Readonly c))),
      (''backing_file'', unless (dc_BackingFile c = []) (enc_str (dc_BackingFile c))),
      (''serial'', unless (dc_Serial c = []) (enc_str (dc_Serial c))),
      (''passthrough'', unless (\<not> dc_Passthrough c) (enc_bool (dc_Passthrough c))),
      (''image_file'', unless (\<not> dc_ImageFile c) (enc_bool (dc_ImageFile c))),
      (''boot_index'', unless (dc_BootIndex c = 0) (enc_int (dc_BootIndex c))),
      (''install_iso'', unless (\<not> dc_InstallISO c) (enc_bool (dc_InstallISO c))),
      (''scratch'', unless (\<not> dc_Scratch c) (enc_bool (dc_Scratch c)))]"

definition to_json_DiskConfig :: "DiskConfig \<Rightarrow> json" where
  "to_json_DiskConfig c = jobj (fields_DiskConfig c)"

definition of_json_DiskConfig :: "json \<Rightarrow> DiskConfig option" where
  "of_json_DiskConfig j = (if \<not> decodable j then None else do {
       path' \<leftarrow> dec_str (jget j ''path'');
       size' \<leftarrow> dec_str (jget j ''size'');
       format' \<leftarrow> dec_str (jget j ''format'');
       interface' \<leftarrow> dec_str (jget j ''interface'');
       media' \<leftarrow> dec_str (jget j ''media'');
       cache' \<leftarrow> dec_str (jget j ''cache'');
       readonly' \<leftarrow> dec_bool (jget j ''readonly'');
       backing_file' \<leftarrow> dec_str (jget j ''backing_file'');
       serial' \<leftarrow> dec_str (jget j ''serial'');
       passthrough' \<leftarrow> dec_bool (jget j ''passthrough'');
       image_file' \<leftarrow> dec_bool (jget j ''image_file'');
       boot_index' \<leftarrow> dec_int (jget j ''boot_index'');
       install_iso' \<leftarrow> dec_bool (jget j ''install_iso'');
       scratch' \<leftarrow> dec_bool (jget j ''scratch'');
       Some \<lparr>dc_Path = path', dc_Size = size', dc_Format = format',
             dc_Interface = interface', dc_Media = media', dc_Cache = cache',
             dc_Readonly = readonly', dc_BackingFile = backing_file', dc_Serial = serial',
             dc_Passthrough = passthrough', dc_ImageFile = image_file',
             dc_BootIndex = boot_index', dc_InstallISO = install_iso', dc_Scratch = scratch'\<rparr>})"

definition ranges_DiskConfig :: "DiskConfig \<Rightarrow> bool" where
  "ranges_DiskConfig c \<longleftrightarrow>
      int64 (dc_BootIndex c)"

lemma to_json_DiskConfig_object [simp]: "to_json_DiskConfig c \<noteq> JNull" "decodable (to_json_DiskConfig c)"
  by (simp_all add: to_json_DiskConfig_def)

lemma keys_DiskConfig: "good_keys
     [''path'', ''size'', ''format'', ''interface'', ''media'', ''cache'', ''readonly'',
      ''backing_file'', ''serial'', ''passthrough'', ''image_file'', ''boot_index'',
      ''install_iso'', ''scratch'']"
  by code_simp

lemma jget_DiskConfig: "jget (to_json_DiskConfig c) k = Option.bind (map_of (fields_DiskConfig c) k) nonnull"
  unfolding to_json_DiskConfig_def by (rule jget_jobj) (simp only: fields_DiskConfig_def list.map fst_conv keys_DiskConfig)

lemma of_to_DiskConfig [json_rt]: "ranges_DiskConfig c \<Longrightarrow> of_json_DiskConfig (to_json_DiskConfig c) = Some c"
  unfolding of_json_DiskConfig_def jget_DiskConfig fields_DiskConfig_def ranges_DiskConfig_def 
  by (cases c) (simp add: json_rt list_all_iff option.pred_set)

definition fields_NICConfig :: "NICConfig \<Rightarrow> (string \<times> json option) list" where
  "fields_NICConfig c =
     [(''mode'', Some (enc_str (nc_Mode c))),
      (''bridge'', unless (nc_Bridge c = []) (enc_str (nc_Bridge c))),
      (''model'', Some (enc_str (nc_Model c))),
      (''mac'', Some (enc_str (nc_MAC c))),
      (''host_fwds'', unless (nc_HostFwds c = []) (enc_strs (nc_HostFwds c)))]"

definition to_json_NICConfig :: "NICConfig \<Rightarrow> json" where
  "to_json_NICConfig c = jobj (fields_NICConfig c)"

definition of_json_NICConfig :: "json \<Rightarrow> NICConfig option" where
  "of_json_NICConfig j = (if \<not> decodable j then None else do {
       mode' \<leftarrow> dec_str (jget j ''mode'');
       bridge' \<leftarrow> dec_str (jget j ''bridge'');
       model' \<leftarrow> dec_str (jget j ''model'');
       mac' \<leftarrow> dec_str (jget j ''mac'');
       host_fwds' \<leftarrow> dec_strs (jget j ''host_fwds'');
       Some \<lparr>nc_Mode = mode', nc_Bridge = bridge', nc_Model = model', nc_MAC = mac',
             nc_HostFwds = host_fwds'\<rparr>})"

lemma to_json_NICConfig_object [simp]: "to_json_NICConfig c \<noteq> JNull" "decodable (to_json_NICConfig c)"
  by (simp_all add: to_json_NICConfig_def)

lemma keys_NICConfig: "good_keys
     [''mode'', ''bridge'', ''model'', ''mac'', ''host_fwds'']"
  by code_simp

lemma jget_NICConfig: "jget (to_json_NICConfig c) k = Option.bind (map_of (fields_NICConfig c) k) nonnull"
  unfolding to_json_NICConfig_def by (rule jget_jobj) (simp only: fields_NICConfig_def list.map fst_conv keys_NICConfig)

lemma of_to_NICConfig [json_rt]: "of_json_NICConfig (to_json_NICConfig c) = Some c"
  unfolding of_json_NICConfig_def jget_NICConfig fields_NICConfig_def 
  by (cases c) (simp add: json_rt list_all_iff option.pred_set)

definition fields_GPUConfig :: "GPUConfig \<Rightarrow> (string \<times> json option) list" where
  "fields_GPUConfig c =
     [(''mode'', Some (enc_str (gc_Mode c))),
      (''pci_addr'', unless (gc_PCIAddr c = []) (enc_str (gc_PCIAddr c))),
      (''extra_vfio_addrs'', unless (gc_ExtraVFIOAddrs c = []) (enc_strs (gc_ExtraVFIOAddrs c))),
      (''rom_file'', unless (gc_ROMFile c = []) (enc_str (gc_ROMFile c))),
      (''rom_bar'', unless (\<not> gc_ROMBar c) (enc_bool (gc_ROMBar c))),
      (''rebind_reset'', unless (\<not> gc_RebindReset c) (enc_bool (gc_RebindReset c))),
      (''rebind_reset_driver'', unless (gc_RebindResetDriver c = []) (enc_str (gc_RebindResetDriver c))),
      (''anti_detect'', unless (\<not> gc_AntiDetect c) (enc_bool (gc_AntiDetect c))),
      (''gl_backend'', unless (gc_GLBackend c = []) (enc_str (gc_GLBackend c))),
      (''venus'', unless (\<not> gc_Venus c) (enc_bool (gc_Venus c))),
      (''host_mem'', unless (gc_HostMem c = []) (enc_str (gc_HostMem c))),
      (''pointer'', unless (gc_Pointer c = []) (enc_str (gc_Pointer c))),
      (''vnc'', unless (gc_VNC c = []) (enc_str (gc_VNC c))),
      (''render_node'', unless (gc_RenderNode c = []) (enc_str (gc_RenderNode c)))]"

definition to_json_GPUConfig :: "GPUConfig \<Rightarrow> json" where
  "to_json_GPUConfig c = jobj (fields_GPUConfig c)"

definition of_json_GPUConfig :: "json \<Rightarrow> GPUConfig option" where
  "of_json_GPUConfig j = (if \<not> decodable j then None else do {
       mode' \<leftarrow> dec_str (jget j ''mode'');
       pci_addr' \<leftarrow> dec_str (jget j ''pci_addr'');
       extra_vfio_addrs' \<leftarrow> dec_strs (jget j ''extra_vfio_addrs'');
       rom_file' \<leftarrow> dec_str (jget j ''rom_file'');
       rom_bar' \<leftarrow> dec_bool (jget j ''rom_bar'');
       rebind_reset' \<leftarrow> dec_bool (jget j ''rebind_reset'');
       rebind_reset_driver' \<leftarrow> dec_str (jget j ''rebind_reset_driver'');
       anti_detect' \<leftarrow> dec_bool (jget j ''anti_detect'');
       gl_backend' \<leftarrow> dec_str (jget j ''gl_backend'');
       venus' \<leftarrow> dec_bool (jget j ''venus'');
       host_mem' \<leftarrow> dec_str (jget j ''host_mem'');
       pointer' \<leftarrow> dec_str (jget j ''pointer'');
       vnc' \<leftarrow> dec_str (jget j ''vnc'');
       render_node' \<leftarrow> dec_str (jget j ''render_node'');
       Some \<lparr>gc_Mode = mode', gc_PCIAddr = pci_addr',
             gc_ExtraVFIOAddrs = extra_vfio_addrs', gc_ROMFile = rom_file',
             gc_ROMBar = rom_bar', gc_RebindReset = rebind_reset',
             gc_RebindResetDriver = rebind_reset_driver', gc_AntiDetect = anti_detect',
             gc_GLBackend = gl_backend', gc_Venus = venus', gc_HostMem = host_mem',
             gc_Pointer = pointer', gc_VNC = vnc', gc_RenderNode = render_node',
             gc_disableGL = False\<rparr>})"

definition persisted_GPU :: "GPUConfig \<Rightarrow> GPUConfig" where
  "persisted_GPU c = c\<lparr>gc_disableGL := False\<rparr>"

lemma to_json_GPUConfig_object [simp]: "to_json_GPUConfig c \<noteq> JNull" "decodable (to_json_GPUConfig c)"
  by (simp_all add: to_json_GPUConfig_def)

lemma keys_GPUConfig: "good_keys
     [''mode'', ''pci_addr'', ''extra_vfio_addrs'', ''rom_file'', ''rom_bar'', ''rebind_reset'',
      ''rebind_reset_driver'', ''anti_detect'', ''gl_backend'', ''venus'', ''host_mem'',
      ''pointer'', ''vnc'', ''render_node'']"
  by code_simp

lemma jget_GPUConfig: "jget (to_json_GPUConfig c) k = Option.bind (map_of (fields_GPUConfig c) k) nonnull"
  unfolding to_json_GPUConfig_def by (rule jget_jobj) (simp only: fields_GPUConfig_def list.map fst_conv keys_GPUConfig)

lemma of_to_GPUConfig [json_rt]: "of_json_GPUConfig (to_json_GPUConfig c) = Some (persisted_GPU c)"
  unfolding of_json_GPUConfig_def jget_GPUConfig fields_GPUConfig_def persisted_GPU_def 
  by (cases c) (simp add: json_rt list_all_iff option.pred_set)

definition fields_MacOSConfig :: "MacOSConfig \<Rightarrow> (string \<times> json option) list" where
  "fields_MacOSConfig c =
     [(''auxiliary_storage'', Some (enc_str (mc_AuxiliaryStorage c))),
      (''hardware_model'', Some (enc_bytes (mc_HardwareModel c))),
      (''machine_identifier'', Some (enc_bytes (mc_MachineIdentifier c))),
      (''screen_sharing_grant_pending'', unless (\<not> mc_ScreenSharingGrantPending c) (enc_bool (mc_ScreenSharingGrantPending c))),
      (''screen_sharing_unsupported'', unless (\<not> mc_ScreenSharingUnsupported c) (enc_bool (mc_ScreenSharingUnsupported c))),
      (''display_width_px'', unless (mc_DisplayWidthPx c = 0) (enc_int (mc_DisplayWidthPx c))),
      (''display_height_px'', unless (mc_DisplayHeightPx c = 0) (enc_int (mc_DisplayHeightPx c))),
      (''display_ppi'', unless (mc_DisplayPPI c = 0) (enc_int (mc_DisplayPPI c))),
      (''min_cpus'', unless (mc_MinCPUs c = 0) (enc_u64 (mc_MinCPUs c))),
      (''min_memory_bytes'', unless (mc_MinMemoryBytes c = 0) (enc_u64 (mc_MinMemoryBytes c)))]"

definition to_json_MacOSConfig :: "MacOSConfig \<Rightarrow> json" where
  "to_json_MacOSConfig c = jobj (fields_MacOSConfig c)"

definition of_json_MacOSConfig :: "json \<Rightarrow> MacOSConfig option" where
  "of_json_MacOSConfig j = (if \<not> decodable j then None else do {
       auxiliary_storage' \<leftarrow> dec_str (jget j ''auxiliary_storage'');
       hardware_model' \<leftarrow> dec_bytes (jget j ''hardware_model'');
       machine_identifier' \<leftarrow> dec_bytes (jget j ''machine_identifier'');
       screen_sharing_grant_pending' \<leftarrow> dec_bool (jget j ''screen_sharing_grant_pending'');
       screen_sharing_unsupported' \<leftarrow> dec_bool (jget j ''screen_sharing_unsupported'');
       display_width_px' \<leftarrow> dec_int (jget j ''display_width_px'');
       display_height_px' \<leftarrow> dec_int (jget j ''display_height_px'');
       display_ppi' \<leftarrow> dec_int (jget j ''display_ppi'');
       min_cpus' \<leftarrow> dec_u64 (jget j ''min_cpus'');
       min_memory_bytes' \<leftarrow> dec_u64 (jget j ''min_memory_bytes'');
       Some \<lparr>mc_AuxiliaryStorage = auxiliary_storage',
             mc_HardwareModel = hardware_model', mc_MachineIdentifier = machine_identifier',
             mc_ScreenSharingGrantPending = screen_sharing_grant_pending',
             mc_ScreenSharingUnsupported = screen_sharing_unsupported',
             mc_DisplayWidthPx = display_width_px', mc_DisplayHeightPx = display_height_px',
             mc_DisplayPPI = display_ppi', mc_MinCPUs = min_cpus',
             mc_MinMemoryBytes = min_memory_bytes'\<rparr>})"

definition ranges_MacOSConfig :: "MacOSConfig \<Rightarrow> bool" where
  "ranges_MacOSConfig c \<longleftrightarrow>
      int64 (mc_DisplayWidthPx c) \<and>
      int64 (mc_DisplayHeightPx c) \<and>
      int64 (mc_DisplayPPI c) \<and>
      mc_MinCPUs c < 2 ^ 64 \<and>
      mc_MinMemoryBytes c < 2 ^ 64"

lemma to_json_MacOSConfig_object [simp]: "to_json_MacOSConfig c \<noteq> JNull" "decodable (to_json_MacOSConfig c)"
  by (simp_all add: to_json_MacOSConfig_def)

lemma keys_MacOSConfig: "good_keys
     [''auxiliary_storage'', ''hardware_model'', ''machine_identifier'',
      ''screen_sharing_grant_pending'', ''screen_sharing_unsupported'', ''display_width_px'',
      ''display_height_px'', ''display_ppi'', ''min_cpus'', ''min_memory_bytes'']"
  by code_simp

lemma jget_MacOSConfig: "jget (to_json_MacOSConfig c) k = Option.bind (map_of (fields_MacOSConfig c) k) nonnull"
  unfolding to_json_MacOSConfig_def by (rule jget_jobj) (simp only: fields_MacOSConfig_def list.map fst_conv keys_MacOSConfig)

lemma of_to_MacOSConfig [json_rt]: "ranges_MacOSConfig c \<Longrightarrow> of_json_MacOSConfig (to_json_MacOSConfig c) = Some c"
  unfolding of_json_MacOSConfig_def jget_MacOSConfig fields_MacOSConfig_def ranges_MacOSConfig_def 
  by (cases c) (simp add: json_rt list_all_iff option.pred_set)

definition fields_UEFIConfig :: "UEFIConfig \<Rightarrow> (string \<times> json option) list" where
  "fields_UEFIConfig c =
     [(''enabled'', Some (enc_bool (uc_Enabled c))),
      (''code_path'', unless (uc_CodePath c = []) (enc_str (uc_CodePath c))),
      (''vars_path'', Some (enc_str (uc_VarsPath c)))]"

definition to_json_UEFIConfig :: "UEFIConfig \<Rightarrow> json" where
  "to_json_UEFIConfig c = jobj (fields_UEFIConfig c)"

definition of_json_UEFIConfig :: "json \<Rightarrow> UEFIConfig option" where
  "of_json_UEFIConfig j = (if \<not> decodable j then None else do {
       enabled' \<leftarrow> dec_bool (jget j ''enabled'');
       code_path' \<leftarrow> dec_str (jget j ''code_path'');
       vars_path' \<leftarrow> dec_str (jget j ''vars_path'');
       Some \<lparr>uc_Enabled = enabled', uc_CodePath = code_path', uc_VarsPath = vars_path'\<rparr>})"

lemma to_json_UEFIConfig_object [simp]: "to_json_UEFIConfig c \<noteq> JNull" "decodable (to_json_UEFIConfig c)"
  by (simp_all add: to_json_UEFIConfig_def)

lemma keys_UEFIConfig: "good_keys
     [''enabled'', ''code_path'', ''vars_path'']"
  by code_simp

lemma jget_UEFIConfig: "jget (to_json_UEFIConfig c) k = Option.bind (map_of (fields_UEFIConfig c) k) nonnull"
  unfolding to_json_UEFIConfig_def by (rule jget_jobj) (simp only: fields_UEFIConfig_def list.map fst_conv keys_UEFIConfig)

lemma of_to_UEFIConfig [json_rt]: "of_json_UEFIConfig (to_json_UEFIConfig c) = Some c"
  unfolding of_json_UEFIConfig_def jget_UEFIConfig fields_UEFIConfig_def 
  by (cases c) (simp add: json_rt list_all_iff option.pred_set)

definition fields_SPICEConfig :: "SPICEConfig \<Rightarrow> (string \<times> json option) list" where
  "fields_SPICEConfig c =
     [(''port'', Some (enc_int (sc_Port c))),
      (''disable_ticketing'', Some (enc_bool (sc_DisableTicketing c)))]"

definition to_json_SPICEConfig :: "SPICEConfig \<Rightarrow> json" where
  "to_json_SPICEConfig c = jobj (fields_SPICEConfig c)"

definition of_json_SPICEConfig :: "json \<Rightarrow> SPICEConfig option" where
  "of_json_SPICEConfig j = (if \<not> decodable j then None else do {
       port' \<leftarrow> dec_int (jget j ''port'');
       disable_ticketing' \<leftarrow> dec_bool (jget j ''disable_ticketing'');
       Some \<lparr>sc_Port = port', sc_DisableTicketing = disable_ticketing'\<rparr>})"

definition ranges_SPICEConfig :: "SPICEConfig \<Rightarrow> bool" where
  "ranges_SPICEConfig c \<longleftrightarrow>
      int64 (sc_Port c)"

lemma to_json_SPICEConfig_object [simp]: "to_json_SPICEConfig c \<noteq> JNull" "decodable (to_json_SPICEConfig c)"
  by (simp_all add: to_json_SPICEConfig_def)

lemma keys_SPICEConfig: "good_keys
     [''port'', ''disable_ticketing'']"
  by code_simp

lemma jget_SPICEConfig: "jget (to_json_SPICEConfig c) k = Option.bind (map_of (fields_SPICEConfig c) k) nonnull"
  unfolding to_json_SPICEConfig_def by (rule jget_jobj) (simp only: fields_SPICEConfig_def list.map fst_conv keys_SPICEConfig)

lemma of_to_SPICEConfig [json_rt]: "ranges_SPICEConfig c \<Longrightarrow> of_json_SPICEConfig (to_json_SPICEConfig c) = Some c"
  unfolding of_json_SPICEConfig_def jget_SPICEConfig fields_SPICEConfig_def ranges_SPICEConfig_def 
  by (cases c) (simp add: json_rt list_all_iff option.pred_set)

definition fields_VirtiofsMount :: "VirtiofsMount \<Rightarrow> (string \<times> json option) list" where
  "fields_VirtiofsMount c =
     [(''socket_path'', Some (enc_str (vm_SocketPath c))),
      (''shared_dir'', Some (enc_str (vm_SharedDir c))),
      (''tag'', Some (enc_str (vm_Tag c))),
      (''readonly'', unless (\<not> vm_Readonly c) (enc_bool (vm_Readonly c)))]"

definition to_json_VirtiofsMount :: "VirtiofsMount \<Rightarrow> json" where
  "to_json_VirtiofsMount c = jobj (fields_VirtiofsMount c)"

definition of_json_VirtiofsMount :: "json \<Rightarrow> VirtiofsMount option" where
  "of_json_VirtiofsMount j = (if \<not> decodable j then None else do {
       socket_path' \<leftarrow> dec_str (jget j ''socket_path'');
       shared_dir' \<leftarrow> dec_str (jget j ''shared_dir'');
       tag' \<leftarrow> dec_str (jget j ''tag'');
       readonly' \<leftarrow> dec_bool (jget j ''readonly'');
       Some \<lparr>vm_SocketPath = socket_path', vm_SharedDir = shared_dir', vm_Tag = tag',
             vm_Readonly = readonly'\<rparr>})"

lemma to_json_VirtiofsMount_object [simp]: "to_json_VirtiofsMount c \<noteq> JNull" "decodable (to_json_VirtiofsMount c)"
  by (simp_all add: to_json_VirtiofsMount_def)

lemma keys_VirtiofsMount: "good_keys
     [''socket_path'', ''shared_dir'', ''tag'', ''readonly'']"
  by code_simp

lemma jget_VirtiofsMount: "jget (to_json_VirtiofsMount c) k = Option.bind (map_of (fields_VirtiofsMount c) k) nonnull"
  unfolding to_json_VirtiofsMount_def by (rule jget_jobj) (simp only: fields_VirtiofsMount_def list.map fst_conv keys_VirtiofsMount)

lemma of_to_VirtiofsMount [json_rt]: "of_json_VirtiofsMount (to_json_VirtiofsMount c) = Some c"
  unfolding of_json_VirtiofsMount_def jget_VirtiofsMount fields_VirtiofsMount_def 
  by (cases c) (simp add: json_rt list_all_iff option.pred_set)

definition fields_TPMConfig :: "TPMConfig \<Rightarrow> (string \<times> json option) list" where
  "fields_TPMConfig c =
     [(''enabled'', Some (enc_bool (tc_Enabled c)))]"

definition to_json_TPMConfig :: "TPMConfig \<Rightarrow> json" where
  "to_json_TPMConfig c = jobj (fields_TPMConfig c)"

definition of_json_TPMConfig :: "json \<Rightarrow> TPMConfig option" where
  "of_json_TPMConfig j = (if \<not> decodable j then None else do {
       enabled' \<leftarrow> dec_bool (jget j ''enabled'');
       Some \<lparr>tc_Enabled = enabled'\<rparr>})"

lemma to_json_TPMConfig_object [simp]: "to_json_TPMConfig c \<noteq> JNull" "decodable (to_json_TPMConfig c)"
  by (simp_all add: to_json_TPMConfig_def)

lemma keys_TPMConfig: "good_keys
     [''enabled'']"
  by code_simp

lemma jget_TPMConfig: "jget (to_json_TPMConfig c) k = Option.bind (map_of (fields_TPMConfig c) k) nonnull"
  unfolding to_json_TPMConfig_def by (rule jget_jobj) (simp only: fields_TPMConfig_def list.map fst_conv keys_TPMConfig)

lemma of_to_TPMConfig [json_rt]: "of_json_TPMConfig (to_json_TPMConfig c) = Some c"
  unfolding of_json_TPMConfig_def jget_TPMConfig fields_TPMConfig_def 
  by (cases c) (simp add: json_rt list_all_iff option.pred_set)

definition fields_CloudInitWriteFile :: "CloudInitWriteFile \<Rightarrow> (string \<times> json option) list" where
  "fields_CloudInitWriteFile c =
     [(''path'', Some (enc_str (wf_Path c))),
      (''content'', Some (enc_str (wf_Content c))),
      (''permissions'', unless (wf_Permissions c = []) (enc_str (wf_Permissions c))),
      (''owner'', unless (wf_Owner c = []) (enc_str (wf_Owner c))),
      (''defer'', unless (\<not> wf_Defer c) (enc_bool (wf_Defer c))),
      (''encoding'', unless (wf_Encoding c = []) (enc_str (wf_Encoding c)))]"

definition to_json_CloudInitWriteFile :: "CloudInitWriteFile \<Rightarrow> json" where
  "to_json_CloudInitWriteFile c = jobj (fields_CloudInitWriteFile c)"

definition of_json_CloudInitWriteFile :: "json \<Rightarrow> CloudInitWriteFile option" where
  "of_json_CloudInitWriteFile j = (if \<not> decodable j then None else do {
       path' \<leftarrow> dec_str (jget j ''path'');
       content' \<leftarrow> dec_str (jget j ''content'');
       permissions' \<leftarrow> dec_str (jget j ''permissions'');
       owner' \<leftarrow> dec_str (jget j ''owner'');
       defer' \<leftarrow> dec_bool (jget j ''defer'');
       encoding' \<leftarrow> dec_str (jget j ''encoding'');
       Some \<lparr>wf_Path = path', wf_Content = content', wf_Permissions = permissions',
             wf_Owner = owner', wf_Defer = defer', wf_Encoding = encoding'\<rparr>})"

lemma to_json_CloudInitWriteFile_object [simp]: "to_json_CloudInitWriteFile c \<noteq> JNull" "decodable (to_json_CloudInitWriteFile c)"
  by (simp_all add: to_json_CloudInitWriteFile_def)

lemma keys_CloudInitWriteFile: "good_keys
     [''path'', ''content'', ''permissions'', ''owner'', ''defer'', ''encoding'']"
  by code_simp

lemma jget_CloudInitWriteFile: "jget (to_json_CloudInitWriteFile c) k = Option.bind (map_of (fields_CloudInitWriteFile c) k) nonnull"
  unfolding to_json_CloudInitWriteFile_def by (rule jget_jobj) (simp only: fields_CloudInitWriteFile_def list.map fst_conv keys_CloudInitWriteFile)

lemma of_to_CloudInitWriteFile [json_rt]: "of_json_CloudInitWriteFile (to_json_CloudInitWriteFile c) = Some c"
  unfolding of_json_CloudInitWriteFile_def jget_CloudInitWriteFile fields_CloudInitWriteFile_def 
  by (cases c) (simp add: json_rt list_all_iff option.pred_set)

definition fields_CloudInitConfig :: "CloudInitConfig \<Rightarrow> (string \<times> json option) list" where
  "fields_CloudInitConfig c =
     [(''hostname'', unless (ci_Hostname c = []) (enc_str (ci_Hostname c))),
      (''user'', unless (ci_User c = []) (enc_str (ci_User c))),
      (''password'', unless (ci_Password c = []) (enc_str (ci_Password c))),
      (''default_user'', unless (ci_DefaultUser c = []) (enc_str (ci_DefaultUser c))),
      (''ssh_keys'', unless (ci_SSHKeys c = []) (enc_strs (ci_SSHKeys c))),
      (''packages'', unless (ci_Packages c = []) (enc_strs (ci_Packages c))),
      (''run_cmds'', unless (ci_RunCmds c = []) (enc_strs (ci_RunCmds c))),
      (''write_files'', unless (ci_WriteFiles c = []) (enc_list to_json_CloudInitWriteFile (ci_WriteFiles c)))]"

definition to_json_CloudInitConfig :: "CloudInitConfig \<Rightarrow> json" where
  "to_json_CloudInitConfig c = jobj (fields_CloudInitConfig c)"

definition of_json_CloudInitConfig :: "json \<Rightarrow> CloudInitConfig option" where
  "of_json_CloudInitConfig j = (if \<not> decodable j then None else do {
       hostname' \<leftarrow> dec_str (jget j ''hostname'');
       user' \<leftarrow> dec_str (jget j ''user'');
       password' \<leftarrow> dec_str (jget j ''password'');
       default_user' \<leftarrow> dec_str (jget j ''default_user'');
       ssh_keys' \<leftarrow> dec_strs (jget j ''ssh_keys'');
       packages' \<leftarrow> dec_strs (jget j ''packages'');
       run_cmds' \<leftarrow> dec_strs (jget j ''run_cmds'');
       write_files' \<leftarrow> dec_list of_json_CloudInitWriteFile (jget j ''write_files'');
       Some \<lparr>ci_Hostname = hostname', ci_User = user', ci_Password = password',
             ci_DefaultUser = default_user', ci_SSHKeys = ssh_keys', ci_Packages = packages',
             ci_RunCmds = run_cmds', ci_WriteFiles = write_files'\<rparr>})"

lemma to_json_CloudInitConfig_object [simp]: "to_json_CloudInitConfig c \<noteq> JNull" "decodable (to_json_CloudInitConfig c)"
  by (simp_all add: to_json_CloudInitConfig_def)

lemma keys_CloudInitConfig: "good_keys
     [''hostname'', ''user'', ''password'', ''default_user'', ''ssh_keys'', ''packages'',
      ''run_cmds'', ''write_files'']"
  by code_simp

lemma jget_CloudInitConfig: "jget (to_json_CloudInitConfig c) k = Option.bind (map_of (fields_CloudInitConfig c) k) nonnull"
  unfolding to_json_CloudInitConfig_def by (rule jget_jobj) (simp only: fields_CloudInitConfig_def list.map fst_conv keys_CloudInitConfig)

lemma of_to_CloudInitConfig [json_rt]: "of_json_CloudInitConfig (to_json_CloudInitConfig c) = Some c"
  unfolding of_json_CloudInitConfig_def jget_CloudInitConfig fields_CloudInitConfig_def 
  by (cases c) (simp add: json_rt list_all_iff option.pred_set)

definition fields_SeedFile :: "SeedFile \<Rightarrow> (string \<times> json option) list" where
  "fields_SeedFile c =
     [(''name'', Some (enc_str (sf_Name c))),
      (''content'', Some (enc_str (sf_Content c)))]"

definition to_json_SeedFile :: "SeedFile \<Rightarrow> json" where
  "to_json_SeedFile c = jobj (fields_SeedFile c)"

definition of_json_SeedFile :: "json \<Rightarrow> SeedFile option" where
  "of_json_SeedFile j = (if \<not> decodable j then None else do {
       name' \<leftarrow> dec_str (jget j ''name'');
       content' \<leftarrow> dec_str (jget j ''content'');
       Some \<lparr>sf_Name = name', sf_Content = content'\<rparr>})"

lemma to_json_SeedFile_object [simp]: "to_json_SeedFile c \<noteq> JNull" "decodable (to_json_SeedFile c)"
  by (simp_all add: to_json_SeedFile_def)

lemma keys_SeedFile: "good_keys
     [''name'', ''content'']"
  by code_simp

lemma jget_SeedFile: "jget (to_json_SeedFile c) k = Option.bind (map_of (fields_SeedFile c) k) nonnull"
  unfolding to_json_SeedFile_def by (rule jget_jobj) (simp only: fields_SeedFile_def list.map fst_conv keys_SeedFile)

lemma of_to_SeedFile [json_rt]: "of_json_SeedFile (to_json_SeedFile c) = Some c"
  unfolding of_json_SeedFile_def jget_SeedFile fields_SeedFile_def 
  by (cases c) (simp add: json_rt list_all_iff option.pred_set)

definition fields_ServiceEntry :: "ServiceEntry \<Rightarrow> (string \<times> json option) list" where
  "fields_ServiceEntry c =
     [(''name'', Some (enc_str (se_Name c))),
      (''port'', Some (enc_int (se_Port c))),
      (''protocol'', Some (enc_str (se_Protocol c)))]"

definition to_json_ServiceEntry :: "ServiceEntry \<Rightarrow> json" where
  "to_json_ServiceEntry c = jobj (fields_ServiceEntry c)"

definition of_json_ServiceEntry :: "json \<Rightarrow> ServiceEntry option" where
  "of_json_ServiceEntry j = (if \<not> decodable j then None else do {
       name' \<leftarrow> dec_str (jget j ''name'');
       port' \<leftarrow> dec_int (jget j ''port'');
       protocol' \<leftarrow> dec_str (jget j ''protocol'');
       Some \<lparr>se_Name = name', se_Port = port', se_Protocol = protocol'\<rparr>})"

definition ranges_ServiceEntry :: "ServiceEntry \<Rightarrow> bool" where
  "ranges_ServiceEntry c \<longleftrightarrow>
      int64 (se_Port c)"

lemma to_json_ServiceEntry_object [simp]: "to_json_ServiceEntry c \<noteq> JNull" "decodable (to_json_ServiceEntry c)"
  by (simp_all add: to_json_ServiceEntry_def)

lemma keys_ServiceEntry: "good_keys
     [''name'', ''port'', ''protocol'']"
  by code_simp

lemma jget_ServiceEntry: "jget (to_json_ServiceEntry c) k = Option.bind (map_of (fields_ServiceEntry c) k) nonnull"
  unfolding to_json_ServiceEntry_def by (rule jget_jobj) (simp only: fields_ServiceEntry_def list.map fst_conv keys_ServiceEntry)

lemma of_to_ServiceEntry [json_rt]: "ranges_ServiceEntry c \<Longrightarrow> of_json_ServiceEntry (to_json_ServiceEntry c) = Some c"
  unfolding of_json_ServiceEntry_def jget_ServiceEntry fields_ServiceEntry_def ranges_ServiceEntry_def 
  by (cases c) (simp add: json_rt list_all_iff option.pred_set)

definition fields_VMConfig :: "VMConfig \<Rightarrow> (string \<times> json option) list" where
  "fields_VMConfig c =
     [(''name'', Some (enc_str (Name c))),
      (''template'', Some (enc_str (Template c))),
      (''backend'', unless (Backend c = []) (enc_str (Backend c))),
      (''arch'', unless (Arch c = []) (enc_str (Arch c))),
      (''qemu_binary'', unless (QemuBinary c = []) (enc_str (QemuBinary c))),
      (''qemu_env'', unless (QemuEnv c = []) (enc_strs (QemuEnv c))),
      (''memory'', Some (enc_str (Memory c))),
      (''cpus'', Some (enc_int (CPUs c))),
      (''sockets'', Some (enc_int (Sockets c))),
      (''cores'', Some (enc_int (Cores c))),
      (''threads'', Some (enc_int (Threads c))),
      (''cpu_model'', Some (enc_str (CPUModel c))),
      (''cpu_flags'', unless (CPUFlags c = []) (enc_strs (CPUFlags c))),
      (''machine_type'', unless (MachineType c = []) (enc_str (MachineType c))),
      (''nested'', unless (\<not> Nested c) (enc_bool (Nested c))),
      (''globals'', unless (Globals c = []) (enc_strs (Globals c))),
      (''disks'', Some (enc_list to_json_DiskConfig (Disks c))),
      (''nic'', Some (to_json_NICConfig (NIC c))),
      (''gpu'', Some (to_json_GPUConfig (GPU c))),
      (''uefi'', Some (to_json_UEFIConfig (UEFI c))),
      (''macos'', unless (MacOS c = None) (enc_ptr to_json_MacOSConfig (MacOS c))),
      (''spice'', unless (SPICE c = None) (enc_ptr to_json_SPICEConfig (SPICE c))),
      (''virtiofs_mounts'', unless (VirtiofsMounts c = []) (enc_list to_json_VirtiofsMount (VirtiofsMounts c))),
      (''cloud_init'', unless (CloudInit c = None) (enc_ptr to_json_CloudInitConfig (CloudInit c))),
      (''seed_files'', unless (SeedFiles c = []) (enc_list to_json_SeedFile (SeedFiles c))),
      (''tpm'', unless (TPM c = None) (enc_ptr to_json_TPMConfig (TPM c))),
      (''ssh_user'', unless (SSHUser c = []) (enc_str (SSHUser c))),
      (''ssh_host'', unless (SSHHost c = []) (enc_str (SSHHost c))),
      (''ssh_share'', unless (\<not> SSHShare c) (enc_bool (SSHShare c))),
      (''vsock'', unless (\<not> Vsock c) (enc_bool (Vsock c))),
      (''vsock_cid'', unless (VsockCID c = 0) (enc_u32 (VsockCID c))),
      (''headless'', unless (\<not> Headless c) (enc_bool (Headless c))),
      (''ssh_port'', unless (SSHPort c = 0) (enc_int (SSHPort c))),
      (''guest_agent'', unless (\<not> GuestAgent c) (enc_bool (GuestAgent c))),
      (''extra_devices'', unless (ExtraDevices c = []) (enc_strs (ExtraDevices c))),
      (''install_devices'', unless (InstallDevices c = []) (enc_strs (InstallDevices c))),
      (''vga'', unless (VGA c = []) (enc_str (VGA c))),
      (''hostname'', unless (Hostname c = []) (enc_str (Hostname c))),
      (''truenas_api_key'', unless (TrueNASAPIKey c = []) (enc_str (TrueNASAPIKey c))),
      (''truenas_user'', unless (TrueNASUser c = []) (enc_str (TrueNASUser c))),
      (''vpn_provider'', unless (VPNProvider c = []) (enc_str (VPNProvider c))),
      (''services'', unless (Services c = []) (enc_list to_json_ServiceEntry (Services c))),
      (''cpu_pinning'', unless (CPUPinning c = []) (enc_ints (CPUPinning c))),
      (''rtc'', unless (RTC c = []) (enc_str (RTC c))),
      (''auto_start'', unless (\<not> AutoStart c) (enc_bool (AutoStart c))),
      (''skip_install'', unless (\<not> SkipInstall c) (enc_bool (SkipInstall c))),
      (''kernel'', unless (Kernel c = []) (enc_str (Kernel c))),
      (''cmdline'', unless (Cmdline c = []) (enc_str (Cmdline c))),
      (''initrd'', unless (Initrd c = []) (enc_str (Initrd c))),
      (''created_at'', Some (enc_time (CreatedAt c)))]"

definition to_json_VMConfig :: "VMConfig \<Rightarrow> json" where
  "to_json_VMConfig c = jobj (fields_VMConfig c)"

definition of_json_VMConfig :: "json \<Rightarrow> VMConfig option" where
  "of_json_VMConfig j = (if \<not> decodable j then None else do {
       name' \<leftarrow> dec_str (jget j ''name'');
       template' \<leftarrow> dec_str (jget j ''template'');
       backend' \<leftarrow> dec_str (jget j ''backend'');
       arch' \<leftarrow> dec_str (jget j ''arch'');
       qemu_binary' \<leftarrow> dec_str (jget j ''qemu_binary'');
       qemu_env' \<leftarrow> dec_strs (jget j ''qemu_env'');
       memory' \<leftarrow> dec_str (jget j ''memory'');
       cpus' \<leftarrow> dec_int (jget j ''cpus'');
       sockets' \<leftarrow> dec_int (jget j ''sockets'');
       cores' \<leftarrow> dec_int (jget j ''cores'');
       threads' \<leftarrow> dec_int (jget j ''threads'');
       cpu_model' \<leftarrow> dec_str (jget j ''cpu_model'');
       cpu_flags' \<leftarrow> dec_strs (jget j ''cpu_flags'');
       machine_type' \<leftarrow> dec_str (jget j ''machine_type'');
       nested' \<leftarrow> dec_bool (jget j ''nested'');
       globals' \<leftarrow> dec_strs (jget j ''globals'');
       disks' \<leftarrow> dec_list of_json_DiskConfig (jget j ''disks'');
       nic' \<leftarrow> dec_struct of_json_NICConfig (jget j ''nic'');
       gpu' \<leftarrow> dec_struct of_json_GPUConfig (jget j ''gpu'');
       uefi' \<leftarrow> dec_struct of_json_UEFIConfig (jget j ''uefi'');
       macos' \<leftarrow> dec_ptr of_json_MacOSConfig (jget j ''macos'');
       spice' \<leftarrow> dec_ptr of_json_SPICEConfig (jget j ''spice'');
       virtiofs_mounts' \<leftarrow> dec_list of_json_VirtiofsMount (jget j ''virtiofs_mounts'');
       cloud_init' \<leftarrow> dec_ptr of_json_CloudInitConfig (jget j ''cloud_init'');
       seed_files' \<leftarrow> dec_list of_json_SeedFile (jget j ''seed_files'');
       tpm' \<leftarrow> dec_ptr of_json_TPMConfig (jget j ''tpm'');
       ssh_user' \<leftarrow> dec_str (jget j ''ssh_user'');
       ssh_host' \<leftarrow> dec_str (jget j ''ssh_host'');
       ssh_share' \<leftarrow> dec_bool (jget j ''ssh_share'');
       vsock' \<leftarrow> dec_bool (jget j ''vsock'');
       vsock_cid' \<leftarrow> dec_u32 (jget j ''vsock_cid'');
       headless' \<leftarrow> dec_bool (jget j ''headless'');
       ssh_port' \<leftarrow> dec_int (jget j ''ssh_port'');
       guest_agent' \<leftarrow> dec_bool (jget j ''guest_agent'');
       extra_devices' \<leftarrow> dec_strs (jget j ''extra_devices'');
       install_devices' \<leftarrow> dec_strs (jget j ''install_devices'');
       vga' \<leftarrow> dec_str (jget j ''vga'');
       hostname' \<leftarrow> dec_str (jget j ''hostname'');
       truenas_api_key' \<leftarrow> dec_str (jget j ''truenas_api_key'');
       truenas_user' \<leftarrow> dec_str (jget j ''truenas_user'');
       vpn_provider' \<leftarrow> dec_str (jget j ''vpn_provider'');
       services' \<leftarrow> dec_list of_json_ServiceEntry (jget j ''services'');
       cpu_pinning' \<leftarrow> dec_ints (jget j ''cpu_pinning'');
       rtc' \<leftarrow> dec_str (jget j ''rtc'');
       auto_start' \<leftarrow> dec_bool (jget j ''auto_start'');
       skip_install' \<leftarrow> dec_bool (jget j ''skip_install'');
       kernel' \<leftarrow> dec_str (jget j ''kernel'');
       cmdline' \<leftarrow> dec_str (jget j ''cmdline'');
       initrd' \<leftarrow> dec_str (jget j ''initrd'');
       created_at' \<leftarrow> dec_time (jget j ''created_at'');
       Some \<lparr>Name = name', Template = template', Backend = backend', Arch = arch',
             QemuBinary = qemu_binary', QemuEnv = qemu_env', Memory = memory', CPUs = cpus',
             Sockets = sockets', Cores = cores', Threads = threads', CPUModel = cpu_model',
             CPUFlags = cpu_flags', MachineType = machine_type', Nested = nested',
             Globals = globals', Disks = disks', NIC = nic', GPU = gpu', UEFI = uefi',
             MacOS = macos', SPICE = spice', VirtiofsMounts = virtiofs_mounts',
             CloudInit = cloud_init', SeedFiles = seed_files', TPM = tpm', SSHUser = ssh_user',
             SSHHost = ssh_host', SSHShare = ssh_share', Vsock = vsock', VsockCID = vsock_cid',
             Headless = headless', SSHPort = ssh_port', GuestAgent = guest_agent',
             ExtraDevices = extra_devices', InstallDevices = install_devices', VGA = vga',
             Hostname = hostname', TrueNASAPIKey = truenas_api_key',
             TrueNASUser = truenas_user', VPNProvider = vpn_provider', Services = services',
             CPUPinning = cpu_pinning', RTC = rtc', AutoStart = auto_start',
             SkipInstall = skip_install', Kernel = kernel', Cmdline = cmdline',
             Initrd = initrd', CreatedAt = created_at'\<rparr>})"

definition ranges_VMConfig :: "VMConfig \<Rightarrow> bool" where
  "ranges_VMConfig c \<longleftrightarrow>
      int64 (CPUs c) \<and>
      int64 (Sockets c) \<and>
      int64 (Cores c) \<and>
      int64 (Threads c) \<and>
      list_all ranges_DiskConfig (Disks c) \<and>
      pred_option ranges_MacOSConfig (MacOS c) \<and>
      pred_option ranges_SPICEConfig (SPICE c) \<and>
      VsockCID c < 2 ^ 32 \<and>
      int64 (SSHPort c) \<and>
      list_all ranges_ServiceEntry (Services c) \<and>
      list_all int64 (CPUPinning c)"

definition persisted :: "VMConfig \<Rightarrow> VMConfig" where
  "persisted c = c\<lparr>GPU := persisted_GPU (GPU c)\<rparr>"

lemma to_json_VMConfig_object [simp]: "to_json_VMConfig c \<noteq> JNull" "decodable (to_json_VMConfig c)"
  by (simp_all add: to_json_VMConfig_def)

lemma keys_VMConfig: "good_keys
     [''name'', ''template'', ''backend'', ''arch'', ''qemu_binary'', ''qemu_env'', ''memory'',
      ''cpus'', ''sockets'', ''cores'', ''threads'', ''cpu_model'', ''cpu_flags'',
      ''machine_type'', ''nested'', ''globals'', ''disks'', ''nic'', ''gpu'', ''uefi'',
      ''macos'', ''spice'', ''virtiofs_mounts'', ''cloud_init'', ''seed_files'', ''tpm'',
      ''ssh_user'', ''ssh_host'', ''ssh_share'', ''vsock'', ''vsock_cid'', ''headless'',
      ''ssh_port'', ''guest_agent'', ''extra_devices'', ''install_devices'', ''vga'',
      ''hostname'', ''truenas_api_key'', ''truenas_user'', ''vpn_provider'', ''services'',
      ''cpu_pinning'', ''rtc'', ''auto_start'', ''skip_install'', ''kernel'', ''cmdline'',
      ''initrd'', ''created_at'']"
  by code_simp

lemma jget_VMConfig: "jget (to_json_VMConfig c) k = Option.bind (map_of (fields_VMConfig c) k) nonnull"
  unfolding to_json_VMConfig_def by (rule jget_jobj) (simp only: fields_VMConfig_def list.map fst_conv keys_VMConfig)

lemma of_to_VMConfig [json_rt]: "ranges_VMConfig c \<Longrightarrow> of_json_VMConfig (to_json_VMConfig c) = Some (persisted c)"
  unfolding of_json_VMConfig_def jget_VMConfig fields_VMConfig_def ranges_VMConfig_def persisted_def 
  by (cases c) (simp add: json_rt list_all_iff option.pred_set)

definition fields_HealthCheck :: "HealthCheck \<Rightarrow> (string \<times> json option) list" where
  "fields_HealthCheck c =
     [(''name'', Some (enc_str (hc_Name c))),
      (''ok'', Some (enc_bool (hc_OK c))),
      (''detail'', unless (hc_Detail c = []) (enc_str (hc_Detail c)))]"

definition to_json_HealthCheck :: "HealthCheck \<Rightarrow> json" where
  "to_json_HealthCheck c = jobj (fields_HealthCheck c)"

definition of_json_HealthCheck :: "json \<Rightarrow> HealthCheck option" where
  "of_json_HealthCheck j = (if \<not> decodable j then None else do {
       name' \<leftarrow> dec_str (jget j ''name'');
       ok' \<leftarrow> dec_bool (jget j ''ok'');
       detail' \<leftarrow> dec_str (jget j ''detail'');
       Some \<lparr>hc_Name = name', hc_OK = ok', hc_Detail = detail'\<rparr>})"

lemma to_json_HealthCheck_object [simp]: "to_json_HealthCheck c \<noteq> JNull" "decodable (to_json_HealthCheck c)"
  by (simp_all add: to_json_HealthCheck_def)

lemma keys_HealthCheck: "good_keys
     [''name'', ''ok'', ''detail'']"
  by code_simp

lemma jget_HealthCheck: "jget (to_json_HealthCheck c) k = Option.bind (map_of (fields_HealthCheck c) k) nonnull"
  unfolding to_json_HealthCheck_def by (rule jget_jobj) (simp only: fields_HealthCheck_def list.map fst_conv keys_HealthCheck)

lemma of_to_HealthCheck [json_rt]: "of_json_HealthCheck (to_json_HealthCheck c) = Some c"
  unfolding of_json_HealthCheck_def jget_HealthCheck fields_HealthCheck_def 
  by (cases c) (simp add: json_rt list_all_iff option.pred_set)

definition fields_VMState :: "VMState \<Rightarrow> (string \<times> json option) list" where
  "fields_VMState c =
     [(''pid'', unless (PID c = 0) (enc_int (PID c))),
      (''backend'', unless (st_Backend c = []) (enc_str (st_Backend c))),
      (''qmp_socket'', unless (QMPSocket c = []) (enc_str (QMPSocket c))),
      (''qga_socket'', unless (QGASocket c = []) (enc_str (QGASocket c))),
      (''control_socket'', unless (ControlSocket c = []) (enc_str (ControlSocket c))),
      (''lease_baseline'', unless (LeaseBaseline c = 0) (enc_u64 (LeaseBaseline c))),
      (''spice_port'', unless (SPICEPort c = 0) (enc_int (SPICEPort c))),
      (''ssh_port'', unless (st_SSHPort c = 0) (enc_int (st_SSHPort c))),
      (''virtiofsd_pids'', unless (VirtiofsdPIDs c = []) (enc_ints (VirtiofsdPIDs c))),
      (''started_at'', unless (StartedAt c = None) (enc_ptime (StartedAt c))),
      (''running'', Some (enc_bool (Running c))),
      (''install_state'', unless (InstallState c = []) (enc_str (InstallState c))),
      (''installed_at'', unless (InstalledAt c = None) (enc_ptime (InstalledAt c))),
      (''desired_state'', unless (DesiredState c = []) (enc_str (DesiredState c))),
      (''last_shutdown_reason'', unless (LastShutdownReason c = []) (enc_str (LastShutdownReason c))),
      (''boot_phase'', unless (BootPhase c = []) (enc_str (BootPhase c))),
      (''phase_started_at'', unless (PhaseStartedAt c = None) (enc_ptime (PhaseStartedAt c))),
      (''last_panic_line'', unless (LastPanicLine c = []) (enc_str (LastPanicLine c))),
      (''post_install_checks'', unless (PostInstallChecks c = []) (enc_list to_json_HealthCheck (PostInstallChecks c))),
      (''post_install_checked_at'', unless (PostInstallCheckedAt c = None) (enc_ptime (PostInstallCheckedAt c)))]"

definition to_json_VMState :: "VMState \<Rightarrow> json" where
  "to_json_VMState c = jobj (fields_VMState c)"

definition of_json_VMState :: "json \<Rightarrow> VMState option" where
  "of_json_VMState j = (if \<not> decodable j then None else do {
       pid' \<leftarrow> dec_int (jget j ''pid'');
       backend' \<leftarrow> dec_str (jget j ''backend'');
       qmp_socket' \<leftarrow> dec_str (jget j ''qmp_socket'');
       qga_socket' \<leftarrow> dec_str (jget j ''qga_socket'');
       control_socket' \<leftarrow> dec_str (jget j ''control_socket'');
       lease_baseline' \<leftarrow> dec_u64 (jget j ''lease_baseline'');
       spice_port' \<leftarrow> dec_int (jget j ''spice_port'');
       ssh_port' \<leftarrow> dec_int (jget j ''ssh_port'');
       virtiofsd_pids' \<leftarrow> dec_ints (jget j ''virtiofsd_pids'');
       started_at' \<leftarrow> dec_ptime (jget j ''started_at'');
       running' \<leftarrow> dec_bool (jget j ''running'');
       install_state' \<leftarrow> dec_str (jget j ''install_state'');
       installed_at' \<leftarrow> dec_ptime (jget j ''installed_at'');
       desired_state' \<leftarrow> dec_str (jget j ''desired_state'');
       last_shutdown_reason' \<leftarrow> dec_str (jget j ''last_shutdown_reason'');
       boot_phase' \<leftarrow> dec_str (jget j ''boot_phase'');
       phase_started_at' \<leftarrow> dec_ptime (jget j ''phase_started_at'');
       last_panic_line' \<leftarrow> dec_str (jget j ''last_panic_line'');
       post_install_checks' \<leftarrow> dec_list of_json_HealthCheck (jget j ''post_install_checks'');
       post_install_checked_at' \<leftarrow> dec_ptime (jget j ''post_install_checked_at'');
       Some \<lparr>PID = pid', st_Backend = backend', QMPSocket = qmp_socket',
             QGASocket = qga_socket', ControlSocket = control_socket',
             LeaseBaseline = lease_baseline', SPICEPort = spice_port', st_SSHPort = ssh_port',
             VirtiofsdPIDs = virtiofsd_pids', StartedAt = started_at', Running = running',
             InstallState = install_state', InstalledAt = installed_at',
             DesiredState = desired_state', LastShutdownReason = last_shutdown_reason',
             BootPhase = boot_phase', PhaseStartedAt = phase_started_at',
             LastPanicLine = last_panic_line', PostInstallChecks = post_install_checks',
             PostInstallCheckedAt = post_install_checked_at'\<rparr>})"

definition ranges_VMState :: "VMState \<Rightarrow> bool" where
  "ranges_VMState c \<longleftrightarrow>
      int64 (PID c) \<and>
      LeaseBaseline c < 2 ^ 64 \<and>
      int64 (SPICEPort c) \<and>
      int64 (st_SSHPort c) \<and>
      list_all int64 (VirtiofsdPIDs c)"

lemma to_json_VMState_object [simp]: "to_json_VMState c \<noteq> JNull" "decodable (to_json_VMState c)"
  by (simp_all add: to_json_VMState_def)

lemma keys_VMState: "good_keys
     [''pid'', ''backend'', ''qmp_socket'', ''qga_socket'', ''control_socket'',
      ''lease_baseline'', ''spice_port'', ''ssh_port'', ''virtiofsd_pids'', ''started_at'',
      ''running'', ''install_state'', ''installed_at'', ''desired_state'',
      ''last_shutdown_reason'', ''boot_phase'', ''phase_started_at'', ''last_panic_line'',
      ''post_install_checks'', ''post_install_checked_at'']"
  by code_simp

lemma jget_VMState: "jget (to_json_VMState c) k = Option.bind (map_of (fields_VMState c) k) nonnull"
  unfolding to_json_VMState_def by (rule jget_jobj) (simp only: fields_VMState_def list.map fst_conv keys_VMState)

lemma of_to_VMState [json_rt]: "ranges_VMState c \<Longrightarrow> of_json_VMState (to_json_VMState c) = Some c"
  unfolding of_json_VMState_def jget_VMState fields_VMState_def ranges_VMState_def 
  by (cases c) (simp add: json_rt list_all_iff option.pred_set)

end
