(* ===== verification/Store.thy ===== *)
theory Store
  imports Json
begin

text \<open>
  \<open>internal/vm/store.go\<close>, \<open>internal/vm/db.go\<close>, the schema and the migration of \<open>internal/db\<close>,
  and the store methods of \<open>Manager\<close> (\<open>internal/vm/manager.go\<close>): where configurations and states
  live, in a directory per VM or in the tables \<open>vms\<close> and \<open>vm_states\<close>.

  File and column contents have the type variable \<open>'b\<close>.  The YAML library and the text form of JSON
  are the fields of a \<open>Codec\<close>; what the code relies on is \<open>codec_laws\<close>.  A file system records the
  directories, the files, and the paths that cannot be written.  The database is its two tables
  with the statements' effects: primary keys, upserts, \<open>INSERT OR IGNORE\<close>, the foreign key of
  \<open>vm_states\<close> and its cascade.
\<close>

record 'b Codec =
  yaml_Marshal :: "VMConfig \<Rightarrow> 'b"
  yaml_Unmarshal :: "'b \<Rightarrow> VMConfig option"
  yaml_any :: "'b \<Rightarrow> json option"
  json_text :: "json \<Rightarrow> 'b"
  json_parse :: "'b \<Rightarrow> json option"

definition codec_laws :: "'b Codec \<Rightarrow> bool" where
  "codec_laws C \<longleftrightarrow>
     (\<forall>c. ranges_VMConfig c \<longrightarrow> yaml_Unmarshal C (yaml_Marshal C c) = Some (persisted c)) \<and>
     (\<forall>j. json_parse C (json_text C j) = Some j)"

datatype store_error = IOError | NotFound string | BadDocument | ForeignKey

subsection \<open>store.go: files\<close>

record 'b FS =
  fs_files :: "string \<rightharpoonup> 'b"
  fs_dirs :: "string list"
  fs_broken :: "string \<Rightarrow> bool"

definition configFile :: string where "configFile = ''vm.yaml''"

definition stateFile :: string where "stateFile = ''state.json''"

definition tmpName :: "string \<Rightarrow> string" where "tmpName path = path @ ''.tmp''"

definition MkdirAll :: "'b FS \<Rightarrow> string \<Rightarrow> 'b FS \<times> store_error option" where
  "MkdirAll fs dir =
     (if fs_broken fs dir then (fs, Some IOError)
      else (fs\<lparr>fs_dirs := List.insert dir (fs_dirs fs)\<rparr>, None))"

definition WriteFile :: "'b FS \<Rightarrow> string \<Rightarrow> 'b \<Rightarrow> 'b FS \<times> store_error option" where
  "WriteFile fs path data =
     (if fs_broken fs path \<or> PathDir path \<notin> set (fs_dirs fs) then (fs, Some IOError)
      else (fs\<lparr>fs_files := (fs_files fs)(path \<mapsto> data)\<rparr>, None))"

definition Rename :: "'b FS \<Rightarrow> string \<Rightarrow> string \<Rightarrow> 'b FS \<times> store_error option" where
  "Rename fs old new =
     (case fs_files fs old of
        None \<Rightarrow> (fs, Some IOError)
      | Some data \<Rightarrow> if fs_broken fs new then (fs, Some IOError)
                     else (fs\<lparr>fs_files := (fs_files fs)(old := None, new \<mapsto> data)\<rparr>, None))"

definition atomicWrite :: "'b FS \<Rightarrow> string \<Rightarrow> 'b \<Rightarrow> 'b FS \<times> store_error option" where
  "atomicWrite fs path data =
     (case WriteFile fs (tmpName path) data of
        (fs1, Some e) \<Rightarrow> (fs1, Some e)
      | (fs1, None) \<Rightarrow> Rename fs1 (tmpName path) path)"

definition configPath :: "string \<Rightarrow> string \<Rightarrow> string" where
  "configPath storagePath nm = PathJoin [vmDir storagePath nm, configFile]"

definition statePath :: "string \<Rightarrow> string \<Rightarrow> string" where
  "statePath storagePath nm = PathJoin [vmDir storagePath nm, stateFile]"

definition SaveConfig :: "'b Codec \<Rightarrow> string \<Rightarrow> 'b FS \<Rightarrow> VMConfig \<Rightarrow> 'b FS \<times> store_error option" where
  "SaveConfig C storagePath fs cfg =
     (case MkdirAll fs (vmDir storagePath (Name cfg)) of
        (fs1, Some e) \<Rightarrow> (fs1, Some e)
      | (fs1, None) \<Rightarrow> atomicWrite fs1 (configPath storagePath (Name cfg)) (yaml_Marshal C cfg))"

definition LoadConfig :: "'b Codec \<Rightarrow> string \<Rightarrow> 'b FS \<Rightarrow> string \<Rightarrow> (store_error, VMConfig) result" where
  "LoadConfig C storagePath fs nm =
     (case fs_files fs (configPath storagePath nm) of
        None \<Rightarrow> Inl IOError
      | Some data \<Rightarrow> (case yaml_Unmarshal C data of None \<Rightarrow> Inl BadDocument | Some cfg \<Rightarrow> Inr cfg))"

definition SaveStateForVM ::
  "'b Codec \<Rightarrow> string \<Rightarrow> 'b FS \<Rightarrow> string \<Rightarrow> VMState \<Rightarrow> 'b FS \<times> store_error option" where
  "SaveStateForVM C storagePath fs nm st =
     atomicWrite fs (statePath storagePath nm) (json_text C (to_json_VMState st))"

definition decode_state :: "'b Codec \<Rightarrow> 'b \<Rightarrow> (store_error, VMState) result" where
  "decode_state C data =
     (case Option.bind (json_parse C data) of_json_VMState of None \<Rightarrow> Inl BadDocument | Some st \<Rightarrow> Inr st)"

definition LoadState :: "'b Codec \<Rightarrow> string \<Rightarrow> 'b FS \<Rightarrow> string \<Rightarrow> (store_error, VMState) result" where
  "LoadState C storagePath fs nm =
     (case fs_files fs (statePath storagePath nm) of
        None \<Rightarrow> Inr VMState_zero
      | Some data \<Rightarrow> decode_state C data)"

definition ClearState :: "string \<Rightarrow> 'b FS \<Rightarrow> string \<Rightarrow> 'b FS" where
  "ClearState storagePath fs nm = fs\<lparr>fs_files := (fs_files fs)(statePath storagePath nm := None)\<rparr>"

text \<open>\<open>os.ReadDir\<close>: the names of the directories right below the storage path, sorted.\<close>

definition ReadDirNames :: "string \<Rightarrow> 'b FS \<Rightarrow> string list" where
  "ReadDirNames storagePath fs =
     sort (map PathBase (filter (\<lambda>d. PathDir d = Clean storagePath) (fs_dirs fs)))"

definition ListAll :: "'b Codec \<Rightarrow> string \<Rightarrow> 'b FS \<Rightarrow> VMConfig list" where
  "ListAll C storagePath fs =
     List.map_filter (\<lambda>nm. case LoadConfig C storagePath fs nm of Inl e \<Rightarrow> None | Inr cfg \<Rightarrow> Some cfg)
       (ReadDirNames storagePath fs)"

text \<open>Writers that run at the same time, in one process or in several (the daemon and a command
  line): each goes through the two system calls of \<open>atomicWrite\<close>, and a write may be seen, or
  interrupted by a crash, with the temporary file holding any partial content.\<close>

datatype writer_pc = AtWrite | AtRename | Finished "store_error option"

record 'b Writer =
  w_path :: string
  w_data :: 'b
  w_pc :: writer_pc

definition after_write :: "store_error option \<Rightarrow> writer_pc" where
  "after_write e = (if e = None then AtRename else Finished e)"

inductive write_step :: "'b FS \<times> 'b Writer list \<Rightarrow> 'b FS \<times> 'b Writer list \<Rightarrow> bool" where
  torn: "i < length ws \<Longrightarrow> w_pc (ws ! i) = AtWrite \<Longrightarrow>
    write_step (fs, ws) (fst (WriteFile fs (tmpName (w_path (ws ! i))) part), ws)"
| written: "i < length ws \<Longrightarrow> w_pc (ws ! i) = AtWrite \<Longrightarrow>
    WriteFile fs (tmpName (w_path (ws ! i))) (w_data (ws ! i)) = (fs', e) \<Longrightarrow>
    write_step (fs, ws) (fs', ws[i := (ws ! i)\<lparr>w_pc := after_write e\<rparr>])"
| renamed: "i < length ws \<Longrightarrow> w_pc (ws ! i) = AtRename \<Longrightarrow>
    Rename fs (tmpName (w_path (ws ! i))) (w_path (ws ! i)) = (fs', e) \<Longrightarrow>
    write_step (fs, ws) (fs', ws[i := (ws ! i)\<lparr>w_pc := Finished e\<rparr>])"

subsection \<open>db.go: the database\<close>

record 'b VmRow =
  r_template :: string
  r_config_json :: 'b
  r_created_at :: time

record 'b StateRow =
  r_running :: int
  r_pid :: int
  r_ssh_port :: int
  r_state_json :: 'b

record 'b DB =
  vms :: "(string \<times> 'b VmRow) list"
  vm_states :: "(string \<times> 'b StateRow) list"

text \<open>\<open>INSERT ... ON CONFLICT(key) DO UPDATE\<close>, rows in insertion order.\<close>

fun row_upsert :: "string \<Rightarrow> 'r \<Rightarrow> ('r \<Rightarrow> 'r) \<Rightarrow> (string \<times> 'r) list \<Rightarrow> (string \<times> 'r) list" where
  "row_upsert k r upd [] = [(k, r)]"
| "row_upsert k r upd ((k', r') # rows) =
     (if k' = k then (k', upd r') # rows else (k', r') # row_upsert k r upd rows)"

definition row_delete :: "string \<Rightarrow> (string \<times> 'r) list \<Rightarrow> (string \<times> 'r) list" where
  "row_delete k rows = filter (\<lambda>(k', r). k' \<noteq> k) rows"

definition dbSaveConfig :: "'b Codec \<Rightarrow> 'b DB \<Rightarrow> VMConfig \<Rightarrow> 'b DB" where
  "dbSaveConfig C db cfg =
     (let data = json_text C (to_json_VMConfig cfg) in
      db\<lparr>vms := row_upsert (Name cfg)
                  \<lparr>r_template = Template cfg, r_config_json = data, r_created_at = CreatedAt cfg\<rparr>
                  (\<lambda>r. r\<lparr>r_template := Template cfg, r_config_json := data\<rparr>) (vms db)\<rparr>)"

definition decode_config :: "'b Codec \<Rightarrow> 'b \<Rightarrow> (store_error, VMConfig) result" where
  "decode_config C data =
     (case Option.bind (json_parse C data) of_json_VMConfig of None \<Rightarrow> Inl BadDocument | Some cfg \<Rightarrow> Inr cfg)"

definition dbLoadConfig :: "'b Codec \<Rightarrow> 'b DB \<Rightarrow> string \<Rightarrow> (store_error, VMConfig) result" where
  "dbLoadConfig C db nm =
     (case map_of (vms db) nm of
        None \<Rightarrow> Inl (NotFound nm)
      | Some r \<Rightarrow> decode_config C (r_config_json r))"

definition dbSaveState :: "'b Codec \<Rightarrow> 'b DB \<Rightarrow> string \<Rightarrow> VMState \<Rightarrow> 'b DB \<times> store_error option" where
  "dbSaveState C db nm st =
     (let row = \<lparr>r_running = (if Running st then 1 else 0), r_pid = PID st, r_ssh_port = st_SSHPort st,
                 r_state_json = json_text C (to_json_VMState st)\<rparr> in
      if nm \<notin> fst ` set (vms db) then (db, Some ForeignKey)
      else (db\<lparr>vm_states := row_upsert nm row (\<lambda>_. row) (vm_states db)\<rparr>, None))"

definition dbLoadState :: "'b Codec \<Rightarrow> 'b DB \<Rightarrow> string \<Rightarrow> (store_error, VMState) result" where
  "dbLoadState C db nm =
     (case map_of (vm_states db) nm of
        None \<Rightarrow> Inr VMState_zero
      | Some r \<Rightarrow> decode_state C (r_state_json r))"

definition dbListAll :: "'b Codec \<Rightarrow> 'b DB \<Rightarrow> VMConfig list" where
  "dbListAll C db =
     List.map_filter (\<lambda>(nm, r). case decode_config C (r_config_json r) of Inl e \<Rightarrow> None | Inr cfg \<Rightarrow> Some cfg)
       (sort_key (\<lambda>(nm, r). r_created_at r) (vms db))"

definition dbDeleteVM :: "'b DB \<Rightarrow> string \<Rightarrow> 'b DB" where
  "dbDeleteVM db nm = db\<lparr>vms := row_delete nm (vms db), vm_states := row_delete nm (vm_states db)\<rparr>"

definition dbEnsureVM :: "'b Codec \<Rightarrow> time \<Rightarrow> 'b DB \<Rightarrow> string \<Rightarrow> string \<Rightarrow> 'b DB" where
  "dbEnsureVM C now db nm template =
     db\<lparr>vms := row_upsert nm
                 \<lparr>r_template = template, r_config_json = json_text C (JObj []), r_created_at = now\<rparr>
                 (\<lambda>r. r) (vms db)\<rparr>"

subsection \<open>internal/db: the migration from files\<close>

definition json_bool :: "json option \<Rightarrow> bool" where
  "json_bool v = (v = Some (JBool True))"

definition json_int :: "json option \<Rightarrow> int" where
  "json_int v = (case v of Some (JInt i) \<Rightarrow> i | _ \<Rightarrow> 0)"

definition map_index :: "json option \<Rightarrow> string \<Rightarrow> json option" where
  "map_index v k = (case v of Some (JObj fs) \<Rightarrow> map_of (rev fs) k | _ \<Rightarrow> None)"

text \<open>\<open>yamlToJSON\<close>: the document, its template and its creation time; a \<open>created_at\<close> that is not a
  text or does not parse gives the present.\<close>

definition yamlToJSON ::
  "'b Codec \<Rightarrow> (string \<Rightarrow> time option) \<Rightarrow> time \<Rightarrow> 'b \<Rightarrow> ('b \<times> string \<times> time) option" where
  "yamlToJSON C parseTime now data =
     (case yaml_any C data of
        None \<Rightarrow> None
      | Some raw \<Rightarrow>
          let template = (case map_index (Some raw) ''template'' of Some (JStr t) \<Rightarrow> t | _ \<Rightarrow> []);
              createdAt = (case map_index (Some raw) ''created_at'' of
                             Some (JStr s) \<Rightarrow> (case parseTime s of None \<Rightarrow> now | Some t \<Rightarrow> t)
                           | _ \<Rightarrow> now)
          in Some (json_text C raw, template, createdAt))"

definition migrated_rows ::
  "'b Codec \<Rightarrow> (string \<Rightarrow> time option) \<Rightarrow> time \<Rightarrow> string \<Rightarrow> 'b FS \<Rightarrow> string \<Rightarrow> ('b VmRow \<times> 'b StateRow) option" where
  "migrated_rows C parseTime now storagePath fs nm =
     (case Option.bind (fs_files fs (configPath storagePath nm)) (yamlToJSON C parseTime now) of
        None \<Rightarrow> None
      | Some (cfgJSON, template, createdAt) \<Rightarrow>
          let stateData = (case fs_files fs (statePath storagePath nm) of
                             None \<Rightarrow> json_text C (JObj [(''running'', JBool False)])
                           | Some d \<Rightarrow> d);
              stateMap = json_parse C stateData
          in Some (\<lparr>r_template = template, r_config_json = cfgJSON, r_created_at = createdAt\<rparr>,
                   \<lparr>r_running = (if json_bool (map_index stateMap ''running'') then 1 else 0),
                    r_pid = json_int (map_index stateMap ''pid''),
                    r_ssh_port = json_int (map_index stateMap ''ssh_port''),
                    r_state_json = stateData\<rparr>))"

definition migrate_entry ::
  "'b Codec \<Rightarrow> (string \<Rightarrow> time option) \<Rightarrow> time \<Rightarrow> string \<Rightarrow> 'b FS \<Rightarrow> string \<Rightarrow> 'b DB \<Rightarrow> 'b DB" where
  "migrate_entry C parseTime now storagePath fs nm db =
     (case migrated_rows C parseTime now storagePath fs nm of
        None \<Rightarrow> db
      | Some (r, q) \<Rightarrow> db\<lparr>vms := row_upsert nm r (\<lambda>r. r) (vms db),
                          vm_states := row_upsert nm q (\<lambda>r. r) (vm_states db)\<rparr>)"

definition migrateFromYAML ::
  "'b Codec \<Rightarrow> (string \<Rightarrow> time option) \<Rightarrow> time \<Rightarrow> string \<Rightarrow> 'b FS \<Rightarrow> 'b DB \<Rightarrow> 'b DB" where
  "migrateFromYAML C parseTime now storagePath fs db =
     fold (migrate_entry C parseTime now storagePath fs) (ReadDirNames storagePath fs) db"

subsection \<open>manager.go: the store of a Manager\<close>

text \<open>\<open>DBStore\<close> where \<open>m.db\<close> is set, \<open>FileStore\<close> where it is nil.\<close>

datatype 'b Store = DBStore "'b DB" | FileStore "'b FS"

definition m_saveConfig :: "'b Codec \<Rightarrow> string \<Rightarrow> 'b Store \<Rightarrow> VMConfig \<Rightarrow> 'b Store \<times> store_error option" where
  "m_saveConfig C storagePath s cfg =
     (case s of
        DBStore db \<Rightarrow> (DBStore (dbSaveConfig C db cfg), None)
      | FileStore fs \<Rightarrow> map_prod FileStore id (SaveConfig C storagePath fs cfg))"

definition m_loadConfig :: "'b Codec \<Rightarrow> string \<Rightarrow> 'b Store \<Rightarrow> string \<Rightarrow> (store_error, VMConfig) result" where
  "m_loadConfig C storagePath s nm =
     (case s of DBStore db \<Rightarrow> dbLoadConfig C db nm | FileStore fs \<Rightarrow> LoadConfig C storagePath fs nm)"

definition m_saveState ::
  "'b Codec \<Rightarrow> string \<Rightarrow> time \<Rightarrow> 'b Store \<Rightarrow> string \<Rightarrow> VMState \<Rightarrow> 'b Store \<times> store_error option" where
  "m_saveState C storagePath now s nm st =
     (case s of
        DBStore db \<Rightarrow> map_prod DBStore id (dbSaveState C (dbEnsureVM C now db nm []) nm st)
      | FileStore fs \<Rightarrow> map_prod FileStore id (SaveStateForVM C storagePath fs nm st))"

definition m_loadState :: "'b Codec \<Rightarrow> string \<Rightarrow> 'b Store \<Rightarrow> string \<Rightarrow> (store_error, VMState) result" where
  "m_loadState C storagePath s nm =
     (case s of DBStore db \<Rightarrow> dbLoadState C db nm | FileStore fs \<Rightarrow> LoadState C storagePath fs nm)"

definition listAllConfigs :: "'b Codec \<Rightarrow> string \<Rightarrow> 'b Store \<Rightarrow> VMConfig list" where
  "listAllConfigs C storagePath s =
     (case s of DBStore db \<Rightarrow> dbListAll C db | FileStore fs \<Rightarrow> ListAll C storagePath fs)"

definition SetAutoStart ::
  "'b Codec \<Rightarrow> string \<Rightarrow> 'b Store \<Rightarrow> string \<Rightarrow> bool \<Rightarrow> 'b Store \<times> store_error option" where
  "SetAutoStart C storagePath s nm enabled =
     (case m_loadConfig C storagePath s nm of
        Inl e \<Rightarrow> (s, Some e)
      | Inr cfg \<Rightarrow> m_saveConfig C storagePath s (cfg\<lparr>AutoStart := enabled\<rparr>))"

definition ListAutoStart :: "'b Codec \<Rightarrow> string \<Rightarrow> 'b Store \<Rightarrow> VMConfig list" where
  "ListAutoStart C storagePath s = filter AutoStart (listAllConfigs C storagePath s)"

subsection \<open>Lemmas: rows\<close>

lemma map_of_row_upsert:
  "map_of (row_upsert k r upd rows) =
   (map_of rows)(k \<mapsto> (case map_of rows k of None \<Rightarrow> r | Some r' \<Rightarrow> upd r'))"
  by (induction rows) (auto split: option.splits)

lemma map_fst_row_upsert:
  "map fst (row_upsert k r upd rows) =
   (if k \<in> fst ` set rows then map fst rows else map fst rows @ [k])"
  by (induction k r upd rows rule: row_upsert.induct) auto

lemma keys_row_upsert: "fst ` set (row_upsert k r upd rows) = insert k (fst ` set rows)"
proof -
  have "fst ` set (row_upsert k r upd rows) = set (map fst (row_upsert k r upd rows))" by simp
  then show ?thesis unfolding map_fst_row_upsert by auto
qed

lemma distinct_row_upsert:
  "distinct (map fst rows) \<Longrightarrow> distinct (map fst (row_upsert k r upd rows))"
  by (auto simp: map_fst_row_upsert)

lemma map_of_row_delete: "map_of (row_delete k rows) = (map_of rows)(k := None)"
  by (induction rows) (auto simp: row_delete_def fun_eq_iff)

lemma distinct_row_delete: "distinct (map fst rows) \<Longrightarrow> distinct (map fst (row_delete k rows))"
  by (simp add: row_delete_def distinct_map_filter)

lemma decode_rt:
  "codec_laws C \<Longrightarrow> ranges_VMConfig cfg \<Longrightarrow>
     decode_config C (json_text C (to_json_VMConfig cfg)) = Inr (persisted cfg)"
  "codec_laws C \<Longrightarrow> ranges_VMState st \<Longrightarrow> decode_state C (json_text C (to_json_VMState st)) = Inr st"
  by (simp_all add: codec_laws_def decode_config_def decode_state_def json_rt)

definition db_lookup :: "'b Codec \<Rightarrow> 'b DB \<Rightarrow> string \<Rightarrow> VMConfig option" where
  "db_lookup C db nm = (case dbLoadConfig C db nm of Inl e \<Rightarrow> None | Inr cfg \<Rightarrow> Some cfg)"

definition db_wf :: "'b Codec \<Rightarrow> 'b DB \<Rightarrow> bool" where
  "db_wf C db \<longleftrightarrow> codec_laws C \<and> distinct (map fst (vms db)) \<and> distinct (map fst (vm_states db)) \<and>
     fst ` set (vm_states db) \<subseteq> fst ` set (vms db)"

definition storable :: "VMConfig \<Rightarrow> bool" where
  "storable cfg \<longleftrightarrow> ranges_VMConfig cfg \<and> persisted cfg = cfg"

lemma keys_row_delete: "fst ` set (row_delete k rows) = fst ` set rows - {k}"
  by (auto simp: row_delete_def)

lemma decode_row: "(case decode_config C d of Inl e \<Rightarrow> None | Inr cfg \<Rightarrow> Some cfg) = Some cfg \<longleftrightarrow> decode_config C d = Inr cfg"
  by (cases "decode_config C d") auto

lemma dbLoadConfig_save:
  assumes "codec_laws C" and "ranges_VMConfig cfg"
  shows "dbLoadConfig C (dbSaveConfig C db cfg) n = (if n = Name cfg then Inr (persisted cfg) else dbLoadConfig C db n)"
  using decode_rt(1) [OF assms]
  by (auto simp: dbLoadConfig_def dbSaveConfig_def Let_def map_of_row_upsert split: option.splits)

lemma dbLoadConfig_delete: "dbLoadConfig C (dbDeleteVM db k) n = (if n = k then Inl (NotFound k) else dbLoadConfig C db n)"
  by (auto simp: dbLoadConfig_def dbDeleteVM_def map_of_row_delete)

interpretation db_configs: keyed_table "db_wf C" storable Name "db_lookup C" "dbSaveConfig C" dbDeleteVM
proof
  show "db_wf C (dbSaveConfig C t v)" if "db_wf C t" "storable v" for t v
    using that by (auto simp: db_wf_def dbSaveConfig_def Let_def distinct_row_upsert keys_row_upsert)
  show "db_wf C (dbDeleteVM t k)" if "db_wf C t" for t k
    using that by (auto simp: db_wf_def dbDeleteVM_def distinct_row_delete keys_row_delete)
  show "db_lookup C (dbSaveConfig C t v) = (db_lookup C t)(Name v \<mapsto> v)" if "db_wf C t" "storable v" for t v
    using that by (auto simp: fun_eq_iff db_lookup_def db_wf_def storable_def dbLoadConfig_save)
  show "db_lookup C (dbDeleteVM t k) = (db_lookup C t)(k := None)" if "db_wf C t" for t k
    by (auto simp: fun_eq_iff db_lookup_def dbLoadConfig_delete)
qed

lemma dbSaveState_ok:
  assumes "codec_laws C" and "ranges_VMState st" and "dbSaveState C db nm st = (db', None)"
  shows "dbLoadState C db' n = (if n = nm then Inr st else dbLoadState C db n)" "vms db' = vms db"
  using assms decode_rt(2) [OF assms(1,2)]
  by (auto simp: dbLoadState_def dbSaveState_def Let_def map_of_row_upsert split: if_splits option.splits)

lemma dbEnsureVM_vms:
  "nm \<in> fst ` set (vms db) \<Longrightarrow> map_of (vms (dbEnsureVM C now db nm t)) = map_of (vms db)"
  "nm \<in> fst ` set (vms (dbEnsureVM C now db nm t))" "vm_states (dbEnsureVM C now db nm t) = vm_states db"
proof -
  assume "nm \<in> fst ` set (vms db)"
  then obtain r where "map_of (vms db) nm = Some r" by (metis map_of_eq_None_iff option.exhaust)
  then show "map_of (vms (dbEnsureVM C now db nm t)) = map_of (vms db)"
    by (simp add: dbEnsureVM_def map_of_row_upsert fun_upd_idem)
qed (simp_all add: dbEnsureVM_def keys_row_upsert)

subsection \<open>Lemmas: files\<close>

lemma tmp_plain: "plain_comp configFile" "plain_comp stateFile" "configFile \<noteq> stateFile"
  "plain_comp (configFile @ ''.tmp'')" "plain_comp (stateFile @ ''.tmp'')"
  by (simp_all add: configFile_def stateFile_def plain_comp_def)

definition vm_path :: "string \<Rightarrow> string \<Rightarrow> string \<Rightarrow> string" where
  "vm_path storagePath nm f = abs_path (root_comps storagePath @ [nm, f])"

lemma store_paths:
  assumes "IsAbs storagePath" and "plain_comp nm"
  shows "configPath storagePath nm = vm_path storagePath nm configFile"
    and "statePath storagePath nm = vm_path storagePath nm stateFile"
  using assms root_comps_plain [of storagePath] abs_path_Join [of "root_comps storagePath @ [nm]"]
  by (simp_all add: configPath_def statePath_def vmDir_def vm_path_def PathJoin_abs tmp_plain)

lemma tmp_vm_path: "tmpName (vm_path storagePath nm f) = vm_path storagePath nm (f @ ''.tmp'')"
  using abs_path_append [of "root_comps storagePath @ [nm]" f "''.tmp''"] by (simp add: vm_path_def tmpName_def)

lemma vm_path_inj:
  assumes "plain_comp n" "plain_comp m" "plain_comp f" "plain_comp g"
  shows "vm_path storagePath n f = vm_path storagePath m g \<longleftrightarrow> n = m \<and> f = g"
  using assms root_comps_plain [of storagePath] by (simp add: vm_path_def abs_path_inj)

lemma PathDir_vm_path:
  assumes "IsAbs storagePath" "plain_comp nm" "plain_comp f"
  shows "PathDir (vm_path storagePath nm f) = vmDir storagePath nm"
  using assms root_comps_plain [of storagePath] PathDir_abs_path [of "root_comps storagePath @ [nm]" f]
  by (simp add: vm_path_def vmDir_def PathJoin_abs)

lemma file_names_neq:
  "configFile \<noteq> stateFile" "stateFile \<noteq> configFile"
  "configFile @ ''.tmp'' \<noteq> configFile" "configFile @ ''.tmp'' \<noteq> stateFile"
  "stateFile @ ''.tmp'' \<noteq> configFile" "stateFile @ ''.tmp'' \<noteq> stateFile"
  "configFile \<noteq> configFile @ ''.tmp''" "stateFile \<noteq> configFile @ ''.tmp''"
  "configFile \<noteq> stateFile @ ''.tmp''" "stateFile \<noteq> stateFile @ ''.tmp''"
  by (simp_all add: configFile_def stateFile_def)

lemmas store_path_rules = store_paths tmp_vm_path vm_path_inj tmp_plain file_names_neq

lemma atomicWrite_ok:
  assumes "atomicWrite fs path data = (fs', None)"
  shows "fs_files fs' = (fs_files fs)(tmpName path := None, path \<mapsto> data)" "fs_dirs fs' = fs_dirs fs"
    "fs_broken fs' = fs_broken fs"
  using assms by (auto simp: atomicWrite_def WriteFile_def Rename_def split: if_splits)

lemma atomicWrite_err:
  assumes "atomicWrite fs path data = (fs', Some e)" and "p \<noteq> tmpName path"
  shows "fs_files fs' p = fs_files fs p"
  using assms by (auto simp: atomicWrite_def WriteFile_def Rename_def split: if_splits)

lemma SaveConfig_ok:
  assumes "SaveConfig C storagePath fs cfg = (fs', None)"
  shows "fs_files fs' = (fs_files fs)(tmpName (configPath storagePath (Name cfg)) := None,
           configPath storagePath (Name cfg) \<mapsto> yaml_Marshal C cfg)"
  using assms atomicWrite_ok(1)
  by (fastforce simp: SaveConfig_def MkdirAll_def split: if_splits)

subsection \<open>Properties\<close>


text \<open>Likewise for states: the state saved is the state loaded, no other VM's state changes, and
  neither does any configuration of a VM that is already known.\<close>

theorem saveState_roundtrip:
  assumes "codec_laws C" and "ranges_VMState st" and "IsAbs storagePath"
    and "plain_comp nm" and "plain_comp n"
    and "is_ok (m_loadConfig C storagePath s nm)"
    and "m_saveState C storagePath now s nm st = (s', None)"
  shows "m_loadState C storagePath s' n = (if n = nm then Inr st else m_loadState C storagePath s n) \<and>
         m_loadConfig C storagePath s' n = m_loadConfig C storagePath s n"
proof (cases s)
  case (DBStore db)
  let ?db1 = "dbEnsureVM C now db nm []"
  obtain db' where s': "s' = DBStore db'" and w: "dbSaveState C ?db1 nm st = (db', None)"
    using assms(7) DBStore by (auto simp: m_saveState_def map_prod_def split: prod.splits)
  have "nm \<in> fst ` set (vms db)"
    using assms(6) by (auto simp: DBStore m_loadConfig_def dbLoadConfig_def split: option.splits)
      (metis map_of_SomeD fst_conv image_eqI)
  then have vms: "map_of (vms db') = map_of (vms db)"
    using dbSaveState_ok(2) [OF assms(1,2) w] dbEnsureVM_vms(1) by metis
  have "dbLoadState C ?db1 n = dbLoadState C db n" by (simp add: dbLoadState_def dbEnsureVM_vms(3))
  then show ?thesis
    using dbSaveState_ok(1) [OF assms(1,2) w]
    by (simp add: DBStore s' m_loadState_def m_loadConfig_def dbLoadConfig_def vms)
next
  case (FileStore fs)
  then obtain fs' where s': "s' = FileStore fs'" and w: "SaveStateForVM C storagePath fs nm st = (fs', None)"
    using assms(7) by (auto simp: m_saveState_def map_prod_def split: prod.splits)
  show ?thesis
    using atomicWrite_ok(1) [OF w [unfolded SaveStateForVM_def]] decode_rt(2) [OF assms(1,2)]
      assms(3-5)
    by (auto simp: FileStore s' m_loadConfig_def m_loadState_def LoadConfig_def LoadState_def store_path_rules)
qed


lemma empty_docs: "of_json_VMConfig (JObj []) = Some VMConfig_zero"
  "of_json_VMState (JObj [(''running'', JBool False)]) = Some VMState_zero"
  by code_simp+

text \<open>Saving the state of a VM that has no configuration is an error of the file store, which is
  left as it was; the database store accepts it, and from then on lists a VM with an empty name and
  an otherwise zero configuration.\<close>

theorem saveState_unknown:
  assumes "codec_laws C" and "IsAbs storagePath" and "plain_comp nm"
    and "\<not> is_ok (m_loadConfig C storagePath s nm)"
  shows "(\<forall>db. s = DBStore db \<and> nm \<notin> fst ` set (vms db) \<longrightarrow>
            (\<exists>s'. m_saveState C storagePath now s nm st = (s', None) \<and>
                  m_loadConfig C storagePath s' nm = Inr VMConfig_zero \<and>
                  VMConfig_zero \<in> set (listAllConfigs C storagePath s') \<and> Name VMConfig_zero = [])) \<and>
         (\<forall>fs. s = FileStore fs \<and> vmDir storagePath nm \<notin> set (fs_dirs fs) \<longrightarrow>
            m_saveState C storagePath now s nm st = (s, Some IOError))"
proof (intro conjI allI impI)
  fix db assume a: "s = DBStore db \<and> nm \<notin> fst ` set (vms db)"
  let ?db1 = "dbEnsureVM C now db nm []"
  let ?row = "\<lparr>r_template = [], r_config_json = json_text C (JObj []), r_created_at = now\<rparr>"
  obtain db' where w: "dbSaveState C ?db1 nm st = (db', None)" and v: "vms db' = vms ?db1"
    by (simp add: dbSaveState_def Let_def dbEnsureVM_vms(2))
  have "map_of (vms db) nm = None" using a by (simp add: map_of_eq_None_iff)
  then have row: "map_of (vms db') nm = Some ?row" by (simp add: v dbEnsureVM_def map_of_row_upsert)
  have dec: "decode_config C (json_text C (JObj [])) = Inr VMConfig_zero"
    using assms(1) by (simp add: codec_laws_def decode_config_def empty_docs)
  have "VMConfig_zero \<in> set (dbListAll C db')"
    using map_of_SomeD [OF row] dec
    by (force simp: dbListAll_def List.map_filter_def image_iff)
  then show "\<exists>s'. m_saveState C storagePath now s nm st = (s', None) \<and>
                  m_loadConfig C storagePath s' nm = Inr VMConfig_zero \<and>
                  VMConfig_zero \<in> set (listAllConfigs C storagePath s') \<and> Name VMConfig_zero = []"
    using a w row dec
    by (simp add: m_saveState_def m_loadConfig_def dbLoadConfig_def listAllConfigs_def VMConfig_zero_def)
next
  fix fs assume "s = FileStore fs \<and> vmDir storagePath nm \<notin> set (fs_dirs fs)"
  then show "m_saveState C storagePath now s nm st = (s, Some IOError)"
    using assms(2,3)
    by (simp add: m_saveState_def SaveStateForVM_def atomicWrite_def WriteFile_def store_path_rules PathDir_vm_path)
qed


subsection \<open>Concurrent and interrupted writes\<close>

definition separate :: "'b Writer list \<Rightarrow> bool" where
  "separate ws \<longleftrightarrow> (\<forall>i < length ws. \<forall>j < length ws.
     tmpName (w_path (ws ! i)) \<noteq> w_path (ws ! j) \<and> (i \<noteq> j \<longrightarrow> w_path (ws ! i) \<noteq> w_path (ws ! j)))"

definition writer_inv :: "(string \<rightharpoonup> 'b) \<Rightarrow> (string \<rightharpoonup> 'b) \<Rightarrow> 'b Writer \<Rightarrow> bool" where
  "writer_inv old new w =
     (case w_pc w of
        AtWrite \<Rightarrow> new (w_path w) = old (w_path w)
      | AtRename \<Rightarrow> new (w_path w) = old (w_path w) \<and> new (tmpName (w_path w)) = Some (w_data w)
      | Finished e \<Rightarrow> new (w_path w) = (if e = None then Some (w_data w) else old (w_path w)))"

definition same_jobs :: "'b Writer list \<Rightarrow> 'b Writer list \<Rightarrow> bool" where
  "same_jobs ws ws' \<longleftrightarrow> map w_path ws' = map w_path ws \<and> map w_data ws' = map w_data ws"

lemma tmpName_inj [simp]: "tmpName p = tmpName q \<longleftrightarrow> p = q"
  by (simp add: tmpName_def)

lemma tmpName_neq [simp]: "tmpName p \<noteq> p" "p \<noteq> tmpName p"
  by (simp_all add: tmpName_def)

lemma separate_cong: "same_jobs ws ws' \<Longrightarrow> separate ws' = separate ws"
  unfolding same_jobs_def separate_def by (metis length_map nth_map)

lemma write_step_same_jobs: "write_step (fs, ws) (fs', ws') \<Longrightarrow> same_jobs ws ws'"
  by (erule write_step.cases)
     (auto simp: same_jobs_def map_update list_update_id intro!: nth_equalityI simp: nth_list_update)

text \<open>A step of writer \<open>i\<close> changes no file but its own two.\<close>

lemma write_step_frame:
  assumes "write_step (fs, ws) (fs', ws')"
  shows "\<exists>i < length ws. (\<forall>j. j \<noteq> i \<longrightarrow> ws' ! j = ws ! j) \<and>
           (\<forall>p. p \<noteq> w_path (ws ! i) \<and> p \<noteq> tmpName (w_path (ws ! i)) \<longrightarrow> fs_files fs' p = fs_files fs p) \<and>
           (separate ws \<and> writer_inv old (fs_files fs) (ws ! i) \<longrightarrow>
            writer_inv old (fs_files fs') (ws' ! i))"
  using assms
proof (cases rule: write_step.cases)
  case (torn i part)
  then show ?thesis
    by (intro exI [of _ i]) (auto simp: WriteFile_def writer_inv_def separate_def)
next
  case (written i e)
  then show ?thesis
    by (intro exI [of _ i]) (auto simp: WriteFile_def writer_inv_def separate_def after_write_def split: if_splits)
next
  case (renamed i e)
  then show ?thesis
    by (intro exI [of _ i]) (auto simp: Rename_def writer_inv_def separate_def split: if_splits option.splits)
qed

lemma writer_inv_frame:
  "writer_inv old m w \<Longrightarrow> m' (w_path w) = m (w_path w) \<Longrightarrow> m' (tmpName (w_path w)) = m (tmpName (w_path w)) \<Longrightarrow>
   writer_inv old m' w"
  by (simp add: writer_inv_def split: writer_pc.splits)

lemma write_step_inv:
  assumes "write_step (fs, ws) (fs', ws')" and "separate ws"
    and "\<forall>j < length ws. writer_inv old (fs_files fs) (ws ! j)"
  shows "\<forall>j < length ws'. writer_inv old (fs_files fs') (ws' ! j)"
proof (intro allI impI)
  fix j assume "j < length ws'"
  moreover have "length ws' = length ws"
    using write_step_same_jobs [OF assms(1)] by (metis same_jobs_def length_map)
  ultimately have j: "j < length ws" by simp
  obtain i where i: "i < length ws" and oth: "\<And>j. j \<noteq> i \<Longrightarrow> ws' ! j = ws ! j"
    and fr: "\<And>p. p \<noteq> w_path (ws ! i) \<Longrightarrow> p \<noteq> tmpName (w_path (ws ! i)) \<Longrightarrow> fs_files fs' p = fs_files fs p"
    and own: "writer_inv old (fs_files fs) (ws ! i) \<Longrightarrow> writer_inv old (fs_files fs') (ws' ! i)"
    using write_step_frame [OF assms(1), of old] assms(2) by metis
  show "writer_inv old (fs_files fs') (ws' ! j)"
  proof (cases "j = i")
    case True then show ?thesis using own assms(3) i by simp
  next
    case False
    then have "fs_files fs' (w_path (ws ! j)) = fs_files fs (w_path (ws ! j))"
      and "fs_files fs' (tmpName (w_path (ws ! j))) = fs_files fs (tmpName (w_path (ws ! j)))"
      using assms(2) i j by (auto intro!: fr simp: separate_def) metis+
    then show ?thesis using writer_inv_frame assms(3) j oth [OF False] by metis
  qed
qed

lemma writers_inv:
  assumes "write_step\<^sup>*\<^sup>* (fs0, ws0) (fs, ws)" and "separate ws0" and "list_all (\<lambda>w. w_pc w = AtWrite) ws0"
  shows "same_jobs ws0 ws \<and> (\<forall>j < length ws. writer_inv (fs_files fs0) (fs_files fs) (ws ! j))"
  using assms(1)
proof (induction rule: rtranclp_induct2)
  case refl
  then show ?case using assms(3) by (auto simp: same_jobs_def writer_inv_def list_all_length)
next
  case (step fs1 ws1 fs2 ws2)
  then have "separate ws1" using assms(2) separate_cong by blast
  then have "\<forall>j < length ws2. writer_inv (fs_files fs0) (fs_files fs2) (ws2 ! j)"
    using step write_step_inv by blast
  moreover have "same_jobs ws0 ws2"
    using step.IH write_step_same_jobs [OF step(2)] by (simp add: same_jobs_def)
  ultimately show ?case by blast
qed


text \<open>Two writers of the same path share the name of the temporary file: one of them can report
  success while the file holds the other's partial content.\<close>

theorem atomicWrite_shared_tmp:
  assumes "\<not> fs_broken fs path" and "\<not> fs_broken fs (tmpName path)" and "PathDir (tmpName path) \<in> set (fs_dirs fs)"
  shows "\<exists>fs' ws'. write_step\<^sup>*\<^sup>* (fs, [\<lparr>w_path = path, w_data = a, w_pc = AtWrite\<rparr>,
                                       \<lparr>w_path = path, w_data = b, w_pc = AtWrite\<rparr>]) (fs', ws') \<and>
           w_pc (ws' ! 0) = Finished None \<and> fs_files fs' path = Some part"
proof -
  let ?w = "\<lambda>d pc. \<lparr>w_path = path, w_data = d, w_pc = pc\<rparr>"
  let ?fs1 = "fs\<lparr>fs_files := (fs_files fs)(tmpName path \<mapsto> a)\<rparr>"
  let ?fs2 = "?fs1\<lparr>fs_files := (fs_files ?fs1)(tmpName path \<mapsto> part)\<rparr>"
  let ?fs3 = "?fs2\<lparr>fs_files := (fs_files ?fs2)(tmpName path := None, path \<mapsto> part)\<rparr>"
  have "write_step (fs, [?w a AtWrite, ?w b AtWrite]) (?fs1, [?w a AtRename, ?w b AtWrite])"
    using write_step.written [of 0 "[?w a AtWrite, ?w b AtWrite]" fs ?fs1 None] assms
    by (simp add: WriteFile_def after_write_def)
  moreover have "write_step (?fs1, [?w a AtRename, ?w b AtWrite]) (?fs2, [?w a AtRename, ?w b AtWrite])"
    using write_step.torn [of 1 "[?w a AtRename, ?w b AtWrite]" ?fs1 part] assms
    by (simp add: WriteFile_def)
  moreover have "write_step (?fs2, [?w a AtRename, ?w b AtWrite]) (?fs3, [?w a (Finished None), ?w b AtWrite])"
    using write_step.renamed [of 0 "[?w a AtRename, ?w b AtWrite]" ?fs2 ?fs3 None] assms
    by (simp add: Rename_def)
  ultimately have "write_step\<^sup>*\<^sup>* (fs, [?w a AtWrite, ?w b AtWrite]) (?fs3, [?w a (Finished None), ?w b AtWrite])"
    by (meson converse_rtranclp_into_rtranclp rtranclp.rtrancl_refl)
  moreover have "w_pc ([?w a (Finished None), ?w b AtWrite] ! 0) = Finished None" "fs_files ?fs3 path = Some part"
    by simp_all
  ultimately show ?thesis by blast
qed


subsection \<open>The migration\<close>

lemma migrate_entry_rows:
  "map_of (vms (migrate_entry C parseTime now storagePath fs nm db)) n =
     (case map_of (vms db) n of
        Some r \<Rightarrow> Some r
      | None \<Rightarrow> if n = nm then map_option fst (migrated_rows C parseTime now storagePath fs nm) else None)"
  "map_of (vm_states (migrate_entry C parseTime now storagePath fs nm db)) n =
     (case map_of (vm_states db) n of
        Some r \<Rightarrow> Some r
      | None \<Rightarrow> if n = nm then map_option snd (migrated_rows C parseTime now storagePath fs nm) else None)"
  by (auto simp: migrate_entry_def map_of_row_upsert split: option.splits prod.splits)

lemma migrate_rows:
  "map_of (vms (fold (migrate_entry C parseTime now storagePath fs) ns db)) n =
     (case map_of (vms db) n of
        Some r \<Rightarrow> Some r
      | None \<Rightarrow> if n \<in> set ns then map_option fst (migrated_rows C parseTime now storagePath fs n) else None)"
  "map_of (vm_states (fold (migrate_entry C parseTime now storagePath fs) ns db)) n =
     (case map_of (vm_states db) n of
        Some r \<Rightarrow> Some r
      | None \<Rightarrow> if n \<in> set ns then map_option snd (migrated_rows C parseTime now storagePath fs n) else None)"
  by (induction ns arbitrary: db) (auto simp: migrate_entry_rows split: option.splits)

definition readable :: "'b Codec \<Rightarrow> string \<Rightarrow> 'b FS \<Rightarrow> string \<Rightarrow> bool" where
  "readable C storagePath fs nm = (Option.bind (fs_files fs (configPath storagePath nm)) (yaml_any C) \<noteq> None)"

lemma migrated_rows_cases:
  assumes "codec_laws C"
  shows "\<not> readable C storagePath fs n \<Longrightarrow> migrated_rows C parseTime now storagePath fs n = None"
    and "readable C storagePath fs n \<Longrightarrow>
      \<exists>d raw r q. fs_files fs (configPath storagePath n) = Some d \<and> yaml_any C d = Some raw \<and>
        migrated_rows C parseTime now storagePath fs n = Some (r, q) \<and>
        r_config_json r = json_text C raw \<and> decode_state C (r_state_json q) = LoadState C storagePath fs n"
  using assms
  by (auto simp: readable_def migrated_rows_def yamlToJSON_def Let_def LoadState_def
      decode_state_def codec_laws_def empty_docs split: option.splits Option.bind_splits)


subsection \<open>Witnesses\<close>

text \<open>A codec that satisfies the laws: a file holds a decoded configuration or a JSON document.\<close>

datatype demo_doc = ConfigDoc VMConfig | TextDoc json

definition demo_codec :: "demo_doc Codec" where
  "demo_codec =
     \<lparr>yaml_Marshal = (\<lambda>c. ConfigDoc (persisted c)),
      yaml_Unmarshal = (\<lambda>d. case d of ConfigDoc c \<Rightarrow> Some c | TextDoc j \<Rightarrow> None),
      yaml_any = (\<lambda>d. case d of ConfigDoc c \<Rightarrow> Some (to_json_VMConfig c) | TextDoc j \<Rightarrow> None),
      json_text = TextDoc,
      json_parse = (\<lambda>d. case d of ConfigDoc c \<Rightarrow> None | TextDoc j \<Rightarrow> Some j)\<rparr>"

lemma demo_codec_laws: "codec_laws demo_codec"
  by (simp add: codec_laws_def demo_codec_def)

definition demo_cfg :: VMConfig where
  "demo_cfg = VMConfig_zero\<lparr>Name := ''web'', Memory := ''4G'', CPUs := 2, AutoStart := True\<rparr>"

definition demo_state :: VMState where
  "demo_state = VMState_zero\<lparr>PID := 4711, Running := True, DesiredState := DesiredStateRunning\<rparr>"

definition demo_fs :: "demo_doc FS" where
  "demo_fs =
     \<lparr>fs_files = [''/vms/web/vm.yaml'' \<mapsto> ConfigDoc demo_cfg, ''/vms/web/state.json'' \<mapsto> TextDoc JNull],
      fs_dirs = [''/vms/web''], fs_broken = (\<lambda>_. False)\<rparr>"

lemma demo_ranges: "ranges_VMConfig demo_cfg" "ranges_VMState demo_state"
  by (simp_all add: ranges_VMConfig_def ranges_VMState_def demo_cfg_def demo_state_def VMConfig_zero_def
      VMState_zero_def int64_def)


theorem saveState_roundtrip_witness:
  "\<exists>s'. m_saveState demo_codec ''/vms'' 7 (FileStore demo_fs) ''web'' demo_state = (s', None) \<and>
        m_loadState demo_codec ''/vms'' s' ''web'' = Inr demo_state"
proof -
  have "snd (m_saveState demo_codec ''/vms'' 7 (FileStore demo_fs) ''web'' demo_state) = None" by code_simp
  then obtain s' where s': "m_saveState demo_codec ''/vms'' 7 (FileStore demo_fs) ''web'' demo_state = (s', None)"
    by (metis prod.collapse)
  have n: "plain_comp ''web''" "is_ok (m_loadConfig demo_codec ''/vms'' (FileStore demo_fs) ''web'')"
    by code_simp+
  show ?thesis
    using saveState_roundtrip [OF demo_codec_laws demo_ranges(2) _ _ _ _ s', of "''web''"] s' n
    by (simp add: IsAbs_def)
qed

theorem saveState_unknown_witness:
  "\<exists>s'. m_saveState demo_codec ''/vms'' 7 (DBStore \<lparr>vms = [], vm_states = []\<rparr>) ''ghost'' demo_state = (s', None) \<and>
        VMConfig_zero \<in> set (listAllConfigs demo_codec ''/vms'' s')"
proof -
  have n: "plain_comp ''ghost''" "\<not> is_ok (m_loadConfig demo_codec ''/vms'' (DBStore \<lparr>vms = [], vm_states = []\<rparr>) ''ghost'')"
    by code_simp+
  show ?thesis
    using saveState_unknown [OF demo_codec_laws _ n, of 7 demo_state] by (auto simp: IsAbs_def)
qed

definition demo_writers :: "demo_doc Writer list" where
  "demo_writers =
     [\<lparr>w_path = ''/vms/web/vm.yaml'', w_data = TextDoc JNull, w_pc = AtWrite\<rparr>,
      \<lparr>w_path = ''/vms/web/state.json'', w_data = TextDoc JNull, w_pc = AtWrite\<rparr>]"


theorem atomicWrite_shared_tmp_witness:
  "\<exists>fs' ws'. write_step\<^sup>*\<^sup>*
       (demo_fs, [\<lparr>w_path = ''/vms/web/state.json'', w_data = TextDoc (JInt 1), w_pc = AtWrite\<rparr>,
                  \<lparr>w_path = ''/vms/web/state.json'', w_data = TextDoc (JInt 2), w_pc = AtWrite\<rparr>]) (fs', ws') \<and>
     w_pc (ws' ! 0) = Finished None \<and> fs_files fs' ''/vms/web/state.json'' = Some (TextDoc JNull)"
proof (rule atomicWrite_shared_tmp)
  show "PathDir (tmpName ''/vms/web/state.json'') \<in> set (fs_dirs demo_fs)" by code_simp
qed (simp_all add: demo_fs_def)



end
