(* ===== verification/Qemu_Devices.thy ===== *)
theory Qemu_Devices
  imports Config Hashes
begin

text \<open>
  \<open>internal/qemu\<close>, the device builders: CPU, memory backend, NIC, UEFI, SPICE, TPM, vsock,
  virtiofs, VFIO, graphics and disks, each with the command-line arguments its \<open>Args\<close> method
  contributes.  A Go format \<open>%d\<close> is \<^const>\<open>Itoa\<close> and \<open>%t\<close> is \<open>Btoa\<close>.  A disk's machine enters
  through the machine's name, its provider through the host.
\<close>

definition Btoa :: "bool \<Rightarrow> string" where
  "Btoa b = (if b then ''true'' else ''false'')"

definition hex_digit :: "nat \<Rightarrow> char" where
  "hex_digit n = (if n < 10 then char_of (48 + n) else char_of (87 + n))"

definition hex2 :: "byte \<Rightarrow> string" where
  "hex2 b = [hex_digit (unat b div 16), hex_digit (unat b mod 16)]"

subsection \<open>CPU\<close>

definition GamingCPUFlags :: "string list" where
  "GamingCPUFlags =
     [''hypervisor=off'', ''kvm=off'', ''hv-time=on'', ''hv-relaxed=on'', ''hv-vapic=on'',
      ''hv-spinlocks=0x1fff'', ''hv-vendor-id=AMDKVMAMD'', ''invtsc=on'']"

record CPU =
  cpu_Model :: string
  cpu_Flags :: "string list"
  cpu_SMP :: int
  cpu_Sockets :: int
  cpu_Threads :: int
  cpu_Cores :: int

type_synonym CPUOption = "CPU \<Rightarrow> CPU"

definition WithCPUModel :: "string \<Rightarrow> CPUOption" where
  "WithCPUModel m = (\<lambda>c. c\<lparr>cpu_Model := m\<rparr>)"

definition WithCPUFlags :: "string list \<Rightarrow> CPUOption" where
  "WithCPUFlags flags = (\<lambda>c. c\<lparr>cpu_Flags := cpu_Flags c @ flags\<rparr>)"

definition WithSMP :: "int \<Rightarrow> int \<Rightarrow> int \<Rightarrow> int \<Rightarrow> CPUOption" where
  "WithSMP smp sockets threads cores =
     (\<lambda>c. c\<lparr>cpu_SMP := smp, cpu_Sockets := sockets, cpu_Threads := threads, cpu_Cores := cores\<rparr>)"

definition NewCPU :: "string \<Rightarrow> int \<Rightarrow> CPUOption list \<Rightarrow> CPU" where
  "NewCPU defaultModel defaultCPUs opts =
     foldl (\<lambda>c opt. opt c)
       \<lparr>cpu_Model = defaultModel, cpu_Flags = [], cpu_SMP = defaultCPUs, cpu_Sockets = 0,
        cpu_Threads = 0, cpu_Cores = 0\<rparr> opts"

definition smp_args :: "CPU \<Rightarrow> string list" where
  "smp_args q =
     (if cpu_Sockets q > 0 then [''sockets='' @ Itoa (cpu_Sockets q)] else []) @
     (if cpu_Cores q > 0 then [''cores='' @ Itoa (cpu_Cores q)] else []) @
     (if cpu_Threads q > 0 then [''threads='' @ Itoa (cpu_Threads q)] else [])"

definition CPU_Args :: "CPU \<Rightarrow> string list" where
  "CPU_Args q =
     [''-cpu'', cpu_Model q @ (if cpu_Flags q \<noteq> [] then '','' @ Join (cpu_Flags q) '','' else []),
      ''-smp'', Itoa (cpu_SMP q) @
        (if smp_args q \<noteq> [] then '','' @ Join (smp_args q) '','' else [])]"

subsection \<open>Memory, firmware, SPICE, TPM, vsock, virtiofs\<close>

record MemfdBackend =
  mem_ID :: string
  mem_Size :: string

definition NewMemfdBackend :: "string \<Rightarrow> MemfdBackend" where
  "NewMemfdBackend sz = \<lparr>mem_ID = ''mem0'', mem_Size = sz\<rparr>"

definition MemfdBackend_Args :: "MemfdBackend \<Rightarrow> string list" where
  "MemfdBackend_Args m =
     [''-object'', ''memory-backend-memfd,id='' @ mem_ID m @ '',size='' @ mem_Size m @ '',share=on'',
      ''-numa'', ''node,memdev='' @ mem_ID m]"

record qUEFI =
  uefi_CodePath :: string
  uefi_VarsPath :: string

definition NewUEFI :: "string \<Rightarrow> string \<Rightarrow> qUEFI" where
  "NewUEFI codePath varsPath = \<lparr>uefi_CodePath = codePath, uefi_VarsPath = varsPath\<rparr>"

definition UEFI_Args :: "qUEFI \<Rightarrow> string list" where
  "UEFI_Args u =
     [''-drive'', ''if=pflash,format=raw,readonly=on,file='' @ uefi_CodePath u,
      ''-drive'', ''if=pflash,format=raw,file='' @ uefi_VarsPath u]"

record Spice =
  spice_Port :: int
  spice_DisableTicketing :: bool

type_synonym SpiceOption = "Spice \<Rightarrow> Spice"

definition WithSpicePort :: "int \<Rightarrow> SpiceOption" where
  "WithSpicePort port = (\<lambda>q. q\<lparr>spice_Port := port\<rparr>)"

definition WithSpiceDisableTicketing :: "bool \<Rightarrow> SpiceOption" where
  "WithSpiceDisableTicketing b = (\<lambda>q. q\<lparr>spice_DisableTicketing := b\<rparr>)"

definition NewSpice :: "SpiceOption list \<Rightarrow> Spice" where
  "NewSpice opts =
     foldl (\<lambda>q opt. opt q) \<lparr>spice_Port = 5930, spice_DisableTicketing = True\<rparr> opts"

definition Spice_Args :: "Spice \<Rightarrow> string list" where
  "Spice_Args s =
     [''-spice'', ''port='' @ Itoa (spice_Port s) @ '',disable-ticketing='' @
        Btoa (spice_DisableTicketing s) @ '',gl=off'',
      ''-device'', ''intel-hda'', ''-device'', ''hda-duplex'',
      ''-device'', ''virtio-serial'', ''-chardev'', ''spicevmc,id=vdagent,debug=0,name=vdagent'',
      ''-device'', ''virtserialport,chardev=vdagent,name=com.redhat.spice.0'']"

definition TPM_Args :: "string \<Rightarrow> string list" where
  "TPM_Args socketPath =
     [''-chardev'', ''socket,id=chrtpm,path='' @ socketPath,
      ''-tpmdev'', ''emulator,id=tpm0,chardev=chrtpm'',
      ''-device'', ''tpm-tis,tpmdev=tpm0'']"

definition VSockDevice_Args :: "nat \<Rightarrow> string list" where
  "VSockDevice_Args guestCID = [''-device'', ''vhost-vsock-pci,guest-cid='' @ dec guestCID]"

record Virtiofsd =
  vfs_SocketPath :: string
  vfs_Tag :: string
  vfs_Chardev :: string
  vfs_Device :: string
  vfs_Object :: string

definition Virtiofsd_Args :: "Virtiofsd \<Rightarrow> string list" where
  "Virtiofsd_Args q =
     [''-device'', vfs_Device q @ '',chardev='' @ vfs_Chardev q @ '',tag='' @ vfs_Tag q,
      ''-chardev'', ''socket,id='' @ vfs_Chardev q @ '',path='' @ vfs_SocketPath q]"

subsection \<open>NIC\<close>

record qNIC =
  nic_Mode :: string
  nic_Bridge :: string
  nic_Model :: string
  nic_MAC :: string
  nic_HostFwds :: "string list"
  nic_Queues :: int
  nic_BridgeHelper :: string

definition NewNIC :: "string \<Rightarrow> string \<Rightarrow> string \<Rightarrow> string list \<Rightarrow> qNIC" where
  "NewNIC mode bridge mac hostfwds =
     \<lparr>nic_Mode = mode, nic_Bridge = bridge, nic_Model = ''virtio-net-pci'', nic_MAC = mac,
      nic_HostFwds = hostfwds, nic_Queues = 0, nic_BridgeHelper = []\<rparr>"

definition string_bytes :: "string \<Rightarrow> byte list" where
  "string_bytes s = map (\<lambda>c. word_of_nat (of_char c)) s"

definition DeterministicMAC :: "string \<Rightarrow> string" where
  "DeterministicMAC name =
     (let h = sha1 (string_bytes name)
      in ''52:54:'' @ hex2 (h ! 0) @ '':'' @ hex2 (h ! 1) @ '':'' @ hex2 (h ! 2) @ '':'' @ hex2 (h ! 3))"

definition NIC_Args :: "qNIC \<Rightarrow> string list" where
  "NIC_Args n =
     (if nic_Mode n = ''bridge'' then
        (if nic_Queues n > 1 then
           (let helper = (if nic_BridgeHelper n = [] then ''/usr/lib/qemu/qemu-bridge-helper''
                          else nic_BridgeHelper n)
            in [''-netdev'', ''bridge,id=net0,br='' @ nic_Bridge n @ '',helper='' @ helper,
                ''-device'', nic_Model n @ '',netdev=net0,mac='' @ nic_MAC n @ '',mq=on,vectors='' @
                   Itoa (2 * nic_Queues n + 2)])
         else [''-nic'', ''bridge,br='' @ nic_Bridge n @ '',model='' @ nic_Model n @ '',mac='' @ nic_MAC n @
                 (if nic_BridgeHelper n \<noteq> [] then '',helper='' @ nic_BridgeHelper n else [])])
      else [''-netdev'', Join (''user,id=net0'' # map (\<lambda>f. ''hostfwd='' @ f) (nic_HostFwds n)) '','',
            ''-device'', nic_Model n @ '',netdev=net0,mac='' @ nic_MAC n @ '',rombar=0''])"

subsection \<open>VFIO\<close>

record VFIODevice =
  vf_PCIAddr :: string
  vf_BusID :: string
  vf_Slot :: int
  vf_EmitRootPort :: bool
  vf_GuestFunction :: int
  vf_ROMBar :: bool
  vf_ROMFile :: string
  vf_Multifunction :: bool

definition NewVFIODevice :: "string \<Rightarrow> VFIODevice" where
  "NewVFIODevice pciAddr =
     \<lparr>vf_PCIAddr = pciAddr, vf_BusID = ''pcie.1'', vf_Slot = 1, vf_EmitRootPort = True,
      vf_GuestFunction = 0, vf_ROMBar = False, vf_ROMFile = [], vf_Multifunction = True\<rparr>"

definition NewVFIOPeerDevice :: "string \<Rightarrow> string \<Rightarrow> int \<Rightarrow> VFIODevice" where
  "NewVFIOPeerDevice pciAddr busID slot =
     \<lparr>vf_PCIAddr = pciAddr, vf_BusID = busID, vf_Slot = slot, vf_EmitRootPort = True,
      vf_GuestFunction = 0, vf_ROMBar = False, vf_ROMFile = [], vf_Multifunction = False\<rparr>"

definition NewVFIOSiblingFunction :: "string \<Rightarrow> string \<Rightarrow> int \<Rightarrow> VFIODevice" where
  "NewVFIOSiblingFunction pciAddr busID fn =
     \<lparr>vf_PCIAddr = pciAddr, vf_BusID = busID, vf_Slot = 0, vf_EmitRootPort = False,
      vf_GuestFunction = fn, vf_ROMBar = False, vf_ROMFile = [], vf_Multifunction = False\<rparr>"

definition VFIODevice_Args :: "VFIODevice \<Rightarrow> string list" where
  "VFIODevice_Args v =
     (let addr = (if vf_GuestFunction v > 0 then ''addr=0.'' @ Itoa (vf_GuestFunction v)
                  else ''addr=0x0'');
          device = ''vfio-pci,host='' @ vf_PCIAddr v @ '',bus='' @ vf_BusID v @ '','' @ addr @
            (if vf_Multifunction v then '',multifunction=on'' else []) @
            (if \<not> vf_ROMBar v then '',rombar=0'' else []) @
            (if vf_ROMFile v \<noteq> [] then '',romfile='' @ vf_ROMFile v else [])
      in if \<not> vf_EmitRootPort v then [''-device'', device]
         else [''-device'', ''pcie-root-port,id='' @ vf_BusID v @ '',slot='' @ Itoa (vf_Slot v),
               ''-device'', device])"

text \<open>\<open>Sscanf("%d")\<close> reads the longest decimal prefix, sign included; a PCI function suffix
  is one digit.\<close>

definition scan_d :: "string \<Rightarrow> int option" where
  "scan_d s =
     (let t = dropWhile (\<lambda>c. is_space c \<and> c \<noteq> CHR 0x0A) s;
          (neg, u) = (case t of c # cs \<Rightarrow> if c = CHR ''-'' then (True, cs)
                                        else if c = CHR ''+'' then (False, cs) else (False, t)
                              | [] \<Rightarrow> (False, []));
          ds = takeWhile is_digit u;
                n = (if neg then - int (dec_val ds) else int (dec_val ds))
      in if ds = [] \<or> n < - (2 ^ 63) \<or> 2 ^ 63 \<le> n then None else Some n)"

definition FunctionNumber :: "string \<Rightarrow> int" where
  "FunctionNumber pciAddr =
     (case LastCutC (CHR ''.'') pciAddr of
        None \<Rightarrow> 0
      | Some (a, b) \<Rightarrow> if b = [] then 0 else (case scan_d b of None \<Rightarrow> 0 | Some fn \<Rightarrow> fn))"

definition SameSlot :: "string \<Rightarrow> string \<Rightarrow> bool" where
  "SameSlot a b =
     (case (LastCutC (CHR ''.'') a, LastCutC (CHR ''.'') b) of
        (Some (a1, a2), Some (b1, b2)) \<Rightarrow> a1 = b1 \<and> a \<noteq> b
      | _ \<Rightarrow> False)"

subsection \<open>Graphics\<close>

definition DefaultVenusHostMem :: string where "DefaultVenusHostMem = ''8G''"

definition VirtioGPUDevice :: "string \<Rightarrow> bool \<Rightarrow> bool \<Rightarrow> string \<Rightarrow> string" where
  "VirtioGPUDevice arch gl venus hostMem =
     (let dev = (if \<not> gl then ''virtio-gpu-pci''
                 else if arch = ''aarch64'' \<or> arch = ''arm64'' then ''virtio-gpu-gl-pci''
                 else ''virtio-vga-gl'')
      in if gl \<and> venus
         then dev @ '','' @ Join [''blob=true'', ''venus=true'', ''hostmem='' @
                (if hostMem = [] then DefaultVenusHostMem else hostMem)] '',''
         else dev)"

definition HeliosGPUDevice :: "string \<Rightarrow> string" where
  "HeliosGPUDevice hostMem =
     (let hm = (if hostMem = [] then DefaultVenusHostMem else hostMem)
      in Join [''virtio-gpu-gl-pci'', ''id=heliosgpu'', ''max_outputs=1'', ''blob=true'',
               ''venus=true'', ''hostmem='' @ hm, ''max_hostmem='' @ hm] '','')"

definition HeliosDisplay :: "string \<Rightarrow> string" where
  "HeliosDisplay renderNode =
     (if renderNode = [] then ''egl-headless'' else ''egl-headless,rendernode='' @ renderNode)"

definition DefaultHeliosVNC :: string where "DefaultHeliosVNC = ''127.0.0.1:0''"

definition HeliosVNCArg :: "string \<Rightarrow> string" where
  "HeliosVNCArg addr =
     (let a = (if addr = [] then DefaultHeliosVNC else addr)
      in if Contains a ''share='' then a else a @ '',share=force-shared'')"

datatype vnc_error = VNCNoDisplay string | VNCBadDisplay string string

text \<open>\<open>net.JoinHostPort\<close> brackets a host that contains a colon.\<close>

definition JoinHostPort :: "string \<Rightarrow> string \<Rightarrow> string" where
  "JoinHostPort host port =
     (if CHR '':'' \<in> set host then ''['' @ host @ '']:'' @ port else host @ '':'' @ port)"

definition VNCHostPort :: "string \<Rightarrow> (vnc_error, string) result" where
  "VNCHostPort addr0 =
     (let a0 = (if addr0 = [] then DefaultHeliosVNC else addr0);
          addr = (case CutC (CHR '','') a0 of None \<Rightarrow> a0 | Some (a, b) \<Rightarrow> a)
      in case CutC (CHR '':'') addr of
           None \<Rightarrow> Inl (VNCNoDisplay addr)
         | Some (host, disp) \<Rightarrow>
             (case Atoi disp of
                None \<Rightarrow> Inl (VNCBadDisplay addr disp)
              | Some n \<Rightarrow> if n < 0 then Inl (VNCBadDisplay addr disp)
                          else Inr (JoinHostPort (if host = [] then ''localhost'' else host)
                                      (Itoa (5900 + n)))))"

definition PointerTablet :: string where "PointerTablet = ''tablet''"

definition PointerMouse :: string where "PointerMouse = ''mouse''"

definition VirtioInputDevicesFor :: "string \<Rightarrow> string list" where
  "VirtioInputDevicesFor pointer =
     [''virtio-keyboard-pci'',
      if pointer = PointerMouse then ''virtio-mouse-pci'' else ''virtio-tablet-pci'']"

definition DefaultGLBackend :: "string \<Rightarrow> string" where
  "DefaultGLBackend hostOS = (if hostOS = ''darwin'' then ''es'' else ''on'')"

definition DisplayArgFor :: "string \<Rightarrow> bool \<Rightarrow> string \<Rightarrow> string \<Rightarrow> string" where
  "DisplayArgFor hostOS gl backend pointer =
     (let base = (if hostOS = ''darwin'' then ''cocoa''
                  else if pointer = PointerMouse then ''sdl'' else ''gtk'')
      in if \<not> gl then base
         else base @ '',gl='' @ (if backend = [] then DefaultGLBackend hostOS else backend))"

subsection \<open>Disks\<close>

definition diskAIO :: "Host \<Rightarrow> string \<Rightarrow> string" where
  "diskAIO h linuxPreferred = (if IsLinux h then linuxPreferred else ''threads'')"

definition usbDiskControllerID :: string where "usbDiskControllerID = ''usbdisk0''"

record qDisk =
  d_MachineName :: string
  d_Path :: string
  d_Index :: int
  d_diskIndex :: nat
  d_Format :: string
  d_Readonly :: bool
  d_Media :: string
  d_Interface :: string
  d_Cache :: string
  d_Size :: string
  d_Recreate :: bool
  d_BackingFile :: string
  d_Serial :: string
  d_Passthrough :: bool
  d_ImageFile :: bool
  d_BootIndex :: int

type_synonym DiskOptions = "qDisk \<Rightarrow> qDisk"

definition WithRecreate :: "bool \<Rightarrow> DiskOptions" where
  "WithRecreate b = (\<lambda>d. d\<lparr>d_Recreate := b\<rparr>)"

definition WithSize :: "string \<Rightarrow> DiskOptions" where
  "WithSize sz = (\<lambda>d. d\<lparr>d_Size := sz\<rparr>)"

definition WithCustomPath :: "string \<Rightarrow> DiskOptions" where
  "WithCustomPath p = (\<lambda>d. d\<lparr>d_Path := p\<rparr>)"

definition WithMedia :: "string \<Rightarrow> DiskOptions" where
  "WithMedia m = (\<lambda>d. d\<lparr>d_Media := m\<rparr>)"

definition WithInterface :: "string \<Rightarrow> DiskOptions" where
  "WithInterface i = (\<lambda>d. d\<lparr>d_Interface := i\<rparr>)"

definition WithCache :: "string \<Rightarrow> DiskOptions" where
  "WithCache c = (\<lambda>d. d\<lparr>d_Cache := c\<rparr>)"

definition WithFormat :: "string \<Rightarrow> DiskOptions" where
  "WithFormat f = (\<lambda>d. d\<lparr>d_Format := f\<rparr>)"

definition WithReadonly :: "bool \<Rightarrow> DiskOptions" where
  "WithReadonly b = (\<lambda>d. d\<lparr>d_Readonly := b\<rparr>)"

definition WithBackingFile :: "string \<Rightarrow> DiskOptions" where
  "WithBackingFile p = (\<lambda>d. d\<lparr>d_BackingFile := p\<rparr>)"

definition WithSerial :: "string \<Rightarrow> DiskOptions" where
  "WithSerial s = (\<lambda>d. d\<lparr>d_Serial := s\<rparr>)"

definition WithPassthrough :: "bool \<Rightarrow> DiskOptions" where
  "WithPassthrough b = (\<lambda>d. d\<lparr>d_Passthrough := b\<rparr>)"

definition WithImageFile :: "bool \<Rightarrow> DiskOptions" where
  "WithImageFile b = (\<lambda>d. d\<lparr>d_ImageFile := b\<rparr>)"

definition WithBootIndex :: "int \<Rightarrow> DiskOptions" where
  "WithBootIndex i = (\<lambda>d. d\<lparr>d_BootIndex := i\<rparr>)"

lemmas disk_option_defs =
  WithRecreate_def WithSize_def WithCustomPath_def WithMedia_def WithInterface_def WithCache_def
  WithFormat_def WithReadonly_def WithBackingFile_def WithSerial_def WithPassthrough_def
  WithImageFile_def WithBootIndex_def

definition NewDisk :: "string \<Rightarrow> string \<Rightarrow> string \<Rightarrow> DiskOptions list \<Rightarrow> qDisk" where
  "NewDisk defaultSize machinePath machineName opts =
     foldl (\<lambda>d opt. opt d)
       \<lparr>d_MachineName = machineName, d_Path = PathJoin [machinePath, ''storage''], d_Index = -1,
        d_diskIndex = 0, d_Format = [], d_Readonly = False, d_Media = ''disk'',
        d_Interface = ''virtio'', d_Cache = ''none'', d_Size = defaultSize, d_Recreate = False,
        d_BackingFile = [], d_Serial = [], d_Passthrough = False, d_ImageFile = False,
        d_BootIndex = 0\<rparr> opts"

definition Disk_Name :: "qDisk \<Rightarrow> string" where
  "Disk_Name q = ''disk-'' @ d_MachineName q @ ''-'' @ d_Size q @ ''.'' @ d_Format q"

definition image_suffixes :: "string list" where
  "image_suffixes = [''qcow2'', ''qcow'', ''img'', ''raw'', ''iso'', ''vmdk'', ''vdi'', ''vhd'']"

definition Disk_AbsolutePath :: "Host \<Rightarrow> qDisk \<Rightarrow> string" where
  "Disk_AbsolutePath h q =
     (if d_Passthrough q then d_Path q
      else if d_ImageFile q then
        (case PathAbs (cwd h) (d_Path q) of Some p \<Rightarrow> p | None \<Rightarrow> d_Path q)
      else if list_ex (\<lambda>suffix. HasSuffix (d_Path q) suffix) image_suffixes then d_Path q
      else PathJoin [d_Path q, Disk_Name q])"

definition FixOptions :: "qDisk \<Rightarrow> qDisk" where
  "FixOptions q =
     (if d_Media q = ''cdrom'' then q\<lparr>d_Readonly := True, d_Format := [], d_Cache := ''none''\<rparr> else q)"

definition disk_id :: "qDisk \<Rightarrow> string" where
  "disk_id q = ''disk'' @ dec (d_diskIndex q)"

definition bootindex_opt :: "qDisk \<Rightarrow> string list" where
  "bootindex_opt q = (if d_BootIndex q > 0 then [''bootindex='' @ Itoa (d_BootIndex q)] else [])"

text \<open>The option lists of the \<open>-drive\<close> and \<open>-device\<close> arguments, one function per branch of
  \<open>Disk.Args\<close>.  The disk has passed through \<^const>\<open>FixOptions\<close>.\<close>

definition ahci_drive :: "Host \<Rightarrow> qDisk \<Rightarrow> string list" where
  "ahci_drive h q =
     [''file='' @ Disk_AbsolutePath h q, ''if=none'', ''id='' @ disk_id q, ''format='' @ d_Format q,
      ''cache='' @ d_Cache q, ''aio='' @ diskAIO h ''native'', ''discard=unmap'']"

definition nvme_drive :: "Host \<Rightarrow> qDisk \<Rightarrow> string list" where
  "nvme_drive h q =
     [''file='' @ Disk_AbsolutePath h q, ''if=none'', ''id='' @ disk_id q, ''format='' @ d_Format q] @
     (if d_Cache q \<noteq> [] then [''cache='' @ d_Cache q] else [])"

definition usb_drive :: "Host \<Rightarrow> qDisk \<Rightarrow> string list" where
  "usb_drive h q =
     [''file='' @ Disk_AbsolutePath h q, ''if=none'', ''id='' @ disk_id q, ''media='' @ d_Media q,
      ''readonly='' @ Btoa (d_Readonly q)] @
     (if d_Media q = ''disk'' \<and> d_Format q \<noteq> [] then [''format='' @ d_Format q] else [])"

definition passthrough_drive :: "Host \<Rightarrow> qDisk \<Rightarrow> string list" where
  "passthrough_drive h q =
     [''file='' @ Disk_AbsolutePath h q,
      ''format='' @ (if d_ImageFile q \<and> d_Format q \<noteq> [] then d_Format q else ''raw''),
      ''if=none'', ''id='' @ disk_id q, ''cache=none'', ''aio='' @ diskAIO h ''native'', ''discard=unmap'']"

definition plain_drive :: "Host \<Rightarrow> qDisk \<Rightarrow> string list" where
  "plain_drive h q =
     [''file='' @ Disk_AbsolutePath h q, ''readonly='' @ Btoa (d_Readonly q), ''media='' @ d_Media q,
      ''if='' @ d_Interface q, ''id='' @ disk_id q] @
     (if d_Index q > 0 then [''index='' @ Itoa (d_Index q)] else []) @
     (if d_Media q = ''disk'' then
        (''format='' @ d_Format q) #
        (if d_Interface q = ''virtio'' then
           [''cache='' @ (if d_Cache q = [] then ''none'' else d_Cache q),
            ''aio='' @ diskAIO h ''io_uring'', ''discard=unmap'']
         else if d_Cache q \<noteq> [] then [''cache='' @ d_Cache q] else [])
      else if d_Cache q \<noteq> [] then [''cache='' @ d_Cache q] else [])"

definition Disk_Args :: "Host \<Rightarrow> qDisk \<Rightarrow> string list" where
  "Disk_Args h q0 =
     (let q = FixOptions q0; id = disk_id q
      in if d_Interface q = ''ahci'' then
           [''-drive'', Join (ahci_drive h q) '','',
            ''-device'', Join ([''ide-hd'', ''drive='' @ id, ''bus=ahci0.'' @ dec (d_diskIndex q)] @
                              bootindex_opt q) '','']
         else if d_Interface q = ''nvme'' then
           [''-drive'', Join (nvme_drive h q) '','',
            ''-device'', Join ([''nvme'', ''drive='' @ id, ''serial='' @ id] @ bootindex_opt q) '','']
         else if d_Interface q = ''usb'' then
           [''-drive'', Join (usb_drive h q) '','',
            ''-device'', Join ([''usb-storage'', ''drive='' @ id,
                              ''bus='' @ usbDiskControllerID @ ''.0''] @ bootindex_opt q) '','']
         else if d_Passthrough q \<or> d_ImageFile q then
           [''-object'', ''iothread,id=iothread-'' @ id,
            ''-drive'', Join (passthrough_drive h q) '','',
            ''-device'', Join ([''virtio-blk-pci'', ''drive='' @ id] @
                (if d_Serial q \<noteq> [] then [''serial='' @ d_Serial q] else []) @ bootindex_opt q @
                [''iothread=iothread-'' @ id]) '','']
         else [''-drive'', Join (plain_drive h q) '',''])"

subsection \<open>Creating and deleting disk images\<close>

datatype disk_error = ISODelete | PassthroughDelete | ImageFileDelete | QemuImgMissing | StatFailed
  | RemoveFailed | MkdirFailed | DetectFailed | QemuImgFailed

text \<open>What \<open>Create\<close> and \<open>Delete\<close> do to the host, in order: the answers of the file system and
  of \<open>qemu-img\<close> are the fields of \<open>DiskEnv\<close>, the effects are the list returned.\<close>

datatype disk_effect = RemoveFile string | MkdirAll string | QemuImgCreate "string list"

datatype stat_result = Exists | NotExist | StatError

record DiskEnv =
  e_stat :: "string \<Rightarrow> stat_result"
  e_remove_ok :: bool
  e_mkdir_ok :: bool
  e_qemu_img :: bool
  e_info :: "string \<Rightarrow> string option"
  e_create_ok :: bool

definition detectImageFormat :: "DiskEnv \<Rightarrow> string \<Rightarrow> string option" where
  "detectImageFormat e path =
     (case e_info e path of
        None \<Rightarrow> None
      | Some out \<Rightarrow>
          (case List.find (\<lambda>l. HasPrefix l ''file format:'') (Lines out) of
             Some l \<Rightarrow> Some (TrimSpace (drop 12 l))
           | None \<Rightarrow> Some ''raw''))"

definition Disk_Delete :: "DiskEnv \<Rightarrow> Host \<Rightarrow> qDisk \<Rightarrow> disk_effect list \<times> (disk_error, unit) result" where
  "Disk_Delete e h q =
     (if d_Media q = ''cdrom'' then ([], Inl ISODelete)
      else if d_Passthrough q then ([], Inl PassthroughDelete)
      else if d_ImageFile q then ([], Inl ImageFileDelete)
      else case e_stat e (Disk_AbsolutePath h q) of
             NotExist \<Rightarrow> ([], Inr ())
           | StatError \<Rightarrow> ([], Inl StatFailed)
           | Exists \<Rightarrow> ([RemoveFile (Disk_AbsolutePath h q)],
                       if e_remove_ok e then Inr () else Inl RemoveFailed))"

text \<open>After a successful removal the image no longer exists.\<close>

definition exists_after :: "DiskEnv \<Rightarrow> disk_effect list \<Rightarrow> string \<Rightarrow> bool" where
  "exists_after e effs path = (e_stat e path = Exists \<and> RemoveFile path \<notin> set effs)"

definition Disk_Create :: "DiskEnv \<Rightarrow> Host \<Rightarrow> qDisk \<Rightarrow> disk_effect list \<times> (disk_error, unit) result" where
  "Disk_Create e h q =
     (if d_Media q = ''cdrom'' \<or> d_Passthrough q \<or> d_ImageFile q then ([], Inr ())
      else if \<not> e_qemu_img e then ([], Inl QemuImgMissing)
      else let (del, r) = (if d_Recreate q then Disk_Delete e h q else ([], Inr ()));
               path = Disk_AbsolutePath h q
           in case r of
                Inl err \<Rightarrow> (del, Inl err)
              | Inr _ \<Rightarrow>
                  if \<not> e_mkdir_ok e then (del, Inl MkdirFailed)
                  else let effs = del @ [MkdirAll (PathDir path)]
                       in if exists_after e del path then (effs, Inr ())
                          else if d_BackingFile q \<noteq> [] then
                            (case detectImageFormat e (d_BackingFile q) of
                               None \<Rightarrow> (effs, Inl DetectFailed)
                             | Some fmt \<Rightarrow>
                                 (effs @ [QemuImgCreate [''-f'', d_Format q, ''-b'', d_BackingFile q,
                                            ''-F'', fmt, path, d_Size q]],
                                  if e_create_ok e then Inr () else Inl QemuImgFailed))
                          else (effs @ [QemuImgCreate [''-f'', d_Format q, path, d_Size q]],
                                if e_create_ok e then Inr () else Inl QemuImgFailed))"

end
