(* ===== verification/Provider.thy ===== *)
theory Provider
  imports Platform
begin

text \<open>
  \<open>provider/config.go\<close>: the host-wide configuration, its defaults and the firmware search; and
  \<open>internal/qemubin\<close>: how a QEMU binary is resolved and how a downloaded bundle is unpacked.
  Which paths exist, what the user's \<open>config.yaml\<close> overrides and whether a download succeeds are
  the environment.
\<close>

subsection \<open>Configuration\<close>

record ProviderConfig =
  StoragePath :: string
  ISOCachePath :: string
  VirtiofsdPath :: string
  QemuBinaryPath :: string
  BridgeHelperPath :: string
  OVMFCodePath :: string
  OVMFVarsPath :: string
  OVMFSecbootCodePath :: string
  LogPath :: string
  DefaultMemory :: string
  DefaultCPUs :: int
  DefaultDiskSize :: string
  DefaultCPUModel :: string
  p_DefaultMachineType :: string
  RecreateDisks :: bool
  MirrorMode :: string
  MirrorAddress :: string

definition firstExisting :: "(string \<Rightarrow> bool) \<Rightarrow> string \<Rightarrow> string list \<Rightarrow> string" where
  "firstExisting stat fallback candidates =
     (case List.find stat candidates of None \<Rightarrow> fallback | Some c \<Rightarrow> c)"

definition arm_code_candidates :: "string \<Rightarrow> string list" where
  "arm_code_candidates veeCode =
     [veeCode,
      ''/opt/homebrew/share/qemu/edk2-aarch64-code.fd'',
      ''/usr/local/share/qemu/edk2-aarch64-code.fd'',
      ''/Applications/UTM.app/Contents/Resources/qemu/edk2-aarch64-code.fd'',
      ''/usr/share/AAVMF/AAVMF_CODE.fd'']"

definition arm_vars_candidates :: "string \<Rightarrow> string list" where
  "arm_vars_candidates veeVars =
     [veeVars,
      ''/opt/homebrew/share/qemu/edk2-arm-vars.fd'',
      ''/usr/local/share/qemu/edk2-arm-vars.fd'',
      ''/Applications/UTM.app/Contents/Resources/qemu/edk2-arm-vars.fd'',
      ''/usr/share/AAVMF/AAVMF_VARS.fd'']"

definition x86_code_candidates :: "string \<Rightarrow> string list" where
  "x86_code_candidates veeCode =
     [veeCode,
      ''/usr/share/OVMF/x64/OVMF_CODE.4m.fd'',
      ''/usr/share/OVMF/OVMF_CODE_4M.fd'',
      ''/usr/share/edk2/ovmf/OVMF_CODE.fd'',
      ''/usr/share/qemu/ovmf-x86_64-4m-code.bin'',
      ''/usr/share/OVMF/OVMF_CODE.fd'']"

definition x86_vars_candidates :: "string \<Rightarrow> string list" where
  "x86_vars_candidates veeVars =
     [veeVars,
      ''/usr/share/OVMF/x64/OVMF_VARS.4m.fd'',
      ''/usr/share/OVMF/OVMF_VARS_4M.fd'',
      ''/usr/share/edk2/ovmf/OVMF_VARS.fd'',
      ''/usr/share/qemu/ovmf-x86_64-4m-vars.bin'',
      ''/usr/share/OVMF/OVMF_VARS.fd'']"

definition x86_secboot_candidates :: "string \<Rightarrow> string \<Rightarrow> string list" where
  "x86_secboot_candidates veeSecboot code =
     [veeSecboot,
      ''/usr/share/OVMF/x64/OVMF_CODE.secboot.4m.fd'',
      ''/usr/share/OVMF/OVMF_CODE_4M.ms.fd'',
      ''/usr/share/OVMF/OVMF_CODE_4M.secboot.fd'',
      ''/usr/share/edk2/ovmf/OVMF_CODE.secboot.fd'',
      code]"

definition FirmwareForArch :: "(string \<Rightarrow> bool) \<Rightarrow> string \<Rightarrow> string \<Rightarrow> string \<times> string \<times> string" where
  "FirmwareForArch stat home guestArch =
     (let bundled = (\<lambda>f. PathJoin [home, ''.vee'', ''share'', ''qemu'', f]) in
      if guestArch = ''aarch64'' \<or> guestArch = ''arm64'' then
        let veeCode = bundled ''edk2-aarch64-code.fd''; veeVars = bundled ''edk2-arm-vars.fd'';
            code = firstExisting stat veeCode (arm_code_candidates veeCode);
            vars = firstExisting stat veeVars (arm_vars_candidates veeVars)
        in (code, vars, code)
      else
        let code = firstExisting stat ''/usr/share/OVMF/x64/OVMF_CODE.4m.fd''
                     (x86_code_candidates (bundled ''edk2-x86_64-code.fd''));
            vars = firstExisting stat ''/usr/share/OVMF/x64/OVMF_VARS.4m.fd''
                     (x86_vars_candidates (bundled ''edk2-i386-vars.fd''));
            secboot = firstExisting stat ''/usr/share/OVMF/x64/OVMF_CODE.secboot.4m.fd''
                     (x86_secboot_candidates (bundled ''edk2-x86_64-secure-code.fd'') code)
        in (code, vars, secboot))"

definition newDefaultConfig :: "Host \<Rightarrow> (string \<Rightarrow> bool) \<Rightarrow> string \<Rightarrow> ProviderConfig" where
  "newDefaultConfig h stat home =
     (let managedVirtiofsd = PathJoin [home, ''.vee'', ''bin'', ''virtiofsd''];
          qemuBinName = DefaultQemuBinaryName h;
          veeManagedQemu = PathJoin [home, ''.vee'', ''bin'', qemuBinName];
          (ovmfCode, ovmfVars, ovmfSecboot) = FirmwareForArch stat home (DefaultGuestArch h)
      in \<lparr>StoragePath = PathJoin [home, ''.vee/vms''],
          ISOCachePath = PathJoin [home, ''.vee/iso''],
          VirtiofsdPath = (if stat managedVirtiofsd then managedVirtiofsd else ''/usr/bin/virtiofsd''),
          QemuBinaryPath = (if stat veeManagedQemu then veeManagedQemu else qemuBinName),
          BridgeHelperPath =
            (if SupportsBridgeNetworking h
             then firstExisting stat ''/usr/lib/qemu/qemu-bridge-helper''
                    [''/usr/lib/qemu/qemu-bridge-helper'', ''/usr/lib/qemu-kvm/qemu-bridge-helper'',
                     ''/usr/libexec/qemu-bridge-helper'']
             else []),
          OVMFCodePath = ovmfCode, OVMFVarsPath = ovmfVars, OVMFSecbootCodePath = ovmfSecboot,
          LogPath = PathJoin [home, ''.vee'', ''logs''],
          DefaultMemory = ''2G'', DefaultCPUs = 2, DefaultDiskSize = ''20G'',
          DefaultCPUModel = ''host'', p_DefaultMachineType = DefaultMachineType h,
          RecreateDisks = False, MirrorMode = ''auto'', MirrorAddress = ''10.0.2.2:9129''\<rparr>)"

definition absUnderRoot :: "string \<Rightarrow> string \<Rightarrow> string" where
  "absUnderRoot root p = (if p = [] \<or> IsAbs p then p else PathJoin [root, p])"

text \<open>The end of \<open>loadConfig\<close>, once the defaults and the user's file are merged into \<open>c\<close>.\<close>

definition anchorPaths :: "string \<Rightarrow> ProviderConfig \<Rightarrow> ProviderConfig" where
  "anchorPaths home c =
     (let veeRoot = PathJoin [home, ''.vee''] in
      c\<lparr>StoragePath := absUnderRoot veeRoot (StoragePath c),
        ISOCachePath := absUnderRoot veeRoot (ISOCachePath c),
        LogPath := absUnderRoot veeRoot (LogPath c),
        VirtiofsdPath := absUnderRoot veeRoot (VirtiofsdPath c),
        BridgeHelperPath := absUnderRoot veeRoot (BridgeHelperPath c),
        OVMFCodePath := absUnderRoot veeRoot (OVMFCodePath c),
        OVMFVarsPath := absUnderRoot veeRoot (OVMFVarsPath c),
        OVMFSecbootCodePath := absUnderRoot veeRoot (OVMFSecbootCodePath c),
        QemuBinaryPath := (if CHR ''/'' \<in> set (QemuBinaryPath c)
                           then absUnderRoot veeRoot (QemuBinaryPath c) else QemuBinaryPath c)\<rparr>)"

subsection \<open>The QEMU binary\<close>

definition PinnedVersion :: string where "PinnedVersion = ''qemu-11.1.0-vee2''"

definition Checksums :: "string \<Rightarrow> string" where
  "Checksums platform =
     (if platform = ''linux-amd64'' then ''34cff4a37d8891ecf96e0d4414ac645eb7e6dbff9f9b5018de536749d0df4328''
      else if platform = ''linux-arm64'' then ''0bdde5e2115a90036cd4beb16b82fb5a76ee9be90e7424de8e01cd4b9c930021''
      else if platform = ''darwin-arm64'' then ''b04638cafe73f37a88207d88abb39238ca72c842d46a9632227b67a1785d58ac''
      else if platform = ''windows-amd64'' then ''fa393f6c60f9d33c226af683979ce55654143ffbeb3be95adef8222b6f3611d7''
      else [])"

definition AssetName :: "string \<Rightarrow> string \<Rightarrow> string" where
  "AssetName os arch =
     QemuBinaryName (GuestArchForHostArch arch) @ ''-'' @ os @ ''-'' @ arch @ ''.tar.gz''"

definition qemuBinaryName :: "Host \<Rightarrow> string" where
  "qemuBinaryName h = DefaultQemuBinaryName h @ (if IsWindows h then ''.exe'' else [])"

record QemuBinEnv =
  qb_home :: "string option"
  qb_exists :: "string \<Rightarrow> bool"
  qb_marker :: "string option"
  qb_lookPath :: "string \<Rightarrow> string option"
  qb_asset :: "string \<Rightarrow> string option"
  qb_unpacked :: bool
  qb_writeMarker :: bool

datatype qemubin_error = NoHome | NoQemuFound string | DownloadFailed string | ChecksumMismatch string
  | MissingAfterExtraction string | MarkerFailed | UnsafePath string

definition BinPath :: "Host \<Rightarrow> QemuBinEnv \<Rightarrow> (qemubin_error, string) result" where
  "BinPath h env =
     (case qb_home env of
        None \<Rightarrow> Inl NoHome
      | Some home \<Rightarrow> Inr (PathJoin [home, ''.vee'', ''bin'', qemuBinaryName h]))"

definition system_search :: "Host \<Rightarrow> QemuBinEnv \<Rightarrow> string \<Rightarrow> (qemubin_error, string) result" where
  "system_search h env nm =
     (if IsMacOS h then
        (case List.find (qb_exists env) [''/opt/homebrew/bin/'' @ nm, ''/usr/local/bin/'' @ nm] of
           Some c \<Rightarrow> Inr c
         | None \<Rightarrow> (case qb_lookPath env nm of Some p \<Rightarrow> Inr p | None \<Rightarrow> Inl (NoQemuFound nm)))
      else (case qb_lookPath env nm of Some p \<Rightarrow> Inr p | None \<Rightarrow> Inr nm))"

definition resolveSystemQemuNamed :: "Host \<Rightarrow> QemuBinEnv \<Rightarrow> string \<Rightarrow> (qemubin_error, string) result" where
  "resolveSystemQemuNamed h env nm =
     (case qb_home env of
        None \<Rightarrow> system_search h env nm
      | Some home \<Rightarrow>
          let vee = PathJoin [home, ''.vee'', ''bin'', nm] in
          if qb_exists env vee then Inr vee else system_search h env nm)"

text \<open>\<open>qb_asset\<close> is the SHA-256 of what the download of the asset delivered, if it succeeded, and
  \<open>qb_unpacked\<close> whether the binary is there after the bundle was unpacked.\<close>

definition downloadAndInstall :: "QemuBinEnv \<Rightarrow> string \<Rightarrow> string \<Rightarrow> (qemubin_error, unit) result" where
  "downloadAndInstall env asset expected =
     (case qb_asset env asset of
        None \<Rightarrow> Inl (DownloadFailed asset)
      | Some got \<Rightarrow> if got \<noteq> expected then Inl (ChecksumMismatch got) else Inr ())"

definition Ensure :: "Host \<Rightarrow> QemuBinEnv \<Rightarrow> (qemubin_error, string) result" where
  "Ensure h env =
     bind_r (BinPath h env) (\<lambda>binPath.
       if qb_marker env = Some PinnedVersion \<and> qb_exists env binPath then Inr binPath
       else let expectedSum = Checksums (goos h @ ''-'' @ goarch h) in
            if expectedSum = [] then resolveSystemQemuNamed h env (qemuBinaryName h)
            else bind_r (downloadAndInstall env (AssetName (goos h) (goarch h)) expectedSum) (\<lambda>_.
                   if \<not> qb_unpacked env then Inl (MissingAfterExtraction binPath)
                   else if \<not> qb_writeMarker env then Inl MarkerFailed
                   else Inr binPath))"

definition EnsureForArch :: "Host \<Rightarrow> QemuBinEnv \<Rightarrow> string \<Rightarrow> (qemubin_error, string) result" where
  "EnsureForArch h env guestArch =
     (if guestArch = [] \<or> guestArch = DefaultGuestArch h then Ensure h env
      else resolveSystemQemuNamed h env
             (QemuBinaryName guestArch @ (if IsWindows h then ''.exe'' else [])))"

subsection \<open>Unpacking a bundle\<close>

datatype tar_type = TypeDir | TypeReg | TypeSymlink | TypeOther

record TarEntry =
  te_Name :: string
  te_Typeflag :: tar_type
  te_Linkname :: string

datatype unpack_effect = MkDir string | CreateFile string | CreateLink string string

fun effect_path :: "unpack_effect \<Rightarrow> string" where
  "effect_path (MkDir p) = p"
| "effect_path (CreateFile p) = p"
| "effect_path (CreateLink target p) = p"

definition escapes :: "string \<Rightarrow> bool" where
  "escapes p = (p = ''..'' \<or> HasPrefix p ''../'')"

definition extract_entry :: "string \<Rightarrow> TarEntry \<Rightarrow> (qemubin_error, unpack_effect list) result" where
  "extract_entry destRoot e =
     (let nm = Clean (te_Name e) in
      if nm = ''.'' then Inr []
      else if IsAbs nm \<or> escapes nm then Inl (UnsafePath (te_Name e))
      else let target = PathJoin [destRoot, nm] in
           case PathRel destRoot target of
             None \<Rightarrow> Inl (UnsafePath (te_Name e))
           | Some rel \<Rightarrow>
               if escapes rel then Inl (UnsafePath (te_Name e))
               else Inr (case te_Typeflag e of
                           TypeDir \<Rightarrow> [MkDir target]
                         | TypeReg \<Rightarrow> [MkDir (PathDir target), CreateFile target]
                         | TypeSymlink \<Rightarrow> [MkDir (PathDir target), CreateLink (te_Linkname e) target]
                         | TypeOther \<Rightarrow> []))"

fun extractBundle :: "string \<Rightarrow> TarEntry list \<Rightarrow> unpack_effect list \<times> (qemubin_error, unit) result" where
  "extractBundle destRoot [] = ([], Inr ())"
| "extractBundle destRoot (e # es) =
     (case extract_entry destRoot e of
        Inl err \<Rightarrow> ([], Inl err)
      | Inr fx \<Rightarrow> (case extractBundle destRoot es of (fx', r) \<Rightarrow> (fx @ fx', r)))"

subsection \<open>Lemmas\<close>

lemma path_comps_plain:
  "list_all plain_comp cs \<Longrightarrow> path_comps (CHR ''/'' # Join cs ''/'') = cs"
proof (cases "cs = []")
  case False
  moreover assume "list_all plain_comp cs"
  ultimately show ?thesis
    by (simp add: path_comps_def SplitC_Join_plain filter_id_conv) (auto simp: list_all_iff plain_comp_def)
qed (simp add: path_comps_def)

lemma Clean_plain:
  assumes "list_all plain_comp cs"
  shows "Clean (CHR ''/'' # Join cs ''/'') = CHR ''/'' # Join cs ''/''"
proof -
  have "clean_comps True [] (SplitC (CHR ''/'') (CHR ''/'' # Join cs ''/'')) = cs"
    using assms by (cases "cs = []") (simp_all add: SplitC_Join_plain clean_comps_plain)
  then show ?thesis by (subst Clean_rooted) (simp_all add: IsAbs_def)
qed

lemma PathDir_plain:
  assumes "list_all plain_comp (cs @ [c])"
  shows "PathDir (CHR ''/'' # Join (cs @ [c]) ''/'') = CHR ''/'' # Join cs ''/''"
proof -
  have c: "CHR ''/'' \<notin> set c" using assms by (simp add: plain_comp_def)
  have j: "CHR ''/'' # Join (cs @ [c]) ''/'' =
           (if cs = [] then [] else CHR ''/'' # Join cs ''/'') @ CHR ''/'' # c"
    by (simp add: Join_append)
  have k: "clean_comps True [] (SplitC (CHR ''/'') (CHR ''/'' # Join cs ''/'' @ ''/'')) = cs" if "cs \<noteq> []"
    using assms that
    by (simp add: SplitC_append_str [of _ _ "[]", simplified] SplitC_Join_plain clean_comps_append clean_comps_plain)
  show ?thesis
    unfolding j PathDir_def LastCutC_append [OF c]
    using k by (cases "cs = []") (simp_all add: Clean_rooted IsAbs_def)
qed

text \<open>The element list of \<open>p\<close> is that of the clean \<open>root\<close> followed by plain elements.\<close>

definition below :: "string \<Rightarrow> string \<Rightarrow> bool" where
  "below root p =
     (IsAbs p \<and> take (length (path_comps (Clean root))) (path_comps p) = path_comps (Clean root) \<and>
      list_all plain_comp (path_comps p))"

lemma below_intro:
  assumes "IsAbs root" and "list_all plain_comp cs"
  shows "below root (CHR ''/'' # Join (root_comps root @ cs) ''/'')"
proof -
  have all: "list_all plain_comp (root_comps root @ cs)" using assms(2) root_comps_plain by simp
  have "Clean root = CHR ''/'' # Join (root_comps root) ''/''"
    using assms(1) by (simp add: Clean_rooted root_comps_def)
  then have "path_comps (Clean root) = root_comps root" by (simp add: path_comps_plain root_comps_plain)
  then show ?thesis using path_comps_plain [OF all] all by (simp add: below_def IsAbs_def)
qed

lemma Clean_relative_plain:
  assumes "Clean p \<noteq> ''.''" and "\<not> IsAbs (Clean p)" and "\<not> escapes (Clean p)"
  obtains cs where "cs \<noteq> []" and "list_all plain_comp cs" and "Clean p = Join cs ''/''"
proof -
  let ?cs = "clean_comps False [] (SplitC (CHR ''/'') p)"
  have rel: "\<not> IsAbs p" using assms(2) Clean_rooted [of p] by (auto simp: IsAbs_def [of "_ # _"])
  then have c: "Clean p = Join ?cs ''/''" and ne: "?cs \<noteq> []"
    using assms(1) by (auto simp: Clean_def Let_def split: if_splits)
  have acc: "rel_acc (rev ?cs)" by (rule clean_comps_relative) (simp_all add: SplitC_slash_free)
  have "hd ?cs \<noteq> ''..''"
  proof
    assume h: "hd ?cs = ''..''"
    then obtain t where "?cs = ''..'' # t" using ne by (cases ?cs) auto
    then have "escapes (Clean p)" unfolding c escapes_def by (cases t) auto
    with assms(3) show False by simp
  qed
  then have "list_all plain_comp ?cs"
    using rel_acc_plain [OF acc] ne by (simp add: last_rev)
  with c ne that show ?thesis by blast
qed

lemma extract_entry_below:
  assumes "IsAbs root" and "extract_entry root e = Inr fx" and "x \<in> set fx"
  shows "below root (effect_path x)"
proof -
  let ?n = "Clean (te_Name e)"
  have n: "?n \<noteq> ''.''" "\<not> IsAbs ?n" "\<not> escapes ?n"
    using assms(2,3) by (auto simp: extract_entry_def Let_def split: if_splits)
  obtain cs where cs: "cs \<noteq> []" "list_all plain_comp cs" "?n = Join cs ''/''"
    using Clean_relative_plain [OF n] by blast
  have t: "PathJoin [root, ?n] = CHR ''/'' # Join (root_comps root @ cs) ''/''"
    using PathJoin_below [OF assms(1) cs(2,1)] cs(3) by (simp add: root_comps_def)
  obtain ds d where ds: "cs = ds @ [d]" using cs(1) by (cases cs rule: rev_cases) auto
  have "PathDir (PathJoin [root, ?n]) = CHR ''/'' # Join (root_comps root @ ds) ''/''"
    unfolding t ds append_assoc [symmetric]
    using cs(2) root_comps_plain by (intro PathDir_plain) (simp add: ds)
  then have "below root (PathDir (PathJoin [root, ?n]))" and "below root (PathJoin [root, ?n])"
    using below_intro [OF assms(1), of ds] below_intro [OF assms(1), of cs] cs(2) t
    by (simp_all add: ds)
  then show ?thesis
    using assms(2,3) n by (auto simp: extract_entry_def Let_def split: option.splits if_splits tar_type.splits)
qed


definition demo_bundle :: "TarEntry list" where
  "demo_bundle =
     [\<lparr>te_Name = ''./bin/qemu'', te_Typeflag = TypeReg, te_Linkname = []\<rparr>,
      \<lparr>te_Name = ''lib/../../../etc/passwd'', te_Typeflag = TypeReg, te_Linkname = []\<rparr>]"


lemma absUnderRoot_abs: "IsAbs root \<Longrightarrow> absUnderRoot root p = [] \<or> IsAbs (absUnderRoot root p)"
proof (cases "p = [] \<or> IsAbs p")
  case False
  assume r: "IsAbs root"
  then have "PathJoin [root, p] = Clean (root @ ''/'' @ p)"
    using False by (auto simp: PathJoin_def IsAbs_def)
  moreover have "IsAbs (root @ ''/'' @ p)" using r by (rule IsAbs_append)
  ultimately show ?thesis using False Clean_rooted by (simp add: absUnderRoot_def IsAbs_def [of "_ # _"])
qed (auto simp: absUnderRoot_def)

lemma IsAbs_PathJoin: "IsAbs root \<Longrightarrow> IsAbs (PathJoin (root # ps))"
proof -
  assume r: "IsAbs root"
  then have "root \<noteq> []" by (auto simp: IsAbs_def)
  then have "\<exists>q. PathJoin (root # ps) = Clean (root @ q)"
    by (cases "filter (\<lambda>e. e \<noteq> []) ps") (auto simp: PathJoin_def intro: exI [of _ "[]"])
  then obtain q where "PathJoin (root # ps) = Clean (root @ q)" ..
  then show ?thesis using Clean_rooted [OF IsAbs_append [OF r]] by (simp add: IsAbs_def [of "_ # _"])
qed

text \<open>After loading, no path of the configuration depends on the working directory: each is
  empty or absolute, except a bare QEMU binary name, which \<open>PATH\<close> resolves; and a path the user
  gave as absolute is kept.\<close>

theorem anchorPaths_absolute:
  assumes "IsAbs home"
  shows "list_all (\<lambda>p. p = [] \<or> IsAbs p)
           (map (\<lambda>f. f (anchorPaths home c))
              [StoragePath, ISOCachePath, LogPath, VirtiofsdPath, BridgeHelperPath, OVMFCodePath,
               OVMFVarsPath, OVMFSecbootCodePath]) \<and>
         (CHR ''/'' \<in> set (QemuBinaryPath (anchorPaths home c)) \<longrightarrow>
            IsAbs (QemuBinaryPath (anchorPaths home c))) \<and>
         (IsAbs (StoragePath c) \<longrightarrow> StoragePath (anchorPaths home c) = StoragePath c)"
proof -
  have r: "IsAbs (PathJoin [home, ''.vee''])" using assms by (rule IsAbs_PathJoin)
  have "IsAbs (absUnderRoot (PathJoin [home, ''.vee'']) (QemuBinaryPath c))"
    if "CHR ''/'' \<in> set (QemuBinaryPath c)"
    using absUnderRoot_abs [OF r, of "QemuBinaryPath c"] that IsAbs_PathJoin [OF r]
    by (auto simp: absUnderRoot_def)
  then show ?thesis
    using absUnderRoot_abs [OF r] by (auto simp: anchorPaths_def Let_def absUnderRoot_def)
qed

theorem anchorPaths_absolute_witness:
  "IsAbs ''/home/u'' \<and>
   StoragePath (anchorPaths ''/home/u''
     ((newDefaultConfig \<lparr>goos = ''linux'', goarch = ''amd64'', cwd = None, smt_file = None\<rparr> (\<lambda>_. False) ''/home/u'')
        \<lparr>StoragePath := ''vms''\<rparr>)) = ''/home/u/.vee/vms'' \<and>
   IsAbs (QemuBinaryPath (anchorPaths ''/home/u''
     ((newDefaultConfig \<lparr>goos = ''linux'', goarch = ''amd64'', cwd = None, smt_file = None\<rparr> (\<lambda>_. False) ''/home/u'')
        \<lparr>QemuBinaryPath := ''bin/qemu''\<rparr>)))"
proof -
  let ?c = "newDefaultConfig \<lparr>goos = ''linux'', goarch = ''amd64'', cwd = None, smt_file = None\<rparr> (\<lambda>_. False) ''/home/u''"
  have "CHR ''/'' \<in> set (QemuBinaryPath (anchorPaths ''/home/u'' (?c\<lparr>QemuBinaryPath := ''bin/qemu''\<rparr>)))"
    by (simp add: anchorPaths_def absUnderRoot_def IsAbs_def PathJoin_def Clean_def Let_def)
  moreover have "StoragePath (anchorPaths ''/home/u'' (?c\<lparr>StoragePath := ''vms''\<rparr>)) = ''/home/u/.vee/vms''"
    by (simp add: anchorPaths_def absUnderRoot_def IsAbs_def PathJoin_def Clean_def Let_def)
  ultimately show ?thesis
    using anchorPaths_absolute [of "''/home/u''" "?c\<lparr>QemuBinaryPath := ''bin/qemu''\<rparr>"] by (simp add: IsAbs_def)
qed

end
