(* ===== verification/Qemu_Machine.thy ===== *)
theory Qemu_Machine
  imports Qemu_Devices Provider
begin

text \<open>
  \<open>internal/qemu/machine.go\<close>: the machine under construction, its options, validation, the
  effective \<open>-machine\<close> value and the whole command line \<open>Args\<close> composes from the device
  builders.  \<open>control_unix.go\<close> and \<open>control_windows.go\<close> give the forms of the control channels.
\<close>

subsection \<open>Machine and options\<close>

record BaseMachine =
  bm_basePath :: string
  bm_name :: string
  bm_architecture :: string
  bm_binaryPath :: string
  bm_accelerator :: string
  bm_cpu :: CPU
  bm_machineType :: string
  bm_memory :: string
  bm_vga :: string
  bm_display :: string
  bm_vnc :: string
  bm_extraEnv :: "string list"
  bm_headless :: bool
  bm_extraDevices :: "string list"
  bm_disks :: "qDisk list"
  bm_virtiofsd :: "Virtiofsd list"
  bm_spice :: "Spice option"
  bm_nics :: "qNIC list"
  bm_uefi :: "qUEFI option"
  bm_qmpSocket :: string
  bm_qgaSocket :: string
  bm_memfd :: "MemfdBackend option"
  bm_vfioDevices :: "VFIODevice list"
  bm_tpm :: "string option"
  bm_vsock :: "nat option"
  bm_cpuPinning :: "int list"
  bm_rtc :: string
  bm_bootOrder :: string
  bm_globals :: "string list"
  bm_nested :: bool
  bm_vmportOff :: bool

type_synonym QemuOptions = "BaseMachine \<Rightarrow> BaseMachine"

definition WithName :: "string \<Rightarrow> QemuOptions" where
  "WithName n = (\<lambda>q. q\<lparr>bm_name := n\<rparr>)"

definition WithMachineType :: "string \<Rightarrow> QemuOptions" where
  "WithMachineType mt = (\<lambda>q. if mt \<noteq> [] then q\<lparr>bm_machineType := mt\<rparr> else q)"

definition WithGlobal :: "string \<Rightarrow> QemuOptions" where
  "WithGlobal g = (\<lambda>q. q\<lparr>bm_globals := bm_globals q @ [g]\<rparr>)"

definition WithVirtiofsd :: "string \<Rightarrow> string \<Rightarrow> QemuOptions" where
  "WithVirtiofsd socketPath tag = (\<lambda>q. q\<lparr>bm_virtiofsd := bm_virtiofsd q @
     [\<lparr>vfs_SocketPath = socketPath, vfs_Tag = tag, vfs_Chardev = ''virtiofs-'' @ tag,
       vfs_Device = ''vhost-user-fs-pci'', vfs_Object = []\<rparr>]\<rparr>)"

definition WithVGA :: "string \<Rightarrow> QemuOptions" where
  "WithVGA v = (\<lambda>q. q\<lparr>bm_vga := v\<rparr>)"

definition AddDisk :: "qDisk \<Rightarrow> QemuOptions" where
  "AddDisk d = (\<lambda>q. q\<lparr>bm_disks := bm_disks q @ [d]\<rparr>)"

definition WithMemory :: "string \<Rightarrow> QemuOptions" where
  "WithMemory m = (\<lambda>q. q\<lparr>bm_memory := m\<rparr>)"

definition WithCPU :: "CPU \<Rightarrow> QemuOptions" where
  "WithCPU c = (\<lambda>q. q\<lparr>bm_cpu := c\<rparr>)"

definition WithAccelerator :: "string \<Rightarrow> QemuOptions" where
  "WithAccelerator a = (\<lambda>q. q\<lparr>bm_accelerator := a\<rparr>)"

definition WithArchitecture :: "string \<Rightarrow> QemuOptions" where
  "WithArchitecture a = (\<lambda>q. q\<lparr>bm_architecture := a\<rparr>)"

definition WithBinary :: "string \<Rightarrow> QemuOptions" where
  "WithBinary p = (\<lambda>q. q\<lparr>bm_binaryPath := p\<rparr>)"

definition WithNested :: "bool \<Rightarrow> QemuOptions" where
  "WithNested b = (\<lambda>q. q\<lparr>bm_nested := b\<rparr>)"

definition WithVMPortOff :: "bool \<Rightarrow> QemuOptions" where
  "WithVMPortOff b = (\<lambda>q. q\<lparr>bm_vmportOff := b\<rparr>)"

definition WithNIC :: "qNIC \<Rightarrow> QemuOptions" where
  "WithNIC n = (\<lambda>q. q\<lparr>bm_nics := bm_nics q @ [n]\<rparr>)"

definition WithUEFI :: "qUEFI \<Rightarrow> QemuOptions" where
  "WithUEFI u = (\<lambda>q. q\<lparr>bm_uefi := Some u\<rparr>)"

definition WithQMPSocket :: "string \<Rightarrow> QemuOptions" where
  "WithQMPSocket p = (\<lambda>q. q\<lparr>bm_qmpSocket := p\<rparr>)"

definition WithQGASocket :: "string \<Rightarrow> QemuOptions" where
  "WithQGASocket p = (\<lambda>q. q\<lparr>bm_qgaSocket := p\<rparr>)"

definition WithMemfd :: "MemfdBackend \<Rightarrow> QemuOptions" where
  "WithMemfd m = (\<lambda>q. q\<lparr>bm_memfd := Some m\<rparr>)"

definition WithSpice :: "Spice \<Rightarrow> QemuOptions" where
  "WithSpice s = (\<lambda>q. q\<lparr>bm_spice := Some s\<rparr>)"

definition WithVFIO :: "VFIODevice \<Rightarrow> QemuOptions" where
  "WithVFIO v = (\<lambda>q. q\<lparr>bm_vfioDevices := bm_vfioDevices q @ [v]\<rparr>)"

definition WithDevice :: "string \<Rightarrow> QemuOptions" where
  "WithDevice d = (\<lambda>q. q\<lparr>bm_extraDevices := bm_extraDevices q @ [d]\<rparr>)"

definition WithDisplay :: "string \<Rightarrow> QemuOptions" where
  "WithDisplay d = (\<lambda>q. q\<lparr>bm_display := d\<rparr>)"

definition WithEnv :: "string list \<Rightarrow> QemuOptions" where
  "WithEnv env = (\<lambda>q. q\<lparr>bm_extraEnv := bm_extraEnv q @ env\<rparr>)"

definition WithVNC :: "string \<Rightarrow> QemuOptions" where
  "WithVNC a = (\<lambda>q. q\<lparr>bm_vnc := a\<rparr>)"

definition WithBootOrder :: "string \<Rightarrow> QemuOptions" where
  "WithBootOrder o1 = (\<lambda>q. q\<lparr>bm_bootOrder := o1\<rparr>)"

definition WithHeadless :: QemuOptions where
  "WithHeadless = (\<lambda>q. q\<lparr>bm_headless := True\<rparr>)"

definition WithTPM :: "string \<Rightarrow> QemuOptions" where
  "WithTPM t = (\<lambda>q. q\<lparr>bm_tpm := Some t\<rparr>)"

definition WithVSock :: "nat \<Rightarrow> QemuOptions" where
  "WithVSock v = (\<lambda>q. q\<lparr>bm_vsock := Some v\<rparr>)"

definition WithCPUPinning :: "int list \<Rightarrow> QemuOptions" where
  "WithCPUPinning cpus = (\<lambda>q. q\<lparr>bm_cpuPinning := cpus\<rparr>)"

definition WithRTC :: "string \<Rightarrow> QemuOptions" where
  "WithRTC r = (\<lambda>q. q\<lparr>bm_rtc := r\<rparr>)"

lemmas with_defs =
  WithName_def WithMachineType_def WithGlobal_def WithVirtiofsd_def WithVGA_def AddDisk_def
  WithMemory_def WithCPU_def WithAccelerator_def WithArchitecture_def WithBinary_def
  WithNested_def WithVMPortOff_def WithNIC_def WithUEFI_def WithQMPSocket_def WithQGASocket_def
  WithMemfd_def WithSpice_def WithVFIO_def WithDevice_def WithDisplay_def WithEnv_def WithVNC_def
  WithBootOrder_def WithHeadless_def WithTPM_def WithVSock_def WithCPUPinning_def WithRTC_def

text \<open>\<open>petname\<close> is the name the pet-name generator drew.\<close>

definition NewEmptyMachine :: "Host \<Rightarrow> ProviderConfig \<Rightarrow> string \<Rightarrow> BaseMachine" where
  "NewEmptyMachine h p petname =
     \<lparr>bm_basePath = StoragePath p, bm_name = petname, bm_architecture = DefaultGuestArch h,
      bm_binaryPath = [], bm_accelerator = DefaultAccelerator h,
      bm_cpu = NewCPU (DefaultCPUModel p) (DefaultCPUs p) [], bm_machineType = p_DefaultMachineType p,
      bm_memory = DefaultMemory p, bm_vga = [], bm_display = [], bm_vnc = [], bm_extraEnv = [],
      bm_headless = False, bm_extraDevices = [], bm_disks = [], bm_virtiofsd = [], bm_spice = None, bm_nics = [],
      bm_uefi = None, bm_qmpSocket = [], bm_qgaSocket = [], bm_memfd = None, bm_vfioDevices = [], bm_tpm = None,
      bm_vsock = None, bm_cpuPinning = [], bm_rtc = [], bm_bootOrder = [], bm_globals = [], bm_nested = False,
      bm_vmportOff = False\<rparr>"

datatype machine_error = ErrNoDisks

definition Validate :: "BaseMachine \<Rightarrow> (machine_error, unit) result" where
  "Validate q = (if bm_disks q = [] then Inl ErrNoDisks else Inr ())"

definition BuildMachine :: "BaseMachine \<Rightarrow> QemuOptions list \<Rightarrow> (machine_error, BaseMachine) result" where
  "BuildMachine q opts =
     (let q' = foldl (\<lambda>m opt. opt m) q opts
      in case Validate q' of Inl e \<Rightarrow> Inl e | Inr _ \<Rightarrow> Inr q')"

definition Machine_AbsolutePath :: "BaseMachine \<Rightarrow> string" where
  "Machine_AbsolutePath q = PathJoin [bm_basePath q, bm_name q]"

text \<open>\<open>env\<close> is what \<open>qemuEnv\<close> computed for the binary (\<^const>\<open>None\<close> is Go's nil) and
  \<open>environ\<close> the inherited environment.\<close>

definition processEnv :: "string list option \<Rightarrow> string list \<Rightarrow> BaseMachine \<Rightarrow> string list option" where
  "processEnv env environ q =
     (if bm_extraEnv q = [] then env
      else Some ((case env of None \<Rightarrow> environ | Some e \<Rightarrow> e) @ bm_extraEnv q))"

subsection \<open>The machine type\<close>

definition is_arm :: "BaseMachine \<Rightarrow> bool" where
  "is_arm q = (bm_architecture q = ''aarch64'' \<or> bm_architecture q = ''arm64'')"

definition effectiveMachineType :: "BaseMachine \<Rightarrow> string" where
  "effectiveMachineType q =
     (let mt0 = bm_machineType q;
          mt1 = (if bm_vmportOff q \<and> (HasPrefix mt0 ''q35'' \<or> HasPrefix mt0 ''pc'') \<and>
                    \<not> Contains mt0 ''vmport='' then mt0 @ '',vmport=off'' else mt0);
          mt2 = (if is_arm q \<and> HasPrefix mt1 ''virt'' \<and> \<not> Contains mt1 ''gic-version''
                 then mt1 @ '',gic-version=max'' else mt1);
          mt3 = (if bm_nested q \<and> is_arm q \<and> HasPrefix mt2 ''virt'' \<and> \<not> Contains mt2 ''virtualization=''
                 then mt2 @ '',virtualization=on'' else mt2);
          mt4 = (if bm_nested q \<and> bm_accelerator q = ''hvf'' \<and> HasPrefix mt3 ''virt'' \<and>
                    \<not> Contains mt3 ''kernel-irqchip'' then mt3 @ '',kernel-irqchip=on'' else mt3)
      in if bm_accelerator q = ''whpx'' \<and> \<not> Contains mt4 ''kernel-irqchip''
         then mt4 @ '',kernel-irqchip=off'' else mt4)"

subsection \<open>The command line\<close>

definition qmpArg :: "Host \<Rightarrow> string \<Rightarrow> string" where
  "qmpArg h addr =
     (if IsWindows h then ''tcp:'' @ addr @ '',server=on,wait=off''
      else ''unix:'' @ addr @ '',server,nowait'')"

text \<open>\<open>net.SplitHostPort\<close> on the addresses vee builds, \<open>127.0.0.1:port\<close>: the last colon
  separates the port, and a second colon or a bracket in the host is an error.\<close>

definition SplitHostPort :: "string \<Rightarrow> (string \<times> string) option" where
  "SplitHostPort addr =
     (case LastCutC (CHR '':'') addr of
        None \<Rightarrow> None
      | Some (host, port) \<Rightarrow>
          if list_ex (\<lambda>c. c = CHR '':'' \<or> c = CHR ''['' \<or> c = CHR '']'') (host @ port) then None
          else Some (host, port))"

definition qgaChardevArg :: "Host \<Rightarrow> string \<Rightarrow> string" where
  "qgaChardevArg h addr =
     (if IsWindows h then
        (case SplitHostPort addr of
           None \<Rightarrow> ''socket,host='' @ addr @ '',port=,server=on,wait=off,id=qga0''
         | Some (host, port) \<Rightarrow>
             ''socket,host='' @ host @ '',port='' @ port @ '',server=on,wait=off,id=qga0'')
      else ''socket,path='' @ addr @ '',server=on,wait=off,id=qga0'')"

definition index_disks :: "qDisk list \<Rightarrow> qDisk list" where
  "index_disks ds = map (\<lambda>(i, d). d\<lparr>d_diskIndex := i\<rparr>) (List.enumerate 0 ds)"

definition disk_section :: "Host \<Rightarrow> qDisk list \<Rightarrow> string list" where
  "disk_section h ds =
     (if list_ex (\<lambda>d. d_Interface d = ''ahci'') ds then [''-device'', ''ahci,id=ahci0''] else []) @
     (if list_ex (\<lambda>d. d_Interface d = ''usb'') ds
      then [''-device'', ''qemu-xhci,id='' @ usbDiskControllerID] else []) @
     concat (map (Disk_Args h) (index_disks ds))"

definition display_section :: "BaseMachine \<Rightarrow> string list" where
  "display_section q =
     (if bm_headless q then [''-display'', ''none'']
      else if bm_display q \<noteq> [] then [''-display'', bm_display q] else []) @
     (if bm_vnc q \<noteq> [] then [''-vnc'', bm_vnc q] else []) @
     (if bm_rtc q \<noteq> [] then [''-rtc'', bm_rtc q] else [])"

definition boot_section :: "BaseMachine \<Rightarrow> string list" where
  "boot_section q =
     (let nestedHVFBoot = (bm_nested q \<and> bm_accelerator q = ''hvf'')
      in if bm_bootOrder q \<noteq> [] \<and> nestedHVFBoot
         then [''-boot'', ''order='' @ bm_bootOrder q @ '',menu=on,splash-time=0'']
         else if bm_bootOrder q \<noteq> [] then [''-boot'', ''order='' @ bm_bootOrder q @ '',menu=off'']
         else if nestedHVFBoot then [''-boot'', ''menu=on,splash-time=0'']
         else [])"

definition control_section :: "Host \<Rightarrow> BaseMachine \<Rightarrow> string list" where
  "control_section h q =
     (if bm_qmpSocket q \<noteq> [] then [''-qmp'', qmpArg h (bm_qmpSocket q)] else []) @
     [''-chardev'', ''file,id=serial0,path='' @ PathJoin [Machine_AbsolutePath q, ''serial.log''] @
        '',signal=off'',
      ''-serial'', ''chardev:serial0''] @
     (if bm_qgaSocket q \<noteq> [] then
        [''-device'', ''virtio-serial-pci,id=virtio-serial0'',
         ''-chardev'', qgaChardevArg h (bm_qgaSocket q),
         ''-device'', ''virtserialport,chardev=qga0,name=org.qemu.guest_agent.0'']
      else [])"

definition opt_args :: "('a \<Rightarrow> string list) \<Rightarrow> 'a option \<Rightarrow> string list" where
  "opt_args f x = (case x of None \<Rightarrow> [] | Some a \<Rightarrow> f a)"

definition Machine_Args :: "Host \<Rightarrow> BaseMachine \<Rightarrow> string list" where
  "Machine_Args h q =
     [''-machine'', effectiveMachineType q] @
     concat (map (\<lambda>g. [''-global'', g]) (bm_globals q)) @
     (if bm_accelerator q \<noteq> [] then [''-accel'', bm_accelerator q] else []) @
     [''-m'', bm_memory q] @
     opt_args MemfdBackend_Args (bm_memfd q) @
     CPU_Args (bm_cpu q) @
     opt_args UEFI_Args (bm_uefi q) @
     disk_section h (bm_disks q) @
     (if bm_vga q \<noteq> [] then [''-vga'', bm_vga q] else []) @
     concat (map NIC_Args (bm_nics q)) @
     concat (map Virtiofsd_Args (bm_virtiofsd q)) @
     opt_args Spice_Args (bm_spice q) @
     concat (map VFIODevice_Args (bm_vfioDevices q)) @
     opt_args TPM_Args (bm_tpm q) @
     opt_args VSockDevice_Args (bm_vsock q) @
     concat (map (\<lambda>d. [''-device'', d]) (bm_extraDevices q)) @
     display_section q @
     boot_section q @
     control_section h q"

subsection \<open>Reading a command line back\<close>

text \<open>How QEMU reads the arguments: a flag is followed by its value, a value is a list of
  options separated by commas, and an option \<open>key=value\<close> names an identifier or refers to one.\<close>

fun pairs :: "string list \<Rightarrow> (string \<times> string) list" where
  "pairs (f # v # r) = (f, v) # pairs r"
| "pairs _ = []"

fun optval :: "string \<Rightarrow> string list \<Rightarrow> string option" where
  "optval key [] = None"
| "optval key (x # xs) =
     (case CutPrefix x (key @ ''='') of Some y \<Rightarrow> Some y | None \<Rightarrow> optval key xs)"

definition opt :: "string \<Rightarrow> string \<Rightarrow> string option" where
  "opt key v = optval key (SplitC (CHR '','') v)"

definition drive_ids :: "string list \<Rightarrow> string list" where
  "drive_ids args = List.map_filter (\<lambda>(f, v). if f = ''-drive'' then opt ''id'' v else None) (pairs args)"

definition drive_refs :: "string list \<Rightarrow> string list" where
  "drive_refs args = List.map_filter (\<lambda>(f, v). if f = ''-device'' then opt ''drive'' v else None) (pairs args)"

definition bus_name :: "string \<Rightarrow> string" where
  "bus_name b = (case LastCutC (CHR ''.'') b of None \<Rightarrow> b | Some (a, n) \<Rightarrow> a)"

fun bus_ok :: "string list \<Rightarrow> (string \<times> string) list \<Rightarrow> bool" where
  "bus_ok known [] = True"
| "bus_ok known ((f, v) # ps) =
     (if f = ''-device'' then
        (case opt ''bus'' v of None \<Rightarrow> True | Some b \<Rightarrow> bus_name b \<in> set known) \<and>
        bus_ok (case opt ''id'' v of None \<Rightarrow> known | Some i \<Rightarrow> i # known) ps
      else bus_ok known ps)"

definition comma_free :: "Host \<Rightarrow> qDisk \<Rightarrow> bool" where
  "comma_free h q =
     list_all (\<lambda>s. CHR '','' \<notin> set s)
       [Disk_AbsolutePath h q, d_Format q, d_Cache q, d_Media q, d_Interface q, d_Serial q]"

subsection \<open>Lemmas on the command line\<close>

lemma pairs_append: "even (length a) \<Longrightarrow> pairs (a @ b) = pairs a @ pairs b"
  by (induction a rule: pairs.induct) auto

lemma optval_append:
  "optval key (xs @ ys) = (case optval key xs of None \<Rightarrow> optval key ys | Some v \<Rightarrow> Some v)"
  by (induction xs) (auto split: option.splits)

lemma opt_Join:
  assumes "xs \<noteq> []" and "\<forall>x \<in> set xs. CHR '','' \<notin> set x"
  shows "opt key (Join xs '','') = optval key xs"
  using SplitC_Join [of xs "CHR '',''"] assms by (simp add: opt_def)

lemma CutPrefix_Cons [simp]:
  "CutPrefix (c # s) (p # ps) = (if c = p then CutPrefix s ps else None)"
  "CutPrefix s [] = Some s"
  "CutPrefix [] (p # ps) = None"
  by (auto simp: CutPrefix_def)

lemma comma_dec [simp]: "CHR '','' \<notin> set (dec n)"
  by (intro dec_no_char) (simp add: is_digit_def less_eq_char_def)

lemma dot_dec [simp]: "CHR ''.'' \<notin> set (dec n)"
  by (intro dec_no_char) (simp add: is_digit_def less_eq_char_def)

lemma comma_Itoa [simp]: "CHR '','' \<notin> set (Itoa i)"
  by (simp add: Itoa_def)

lemma comma_disk_id [simp]: "CHR '','' \<notin> set (disk_id q)"
  by (simp add: disk_id_def)

lemma comma_Btoa [simp]: "CHR '','' \<notin> set (Btoa b)"
  by (simp add: Btoa_def)

lemma comma_diskAIO [simp]: "CHR '','' \<notin> set p \<Longrightarrow> CHR '','' \<notin> set (diskAIO h p)"
  by (simp add: diskAIO_def)

lemma bus_name_ahci [simp]: "bus_name (''ahci0.'' @ dec n) = ''ahci0''"
  using LastCutC_append [of "CHR ''.''" "dec n" "''ahci0''"] by (simp add: bus_name_def)

lemma bus_name_usb [simp]: "bus_name (usbDiskControllerID @ ''.0'') = usbDiskControllerID"
  using LastCutC_append [of "CHR ''.''" "''0''" usbDiskControllerID] by (simp add: bus_name_def)

text \<open>What one disk contributes, whatever its interface: one drive under the disk's
  identifier, and devices that name that drive and no bus but their controller's.\<close>

definition disk_pairs_ok :: "qDisk \<Rightarrow> (string \<times> string) list \<Rightarrow> bool" where
  "disk_pairs_ok q ps =
     (map (opt ''id'' \<circ> snd) (filter (\<lambda>p. fst p = ''-drive'') ps) = [Some (disk_id q)] \<and>
      list_all (\<lambda>p. opt ''drive'' (snd p) = Some (disk_id q) \<and> opt ''id'' (snd p) = None \<and>
                     opt ''bus'' (snd p) \<in>
                       (if d_Interface q = ''ahci'' then {Some (''ahci0.'' @ dec (d_diskIndex q))}
                        else if d_Interface q = ''usb'' then {Some (usbDiskControllerID @ ''.0'')}
                        else {None}))
        (filter (\<lambda>p. fst p = ''-device'') ps))"

lemma FixOptions_sel [simp]:
  "d_Interface (FixOptions q) = d_Interface q" "d_diskIndex (FixOptions q) = d_diskIndex q"
  "disk_id (FixOptions q) = disk_id q"
  by (simp_all add: FixOptions_def disk_id_def)

lemma even_Disk_Args [simp]: "even (length (Disk_Args h q))"
  by (simp add: Disk_Args_def Let_def)

lemmas drive_defs = ahci_drive_def nvme_drive_def usb_drive_def passthrough_drive_def plain_drive_def

lemma comma_freeD:
  assumes "comma_free h q"
  shows "CHR '','' \<notin> set (Disk_AbsolutePath h q)" "CHR '','' \<notin> set (d_Format q)"
        "CHR '','' \<notin> set (d_Cache q)" "CHR '','' \<notin> set (d_Media q)"
        "CHR '','' \<notin> set (d_Interface q)" "CHR '','' \<notin> set (d_Serial q)"
  using assms by (simp_all add: comma_free_def)

lemma drive_opt_id:
  assumes "comma_free h q"
  shows "opt ''id'' (Join (ahci_drive h q) '','') = Some (disk_id q)"
    and "opt ''id'' (Join (nvme_drive h q) '','') = Some (disk_id q)"
    and "opt ''id'' (Join (usb_drive h q) '','') = Some (disk_id q)"
    and "opt ''id'' (Join (passthrough_drive h q) '','') = Some (disk_id q)"
    and "opt ''id'' (Join (plain_drive h q) '','') = Some (disk_id q)"
  using comma_freeD [OF assms]
  by (subst opt_Join; simp add: drive_defs optval_append)+

lemma comma_bootindex: "x \<in> set (bootindex_opt q) \<Longrightarrow> CHR '','' \<notin> set x"
  by (auto simp: bootindex_opt_def split: if_splits)

lemma optval_bootindex:
  "optval ''id'' (bootindex_opt q) = None" "optval ''drive'' (bootindex_opt q) = None"
  "optval ''bus'' (bootindex_opt q) = None"
  by (simp_all add: bootindex_opt_def)

definition device_opts :: "qDisk \<Rightarrow> string list" where
  "device_opts q =
     (if d_Interface q = ''ahci''
      then [''ide-hd'', ''drive='' @ disk_id q, ''bus=ahci0.'' @ dec (d_diskIndex q)] @ bootindex_opt q
      else if d_Interface q = ''nvme''
      then [''nvme'', ''drive='' @ disk_id q, ''serial='' @ disk_id q] @ bootindex_opt q
      else if d_Interface q = ''usb''
      then [''usb-storage'', ''drive='' @ disk_id q, ''bus='' @ usbDiskControllerID @ ''.0''] @ bootindex_opt q
      else [''virtio-blk-pci'', ''drive='' @ disk_id q] @
           (if d_Serial q \<noteq> [] then [''serial='' @ d_Serial q] else []) @ bootindex_opt q @
           [''iothread=iothread-'' @ disk_id q])"

lemma device_opts_opt:
  assumes "comma_free h q"
  shows "opt ''drive'' (Join (device_opts q) '','') = Some (disk_id q)"
    and "opt ''id'' (Join (device_opts q) '','') = None"
    and "opt ''bus'' (Join (device_opts q) '','') =
           (if d_Interface q = ''ahci'' then Some (''ahci0.'' @ dec (d_diskIndex q))
            else if d_Interface q = ''usb'' then Some (usbDiskControllerID @ ''.0'') else None)"
  using comma_freeD [OF assms] comma_bootindex [of _ q]
  by (subst opt_Join; auto simp: device_opts_def optval_append optval_bootindex
      usbDiskControllerID_def)+

definition drive_opts :: "Host \<Rightarrow> qDisk \<Rightarrow> string list" where
  "drive_opts h q =
     (if d_Interface q = ''ahci'' then ahci_drive h q
      else if d_Interface q = ''nvme'' then nvme_drive h q
      else if d_Interface q = ''usb'' then usb_drive h q
      else if d_Passthrough q \<or> d_ImageFile q then passthrough_drive h q
      else plain_drive h q)"

lemma pairs_Disk_Args:
  "pairs (Disk_Args h q0) =
     (let q = FixOptions q0
      in (if d_Interface q \<notin> {''ahci'', ''nvme'', ''usb''} \<and> (d_Passthrough q \<or> d_ImageFile q)
          then [(''-object'', ''iothread,id=iothread-'' @ disk_id q)] else []) @
         [(''-drive'', Join (drive_opts h q) '','')] @
         (if d_Interface q \<in> {''ahci'', ''nvme'', ''usb''} \<or> d_Passthrough q \<or> d_ImageFile q
          then [(''-device'', Join (device_opts q) '','')] else []))"
  by (simp add: Disk_Args_def Let_def device_opts_def drive_opts_def)

lemma drive_opts_id: "comma_free h q \<Longrightarrow> opt ''id'' (Join (drive_opts h q) '','') = Some (disk_id q)"
  by (simp add: drive_opts_def drive_opt_id)

lemma disk_pairs_ok_Disk_Args:
  assumes "comma_free h (FixOptions q)"
  shows "disk_pairs_ok q (pairs (Disk_Args h q))"
  using drive_opts_id [OF assms] device_opts_opt [OF assms]
  unfolding disk_pairs_ok_def pairs_Disk_Args Let_def by simp

lemma map_filter_drive:
  "List.map_filter (\<lambda>(f, v). if f = ''-drive'' then opt ''id'' v else None) ps =
     List.map_filter id (map (opt ''id'' \<circ> snd) (filter (\<lambda>p. fst p = ''-drive'') ps))"
  by (induction ps) (auto simp: map_filter_simps split: option.splits if_splits)

lemma drive_ids_append: "even (length a) \<Longrightarrow> drive_ids (a @ b) = drive_ids a @ drive_ids b"
  by (simp add: drive_ids_def pairs_append List.map_filter_def)

lemma drive_refs_append: "even (length a) \<Longrightarrow> drive_refs (a @ b) = drive_refs a @ drive_refs b"
  by (simp add: drive_refs_def pairs_append List.map_filter_def)

lemma disk_drive_ids:
  assumes "comma_free h (FixOptions q)"
  shows "drive_ids (Disk_Args h q) = [disk_id q]"
  using disk_pairs_ok_Disk_Args [OF assms]
  by (simp add: drive_ids_def map_filter_drive disk_pairs_ok_def map_filter_simps)

lemma disk_drive_refs:
  assumes "comma_free h (FixOptions q)"
  shows "set (drive_refs (Disk_Args h q)) \<subseteq> {disk_id q}"
  using disk_pairs_ok_Disk_Args [OF assms]
  by (auto simp: drive_refs_def disk_pairs_ok_def List.map_filter_def list_all_iff split: if_splits)

lemma bus_ok_skip:
  assumes "\<forall>(f, v) \<in> set ps. f = ''-device'' \<longrightarrow> opt ''id'' v = None \<and>
             (\<forall>b. opt ''bus'' v = Some b \<longrightarrow> bus_name b \<in> set known)"
  shows "bus_ok known (ps @ rest) = bus_ok known rest"
  using assms by (induction ps) (auto split: option.splits if_splits)

lemma bus_ok_disk:
  assumes "comma_free h (FixOptions q)"
    and "d_Interface q = ''ahci'' \<longrightarrow> ''ahci0'' \<in> set known"
    and "d_Interface q = ''usb'' \<longrightarrow> usbDiskControllerID \<in> set known"
  shows "bus_ok known (pairs (Disk_Args h q) @ rest) = bus_ok known rest"
proof (rule bus_ok_skip, intro ballI)
  fix p assume p: "p \<in> set (pairs (Disk_Args h q))"
  obtain f v where fv: "p = (f, v)" by (cases p)
  have "f = ''-device'' \<Longrightarrow> opt ''id'' v = None \<and> opt ''bus'' v \<in>
      (if d_Interface q = ''ahci'' then {Some (''ahci0.'' @ dec (d_diskIndex q))}
       else if d_Interface q = ''usb'' then {Some (usbDiskControllerID @ ''.0'')} else {None})"
    using disk_pairs_ok_Disk_Args [OF assms(1)] p
    by (auto simp: disk_pairs_ok_def list_all_iff fv)
  then show "case p of (f, v) \<Rightarrow> f = ''-device'' \<longrightarrow> opt ''id'' v = None \<and>
      (\<forall>b. opt ''bus'' v = Some b \<longrightarrow> bus_name b \<in> set known)"
    using assms(2,3) bus_name_ahci [of "d_diskIndex q"] bus_name_usb
    by (auto simp: fv simp del: bus_name_ahci bus_name_usb split: if_splits)
qed

lemma pairs_concat_Disk_Args:
  "pairs (concat (map (Disk_Args h) qs)) = concat (map (\<lambda>q. pairs (Disk_Args h q)) qs)"
  by (induction qs) (auto simp: pairs_append)

lemma bus_ok_disks:
  assumes "\<forall>q \<in> set qs. comma_free h (FixOptions q) \<and>
             (d_Interface q = ''ahci'' \<longrightarrow> ''ahci0'' \<in> set known) \<and>
             (d_Interface q = ''usb'' \<longrightarrow> usbDiskControllerID \<in> set known)"
  shows "bus_ok known (pairs (concat (map (Disk_Args h) qs)))"
  unfolding pairs_concat_Disk_Args using assms
  by (induction qs) (auto simp: bus_ok_disk)

lemma drive_ids_concat:
  "\<forall>q \<in> set qs. comma_free h (FixOptions q) \<Longrightarrow>
   drive_ids (concat (map (Disk_Args h) qs)) = map disk_id qs"
proof (induction qs)
  case (Cons q qs)
  then show ?case
    using disk_drive_ids [of h q]
    by (simp add: drive_ids_append)
qed (simp add: drive_ids_def map_filter_simps)

lemma drive_refs_concat:
  "\<forall>q \<in> set qs. comma_free h (FixOptions q) \<Longrightarrow>
   set (drive_refs (concat (map (Disk_Args h) qs))) \<subseteq> disk_id ` set qs"
proof (induction qs)
  case (Cons q qs)
  then show ?case
    using disk_drive_refs [of h q]
    by (auto simp: drive_refs_append)
qed (simp add: drive_refs_def map_filter_simps)

lemma disk_id_index_disks:
  "map disk_id (index_disks ds) = map (\<lambda>i. ''disk'' @ dec i) [0..<length ds]"
proof -
  have "map disk_id (map (\<lambda>(i, d). d\<lparr>d_diskIndex := i\<rparr>) (List.enumerate n ds)) =
        map (\<lambda>i. ''disk'' @ dec i) [n..<n + length ds]" for n
  proof (induction ds arbitrary: n)
    case (Cons d ds)
    have "[n..<n + length (d # ds)] = n # [Suc n..<Suc n + length ds]"
      by (simp add: upt_conv_Cons del: upt_Suc)
    then show ?case using Cons [of "Suc n"] by (simp add: disk_id_def del: upt_Suc)
  qed simp
  from this [of 0] show ?thesis by (simp add: index_disks_def)
qed

lemma in_index_disks:
  assumes "q \<in> set (index_disks ds)"
  obtains d i where "d \<in> set ds" and "q = d\<lparr>d_diskIndex := i\<rparr>"
  using assms by (force simp: index_disks_def in_set_enumerate_eq)

lemma comma_free_index:
  "comma_free h (FixOptions (d\<lparr>d_diskIndex := i\<rparr>)) = comma_free h (FixOptions d)"
  by (simp add: comma_free_def FixOptions_def Disk_AbsolutePath_def Disk_Name_def
      split: option.splits)

definition resolved :: "string list \<Rightarrow> bool" where
  "resolved args =
     (distinct (drive_ids args) \<and> set (drive_refs args) \<subseteq> set (drive_ids args) \<and>
      bus_ok [] (pairs args))"

definition ctrl_args :: "qDisk list \<Rightarrow> string list" where
  "ctrl_args ds =
     (if list_ex (\<lambda>d. d_Interface d = ''ahci'') ds then [''-device'', ''ahci,id=ahci0''] else []) @
     (if list_ex (\<lambda>d. d_Interface d = ''usb'') ds
      then [''-device'', ''qemu-xhci,id='' @ usbDiskControllerID] else [])"

lemma ctrl_no_drives: "drive_ids (ctrl_args ds) = []" "drive_refs (ctrl_args ds) = []"
  by (simp_all add: drive_ids_def drive_refs_def ctrl_args_def map_filter_simps opt_def
      usbDiskControllerID_def)

definition ctrl_known :: "qDisk list \<Rightarrow> string list" where
  "ctrl_known ds =
     (if list_ex (\<lambda>d. d_Interface d = ''usb'') ds then [usbDiskControllerID] else []) @
     (if list_ex (\<lambda>d. d_Interface d = ''ahci'') ds then [''ahci0''] else [])"

lemma bus_ok_ctrl: "bus_ok [] (pairs (ctrl_args ds) @ rest) = bus_ok (ctrl_known ds) rest"
  by (simp add: ctrl_args_def ctrl_known_def opt_def usbDiskControllerID_def)

lemma disk_section_ctrl:
  "disk_section h ds = ctrl_args ds @ concat (map (Disk_Args h) (index_disks ds))"
  by (simp add: disk_section_def ctrl_args_def)

lemma disk_section_resolved:
  assumes "\<forall>d \<in> set ds. comma_free h (FixOptions d)"
  shows "drive_ids (disk_section h ds) = map (\<lambda>i. ''disk'' @ dec i) [0..<length ds]"
    and "resolved (disk_section h ds)"
proof -
  let ?qs = "index_disks ds"
  have cf: "\<forall>q \<in> set ?qs. comma_free h (FixOptions q)"
    using assms by (auto elim!: in_index_disks simp: comma_free_index)
  have even: "even (length (ctrl_args ds))" by (simp add: ctrl_args_def)
  show ids: "drive_ids (disk_section h ds) = map (\<lambda>i. ''disk'' @ dec i) [0..<length ds]"
    by (simp add: disk_section_ctrl drive_ids_append even ctrl_no_drives drive_ids_concat [OF cf]
        disk_id_index_disks)
  have refs: "set (drive_refs (disk_section h ds)) \<subseteq> set (map disk_id ?qs)"
    using drive_refs_concat [OF cf]
    by (simp add: disk_section_ctrl drive_refs_append even ctrl_no_drives)
  have "bus_ok (ctrl_known ds) (pairs (concat (map (Disk_Args h) ?qs)))"
    using cf by (intro bus_ok_disks ballI)
      (auto elim!: in_index_disks simp: ctrl_known_def list_ex_iff)
  then have bus: "bus_ok [] (pairs (disk_section h ds))"
    by (simp add: disk_section_ctrl pairs_append even bus_ok_ctrl)
  show "resolved (disk_section h ds)"
    using refs bus by (simp add: resolved_def ids disk_id_index_disks distinct_map inj_on_def)
qed

subsection \<open>Lemmas on disk images\<close>

lemma optval_readonly:
  "optval ''readonly'' (ahci_drive h q) = None" "optval ''readonly'' (nvme_drive h q) = None"
  "optval ''readonly'' (passthrough_drive h q) = None"
  "optval ''readonly'' (usb_drive h q) = Some (Btoa (d_Readonly q))"
  "optval ''readonly'' (plain_drive h q) = Some (Btoa (d_Readonly q))"
  by (simp_all add: drive_defs)

lemma drive_opts_comma:
  assumes "comma_free h q"
  shows "drive_opts h q \<noteq> [] \<and> (\<forall>x \<in> set (drive_opts h q). CHR '','' \<notin> set x)"
  using comma_freeD [OF assms] by (auto simp: drive_opts_def drive_defs)

definition shows_readonly :: "qDisk \<Rightarrow> bool" where
  "shows_readonly q =
     (d_Interface q = ''usb'' \<or>
      d_Interface q \<notin> {''ahci'', ''nvme''} \<and> \<not> d_Passthrough q \<and> \<not> d_ImageFile q)"

definition vee_owned :: "qDisk \<Rightarrow> bool" where
  "vee_owned q = (d_Media q \<noteq> ''cdrom'' \<and> \<not> d_Passthrough q \<and> \<not> d_ImageFile q)"

definition removes :: "disk_effect list \<Rightarrow> string set" where
  "removes effs = {p. RemoveFile p \<in> set effs}"

definition creates :: "disk_effect list \<Rightarrow> bool" where
  "creates effs = list_ex (\<lambda>e. case e of QemuImgCreate _ \<Rightarrow> True | _ \<Rightarrow> False) effs"

lemma Disk_Delete_cases:
  assumes "Disk_Delete e h q = (effs, r)"
  obtains "effs = []"
  | "effs = [RemoveFile (Disk_AbsolutePath h q)]" and "vee_owned q"
    and "e_stat e (Disk_AbsolutePath h q) = Exists"
  using assms by (auto simp: Disk_Delete_def vee_owned_def split: if_splits stat_result.splits)

lemma Disk_Create_unowned: "\<not> vee_owned q \<Longrightarrow> Disk_Create e h q = ([], Inr ())"
  unfolding Disk_Create_def by (subst if_P) (auto simp: vee_owned_def)

lemma Disk_Create_no_img:
  "vee_owned q \<Longrightarrow> \<not> e_qemu_img e \<Longrightarrow> Disk_Create e h q = ([], Inl QemuImgMissing)"
  unfolding Disk_Create_def by (subst if_not_P, simp add: vee_owned_def) simp

lemma Disk_Delete_unowned: "\<not> vee_owned q \<Longrightarrow> fst (Disk_Delete e h q) = []"
  by (auto simp: Disk_Delete_def vee_owned_def)

lemma Disk_Create_shape:
  assumes "Disk_Create e h q = (effs, r)" and "effs \<noteq> []"
  obtains del r0 mid where "(if d_Recreate q then Disk_Delete e h q else ([], Inr ())) = (del, r0)"
    and "effs = del @ mid" and "removes mid = {}" and "vee_owned q"
    and "creates mid \<longrightarrow> \<not> exists_after e del (Disk_AbsolutePath h q)"
proof -
  obtain del r0 where d: "(if d_Recreate q then Disk_Delete e h q else ([], Inr ())) = (del, r0)"
    by (cases "if d_Recreate q then Disk_Delete e h q else ([], Inr ())")
  have own: "vee_owned q"
    using assms Disk_Create_unowned [of q e h] by auto
  have img: "e_qemu_img e" using assms Disk_Create_no_img [OF own, of e h] by auto
  define path where "path = Disk_AbsolutePath h q"
  have eq: "Disk_Create e h q =
      (case r0 of Inl err \<Rightarrow> (del, Inl err)
       | Inr _ \<Rightarrow>
           if \<not> e_mkdir_ok e then (del, Inl MkdirFailed)
           else let effs = del @ [MkdirAll (PathDir path)]
                in if exists_after e del path then (effs, Inr ())
                   else if d_BackingFile q \<noteq> [] then
                     (case detectImageFormat e (d_BackingFile q) of
                        None \<Rightarrow> (effs, Inl DetectFailed)
                      | Some fmt \<Rightarrow>
                          (effs @ [QemuImgCreate [''-f'', d_Format q, ''-b'', d_BackingFile q,
                                     ''-F'', fmt, path, d_Size q]],
                           if e_create_ok e then Inr () else Inl QemuImgFailed))
                   else (effs @ [QemuImgCreate [''-f'', d_Format q, path, d_Size q]],
                         if e_create_ok e then Inr () else Inl QemuImgFailed))"
    unfolding Disk_Create_def d path_def
    by (subst if_not_P, insert own, simp add: vee_owned_def) (simp add: img Let_def)
  have "\<exists>mid. effs = del @ mid \<and> removes mid = {} \<and> (creates mid \<longrightarrow> \<not> exists_after e del path)"
    using assms(1) unfolding eq
    by (cases r0) (auto simp: Let_def removes_def creates_def split: if_splits option.splits)
  then show ?thesis using that d own path_def by blast
qed

subsection \<open>Lemmas on the machine type\<close>

definition ext_opt :: "bool \<Rightarrow> string \<Rightarrow> string \<Rightarrow> string \<Rightarrow> string" where
  "ext_opt c key v m = (if c \<and> \<not> Contains m key then m @ CHR '','' # v else m)"

definition ext_chain :: "bool \<Rightarrow> bool \<Rightarrow> bool \<Rightarrow> bool \<Rightarrow> bool \<Rightarrow> string \<Rightarrow> string" where
  "ext_chain b1 b2 b3 b4 b5 m =
     ext_opt b5 ''kernel-irqchip'' ''kernel-irqchip=off''
       (ext_opt b4 ''kernel-irqchip'' ''kernel-irqchip=on''
         (ext_opt b3 ''virtualization='' ''virtualization=on''
           (ext_opt b2 ''gic-version'' ''gic-version=max''
             (ext_opt b1 ''vmport='' ''vmport=off'' m))))"

lemma ext_opt_prefix: "CHR '','' \<notin> set p \<Longrightarrow> HasPrefix (ext_opt c k v m) p = HasPrefix m p"
  by (simp add: ext_opt_def HasPrefix_sep)

lemma ext_opt_mono: "Contains m k \<Longrightarrow> Contains (ext_opt c k' v m) k"
  by (force simp: ext_opt_def Contains_iff)

lemma ext_opt_key:
  "Contains v k \<Longrightarrow> CHR '','' \<notin> set k \<Longrightarrow> c \<Longrightarrow> Contains (ext_opt c k v m) k"
  by (simp add: ext_opt_def Contains_sep)

lemma ext_opt_extends: "\<exists>e. x = m @ e \<Longrightarrow> \<exists>e. ext_opt c k v x = m @ e"
  by (auto simp: ext_opt_def)

lemma ext_chain_extends: "\<exists>e. ext_chain b1 b2 b3 b4 b5 m = m @ e"
  unfolding ext_chain_def by (intro ext_opt_extends) simp

lemma ext_chain_prefix:
  "CHR '','' \<notin> set p \<Longrightarrow> HasPrefix (ext_chain b1 b2 b3 b4 b5 m) p = HasPrefix m p"
  by (simp add: ext_chain_def ext_opt_prefix)

lemma ext_chain_fix:
  assumes "b1 \<Longrightarrow> Contains m ''vmport=''" "b2 \<Longrightarrow> Contains m ''gic-version''"
    "b3 \<Longrightarrow> Contains m ''virtualization=''" "b4 \<or> b5 \<Longrightarrow> Contains m ''kernel-irqchip''"
  shows "ext_chain b1 b2 b3 b4 b5 m = m"
  using assms by (auto simp: ext_chain_def ext_opt_def)

lemma ext_chain_idem:
  "ext_chain b1 b2 b3 b4 b5 (ext_chain b1 b2 b3 b4 b5 m) = ext_chain b1 b2 b3 b4 b5 m"
  by (rule ext_chain_fix) (auto simp: ext_chain_def ext_opt_mono ext_opt_key)

lemma effectiveMachineType_chain:
  "effectiveMachineType q =
     (let m = bm_machineType q; virt = HasPrefix m ''virt''
      in ext_chain (bm_vmportOff q \<and> (HasPrefix m ''q35'' \<or> HasPrefix m ''pc''))
           (is_arm q \<and> virt) (bm_nested q \<and> is_arm q \<and> virt)
           (bm_nested q \<and> bm_accelerator q = ''hvf'' \<and> virt) (bm_accelerator q = ''whpx'') m)"
proof -
  have fold: "(if c \<and> d \<and> \<not> Contains m k then m @ CHR '','' # v else m) = ext_opt (c \<and> d) k v m"
    "(if c \<and> d \<and> f \<and> \<not> Contains m k then m @ CHR '','' # v else m) = ext_opt (c \<and> d \<and> f) k v m"
    "(if c \<and> \<not> Contains m k then m @ CHR '','' # v else m) = ext_opt c k v m" for c d f m k v
    by (simp_all add: ext_opt_def)
  show ?thesis
    unfolding effectiveMachineType_def ext_chain_def append_Cons append_Nil fold Let_def
    by (simp add: ext_opt_prefix)
qed

subsection \<open>Properties\<close>

text \<open>C15: on every command line vee builds, the disks are wired consistently whatever mix of
  interfaces they use (virtio, AHCI, NVMe, USB, passthrough): the drives carry the pairwise
  different identifiers disk0, disk1, ... in disk order, every device names a drive that is
  there, and a device on an AHCI or USB bus comes after the controller that provides the bus.
  The hypothesis excludes commas in the values, which QEMU reads as separators.\<close>

theorem Machine_Args_disks_resolved:
  assumes "\<forall>d \<in> set (bm_disks q). comma_free h (FixOptions d)"
  shows "drive_ids (disk_section h (bm_disks q)) =
           map (\<lambda>i. ''disk'' @ dec i) [0..<length (bm_disks q)] \<and>
         resolved (disk_section h (bm_disks q)) \<and>
         (\<exists>pre post. Machine_Args h q = pre @ disk_section h (bm_disks q) @ post)"
proof -
  have "\<exists>pre post. Machine_Args h q = pre @ disk_section h (bm_disks q) @ post"
    unfolding Machine_Args_def by (metis append.assoc)
  then show ?thesis using disk_section_resolved [OF assms] by blast
qed

definition demo_host :: Host where
  "demo_host = \<lparr>goos = ''linux'', goarch = ''amd64'', cwd = Some ''/w'', smt_file = None\<rparr>"

definition demo_disk :: qDisk where
  "demo_disk = NewDisk ''20G'' ''/vms/a'' ''a'' [\<lambda>d. d\<lparr>d_Format := ''qcow2''\<rparr>]"

definition demo_provider :: ProviderConfig where
  "demo_provider =
     \<lparr>StoragePath = ''/vms'', ISOCachePath = ''/iso'', VirtiofsdPath = [], QemuBinaryPath = ''qemu-system-x86_64'',
      BridgeHelperPath = [], OVMFCodePath = ''/fw/code.fd'', OVMFVarsPath = ''/fw/vars.fd'',
      OVMFSecbootCodePath = ''/fw/sb.fd'', LogPath = ''/logs'', DefaultMemory = ''2G'', DefaultCPUs = 2,
      DefaultDiskSize = ''20G'', DefaultCPUModel = ''host'', p_DefaultMachineType = ''q35'',
      RecreateDisks = False, MirrorMode = ''off'', MirrorAddress = []\<rparr>"

definition demo_machine :: BaseMachine where
  "demo_machine = (NewEmptyMachine demo_host demo_provider ''a'')
     \<lparr>bm_disks := [demo_disk\<lparr>d_Interface := ''ahci''\<rparr>,
                  demo_disk\<lparr>d_Path := ''/iso/x.iso'', d_Media := ''cdrom'', d_Interface := ''usb''\<rparr>,
                  demo_disk\<lparr>d_Path := ''/dev/sdb'', d_Passthrough := True\<rparr>]\<rparr>"

theorem Machine_Args_disks_resolved_witness:
  "list_all (\<lambda>d. comma_free demo_host (FixOptions d)) (bm_disks demo_machine) \<and>
   resolved (disk_section demo_host (bm_disks demo_machine)) \<and>
   drive_ids (disk_section demo_host (bm_disks demo_machine)) = [''disk0'', ''disk1'', ''disk2'']"
proof -
  have cf: "list_all (\<lambda>d. comma_free demo_host (FixOptions d)) (bm_disks demo_machine)"
    by code_simp
  then have "\<forall>d \<in> set (bm_disks demo_machine). comma_free demo_host (FixOptions d)"
    by (simp add: list_all_iff)
  from Machine_Args_disks_resolved [OF this] cf show ?thesis
    by (simp add: demo_machine_def dec.simps digit_char_table)
qed

text \<open>The value given to \<open>-machine\<close> only extends the configured machine type, and the
  extension is stable: configuring the result as the machine type adds nothing more, so no
  option is given twice and one the user pinned is kept.\<close>

theorem effectiveMachineType_stable:
  "(\<exists>ext. effectiveMachineType q = bm_machineType q @ ext) \<and>
   effectiveMachineType (q\<lparr>bm_machineType := effectiveMachineType q\<rparr>) = effectiveMachineType q"
  unfolding effectiveMachineType_chain Let_def
  by (simp add: is_arm_def ext_chain_prefix ext_chain_idem ext_chain_extends)

text \<open>A disk's read-only flag reaches QEMU on the USB and the plain interfaces, where
  a cdrom is always read-only; on AHCI and NVMe, and for passthrough devices and adopted image
  files, the drive carries no read-only option at all, whatever the flag says.\<close>

theorem Disk_readonly_option:
  assumes "comma_free h (FixOptions q)"
  shows "\<exists>v. filter (\<lambda>p. fst p = ''-drive'') (pairs (Disk_Args h q)) = [(''-drive'', v)] \<and>
             opt ''readonly'' v =
               (if shows_readonly q then Some (Btoa (d_Readonly q \<or> d_Media q = ''cdrom'')) else None)"
proof (intro exI conjI)
  let ?q = "FixOptions q"
  show "filter (\<lambda>p. fst p = ''-drive'') (pairs (Disk_Args h q)) = [(''-drive'', Join (drive_opts h ?q) '','')]"
    by (simp add: pairs_Disk_Args Let_def)
  have ro: "d_Readonly ?q = (d_Readonly q \<or> d_Media q = ''cdrom'')"
    and pt: "d_Passthrough ?q = d_Passthrough q" "d_ImageFile ?q = d_ImageFile q"
    by (simp_all add: FixOptions_def)
  show "opt ''readonly'' (Join (drive_opts h ?q) '','') =
      (if shows_readonly q then Some (Btoa (d_Readonly q \<or> d_Media q = ''cdrom'')) else None)"
    using drive_opts_comma [OF assms]
    by (subst opt_Join) (auto simp: drive_opts_def optval_readonly shows_readonly_def ro pt)
qed

theorem Disk_readonly_option_witness:
  "comma_free demo_host (FixOptions (demo_disk\<lparr>d_Interface := ''nvme'', d_Readonly := True\<rparr>)) \<and>
   (\<exists>v. filter (\<lambda>p. fst p = ''-drive'')
          (pairs (Disk_Args demo_host (demo_disk\<lparr>d_Interface := ''nvme'', d_Readonly := True\<rparr>))) =
        [(''-drive'', v)] \<and> opt ''readonly'' v = None)"
proof -
  have cf: "comma_free demo_host (FixOptions (demo_disk\<lparr>d_Interface := ''nvme'', d_Readonly := True\<rparr>))"
    by code_simp
  have "\<not> shows_readonly (demo_disk\<lparr>d_Interface := ''nvme'', d_Readonly := True\<rparr>)"
    by (simp add: shows_readonly_def)
  with Disk_readonly_option [OF cf] cf show ?thesis by simp
qed

text \<open>Vee never destroys storage it does not own.  Creating or deleting a cdrom, a
  passthrough device or an adopted image file has no effect on the host; the only path ever
  removed is the disk's own image, and creation writes an image only where there is none or the
  disk asked to be recreated.\<close>

theorem Disk_ownership:
  assumes "Disk_Create e h q = (ceffs, cr)" and "Disk_Delete e h q = (deffs, dr)"
  shows "(\<not> vee_owned q \<longrightarrow> ceffs = [] \<and> deffs = []) \<and>
         removes ceffs \<union> removes deffs \<subseteq> {Disk_AbsolutePath h q} \<and>
         (removes ceffs \<noteq> {} \<longrightarrow> d_Recreate q) \<and>
         (creates ceffs \<longrightarrow> e_stat e (Disk_AbsolutePath h q) \<noteq> Exists \<or> d_Recreate q)"
proof -
  let ?p = "Disk_AbsolutePath h q"
  have del: "removes deffs \<subseteq> {?p}"
    using assms(2) by (auto elim!: Disk_Delete_cases simp: removes_def)
  have unowned: "\<not> vee_owned q \<longrightarrow> ceffs = [] \<and> deffs = []"
    using assms Disk_Create_unowned [of q e h] Disk_Delete_unowned [of q e h] by auto
  have create: "(removes ceffs \<noteq> {} \<longrightarrow> d_Recreate q) \<and> removes ceffs \<subseteq> {?p} \<and>
      (creates ceffs \<longrightarrow> e_stat e ?p \<noteq> Exists \<or> d_Recreate q)"
  proof (cases "ceffs = []")
    case False
    obtain del r0 mid where
      d: "(if d_Recreate q then Disk_Delete e h q else ([], Inr ())) = (del, r0)" and
      mid: "ceffs = del @ mid" "removes mid = {}"
        "creates mid \<longrightarrow> \<not> exists_after e del ?p"
      by (rule Disk_Create_shape [OF assms(1) False])
    show ?thesis
    proof (cases "d_Recreate q")
      case True
      then have "del = deffs" using d assms(2) by simp
      then show ?thesis using True del mid by (auto simp: removes_def)
    next
      case False
      then have "del = []" using d by simp
      then show ?thesis using False mid by (auto simp: removes_def exists_after_def)
    qed
  qed (simp add: removes_def creates_def)
  with del unowned show ?thesis by blast
qed

definition demo_env :: DiskEnv where
  "demo_env =
     \<lparr>e_stat = (\<lambda>p. if p = ''/vms/a/storage/disk-a-20G.qcow2'' then Exists else NotExist),
      e_remove_ok = True, e_mkdir_ok = True, e_qemu_img = True, e_info = (\<lambda>p. None),
      e_create_ok = True\<rparr>"

theorem Disk_ownership_witness:
  "Disk_Create demo_env demo_host demo_disk = ([MkdirAll ''/vms/a/storage''], Inr ()) \<and>
   Disk_Delete demo_env demo_host demo_disk =
     ([RemoveFile ''/vms/a/storage/disk-a-20G.qcow2''], Inr ()) \<and>
   removes [RemoveFile ''/vms/a/storage/disk-a-20G.qcow2''] \<subseteq>
     {Disk_AbsolutePath demo_host demo_disk}"
proof -
  have c: "Disk_Create demo_env demo_host demo_disk = ([MkdirAll ''/vms/a/storage''], Inr ())"
    by code_simp
  have d: "Disk_Delete demo_env demo_host demo_disk =
      ([RemoveFile ''/vms/a/storage/disk-a-20G.qcow2''], Inr ())"
    by code_simp
  from Disk_ownership [OF c d] c d show ?thesis by simp
qed

end
