(* ===== verification/Gpu.thy ===== *)
theory Gpu
  imports Vee_Prelude "HOL-Library.Product_Lexorder" "HOL-Library.Monad_Syntax"
begin

unbundle bit_operations_syntax

text \<open>
  Package \<open>internal/gpu\<close>: PCI addresses, the power state of a passthrough device and the
  wake/reset protocol before VFIO opens it (\<open>reset.go\<close>), the preflight checks
  (\<open>preflight.go\<close>) and the boot-time resizable-BAR table (\<open>rebar.go\<close>).  sysfs is the
  environment: a snapshot of the files, links and directories the code reads.
\<close>

subsection \<open>PCI addresses and sysfs\<close>

definition normalizePCIAddr :: "string \<Rightarrow> string" where
  "normalizePCIAddr addr =
     (if \<not> Contains addr '':'' \<or> length (filter (\<lambda>c. c = CHR '':'') addr) = 1
      then ''0000:'' @ addr else addr)"

record Sysfs =
  sys_file :: "string \<Rightarrow> string option"
  sys_link :: "string \<Rightarrow> string option"
  sys_dir :: "string \<Rightarrow> string list option"

definition sys_stat :: "Sysfs \<Rightarrow> string \<Rightarrow> bool" where
  "sys_stat fs p = (sys_file fs p \<noteq> None \<or> sys_dir fs p \<noteq> None)"

definition readSysFile :: "Sysfs \<Rightarrow> string \<Rightarrow> string" where
  "readSysFile fs p = (case sys_file fs p of None \<Rightarrow> [] | Some b \<Rightarrow> TrimSpace b)"

definition pciDevices :: string where "pciDevices = ''/sys/bus/pci/devices''"

record PCIDevice =
  pci_Address :: string
  pci_Vendor :: string
  pci_Device :: string
  pci_Class :: string
  pci_Driver :: string
  pci_IsGPU :: bool

definition readPCIDevice :: "Sysfs \<Rightarrow> string \<Rightarrow> PCIDevice" where
  "readPCIDevice fs addr =
     (let base = PathJoin [pciDevices, addr];
          class = readSysFile fs (PathJoin [base, ''class'']);
          classHex = TrimPrefix class ''0x''
      in \<lparr>pci_Address = addr,
          pci_Vendor = readSysFile fs (PathJoin [base, ''vendor'']),
          pci_Device = readSysFile fs (PathJoin [base, ''device'']),
          pci_Class = class,
          pci_Driver = (case sys_link fs (PathJoin [base, ''driver'']) of
                          None \<Rightarrow> [] | Some target \<Rightarrow> PathBase target),
          pci_IsGPU = (HasPrefix classHex ''0300'' \<or> HasPrefix classHex ''0302'')\<rparr>)"

definition CurrentDriver :: "Sysfs \<Rightarrow> string \<Rightarrow> string" where
  "CurrentDriver fs addr =
     (case sys_link fs (PathJoin [pciDevices, normalizePCIAddr addr, ''driver'']) of
        None \<Rightarrow> [] | Some target \<Rightarrow> PathBase target)"

definition IsAudioDevice :: "PCIDevice \<Rightarrow> bool" where
  "IsAudioDevice d =
     (let classHex = ToLower (TrimPrefix (pci_Class d) ''0x'')
      in HasPrefix classHex ''0403'' \<or> HasPrefix classHex ''0480'')"

text \<open>\<open>dot+2 > len(pciAddr)\<close> holds when nothing follows the last dot.\<close>

definition SiblingFunctions :: "Sysfs \<Rightarrow> string \<Rightarrow> PCIDevice list" where
  "SiblingFunctions fs addr =
     (let pciAddr = normalizePCIAddr addr in
      case LastCutC (CHR ''.'') pciAddr of
        None \<Rightarrow> []
      | Some (a, b) \<Rightarrow>
          if b = [] then []
          else map (readPCIDevice fs)
                 (filter (\<lambda>sib. sib \<noteq> pciAddr \<and> sys_stat fs (PathJoin [pciDevices, sib]))
                    (map (\<lambda>fn. a @ ''.'' @ dec fn) [0..<8])))"

subsection \<open>Power state\<close>

definition PowerStateD3cold :: string where "PowerStateD3cold = ''D3cold''"

definition PowerStateUnknown :: string where "PowerStateUnknown = ''unknown''"

record DeviceState =
  ds_PCIAddr :: string
  ds_PowerState :: string
  ds_RuntimeStatus :: string
  ds_ResetAvailable :: bool
  ds_ResetMethod :: string

definition ReadDeviceState :: "Sysfs \<Rightarrow> string \<Rightarrow> DeviceState" where
  "ReadDeviceState fs addr =
     (let pciAddr = normalizePCIAddr addr;
          base = PathJoin [pciDevices, pciAddr];
          raw = readSysFile fs (PathJoin [base, ''power_state''])
      in \<lparr>ds_PCIAddr = pciAddr,
          ds_PowerState = (if raw \<noteq> [] then raw else PowerStateUnknown),
          ds_RuntimeStatus = readSysFile fs (PathJoin [base, ''power'', ''runtime_status'']),
          ds_ResetAvailable = sys_stat fs (PathJoin [base, ''reset'']),
          ds_ResetMethod = readSysFile fs (PathJoin [base, ''reset_method''])\<rparr>)"

definition NeedsReset :: "DeviceState \<Rightarrow> bool" where
  "NeedsReset s = (ds_PowerState s = PowerStateD3cold)"

definition NeedsAttention :: "DeviceState \<Rightarrow> bool" where
  "NeedsAttention s =
     (if NeedsReset s then False
      else if ds_RuntimeStatus s = ''suspended'' \<and> Contains (ds_PowerState s) ''D3'' then True
      else ds_RuntimeStatus s = ''error'')"

subsection \<open>Wake and reset\<close>

text \<open>The device changes while the code runs: observation \<open>k\<close> of sysfs is \<open>obs k\<close>, and each
  read takes the next one.  \<open>polls\<close> is the number of iterations the ten-second loops get, and
  \<open>pr_control\<close>, \<open>pr_reset\<close> tell whether the writes to \<open>power/control\<close> and \<open>reset\<close> are allowed.\<close>

record Probe =
  obs :: "nat \<Rightarrow> Sysfs"
  pr_control :: bool
  pr_reset :: bool
  polls :: nat

datatype reset_error = NoResetFile | ResetWriteFailed | StillAsleep string string | ControlWriteFailed
  | ColdRebootRequired string string | ResetFailed reset_error

definition device_at :: "Probe \<Rightarrow> string \<Rightarrow> nat \<Rightarrow> DeviceState" where
  "device_at p addr k = ReadDeviceState (obs p k) addr"

fun poll_awake :: "Probe \<Rightarrow> string \<Rightarrow> nat \<Rightarrow> nat \<Rightarrow> nat \<times> (reset_error, unit) result" where
  "poll_awake p addr 0 k =
     (let s = device_at p addr k
      in (Suc k, Inl (StillAsleep (ds_PowerState s) (ds_RuntimeStatus s))))"
| "poll_awake p addr (Suc n) k =
     (if \<not> NeedsReset (device_at p addr k) then (Suc k, Inr ())
      else poll_awake p addr n (Suc k))"

definition Reset :: "Probe \<Rightarrow> string \<Rightarrow> nat \<Rightarrow> nat \<times> (reset_error, unit) result" where
  "Reset p addr k =
     (if \<not> sys_stat (obs p k) (PathJoin [pciDevices, normalizePCIAddr addr, ''reset''])
      then (Suc k, Inl NoResetFile)
      else if \<not> pr_reset p then (Suc k, Inl ResetWriteFailed)
      else poll_awake p (normalizePCIAddr addr) (polls p) (Suc k))"

definition WakeDevice :: "Probe \<Rightarrow> string \<Rightarrow> nat \<Rightarrow> nat \<times> (reset_error, unit) result" where
  "WakeDevice p addr k =
     (if \<not> pr_control p then (k, Inl ControlWriteFailed)
      else poll_awake p (normalizePCIAddr addr) (polls p) k)"

definition ensure_reset :: "Probe \<Rightarrow> string \<Rightarrow> DeviceState \<Rightarrow> nat \<Rightarrow> DeviceState \<times> reset_error option" where
  "ensure_reset p addr s k =
     (if \<not> ds_ResetAvailable s
      then (s, Some (ColdRebootRequired (ds_PowerState s) (ds_RuntimeStatus s)))
      else case Reset p addr k of
             (k', Inl e) \<Rightarrow> (device_at p addr k', Some (ResetFailed e))
           | (k', Inr _) \<Rightarrow> (device_at p addr k', None))"

definition EnsureReady :: "Probe \<Rightarrow> string \<Rightarrow> DeviceState \<times> reset_error option" where
  "EnsureReady p addr =
     (let s = device_at p addr 0 in
      if \<not> NeedsReset s then (s, None)
      else case WakeDevice p addr 1 of
             (k, Inl _) \<Rightarrow> ensure_reset p addr s k
           | (k, Inr _) \<Rightarrow>
               let s' = device_at p addr k in
               if \<not> NeedsReset s' then (s', None) else ensure_reset p addr s' (Suc k))"

subsection \<open>Memory sizes and preflight\<close>

datatype size_error = EmptyMemory | BadNumber | NotMiB | NotPowerOfTwo

definition uint64_of :: "string \<Rightarrow> (size_error, 64 word) result" where
  "uint64_of s = (case ParseUint64 s of None \<Rightarrow> Inl BadNumber | Some n \<Rightarrow> Inr (of_nat n))"

definition parseMemoryBytes :: "string \<Rightarrow> (size_error, 64 word) result" where
  "parseMemoryBytes s0 =
     (let s = TrimSpace s0 in
      if s = [] then Inl EmptyMemory
      else let suffix = last s in
           if suffix = CHR ''G'' \<or> suffix = CHR ''g''
           then bind_r (uint64_of (butlast s)) (\<lambda>n. Inr (n * 1024 * 1024 * 1024))
           else if suffix = CHR ''M'' \<or> suffix = CHR ''m''
           then bind_r (uint64_of (butlast s)) (\<lambda>n. Inr (n * 1024 * 1024))
           else if suffix = CHR ''K'' \<or> suffix = CHR ''k''
           then bind_r (uint64_of (butlast s)) (\<lambda>n. Inr (n * 1024))
           else uint64_of s)"

record PreflightResult =
  pf_PCIAddr :: string
  pf_Driver :: string
  pf_IOMMUGroup :: int
  pf_GroupPeers :: "PCIDevice list"
  pf_VFIODevPath :: string
  pf_VFIOAccessible :: bool
  pf_MemlockSoftBytes :: "64 word"
  pf_MemlockHardBytes :: "64 word"
  pf_MemlockRequiredBytes :: "64 word"
  pf_DeviceState :: DeviceState
  pf_Errors :: "string list"

definition MemlockOK :: "PreflightResult \<Rightarrow> bool" where
  "MemlockOK r =
     (if pf_MemlockSoftBytes r = - 1 then True
      else pf_MemlockRequiredBytes r > 0 \<and> pf_MemlockSoftBytes r \<ge> pf_MemlockRequiredBytes r)"

definition PreflightResult_OK :: "PreflightResult \<Rightarrow> bool" where
  "PreflightResult_OK r = (pf_Errors r = [])"

text \<open>\<open>Sscanf("%d")\<close> on the base name of the group link, a plain decimal number: the longest run
  of leading digits.\<close>

definition scan_group :: "string \<Rightarrow> int option" where
  "scan_group s = parse_dec (takeWhile is_digit s) \<bind> (\<lambda>n. if n < 2 ^ 63 then Some (int n) else None)"

definition group_peers :: "Sysfs \<Rightarrow> string \<Rightarrow> int \<Rightarrow> PCIDevice list" where
  "group_peers fs pciAddr g =
     (if g < 0 then []
      else case sys_dir fs (PathJoin [''/sys/kernel/iommu_groups'', Itoa g, ''devices'']) of
             None \<Rightarrow> []
           | Some entries \<Rightarrow> map (readPCIDevice fs) (filter (\<lambda>e. e \<noteq> pciAddr) entries))"

text \<open>\<open>canOpen\<close> is whether opening the VFIO node succeeds and \<open>limits\<close> the memlock limits, if
  they could be read.  The errors are the keys of the map, in the order of the checks.\<close>

definition PreflightCheck ::
  "Sysfs \<Rightarrow> (string \<Rightarrow> bool) \<Rightarrow> (64 word \<times> 64 word) option \<Rightarrow> string \<Rightarrow> string \<Rightarrow> PreflightResult" where
  "PreflightCheck fs canOpen limits addr memoryStr =
     (let pciAddr = normalizePCIAddr addr;
          ds = ReadDeviceState fs pciAddr;
          driver = CurrentDriver fs pciAddr;
          group = (case sys_link fs (PathJoin [pciDevices, pciAddr, ''iommu_group'']) of
                     None \<Rightarrow> -1
                   | Some t \<Rightarrow> (case scan_group (PathBase t) of None \<Rightarrow> -1 | Some g \<Rightarrow> g));
          peers = group_peers fs pciAddr group;
          node = (if group \<ge> 0 then ''/dev/vfio/'' @ Itoa group else []);
          nodeOK = (group \<ge> 0 \<and> sys_stat fs node \<and> canOpen node);
          (soft, hard) = (case limits of None \<Rightarrow> (0, 0) | Some l \<Rightarrow> l);
          required = (if memoryStr = [] then None
                      else case parseMemoryBytes memoryStr of Inl _ \<Rightarrow> None | Inr b \<Rightarrow> Some b);
          r = \<lparr>pf_PCIAddr = pciAddr, pf_Driver = driver, pf_IOMMUGroup = group, pf_GroupPeers = peers,
               pf_VFIODevPath = node, pf_VFIOAccessible = nodeOK, pf_MemlockSoftBytes = soft,
               pf_MemlockHardBytes = hard,
               pf_MemlockRequiredBytes = (case required of None \<Rightarrow> 0 | Some b \<Rightarrow> b),
               pf_DeviceState = ds, pf_Errors = []\<rparr>
      in r\<lparr>pf_Errors :=
             (if NeedsReset ds then [''power_state''] else []) @
             (if driver \<noteq> ''vfio-pci'' then [''driver''] else []) @
             (if group < 0 then [''iommu_group'']
              else map (\<lambda>d. ''iommu_group_peer_'' @ pci_Address d)
                     (filter (\<lambda>d. pci_Driver d \<noteq> ''vfio-pci'') peers)) @
             (if group < 0 then []
              else if \<not> sys_stat fs node then [''vfio_dev'']
              else if \<not> canOpen node then [''vfio_access''] else []) @
             (if required \<noteq> None \<and> \<not> MemlockOK r then [''memlock''] else [])\<rparr>)"

subsection \<open>Resizable BAR\<close>

record RebarEntry =
  re_Addr :: string
  re_Bar :: int
  re_Exp :: int

definition SizeBytes :: "RebarEntry \<Rightarrow> 64 word" where
  "SizeBytes e =
     (if re_Exp e < 0 \<or> re_Exp e > 43 then 0 else push_bit (nat (re_Exp e) + 20) 1)"

definition TrailingZeros64 :: "64 word \<Rightarrow> int" where
  "TrailingZeros64 b = (case List.find (bit b) [0..<64] of None \<Rightarrow> 64 | Some k \<Rightarrow> int k)"

definition ParseRebarSize :: "string \<Rightarrow> (size_error, int) result" where
  "ParseRebarSize s =
     bind_r (parseMemoryBytes s) (\<lambda>b.
       if b < 2 ^ 20 \<or> b mod 2 ^ 20 \<noteq> 0 then Inl NotMiB
       else if b AND (b - 1) \<noteq> 0 then Inl NotPowerOfTwo
       else Inr (TrailingZeros64 b - 20))"

datatype rebar_error = BadFieldCount nat string | BadBar nat | BadExp nat

fun parse_rebar_lines :: "nat \<Rightarrow> string list \<Rightarrow> (rebar_error, RebarEntry list) result" where
  "parse_rebar_lines i [] = Inr []"
| "parse_rebar_lines i (raw # rest) =
     (let line = TrimSpace raw in
      if line = [] \<or> HasPrefix line ''#'' then parse_rebar_lines (Suc i) rest
      else case Fields line of
             [a, b, e] \<Rightarrow>
               (case Atoi b of
                  None \<Rightarrow> Inl (BadBar (Suc i))
                | Some bar \<Rightarrow>
                    (case Atoi e of
                       None \<Rightarrow> Inl (BadExp (Suc i))
                     | Some ex \<Rightarrow>
                         bind_r (parse_rebar_lines (Suc i) rest)
                           (\<lambda>es. Inr (\<lparr>re_Addr = normalizePCIAddr a, re_Bar = bar, re_Exp = ex\<rparr> # es))))
           | _ \<Rightarrow> Inl (BadFieldCount (Suc i) line))"

definition ParseRebarConf :: "string \<Rightarrow> (rebar_error, RebarEntry list) result" where
  "ParseRebarConf content = parse_rebar_lines 0 (Lines content)"

definition rebarKey :: "RebarEntry \<Rightarrow> string \<times> int" where
  "rebarKey e = (re_Addr e, re_Bar e)"

definition rebar_line :: "RebarEntry \<Rightarrow> string" where
  "rebar_line e = re_Addr e @ '' '' @ Itoa (re_Bar e) @ '' '' @ Itoa (re_Exp e)"

definition rebar_header :: "string list" where
  "rebar_header =
     [''# Written by `vee gpu rebar`. One boot-time BAR resize per line:'',
      ''# <pci-addr> <bar-index> <size-exponent>   (size = 2^exp MB)'']"

definition RenderRebarConf :: "RebarEntry list \<Rightarrow> string" where
  "RenderRebarConf entries =
     concat (map (\<lambda>l. l @ nl) (rebar_header @ map rebar_line (sort_key rebarKey entries)))"

fun replace_entry :: "RebarEntry \<Rightarrow> RebarEntry list \<Rightarrow> RebarEntry list option" where
  "replace_entry x [] = None"
| "replace_entry x (e # es) =
     (if re_Addr e = re_Addr x \<and> re_Bar e = re_Bar x then Some (x # es)
      else map_option ((#) e) (replace_entry x es))"

definition MergeRebarEntry :: "RebarEntry list \<Rightarrow> RebarEntry \<Rightarrow> RebarEntry list" where
  "MergeRebarEntry entries entry0 =
     (let entry = entry0\<lparr>re_Addr := normalizePCIAddr (re_Addr entry0)\<rparr> in
      case replace_entry entry entries of None \<Rightarrow> entries @ [entry] | Some es \<Rightarrow> es)"

fun drop_entry :: "string \<Rightarrow> int \<Rightarrow> RebarEntry list \<Rightarrow> RebarEntry list option" where
  "drop_entry a b [] = None"
| "drop_entry a b (e # es) =
     (if re_Addr e = a \<and> re_Bar e = b then Some es else map_option ((#) e) (drop_entry a b es))"

definition RemoveRebarEntry :: "RebarEntry list \<Rightarrow> string \<Rightarrow> int \<Rightarrow> RebarEntry list \<times> bool" where
  "RemoveRebarEntry entries addr bar =
     (case drop_entry (normalizePCIAddr addr) bar entries of
        None \<Rightarrow> (entries, False) | Some es \<Rightarrow> (es, True))"

subsection \<open>Lemmas\<close>

lemma count_append: "length (filter P (xs @ ys)) = length (filter P xs) + length (filter P ys)"
  by simp

lemma Contains_colon: "Contains a '':'' \<longleftrightarrow> CHR '':'' \<in> set a"
  by (auto simp: Contains_iff in_set_conv_decomp)

lemma normalizePCIAddr_idem:
  assumes "Contains a '':''"
  shows "normalizePCIAddr (normalizePCIAddr a) = normalizePCIAddr a"
proof (cases "length (filter (\<lambda>c. c = CHR '':'') a) = 1")
  case True
  then have "normalizePCIAddr a = ''0000:'' @ a" by (simp add: normalizePCIAddr_def)
  moreover have "length (filter (\<lambda>c. c = CHR '':'') (''0000:'' @ a)) = 2" using True by simp
  moreover have "Contains (''0000:'' @ a) '':''" by (simp add: Contains_colon)
  ultimately show ?thesis by (simp add: normalizePCIAddr_def)
next
  case False
  then have "normalizePCIAddr a = a" using assms by (simp add: normalizePCIAddr_def)
  then show ?thesis by simp
qed

text \<open>A device that has left D3cold stays out of it.\<close>

definition stays_awake :: "Probe \<Rightarrow> string \<Rightarrow> bool" where
  "stays_awake p addr =
     (\<forall>i j. i \<le> j \<longrightarrow> \<not> NeedsReset (device_at p addr i) \<longrightarrow> \<not> NeedsReset (device_at p addr j))"

lemma device_at_normalize:
  "Contains addr '':'' \<Longrightarrow> device_at p (normalizePCIAddr addr) k = device_at p addr k"
  by (simp add: device_at_def ReadDeviceState_def normalizePCIAddr_idem)

lemma poll_awake_Inr:
  "poll_awake p addr n k = (k', Inr u) \<Longrightarrow> \<exists>j<k'. \<not> NeedsReset (device_at p addr j)"
  by (induction p addr n k rule: poll_awake.induct) (auto simp: Let_def split: if_splits)

lemma ensure_reset_None:
  assumes "ensure_reset p addr s k = (s', None)"
  obtains k' where "Reset p addr k = (k', Inr ())" and "s' = device_at p addr k'"
  using assms by (auto simp: ensure_reset_def split: if_splits prod.splits sum.splits)

lemma ensure_reset_awake:
  assumes "stays_awake p addr" and "Contains addr '':''" and "ensure_reset p addr s k = (s', None)"
  shows "\<not> NeedsReset s'"
proof -
  obtain k' where r: "Reset p addr k = (k', Inr ())" and s': "s' = device_at p addr k'"
    using assms(3) by (rule ensure_reset_None)
  from r have "poll_awake p (normalizePCIAddr addr) (polls p) (Suc k) = (k', Inr ())"
    by (simp add: Reset_def split: if_splits)
  then obtain j where "j < k'" and "\<not> NeedsReset (device_at p addr j)"
    using poll_awake_Inr device_at_normalize [OF assms(2)] by fastforce
  with assms(1) show ?thesis unfolding s' stays_awake_def by (meson less_imp_le)
qed

text \<open>A device \<open>EnsureReady\<close> reports ready is not in D3cold, provided that it stays out of
  D3cold once it has left it; and a device that is awake at the first reading is reported ready
  with no write to sysfs at all.\<close>

theorem EnsureReady_sound:
  assumes "Contains addr '':''" and "stays_awake p addr"
  shows "(snd (EnsureReady p addr) = None \<longrightarrow> \<not> NeedsReset (fst (EnsureReady p addr))) \<and>
         (\<not> NeedsReset (device_at p addr 0) \<longrightarrow> EnsureReady p addr = (device_at p addr 0, None))"
proof -
  have "\<not> NeedsReset s" if "EnsureReady p addr = (s, None)" for s
    using that ensure_reset_awake [OF assms(2,1)]
    by (auto simp: EnsureReady_def Let_def split: if_splits prod.splits sum.splits)
  moreover have "EnsureReady p addr = (device_at p addr 0, None)" if "\<not> NeedsReset (device_at p addr 0)"
    using that by (simp add: EnsureReady_def)
  ultimately show ?thesis by (metis prod.collapse)
qed

definition demo_sysfs :: "string \<Rightarrow> Sysfs" where
  "demo_sysfs state =
     \<lparr>sys_file = (\<lambda>p. if p = ''/sys/bus/pci/devices/0000:08:00.0/power_state'' then Some (state @ nl)
                       else None),
      sys_link = (\<lambda>_. None), sys_dir = (\<lambda>_. None)\<rparr>"

definition demo_probe :: Probe where
  "demo_probe =
     \<lparr>obs = (\<lambda>k. demo_sysfs (if k < 3 then ''D3cold'' else ''D0'')), pr_control = True,
      pr_reset = False, polls = 50\<rparr>"

lemma demo_power: "ds_PowerState (device_at demo_probe ''08:00.0'' k) = (if k < 3 then ''D3cold'' else ''D0'')"
  by (simp add: device_at_def demo_probe_def demo_sysfs_def ReadDeviceState_def normalizePCIAddr_def
      readSysFile_def pciDevices_def PathJoin_def Clean_def IsAbs_def nl_def TrimSpace_def TrimF_def
      TrimRightF_def is_space_def Let_def)

theorem EnsureReady_sound_witness:
  "Contains ''08:00.0'' '':'' \<and> stays_awake demo_probe ''08:00.0'' \<and>
   snd (EnsureReady demo_probe ''08:00.0'') = None \<and>
   \<not> NeedsReset (fst (EnsureReady demo_probe ''08:00.0''))"
proof -
  have s: "stays_awake demo_probe ''08:00.0''"
    by (simp add: stays_awake_def NeedsReset_def demo_power PowerStateD3cold_def)
  have n: "NeedsReset (device_at demo_probe ''08:00.0'' k) \<longleftrightarrow> k < 3" for k
    by (simp add: NeedsReset_def demo_power PowerStateD3cold_def)
  have n': "NeedsReset (device_at demo_probe (normalizePCIAddr ''08:00.0'') k) \<longleftrightarrow> k < 3" for k
    using n device_at_normalize [of "''08:00.0''"] by simp
  have e: "snd (EnsureReady demo_probe ''08:00.0'') = None"
    by (simp add: EnsureReady_def WakeDevice_def n n' Let_def demo_probe_def [THEN arg_cong [of _ _ pr_control]]
        demo_probe_def [THEN arg_cong [of _ _ polls]] numeral_eq_Suc)
  show ?thesis using EnsureReady_sound [OF _ s] e s by simp
qed

subsection \<open>Sizes: powers of two\<close>

lemma and_pred_nat:
  fixes n :: nat
  assumes "0 < n" and "n AND (n - 1) = 0"
  shows "\<exists>k. n = 2 ^ k"
  using assms
proof (induction n rule: less_induct)
  case (less n)
  show ?case
  proof (cases "even n")
    case True
    then obtain m where m: "n = 2 * m" by (elim evenE)
    have "(n AND (n - 1)) div 2 = m AND (m - 1)"
      using m less.prems(1) by (cases m) (simp_all add: and_nat_unfold [of "2 * _"] and_nat_unfold [of "Suc (Suc _)"])
    then have "m AND (m - 1) = 0" using less.prems(2) by simp
    moreover have "0 < m" and "m < n" using m less.prems(1) by auto
    ultimately obtain k where "m = 2 ^ k" using less.IH by blast
    then have "n = 2 ^ Suc k" using m by simp
    then show ?thesis by blast
  next
    case False
    then obtain m where m: "n = 2 * m + 1" by (elim oddE)
    have "n AND (n - 1) = 2 * m"
      using m by (simp add: and_nat_unfold [of "Suc (2 * m)"])
    then have "n = 2 ^ 0" using m less.prems(2) by simp
    then show ?thesis by blast
  qed
qed

lemma and_pred_word:
  fixes b :: "64 word"
  assumes "b \<noteq> 0" and "b AND (b - 1) = 0"
  shows "\<exists>k<64. b = 2 ^ k \<and> unat b = 2 ^ k"
proof -
  have p: "unat (b - 1) = unat b - 1" using assms(1) by (simp add: unat_minus_one)
  have "unat b AND (unat b - 1) = 0"
    using arg_cong [OF assms(2), of unat] p by (simp add: unsigned_and_eq)
  moreover have "0 < unat b" using assms(1) by (simp add: unat_gt_0)
  ultimately obtain k where k: "unat b = 2 ^ k" using and_pred_nat by blast
  have "unat b < 2 ^ LENGTH(64)" by (rule unsigned_less)
  then have "(2::nat) ^ k < 2 ^ 64" using k by simp
  then have "k < 64" by (rule power_less_imp_less_exp [rotated]) simp
  moreover have "b = 2 ^ k"
  proof -
    have "b = of_nat (unat b)" by simp
    also have "\<dots> = 2 ^ k" unfolding k by simp
    finally show ?thesis .
  qed
  ultimately show ?thesis using k by blast
qed

lemma find_upt_least:
  assumes "P k" and "k < n" and "\<And>i. i < k \<Longrightarrow> \<not> P i"
  shows "List.find P [0..<n] = Some k"
  unfolding find_Some_iff using assms by (intro exI [of _ k]) simp

lemma find_upt_bit_pow2: "k < 64 \<Longrightarrow> List.find (bit (2 ^ k :: 64 word)) [0..<64] = Some k"
  by (rule find_upt_least) (simp_all add: bit_exp_iff)

lemma TrailingZeros64_pow2: "k < 64 \<Longrightarrow> TrailingZeros64 (2 ^ k) = int k"
  by (simp add: TrailingZeros64_def find_upt_bit_pow2)


lemma ParseRebarSize_16G: "ParseRebarSize ''16G'' = Inr 14"
proof -
  have "parseMemoryBytes ''16G'' = Inr (2 ^ 34)"
    by (simp add: parseMemoryBytes_def uint64_of_def TrimSpace_def TrimF_def TrimRightF_def
        is_space_def ParseUint64_def parse_dec_def is_digit_iff dec_val_def digit_val_def)
  moreover have "TrailingZeros64 (2 ^ 34) = 34" using TrailingZeros64_pow2 [of 34] by simp
  ultimately show ?thesis by (simp add: ParseRebarSize_def)
qed


subsection \<open>The rebar.conf round trip\<close>

definition no_space :: "string \<Rightarrow> bool" where
  "no_space s = list_all (\<lambda>c. \<not> is_space c) s"

lemma FieldsAcc_word: "no_space w \<Longrightarrow> FieldsAcc acc (w @ r) = FieldsAcc (rev w @ acc) r"
  by (induction w arbitrary: acc) (auto simp: no_space_def)

lemma Fields3:
  assumes "no_space a" "no_space b" "no_space c" "a \<noteq> []" "b \<noteq> []" "c \<noteq> []"
  shows "Fields (a @ '' '' @ b @ '' '' @ c) = [a, b, c]"
proof -
  have "FieldsAcc [] c = [c]" using FieldsAcc_word [OF assms(3), of "[]" "[]"] assms(6) by simp
  then show ?thesis
    unfolding Fields_def
    using assms by (simp add: FieldsAcc_word is_space_def)
qed

lemma TrimSpace_id:
  assumes "s \<noteq> []" "\<not> is_space (hd s)" "\<not> is_space (last s)"
  shows "TrimSpace s = s"
proof -
  have "dropWhile is_space s = s" using assms by (cases s) auto
  moreover have "dropWhile is_space (rev s) = rev s"
    using assms by (cases "rev s") (auto simp: hd_rev [symmetric])
  ultimately show ?thesis by (simp add: TrimSpace_def TrimF_def TrimRightF_def)
qed

lemma is_digit_not_space: "is_digit c \<Longrightarrow> \<not> is_space c"
  by (auto simp: is_digit_iff is_space_def)

lemma no_space_dec [simp]: "no_space (dec n)"
  by (auto simp: no_space_def list_all_iff is_digit_not_space dest: dec_digits)

lemma no_space_Itoa [simp]: "no_space (Itoa i)"
  using no_space_dec by (auto simp: Itoa_def no_space_def is_space_def)

lemma Itoa_nonempty [simp]: "Itoa i \<noteq> []"
  by (simp add: Itoa_def)

lemma parse_sint_Itoa: "parse_sint (Itoa i) = Some i"
  by (auto simp: Itoa_def parse_sint_dec parse_sint_def [of "CHR ''-'' # _"])

lemma Atoi_Itoa: "- (2 ^ 63) \<le> i \<Longrightarrow> i < 2 ^ 63 \<Longrightarrow> Atoi (Itoa i) = Some i"
  by (simp add: ParseInt64_def parse_sint_Itoa)

definition rebar_ok :: "RebarEntry \<Rightarrow> bool" where
  "rebar_ok e =
     (re_Addr e \<noteq> [] \<and> no_space (re_Addr e) \<and> hd (re_Addr e) \<noteq> CHR ''#'' \<and>
      normalizePCIAddr (re_Addr e) = re_Addr e \<and>
      - (2 ^ 63) \<le> re_Bar e \<and> re_Bar e < 2 ^ 63 \<and> - (2 ^ 63) \<le> re_Exp e \<and> re_Exp e < 2 ^ 63)"

lemma TrimSpace_rebar_line: "rebar_ok e \<Longrightarrow> TrimSpace (rebar_line e) = rebar_line e"
proof (rule TrimSpace_id)
  assume ok: "rebar_ok e"
  show "rebar_line e \<noteq> []" by (simp add: rebar_line_def)
  show "\<not> is_space (hd (rebar_line e))"
    using ok by (cases "re_Addr e") (auto simp: rebar_line_def rebar_ok_def no_space_def)
  have "last (rebar_line e) = last (Itoa (re_Exp e))" by (simp add: rebar_line_def)
  also have "\<not> is_space \<dots>" using no_space_Itoa [of "re_Exp e"] by (simp add: no_space_def list_all_iff)
  finally show "\<not> is_space (last (rebar_line e))" .
qed

lemma parse_rebar_line:
  assumes "rebar_ok e"
  shows "parse_rebar_lines i (rebar_line e # rest) =
         bind_r (parse_rebar_lines (Suc i) rest) (\<lambda>es. Inr (e # es))"
proof -
  have f: "Fields (rebar_line e) = [re_Addr e, Itoa (re_Bar e), Itoa (re_Exp e)]"
    using assms unfolding rebar_line_def by (intro Fields3) (auto simp: rebar_ok_def)
  have h: "\<not> HasPrefix (rebar_line e) ''#''" and "rebar_line e \<noteq> []"
    using assms by (cases "re_Addr e"; auto simp: rebar_line_def rebar_ok_def)+
  moreover have surj: "\<lparr>re_Addr = re_Addr e, re_Bar = re_Bar e, re_Exp = re_Exp e\<rparr> = e" by simp
  moreover have "Atoi (Itoa (re_Bar e)) = Some (re_Bar e)" "Atoi (Itoa (re_Exp e)) = Some (re_Exp e)"
    "normalizePCIAddr (re_Addr e) = re_Addr e"
    using assms by (simp_all add: rebar_ok_def Atoi_Itoa)
  ultimately show ?thesis by (simp add: TrimSpace_rebar_line [OF assms] f surj)
qed

lemma parse_rebar_skip:
  "TrimSpace l = [] \<or> HasPrefix (TrimSpace l) ''#'' \<Longrightarrow>
   parse_rebar_lines i (l # rest) = parse_rebar_lines (Suc i) rest"
  by (simp add: Let_def)

lemma parse_rebar_lines_render:
  "list_all rebar_ok es \<Longrightarrow> parse_rebar_lines i (map rebar_line es @ [[]]) = Inr es"
proof (induction es arbitrary: i)
  case Nil
  show ?case using parse_rebar_skip [of "[]" i "[]"] by (simp add: TrimSpace_def TrimF_def TrimRightF_def)
next
  case (Cons e es)
  then show ?case by (simp add: parse_rebar_line del: parse_rebar_lines.simps(2))
qed

lemma Lines_concat:
  "(\<And>l. l \<in> set ls \<Longrightarrow> CHR 0x0A \<notin> set l) \<Longrightarrow> Lines (concat (map (\<lambda>l. l @ nl) ls)) = ls @ [[]]"
proof (induction ls)
  case (Cons l ls)
  then show ?case using SplitC_append_sep [of "CHR 0x0A" l] by (simp add: Lines_def nl_def)
qed (simp add: Lines_def)

lemma no_space_no_nl: "no_space s \<Longrightarrow> CHR 0x0A \<notin> set s"
  by (auto simp: no_space_def list_all_iff is_space_def)

lemma rebar_line_no_nl: "rebar_ok e \<Longrightarrow> CHR 0x0A \<notin> set (rebar_line e)"
  by (auto simp: rebar_line_def rebar_ok_def no_space_no_nl)

text \<open>What \<open>vee gpu rebar\<close> writes it reads back: parsing the rendered table gives exactly the
  entries, sorted by address and BAR index, for entries with a normalised address.\<close>

theorem ParseRebarConf_RenderRebarConf:
  assumes "list_all rebar_ok es"
  shows "ParseRebarConf (RenderRebarConf es) = Inr (sort_key rebarKey es)"
proof -
  let ?s = "sort_key rebarKey es"
  have ok: "list_all rebar_ok ?s" using assms by (simp add: list_all_iff)
  have "Lines (RenderRebarConf es) = (rebar_header @ map rebar_line ?s) @ [[]]"
    unfolding RenderRebarConf_def
    using ok by (intro Lines_concat) (auto simp: rebar_header_def list_all_iff rebar_line_no_nl)
  moreover have "parse_rebar_lines 0 (rebar_header @ r) = parse_rebar_lines 2 r" for r
    by (simp add: rebar_header_def TrimSpace_id is_space_def numeral_2_eq_2)
  ultimately show ?thesis by (simp add: ParseRebarConf_def parse_rebar_lines_render [OF ok])
qed

theorem ParseRebarConf_RenderRebarConf_witness:
  "list_all rebar_ok [\<lparr>re_Addr = ''0000:08:00.0'', re_Bar = 2, re_Exp = 8\<rparr>] \<and>
   ParseRebarConf (RenderRebarConf [\<lparr>re_Addr = ''0000:08:00.0'', re_Bar = 2, re_Exp = 8\<rparr>]) =
     Inr [\<lparr>re_Addr = ''0000:08:00.0'', re_Bar = 2, re_Exp = 8\<rparr>]"
proof -
  have ok: "list_all rebar_ok [\<lparr>re_Addr = ''0000:08:00.0'', re_Bar = 2, re_Exp = 8\<rparr>]"
    by (simp add: rebar_ok_def no_space_def is_space_def normalizePCIAddr_def)
  show ?thesis using ParseRebarConf_RenderRebarConf [OF ok] ok by simp
qed

subsection \<open>The resize table as a keyed table\<close>

definition rebar_wf :: "RebarEntry list \<Rightarrow> bool" where
  "rebar_wf es = distinct (map rebarKey es)"

definition rebar_find :: "RebarEntry list \<Rightarrow> string \<times> int \<Rightarrow> RebarEntry option" where
  "rebar_find es k = List.find (\<lambda>e. rebarKey e = k) es"

definition rebar_del :: "RebarEntry list \<Rightarrow> string \<times> int \<Rightarrow> RebarEntry list" where
  "rebar_del es k = (case drop_entry (fst k) (snd k) es of None \<Rightarrow> es | Some es' \<Rightarrow> es')"

lemma replace_entry_None:
  "replace_entry x es = None \<longleftrightarrow> rebarKey x \<notin> rebarKey ` set es"
  by (induction es) (auto simp: rebarKey_def)

lemma rebar_find_Cons: "rebar_find (e # es) = (rebar_find es)(rebarKey e \<mapsto> e)"
  by (simp add: rebar_find_def fun_eq_iff)

lemma replace_entry_Some:
  "replace_entry x es = Some es' \<Longrightarrow>
   map rebarKey es' = map rebarKey es \<and>
   rebar_find es' = (rebar_find es)(rebarKey x \<mapsto> x)"
proof (induction es arbitrary: es')
  case (Cons e es)
  show ?case
  proof (cases "rebarKey e = rebarKey x")
    case True
    then have "es' = x # es" using Cons.prems by (simp add: rebarKey_def)
    then show ?thesis using True by (auto simp: rebar_find_Cons fun_eq_iff)
  next
    case False
    then obtain es2 where "replace_entry x es = Some es2" and "es' = e # es2"
      using Cons.prems by (auto simp: rebarKey_def)
    then show ?thesis
      using Cons.IH False by (fastforce simp: rebar_find_Cons)
  qed
qed simp

lemma rebar_find_None: "rebar_find es k = None \<longleftrightarrow> k \<notin> rebarKey ` set es"
  by (auto simp: rebar_find_def find_None_iff)

lemma drop_entry_None: "drop_entry a b es = None \<longleftrightarrow> (a, b) \<notin> rebarKey ` set es"
  by (induction es) (auto simp: rebarKey_def)

lemma drop_entry_Some:
  "drop_entry a b es = Some es' \<Longrightarrow> distinct (map rebarKey es) \<Longrightarrow>
   map rebarKey es' = filter (\<lambda>k. k \<noteq> (a, b)) (map rebarKey es) \<and>
   rebar_find es' = (rebar_find es)((a, b) := None)"
proof (induction es arbitrary: es')
  case (Cons e es)
  show ?case
  proof (cases "re_Addr e = a \<and> re_Bar e = b")
    case True
    then have "(a, b) \<notin> set (map rebarKey es)" using Cons.prems by (auto simp: rebarKey_def)
    then have "filter (\<lambda>k. k \<noteq> (a, b)) (map rebarKey es) = map rebarKey es"
      and "rebar_find es (a, b) = None"
      unfolding filter_id_conv rebar_find_None set_map by metis+
    moreover have "es' = es" and "rebarKey e = (a, b)"
      using True Cons.prems(1) by (simp_all add: rebarKey_def)
    ultimately show ?thesis by (auto simp: rebar_find_Cons fun_eq_iff)
  next
    case False
    then obtain es2 where "drop_entry a b es = Some es2" and "es' = e # es2"
      using Cons.prems by auto
    moreover have "rebarKey e \<noteq> (a, b)" using False by (simp add: rebarKey_def)
    ultimately show ?thesis
      using Cons.IH Cons.prems(2) by (auto simp: rebar_find_Cons fun_eq_iff)
  qed
qed simp

interpretation rebar_table: keyed_table
  rebar_wf "\<lambda>e. normalizePCIAddr (re_Addr e) = re_Addr e" rebarKey rebar_find MergeRebarEntry rebar_del
proof
  fix t :: "RebarEntry list" and v :: RebarEntry
  assume wf: "rebar_wf t" and v: "normalizePCIAddr (re_Addr v) = re_Addr v"
  have m: "MergeRebarEntry t v = (case replace_entry v t of None \<Rightarrow> t @ [v] | Some es \<Rightarrow> es)"
    using v by (simp add: MergeRebarEntry_def)
  show "rebar_wf (MergeRebarEntry t v)"
    using wf replace_entry_None [of v t] replace_entry_Some [of v t]
    by (auto simp: m rebar_wf_def split: option.splits)
  show "rebar_find (MergeRebarEntry t v) = (rebar_find t)(rebarKey v \<mapsto> v)"
  proof (cases "replace_entry v t")
    case None
    then have "rebar_find t (rebarKey v) = None" by (simp add: replace_entry_None rebar_find_None)
    then show ?thesis
      using None by (auto simp: m rebar_find_def find_append fun_eq_iff split: option.splits)
  next
    case (Some es)
    then show ?thesis using replace_entry_Some by (simp add: m)
  qed
next
  fix t :: "RebarEntry list" and k :: "string \<times> int"
  assume wf: "rebar_wf t"
  show "rebar_wf (rebar_del t k)"
    using wf drop_entry_Some [of "fst k" "snd k" t]
    by (auto simp: rebar_wf_def rebar_del_def split: option.splits)
  show "rebar_find (rebar_del t k) = (rebar_find t)(k := None)"
  proof (cases "drop_entry (fst k) (snd k) t")
    case None
    then have "rebar_find t k = None" by (simp add: drop_entry_None rebar_find_None)
    then show ?thesis using None by (simp add: rebar_del_def fun_upd_idem)
  next
    case (Some es)
    then show ?thesis using wf drop_entry_Some [of "fst k" "snd k" t es]
      by (simp add: rebar_del_def rebar_wf_def)
  qed
qed

lemma RemoveRebarEntry_del:
  "RemoveRebarEntry t addr bar =
     (rebar_del t (normalizePCIAddr addr, bar), rebar_find t (normalizePCIAddr addr, bar) \<noteq> None)"
  using drop_entry_None [of "normalizePCIAddr addr" bar t]
  by (auto simp: RemoveRebarEntry_def rebar_del_def rebar_find_None split: option.splits)

text \<open>On a table with one entry per address and BAR, merging an entry replaces exactly the
  entry of its key, removing deletes exactly the entry of the normalised key and reports whether
  there was one, and both keep the keys unique.\<close>

theorem rebar_table_laws:
  assumes "rebar_wf t" and "normalizePCIAddr (re_Addr e) = re_Addr e"
  shows "rebar_wf (MergeRebarEntry t e) \<and>
         rebar_find (MergeRebarEntry t e) = (rebar_find t)(rebarKey e \<mapsto> e) \<and>
         (let (t', found) = RemoveRebarEntry t addr bar; k = (normalizePCIAddr addr, bar)
          in rebar_wf t' \<and> rebar_find t' = (rebar_find t)(k := None) \<and> found = (rebar_find t k \<noteq> None))"
  using rebar_table.wf_put [OF assms] rebar_table.lookup_put [OF assms] rebar_table.wf_del [OF assms(1)]
    rebar_table.lookup_del [OF assms(1)]
  by (simp add: RemoveRebarEntry_del)

theorem rebar_table_laws_witness:
  "rebar_wf [\<lparr>re_Addr = ''0000:08:00.0'', re_Bar = 0, re_Exp = 8\<rparr>] \<and>
   rebar_find (MergeRebarEntry [\<lparr>re_Addr = ''0000:08:00.0'', re_Bar = 0, re_Exp = 8\<rparr>]
                 \<lparr>re_Addr = ''0000:08:00.0'', re_Bar = 0, re_Exp = 14\<rparr>) (''0000:08:00.0'', 0) =
     Some \<lparr>re_Addr = ''0000:08:00.0'', re_Bar = 0, re_Exp = 14\<rparr>"
  using rebar_table_laws [of "[\<lparr>re_Addr = ''0000:08:00.0'', re_Bar = 0, re_Exp = 8\<rparr>]"
      "\<lparr>re_Addr = ''0000:08:00.0'', re_Bar = 0, re_Exp = 14\<rparr>"]
  by (simp add: rebar_wf_def rebarKey_def normalizePCIAddr_def)

end
