(* ===== verification/Build_Machine.thy ===== *)
theory Build_Machine
  imports Config Qemu_Machine Gpu Hashes
begin

text \<open>
  \<open>Manager.buildMachine\<close> of \<open>internal/vm/manager.go\<close>: the translation of a \<open>VMConfig\<close> into a QEMU
  machine, one definition per section of the function in its order, with \<open>qemuenv.go\<close>, the
  virtiofsd command line of \<open>internal/virtiofs\<close> and the control addresses of
  \<open>control_unix.go\<close>/\<open>control_windows.go\<close>.  What the function asks of the host (which files exist,
  which ports are free, what the devices' power state is, which helper processes start) is the
  record \<open>BuildEnv\<close>.  Logging is not modelled.
\<close>

subsection \<open>Environment and errors\<close>

record BuildEnv =
  be_host :: Host
  be_provider :: ProviderConfig
  be_petname :: string
  be_home :: string
  be_stat :: "string \<Rightarrow> stat_result"
  be_qemubin :: QemuBinEnv
  be_portFree :: "int \<Rightarrow> bool"
  be_freePort :: "string \<Rightarrow> int option"
  be_probe :: "string \<Rightarrow> Probe"
  be_spawnVirtiofsd :: "string list \<Rightarrow> int option"
  be_startSwtpm :: "string \<Rightarrow> string \<Rightarrow> bool"
  be_state :: "VMState option"

datatype build_error = DirectKernelUnsupported | EmulatedBinary qemubin_error | QemuBinaryMissing string
  | HeliosNeedsFork | BadQemuEnv string | PassthroughUnsupported string | VFIOStuck "string list"
  | HeliosNeedsX86 string | HeliosNeedsLinux string | AppleGFXNeedsMacOS string | AppleGFXUnavailable
  | NoControlPort string | SwtpmFailed | Machine machine_error

definition be_exists :: "BuildEnv \<Rightarrow> string \<Rightarrow> bool" where
  "be_exists env p = (be_stat env p = Exists)"

definition be_vmDir :: "BuildEnv \<Rightarrow> VMConfig \<Rightarrow> string" where
  "be_vmDir env cfg = vmDir (StoragePath (be_provider env)) (Name cfg)"

subsection \<open>Helpers\<close>

definition qemu_env_ok :: "string \<Rightarrow> bool" where
  "qemu_env_ok e =
     (case CutC (CHR ''='') e of None \<Rightarrow> False | Some (k, v) \<Rightarrow> k \<noteq> [] \<and> CHR 0x00 \<notin> set e)"

definition ValidateQemuEnv :: "string list \<Rightarrow> (build_error, unit) result" where
  "ValidateQemuEnv es =
     (case List.find (\<lambda>e. \<not> qemu_env_ok e) es of None \<Rightarrow> Inr () | Some e \<Rightarrow> Inl (BadQemuEnv e))"

definition controlSocketAddr :: "BuildEnv \<Rightarrow> string \<Rightarrow> string \<Rightarrow> (build_error, string) result" where
  "controlSocketAddr env dir base =
     (if IsWindows (be_host env) then
        (case be_freePort env base of
           None \<Rightarrow> Inl (NoControlPort base)
         | Some port \<Rightarrow> Inr (''127.0.0.1:'' @ Itoa port))
      else Inr (PathJoin [dir, base @ ''.sock'']))"

definition deterministicCID :: "string \<Rightarrow> 32 word" where
  "deterministicCID nm =
     (let h = sha1 (string_bytes nm);
          cid = (push_bit 24 (ucast (h ! 0)) OR push_bit 16 (ucast (h ! 1)) OR
                 push_bit 8 (ucast (h ! 2)) OR ucast (h ! 3) :: 32 word)
      in if cid < 3 then cid + 3 else cid)"

definition availablePort :: "(int \<Rightarrow> bool) \<Rightarrow> int \<Rightarrow> int \<Rightarrow> int \<Rightarrow> int" where
  "availablePort isPortFree preferred lo hi =
     (if isPortFree preferred then preferred
      else case List.find (\<lambda>p. p \<noteq> preferred \<and> isPortFree p) [lo..hi] of
             None \<Rightarrow> preferred
           | Some p \<Rightarrow> p)"

definition effectiveBridge :: "Host \<Rightarrow> VMConfig \<Rightarrow> bool" where
  "effectiveBridge h cfg = (nc_Mode (NIC cfg) = ''bridge'' \<and> SupportsBridgeNetworking h)"

record VirtiofsdProc =
  vp_SocketPath :: string
  vp_SharedDir :: string
  vp_Tag :: string
  vp_AnnounceSubmounts :: bool
  vp_Writeback :: bool
  vp_Readonly :: bool

definition virtiofsd_args :: "VirtiofsdProc \<Rightarrow> string list" where
  "virtiofsd_args v =
     [''--socket-path'', vp_SocketPath v, ''--shared-dir'', vp_SharedDir v, ''--sandbox'', ''none''] @
     (if vp_AnnounceSubmounts v then [''--announce-submounts''] else []) @
     (if vp_Writeback v then [''--writeback''] else []) @
     (if vp_Readonly v then [''--readonly''] else []) @
     (if vp_Tag v \<noteq> [] then [''--tag'', vp_Tag v] else [])"

subsection \<open>Architecture, binary, CPU, machine type, firmware\<close>

definition guest_arch :: "Host \<Rightarrow> VMConfig \<Rightarrow> string" where
  "guest_arch h cfg = (if Arch cfg = [] then DefaultGuestArch h else Arch cfg)"

definition emulated :: "Host \<Rightarrow> VMConfig \<Rightarrow> bool" where
  "emulated h cfg = (guest_arch h cfg \<noteq> DefaultGuestArch h)"

definition binary_section :: "BuildEnv \<Rightarrow> VMConfig \<Rightarrow> (build_error, QemuOptions list) result" where
  "binary_section env cfg =
     (let h = be_host env in
      if emulated h cfg then
        (case EnsureForArch h (be_qemubin env) (guest_arch h cfg) of
           Inl e \<Rightarrow> Inl (EmulatedBinary e)
         | Inr qemuPath \<Rightarrow>
             Inr [WithArchitecture (guest_arch h cfg), WithAccelerator ''tcg'', WithBinary qemuPath])
      else if QemuBinary cfg \<noteq> [] then
        (if be_exists env (QemuBinary cfg) then Inr [WithBinary (QemuBinary cfg)]
         else Inl (QemuBinaryMissing (QemuBinary cfg)))
      else if gc_Mode (GPU cfg) = GPUHelios then Inl HeliosNeedsFork
      else Inr [])"

definition env_section :: "VMConfig \<Rightarrow> (build_error, QemuOptions list) result" where
  "env_section cfg =
     (if QemuEnv cfg = [] then Inr []
      else bind_r (ValidateQemuEnv (QemuEnv cfg)) (\<lambda>_. Inr [WithEnv (QemuEnv cfg)]))"

definition cpu_model :: "Host \<Rightarrow> VMConfig \<Rightarrow> string" where
  "cpu_model h cfg =
     (let m0 = CPUModel cfg;
          m1 = (if guest_arch h cfg = ''aarch64'' \<and> m0 \<noteq> ''host'' \<and> m0 \<noteq> ''max'' then ''host'' else m0)
      in if emulated h cfg \<and> (m1 = [] \<or> m1 = ''host'') then ''max'' else m1)"

definition cpu_flags :: "Host \<Rightarrow> VMConfig \<Rightarrow> string list" where
  "cpu_flags h cfg =
     (if guest_arch h cfg = ''aarch64'' then []
      else CPUFlags cfg @
           (if gc_Mode (GPU cfg) = GPUPassthrough \<and> gc_AntiDetect (GPU cfg) then GamingCPUFlags else []))"

definition cpu_section :: "BuildEnv \<Rightarrow> VMConfig \<Rightarrow> QemuOptions list" where
  "cpu_section env cfg =
     (let h = be_host env;
          (sockets, cores, threads) = AdjustSMP h (CPUs cfg) (Sockets cfg) (Cores cfg) (Threads cfg)
      in [WithCPU (NewCPU (DefaultCPUModel (be_provider env)) (DefaultCPUs (be_provider env))
            [WithCPUModel (cpu_model h cfg), WithSMP (CPUs cfg) sockets threads cores,
             WithCPUFlags (cpu_flags h cfg)])])"

definition machine_type_section :: "BuildEnv \<Rightarrow> VMConfig \<Rightarrow> QemuOptions list" where
  "machine_type_section env cfg =
     (let h = be_host env;
          machineType = (if MachineType cfg = [] \<and> emulated h cfg
                         then MachineTypeForArch (guest_arch h cfg) else MachineType cfg)
      in [WithMachineType machineType] @
         (if gc_Mode (GPU cfg) = GPUVirtio \<and> gc_Pointer (GPU cfg) = PointerMouse
          then [WithVMPortOff True] else []) @
         (if Nested cfg then [WithNested True] else []) @
         map WithGlobal (Globals cfg))"

definition uefi_section :: "BuildEnv \<Rightarrow> VMConfig \<Rightarrow> QemuOptions list" where
  "uefi_section env cfg =
     (if \<not> uc_Enabled (UEFI cfg) then []
      else let h = be_host env;
               codePath = (if uc_CodePath (UEFI cfg) \<noteq> [] then uc_CodePath (UEFI cfg)
                           else if emulated h cfg
                           then fst (FirmwareForArch (be_exists env) (be_home env) (guest_arch h cfg))
                           else OVMFCodePath (be_provider env))
           in [WithUEFI (NewUEFI codePath (uc_VarsPath (UEFI cfg)))])"

subsection \<open>Network\<close>

definition nic_mode :: "Host \<Rightarrow> VMConfig \<Rightarrow> string" where
  "nic_mode h cfg =
     (if nc_Mode (NIC cfg) = ''bridge'' \<and> \<not> effectiveBridge h cfg then ''user'' else nc_Mode (NIC cfg))"

definition ssh_forward :: "int \<Rightarrow> string" where
  "ssh_forward port = ''tcp:127.0.0.1:'' @ Itoa port @ ''-:22''"

text \<open>The section also records the MAC address and the SSH port it settled on in the
  configuration, which \<open>Start\<close> saves afterwards.\<close>

definition nic_config :: "BuildEnv \<Rightarrow> VMConfig \<Rightarrow> VMConfig" where
  "nic_config env cfg0 =
     (let cfg = (if nc_MAC (NIC cfg0) = []
                 then cfg0\<lparr>NIC := (NIC cfg0)\<lparr>nc_MAC := DeterministicMAC (Name cfg0)\<rparr>\<rparr> else cfg0)
      in if SSHPort cfg > 0 \<and> nic_mode (be_host env) cfg \<noteq> ''bridge''
         then cfg\<lparr>SSHPort := availablePort (be_portFree env) (SSHPort cfg) 2200 2299\<rparr> else cfg)"

definition nic_device :: "BuildEnv \<Rightarrow> VMConfig \<Rightarrow> qNIC" where
  "nic_device env cfg =
     (let h = be_host env;
          mode = nic_mode h cfg;
          fwds = nc_HostFwds (NIC cfg) @
                 (if SSHPort cfg > 0 \<and> mode \<noteq> ''bridge'' then [ssh_forward (SSHPort cfg)] else []);
          nic = NewNIC mode (nc_Bridge (NIC cfg)) (nc_MAC (NIC cfg)) fwds;
          helperPath = BridgeHelperPath (be_provider env)
      in if mode = ''bridge'' \<and> helperPath \<noteq> [] \<and> be_exists env helperPath
         then nic\<lparr>nic_BridgeHelper := helperPath,
                  nic_Queues := (if CPUs cfg > 1 then min (CPUs cfg) 8 else nic_Queues nic)\<rparr>
         else nic)"

subsection \<open>Disks\<close>

definition disk_device :: "BuildEnv \<Rightarrow> VMConfig \<Rightarrow> DiskConfig \<Rightarrow> qDisk" where
  "disk_device env cfg d =
     NewDisk (DefaultDiskSize (be_provider env))
       (PathJoin [StoragePath (be_provider env), be_petname env]) (Name cfg)
       [WithCustomPath (dc_Path d), WithSize (dc_Size d), WithFormat (dc_Format d),
        WithInterface (dc_Interface d), WithMedia (dc_Media d), WithCache (dc_Cache d),
        WithReadonly (dc_Readonly d), WithBackingFile (dc_BackingFile d), WithSerial (dc_Serial d),
        WithPassthrough (dc_Passthrough d), WithImageFile (dc_ImageFile d),
        WithBootIndex (dc_BootIndex d)]"

definition missing_cdrom :: "BuildEnv \<Rightarrow> DiskConfig \<Rightarrow> bool" where
  "missing_cdrom env d =
     (dc_Media d = ''cdrom'' \<and> dc_Path d \<noteq> [] \<and> be_stat env (dc_Path d) = NotExist)"

definition disks_section :: "BuildEnv \<Rightarrow> VMConfig \<Rightarrow> QemuOptions list" where
  "disks_section env cfg =
     map (\<lambda>d. AddDisk (disk_device env cfg d)) (filter (\<lambda>d. \<not> missing_cdrom env d) (Disks cfg))"

subsection \<open>GPU\<close>

definition stuck_devices :: "BuildEnv \<Rightarrow> string list \<Rightarrow> string list" where
  "stuck_devices env addrs =
     filter (\<lambda>addr. case EnsureReady (be_probe env addr) addr of
                      (ds, None) \<Rightarrow> False
                    | (ds, Some e) \<Rightarrow> NeedsReset ds) addrs"

definition vfio_primary :: "GPUConfig \<Rightarrow> VFIODevice" where
  "vfio_primary g =
     (let p0 = NewVFIODevice (gc_PCIAddr g);
          p1 = (if gc_ROMBar g \<or> gc_ROMFile g \<noteq> [] then p0\<lparr>vf_ROMBar := True\<rparr> else p0)
      in if gc_ROMFile g \<noteq> [] then p1\<lparr>vf_ROMFile := gc_ROMFile g\<rparr> else p1)"

fun vfio_extras :: "string \<Rightarrow> string \<Rightarrow> int \<Rightarrow> string list \<Rightarrow> VFIODevice list" where
  "vfio_extras pciAddr busID nextSlot [] = []"
| "vfio_extras pciAddr busID nextSlot (addr # rest) =
     (if SameSlot pciAddr addr
      then NewVFIOSiblingFunction addr busID (FunctionNumber addr) # vfio_extras pciAddr busID nextSlot rest
      else NewVFIOPeerDevice addr (''pcie.'' @ Itoa nextSlot) nextSlot #
           vfio_extras pciAddr busID (nextSlot + 1) rest)"

definition vfio_devices :: "GPUConfig \<Rightarrow> VFIODevice list" where
  "vfio_devices g =
     vfio_primary g # vfio_extras (gc_PCIAddr g) (vf_BusID (vfio_primary g)) 2 (gc_ExtraVFIOAddrs g)"

definition passthrough_section :: "BuildEnv \<Rightarrow> VMConfig \<Rightarrow> (build_error, QemuOptions list) result" where
  "passthrough_section env cfg =
     (let g = GPU cfg; memfd = [WithMemfd (NewMemfdBackend (Memory cfg))] in
      if \<not> SupportsVFIO (be_host env) then Inl (PassthroughUnsupported (goos (be_host env)))
      else if gc_PCIAddr g = [] then Inr memfd
      else let stuck = stuck_devices env (gc_PCIAddr g # gc_ExtraVFIOAddrs g) in
           if stuck \<noteq> [] then Inl (VFIOStuck stuck)
           else Inr (map WithVFIO (vfio_devices g) @ memfd))"

definition virtio_section :: "BuildEnv \<Rightarrow> VMConfig \<Rightarrow> QemuOptions list" where
  "virtio_section env cfg =
     (let h = be_host env; g = GPU cfg; arch = guest_arch h cfg; hostOS = goos h in
      [WithVGA ''none''] @
      (if Headless cfg \<or> SPICE cfg \<noteq> None \<or> emulated h cfg then
         (if emulated h cfg \<and> \<not> Headless cfg
          then [WithDisplay (DisplayArgFor hostOS False [] (gc_Pointer g))] else []) @
         [WithDevice (VirtioGPUDevice arch False False [])]
       else if gc_disableGL g then
         [WithDisplay (DisplayArgFor hostOS False [] (gc_Pointer g) @
            (if IsMacOS h then '',show-cursor=on'' else [])),
          WithDevice (VirtioGPUDevice arch False False [] @ '',edid=on,xres=1920,yres=1080'')]
       else
         [WithDevice (VirtioGPUDevice arch True (gc_Venus g) (gc_HostMem g) @ '',edid=on,xres=1920,yres=1080''),
          WithDisplay (DisplayArgFor hostOS True (gc_GLBackend g) (gc_Pointer g))]) @
      (if Headless cfg then [] else map WithDevice (VirtioInputDevicesFor (gc_Pointer g))))"

definition helios_section :: "BuildEnv \<Rightarrow> VMConfig \<Rightarrow> (build_error, QemuOptions list) result" where
  "helios_section env cfg =
     (let h = be_host env; g = GPU cfg in
      if emulated h cfg \<or> guest_arch h cfg \<noteq> ''x86_64'' then Inl (HeliosNeedsX86 (guest_arch h cfg))
      else if \<not> IsLinux h then Inl (HeliosNeedsLinux (goos h))
      else Inr [WithVGA ''none'', WithDevice (HeliosGPUDevice (gc_HostMem g)),
                WithDisplay (HeliosDisplay (gc_RenderNode g)),
                WithVNC (HeliosVNCArg (if gc_VNC g = [] then DefaultHeliosVNC else gc_VNC g))])"

definition gpu_section :: "BuildEnv \<Rightarrow> VMConfig \<Rightarrow> (build_error, QemuOptions list) result" where
  "gpu_section env cfg =
     (let m = gc_Mode (GPU cfg); h = be_host env in
      if m = GPUPassthrough then passthrough_section env cfg
      else if m = GPUVirtio then Inr (virtio_section env cfg)
      else if m = GPUHelios then helios_section env cfg
      else if m = GPUAppleGFX then
        (if \<not> IsMacOS h then Inl (AppleGFXNeedsMacOS (goos h)) else Inl AppleGFXUnavailable)
      else Inr [])"

subsection \<open>Display, control channels, devices\<close>

definition screen_section :: "VMConfig \<Rightarrow> QemuOptions list" where
  "screen_section cfg =
     (if VGA cfg \<noteq> [] then [WithVGA (VGA cfg)] else []) @
     (if Headless cfg then [WithHeadless] else []) @
     (case SPICE cfg of
        None \<Rightarrow> []
      | Some s \<Rightarrow> [WithSpice (NewSpice [WithSpicePort (sc_Port s),
                                        WithSpiceDisableTicketing (sc_DisableTicketing s)])])"

definition channels_section :: "BuildEnv \<Rightarrow> VMConfig \<Rightarrow> (build_error, QemuOptions list) result" where
  "channels_section env cfg =
     bind_r (controlSocketAddr env (be_vmDir env cfg) ''qmp'') (\<lambda>qmpSock.
       if GuestAgent cfg
       then bind_r (controlSocketAddr env (be_vmDir env cfg) ''qga'')
              (\<lambda>qgaSock. Inr [WithQMPSocket qmpSock, WithQGASocket qgaSock])
       else Inr [WithQMPSocket qmpSock])"

definition extra_section :: "VMConfig \<Rightarrow> QemuOptions list" where
  "extra_section cfg = map WithDevice (ExtraDevices cfg) @ map WithDevice (InstallDevices cfg)"

subsection \<open>Helper processes\<close>

definition active_mounts :: "BuildEnv \<Rightarrow> VMConfig \<Rightarrow> VirtiofsMount list" where
  "active_mounts env cfg = (if SupportsVirtiofsd (be_host env) then VirtiofsMounts cfg else [])"

definition mount_socket :: "BuildEnv \<Rightarrow> VMConfig \<Rightarrow> VirtiofsMount \<Rightarrow> string" where
  "mount_socket env cfg m =
     (if vm_SocketPath m = [] then PathJoin [be_vmDir env cfg, vm_Tag m @ ''.sock''] else vm_SocketPath m)"

definition mount_argv :: "BuildEnv \<Rightarrow> VMConfig \<Rightarrow> VirtiofsMount \<Rightarrow> string list" where
  "mount_argv env cfg m =
     virtiofsd_args \<lparr>vp_SocketPath = mount_socket env cfg m, vp_SharedDir = vm_SharedDir m, vp_Tag = [],
                     vp_AnnounceSubmounts = False, vp_Writeback = False, vp_Readonly = vm_Readonly m\<rparr>"

definition virtiofs_pids :: "BuildEnv \<Rightarrow> VMConfig \<Rightarrow> int list" where
  "virtiofs_pids env cfg =
     List.map_filter (\<lambda>m. be_spawnVirtiofsd env (mount_argv env cfg m)) (active_mounts env cfg)"

text \<open>\<open>memfdAdded\<close> holds exactly in passthrough mode.\<close>

definition virtiofs_section :: "BuildEnv \<Rightarrow> VMConfig \<Rightarrow> QemuOptions list" where
  "virtiofs_section env cfg =
     (if active_mounts env cfg \<noteq> [] \<and> gc_Mode (GPU cfg) \<noteq> GPUPassthrough
      then [WithMemfd (NewMemfdBackend (Memory cfg))] else []) @
     map (\<lambda>m. WithVirtiofsd (mount_socket env cfg m) (vm_Tag m)) (active_mounts env cfg)"

definition newSwtpmCmd :: "string \<Rightarrow> string \<Rightarrow> string list" where
  "newSwtpmCmd stateDir socketPath =
     [''swtpm'', ''socket'', ''--tpmstate'', ''dir='' @ stateDir, ''--ctrl'',
      ''type=unixio,path='' @ socketPath, ''--tpm2'', ''--daemon'']"

definition tpm_section :: "BuildEnv \<Rightarrow> VMConfig \<Rightarrow> (build_error, QemuOptions list) result" where
  "tpm_section env cfg =
     (case TPM cfg of
        None \<Rightarrow> Inr []
      | Some t \<Rightarrow>
          if \<not> tc_Enabled t \<or> \<not> SupportsSwTPM (be_host env) then Inr []
          else let tpmDir = PathJoin [be_vmDir env cfg, ''tpm''];
                   tpmSock = PathJoin [be_vmDir env cfg, ''tpm.sock'']
               in if be_startSwtpm env tpmDir tpmSock then Inr [WithTPM tpmSock] else Inl SwtpmFailed)"

definition vsock_section :: "BuildEnv \<Rightarrow> VMConfig \<Rightarrow> QemuOptions list" where
  "vsock_section env cfg =
     (if (SSHShare cfg \<or> Vsock cfg) \<and> SupportsVsock (be_host env)
      then [WithVSock (if VsockCID cfg = 0 then unat (deterministicCID (Name cfg)) else VsockCID cfg)]
      else [])"

definition tail_section :: "BuildEnv \<Rightarrow> VMConfig \<Rightarrow> QemuOptions list" where
  "tail_section env cfg =
     (if CPUPinning cfg \<noteq> [] then [WithCPUPinning (CPUPinning cfg)] else []) @
     (if RTC cfg \<noteq> [] then [WithRTC (RTC cfg)] else []) @
     (case be_state env of
        None \<Rightarrow> []
      | Some st \<Rightarrow> if InstallState st = InstallStateReady then [WithBootOrder ''c''] else [])"

subsection \<open>The whole function\<close>

text \<open>The result pairs the virtiofsd processes that were started, also on the paths that fail
  afterwards, with what the function returns: the updated configuration, the machine and the
  processes it hands to the caller.\<close>

definition head_options :: "BuildEnv \<Rightarrow> VMConfig \<Rightarrow> (build_error, QemuOptions list) result" where
  "head_options env cfg =
     bind_r (binary_section env cfg) (\<lambda>binary.
     bind_r (env_section cfg) (\<lambda>envs.
     bind_r (gpu_section env cfg) (\<lambda>gpu.
     bind_r (channels_section env cfg) (\<lambda>channels.
       let cfg' = nic_config env cfg in
       Inr ([WithName (Name cfg), WithMemory (Memory cfg)] @ binary @ envs @ cpu_section env cfg @
            machine_type_section env cfg @ uefi_section env cfg @ [WithNIC (nic_device env cfg')] @
            disks_section env cfg @ gpu @ screen_section cfg @ channels @ extra_section cfg)))))"

definition buildMachine ::
  "BuildEnv \<Rightarrow> VMConfig \<Rightarrow> int list \<times> (build_error, VMConfig \<times> BaseMachine \<times> int list) result" where
  "buildMachine env cfg =
     (if Kernel cfg \<noteq> [] \<or> Cmdline cfg \<noteq> [] \<or> Initrd cfg \<noteq> [] then ([], Inl DirectKernelUnsupported)
      else case head_options env cfg of
             Inl e \<Rightarrow> ([], Inl e)
           | Inr hd_opts \<Rightarrow>
               let pids = virtiofs_pids env cfg in
               (pids,
                bind_r (tpm_section env cfg) (\<lambda>tpm.
                  case BuildMachine (NewEmptyMachine (be_host env) (be_provider env) (be_petname env))
                         (hd_opts @ virtiofs_section env cfg @ tpm @ vsock_section env cfg @
                          tail_section env cfg) of
                    Inl e \<Rightarrow> Inl (Machine e)
                  | Inr m \<Rightarrow> Inr (nic_config env cfg, m, pids))))"

subsection \<open>Framing lemmas\<close>

text \<open>An option keeps a field of the machine when it never changes it; a list of such options
  keeps it too.\<close>

definition keeps :: "(BaseMachine \<Rightarrow> 'a) \<Rightarrow> QemuOptions \<Rightarrow> bool" where
  "keeps f op = (\<forall>q. f (op q) = f q)"

definition apply_opts :: "QemuOptions list \<Rightarrow> BaseMachine \<Rightarrow> BaseMachine" where
  "apply_opts opts q = foldl (\<lambda>m opt. opt m) q opts"

lemma apply_opts_simps [simp]:
  "apply_opts [] q = q"
  "apply_opts (x # xs) q = apply_opts xs (x q)"
  "apply_opts (xs @ ys) q = apply_opts ys (apply_opts xs q)"
  by (simp_all add: apply_opts_def)

lemma apply_opts_keeps: "list_all (keeps f) opts \<Longrightarrow> f (apply_opts opts q) = f q"
  by (induction opts arbitrary: q) (auto simp: keeps_def)

text \<open>A successful run, taken apart.\<close>

lemma buildMachine_Inr:
  assumes "buildMachine env cfg = (sp, Inr (cfg', m, pids))"
  obtains binary envs gpu channels tpm where
    "binary_section env cfg = Inr binary" "env_section cfg = Inr envs" "gpu_section env cfg = Inr gpu"
    "channels_section env cfg = Inr channels" "tpm_section env cfg = Inr tpm"
    "m = apply_opts ([WithName (Name cfg), WithMemory (Memory cfg)] @ binary @ envs @ cpu_section env cfg @
           machine_type_section env cfg @ uefi_section env cfg @
           [WithNIC (nic_device env (nic_config env cfg))] @
           disks_section env cfg @ gpu @ screen_section cfg @ channels @ extra_section cfg @
           virtiofs_section env cfg @ tpm @ vsock_section env cfg @ tail_section env cfg)
         (NewEmptyMachine (be_host env) (be_provider env) (be_petname env))"
    "bm_disks m \<noteq> []" "cfg' = nic_config env cfg" "sp = pids" "pids = virtiofs_pids env cfg"
proof -
  obtain ho where ho: "head_options env cfg = Inr ho"
    using assms by (auto simp: buildMachine_def split: if_splits sum.splits)
  obtain tpm where tpm: "tpm_section env cfg = Inr tpm"
    using assms ho by (auto simp: buildMachine_def Let_def bind_r_Inr_iff split: if_splits)
  have r: "BuildMachine (NewEmptyMachine (be_host env) (be_provider env) (be_petname env))
             (ho @ virtiofs_section env cfg @ tpm @ vsock_section env cfg @ tail_section env cfg) = Inr m"
    and c: "cfg' = nic_config env cfg" "sp = pids" "pids = virtiofs_pids env cfg"
    using assms ho tpm by (auto simp: buildMachine_def Let_def split: if_splits sum.splits)
  from r have m: "m = apply_opts (ho @ virtiofs_section env cfg @ tpm @ vsock_section env cfg @
                          tail_section env cfg)
                   (NewEmptyMachine (be_host env) (be_provider env) (be_petname env))"
    and d: "bm_disks m \<noteq> []"
    by (auto simp: BuildMachine_def Validate_def Let_def apply_opts_def split: sum.splits if_splits)
  show ?thesis
    using that ho tpm m d c unfolding head_options_def bind_r_Inr_iff Let_def by force
qed

text \<open>The fields the properties below speak about.  Most sections keep all of them.\<close>

record Core =
  c_name :: string
  c_memory :: string
  c_memfd :: "MemfdBackend option"
  c_virtiofsd :: "Virtiofsd list"
  c_vfio :: "VFIODevice list"
  c_disks :: "qDisk list"
  c_nics :: "qNIC list"
  c_boot :: string
  c_vsock :: "nat option"

definition core :: "BaseMachine \<Rightarrow> Core" where
  "core q = \<lparr>c_name = bm_name q, c_memory = bm_memory q, c_memfd = bm_memfd q,
             c_virtiofsd = bm_virtiofsd q, c_vfio = bm_vfioDevices q, c_disks = bm_disks q,
             c_nics = bm_nics q, c_boot = bm_bootOrder q, c_vsock = bm_vsock q\<rparr>"

lemmas keeps_simps = list_all_iff keeps_def core_def with_defs Let_def bind_r_Inr_iff

lemma binary_keeps: "binary_section env cfg = Inr os \<Longrightarrow> list_all (keeps core) os"
  by (auto simp: binary_section_def keeps_simps split: if_splits sum.splits)

lemma env_keeps: "env_section cfg = Inr os \<Longrightarrow> list_all (keeps core) os"
  by (auto simp: env_section_def keeps_simps split: if_splits)

lemma cpu_keeps: "list_all (keeps core) (cpu_section env cfg)"
  by (auto simp: cpu_section_def keeps_simps split: prod.splits)

lemma machine_type_keeps: "list_all (keeps core) (machine_type_section env cfg)"
  by (auto simp: machine_type_section_def keeps_simps)

lemma uefi_keeps: "list_all (keeps core) (uefi_section env cfg)"
  by (auto simp: uefi_section_def keeps_simps)

lemma virtio_keeps: "list_all (keeps core) (virtio_section env cfg)"
  by (auto simp: virtio_section_def keeps_simps)

lemma helios_keeps: "helios_section env cfg = Inr os \<Longrightarrow> list_all (keeps core) os"
  by (auto simp: helios_section_def keeps_simps split: if_splits)

lemma screen_keeps: "list_all (keeps core) (screen_section cfg)"
  by (auto simp: screen_section_def keeps_simps split: option.splits)

lemma channels_keeps: "channels_section env cfg = Inr os \<Longrightarrow> list_all (keeps core) os"
  by (auto simp: channels_section_def keeps_simps split: if_splits)

lemma extra_keeps: "list_all (keeps core) (extra_section cfg)"
  by (auto simp: extra_section_def keeps_simps)

lemma tpm_keeps: "tpm_section env cfg = Inr os \<Longrightarrow> list_all (keeps core) os"
  by (auto simp: tpm_section_def keeps_simps split: if_splits option.splits)

text \<open>The sections that do not.\<close>

lemma core_disks:
  "core (apply_opts (map (\<lambda>d. AddDisk (f d)) ds) q) = (core q)\<lparr>c_disks := c_disks (core q) @ map f ds\<rparr>"
  by (induction ds arbitrary: q) (simp_all add: AddDisk_def core_def)

lemma core_vfio:
  "core (apply_opts (map WithVFIO vs) q) = (core q)\<lparr>c_vfio := c_vfio (core q) @ vs\<rparr>"
  by (induction vs arbitrary: q) (simp_all add: WithVFIO_def core_def)

definition mount_device :: "BuildEnv \<Rightarrow> VMConfig \<Rightarrow> VirtiofsMount \<Rightarrow> Virtiofsd" where
  "mount_device env cfg m =
     \<lparr>vfs_SocketPath = mount_socket env cfg m, vfs_Tag = vm_Tag m,
      vfs_Chardev = ''virtiofs-'' @ vm_Tag m, vfs_Device = ''vhost-user-fs-pci'', vfs_Object = []\<rparr>"

lemma core_mounts:
  "core (apply_opts (map (\<lambda>m. WithVirtiofsd (mount_socket env cfg m) (vm_Tag m)) ms) q) =
   (core q)\<lparr>c_virtiofsd := c_virtiofsd (core q) @ map (mount_device env cfg) ms\<rparr>"
  by (induction ms arbitrary: q) (simp_all add: WithVirtiofsd_def core_def mount_device_def)

definition gpu_vfio :: "VMConfig \<Rightarrow> VFIODevice list" where
  "gpu_vfio cfg =
     (if gc_Mode (GPU cfg) = GPUPassthrough \<and> gc_PCIAddr (GPU cfg) \<noteq> [] then vfio_devices (GPU cfg) else [])"

lemma gpu_modes:
  "GPUPassthrough \<noteq> GPUVirtio" "GPUPassthrough \<noteq> GPUHelios" "GPUPassthrough \<noteq> GPUAppleGFX"
  by (simp_all add: GPUPassthrough_def GPUVirtio_def GPUHelios_def GPUAppleGFX_def)

lemma core_gpu:
  assumes "gpu_section env cfg = Inr os"
  shows "core (apply_opts os q) =
         (core q)\<lparr>c_vfio := c_vfio (core q) @ gpu_vfio cfg,
                  c_memfd := (if gc_Mode (GPU cfg) = GPUPassthrough then Some (NewMemfdBackend (Memory cfg))
                              else c_memfd (core q))\<rparr>"
proof (cases "gc_Mode (GPU cfg) = GPUPassthrough")
  case True
  then have "passthrough_section env cfg = Inr os" using assms by (simp add: gpu_section_def)
  then have "os = map WithVFIO (gpu_vfio cfg) @ [WithMemfd (NewMemfdBackend (Memory cfg))]"
    using True by (auto simp: passthrough_section_def gpu_vfio_def Let_def split: if_splits)
  then show ?thesis using True core_vfio [of "gpu_vfio cfg" q] by (simp add: WithMemfd_def core_def)
next
  case False
  then have "list_all (keeps core) os"
    using assms virtio_keeps helios_keeps by (auto simp: gpu_section_def Let_def split: if_splits)
  then show ?thesis using False by (simp add: apply_opts_keeps gpu_vfio_def)
qed

lemma core_vsock:
  "core (apply_opts (vsock_section env cfg) q) =
   (core q)\<lparr>c_vsock := (if (SSHShare cfg \<or> Vsock cfg) \<and> SupportsVsock (be_host env)
                        then Some (if VsockCID cfg = 0 then unat (deterministicCID (Name cfg)) else VsockCID cfg)
                        else c_vsock (core q))\<rparr>"
  by (simp add: vsock_section_def with_defs core_def)

definition disk_first :: "BuildEnv \<Rightarrow> bool" where
  "disk_first env =
     (case be_state env of None \<Rightarrow> False | Some st \<Rightarrow> InstallState st = InstallStateReady)"

lemma core_tail:
  "core (apply_opts (tail_section env cfg) q) =
   (core q)\<lparr>c_boot := (if disk_first env then ''c'' else c_boot (core q))\<rparr>"
  by (simp add: tail_section_def with_defs core_def disk_first_def split: option.splits)

text \<open>The machine a successful run returns, field by field.\<close>

lemma buildMachine_core:
  assumes "buildMachine env cfg = (sp, Inr (cfg', m, pids))"
  shows "core m =
    \<lparr>c_name = Name cfg, c_memory = Memory cfg,
     c_memfd = (if gc_Mode (GPU cfg) = GPUPassthrough \<or> active_mounts env cfg \<noteq> []
                then Some (NewMemfdBackend (Memory cfg)) else None),
     c_virtiofsd = map (mount_device env cfg) (active_mounts env cfg),
     c_vfio = gpu_vfio cfg,
     c_disks = map (disk_device env cfg) (filter (\<lambda>d. \<not> missing_cdrom env d) (Disks cfg)),
     c_nics = [nic_device env (nic_config env cfg)],
     c_boot = (if disk_first env then ''c'' else []),
     c_vsock = (if (SSHShare cfg \<or> Vsock cfg) \<and> SupportsVsock (be_host env)
                then Some (if VsockCID cfg = 0 then unat (deterministicCID (Name cfg)) else VsockCID cfg)
                else None)\<rparr>"
proof -
  obtain binary envs gpu channels tpm where s:
    "binary_section env cfg = Inr binary" "env_section cfg = Inr envs" "gpu_section env cfg = Inr gpu"
    "channels_section env cfg = Inr channels" "tpm_section env cfg = Inr tpm"
    and m: "m = apply_opts ([WithName (Name cfg), WithMemory (Memory cfg)] @ binary @ envs @ cpu_section env cfg @
           machine_type_section env cfg @ uefi_section env cfg @
           [WithNIC (nic_device env (nic_config env cfg))] @
           disks_section env cfg @ gpu @ screen_section cfg @ channels @ extra_section cfg @
           virtiofs_section env cfg @ tpm @ vsock_section env cfg @ tail_section env cfg)
         (NewEmptyMachine (be_host env) (be_provider env) (be_petname env))"
    using assms by (rule buildMachine_Inr)
  have start: "core (WithMemory (Memory cfg) (WithName (Name cfg) (NewEmptyMachine h p n))) =
      \<lparr>c_name = Name cfg, c_memory = Memory cfg, c_memfd = None, c_virtiofsd = [], c_vfio = [],
       c_disks = [], c_nics = [], c_boot = [], c_vsock = None\<rparr>" for h p n
    by (simp add: core_def with_defs NewEmptyMachine_def)
  have nic: "core (WithNIC x q) = (core q)\<lparr>c_nics := c_nics (core q) @ [x]\<rparr>" for x q
    by (simp add: core_def with_defs)
  have memfd: "core (WithMemfd x q) = (core q)\<lparr>c_memfd := Some x\<rparr>" for x q
    by (simp add: core_def with_defs)
  show ?thesis
    unfolding m
    by (simp add: apply_opts_keeps [OF binary_keeps [OF s(1)]] apply_opts_keeps [OF env_keeps [OF s(2)]]
        apply_opts_keeps [OF cpu_keeps] apply_opts_keeps [OF machine_type_keeps]
        apply_opts_keeps [OF uefi_keeps] apply_opts_keeps [OF screen_keeps]
        apply_opts_keeps [OF channels_keeps [OF s(4)]] apply_opts_keeps [OF extra_keeps]
        apply_opts_keeps [OF tpm_keeps [OF s(5)]] core_vsock core_tail core_gpu [OF s(3)]
        start nic memfd disks_section_def core_disks virtiofs_section_def core_mounts)
qed

subsection \<open>Lemmas on ports, identifiers and VFIO devices\<close>

lemma availablePort_spec:
  "isPortFree (availablePort isPortFree preferred lo hi) \<or>
   (availablePort isPortFree preferred lo hi = preferred \<and> \<not> isPortFree preferred \<and>
    list_all (\<lambda>p. p = preferred \<or> \<not> isPortFree p) [lo..hi])"
proof (cases "isPortFree preferred")
  case busy: False
  show ?thesis
  proof (cases "List.find (\<lambda>p. p \<noteq> preferred \<and> isPortFree p) [lo..hi]")
    case None
    then have "list_all (\<lambda>p. p = preferred \<or> \<not> isPortFree p) [lo..hi]"
      by (auto simp: find_None_iff list_all_iff)
    then show ?thesis using None busy by (simp add: availablePort_def)
  next
    case (Some p)
    then have "isPortFree p" by (auto simp: find_Some_iff)
    then show ?thesis using Some busy by (simp add: availablePort_def)
  qed
qed (simp add: availablePort_def)

lemma DeterministicMAC_nonempty: "DeterministicMAC nm \<noteq> []"
  by (simp add: DeterministicMAC_def Let_def)

text \<open>The context identifier vee derives from a VM's name never is one of the reserved ones 0, 1 and 2.\<close>

theorem deterministicCID_valid: "3 \<le> deterministicCID nm"
proof -
  have "3 \<le> (if cid < 3 then cid + 3 else cid)" for cid :: "32 word"
  proof (cases "cid < 3")
    case True
    then have "unat cid < 3" by (simp add: word_less_nat_alt)
    then have "unat (cid + 3) = unat cid + 3" by (subst unat_add_lem [THEN iffD1]) simp_all
    then show ?thesis using True by (simp add: word_le_nat_alt)
  qed simp
  then show ?thesis by (simp add: deterministicCID_def Let_def)
qed

lemma vfio_primary_simps [simp]:
  "vf_PCIAddr (vfio_primary g) = gc_PCIAddr g" "vf_BusID (vfio_primary g) = ''pcie.1''"
  "vf_EmitRootPort (vfio_primary g)" "vf_GuestFunction (vfio_primary g) = 0"
  by (simp_all add: vfio_primary_def NewVFIODevice_def Let_def)

lemma vfio_extras_addrs: "map vf_PCIAddr (vfio_extras p b n as) = as"
  by (induction p b n as rule: vfio_extras.induct)
     (simp_all add: NewVFIOSiblingFunction_def NewVFIOPeerDevice_def)

definition root_ports :: "VFIODevice list \<Rightarrow> string list" where
  "root_ports vs = map vf_BusID (filter vf_EmitRootPort vs)"

lemma Itoa_inject: "0 \<le> m \<Longrightarrow> 0 \<le> n \<Longrightarrow> Itoa m = Itoa n \<longleftrightarrow> m = n"
  by (simp add: Itoa_def eq_nat_nat_iff)

definition port_id :: "int \<Rightarrow> string" where
  "port_id k = ''pcie.'' @ Itoa k"

lemma port_id_inject: "0 \<le> m \<Longrightarrow> 0 \<le> n \<Longrightarrow> port_id m = port_id n \<longleftrightarrow> m = n"
  by (simp add: port_id_def Itoa_inject)

lemma root_ports_extras:
  "0 \<le> n \<Longrightarrow> distinct (root_ports (vfio_extras p b n as)) \<and>
   set (root_ports (vfio_extras p b n as)) \<subseteq> port_id ` {n..}"
proof (induction p b n as rule: vfio_extras.induct)
  case (2 p b n a as)
  show ?case
  proof (cases "SameSlot p a")
    case True
    then show ?thesis using 2 by (simp add: root_ports_def NewVFIOSiblingFunction_def)
  next
    case False
    have ih: "distinct (root_ports (vfio_extras p b (n + 1) as))"
      "set (root_ports (vfio_extras p b (n + 1) as)) \<subseteq> port_id ` {n + 1..}"
      using 2(2) [OF False] 2(3) by simp_all
    have "port_id n \<notin> port_id ` {n + 1..}" using 2(3) port_id_inject by auto
    moreover have "port_id ` {n + 1..} \<subseteq> port_id ` {n..}" by (rule image_mono) auto
    moreover have "root_ports (vfio_extras p b n (a # as)) =
                   port_id n # root_ports (vfio_extras p b (n + 1) as)"
      using False by (simp add: root_ports_def NewVFIOPeerDevice_def port_id_def)
    ultimately show ?thesis using ih by auto
  qed
qed (simp add: root_ports_def)

lemma extras_bus:
  "v \<in> set (vfio_extras p b n as) \<Longrightarrow>
   (if SameSlot p (vf_PCIAddr v)
    then \<not> vf_EmitRootPort v \<and> vf_BusID v = b \<and> vf_GuestFunction v = FunctionNumber (vf_PCIAddr v)
    else vf_EmitRootPort v)"
  by (induction p b n as rule: vfio_extras.induct)
     (auto simp: NewVFIOSiblingFunction_def NewVFIOPeerDevice_def split: if_splits)

lemma vfio_devices_wf:
  "map vf_PCIAddr (vfio_devices g) = gc_PCIAddr g # gc_ExtraVFIOAddrs g \<and>
   distinct (root_ports (vfio_devices g)) \<and>
   list_all (\<lambda>v. vf_BusID v \<in> set (root_ports (vfio_devices g))) (vfio_devices g) \<and>
   list_all (\<lambda>v. SameSlot (gc_PCIAddr g) (vf_PCIAddr v) \<longrightarrow>
               \<not> vf_EmitRootPort v \<and> vf_BusID v = ''pcie.1'' \<and>
               vf_GuestFunction v = FunctionNumber (vf_PCIAddr v)) (vfio_devices g)"
proof -
  let ?vs = "vfio_extras (gc_PCIAddr g) ''pcie.1'' 2 (gc_ExtraVFIOAddrs g)"
  have d: "vfio_devices g = vfio_primary g # ?vs" by (simp add: vfio_devices_def)
  have p1: "port_id 1 = ''pcie.1''" by (simp add: port_id_def Itoa_def dec.simps digit_char_table)
  have ports: "distinct (root_ports ?vs)" "set (root_ports ?vs) \<subseteq> port_id ` {2..}"
    using root_ports_extras [of 2] by simp_all
  moreover have "port_id 1 \<notin> port_id ` {2..}" by (auto simp: port_id_inject)
  ultimately have "''pcie.1'' \<notin> set (root_ports ?vs)" unfolding p1 by blast
  then have ports': "root_ports (vfio_devices g) = ''pcie.1'' # root_ports ?vs"
    "distinct (root_ports (vfio_devices g))"
    using ports(1) by (simp_all add: d root_ports_def)
  have bus: "(if SameSlot (gc_PCIAddr g) (vf_PCIAddr v)
     then \<not> vf_EmitRootPort v \<and> vf_BusID v = ''pcie.1'' \<and> vf_GuestFunction v = FunctionNumber (vf_PCIAddr v)
     else vf_EmitRootPort v)" if "v \<in> set ?vs" for v
    using extras_bus [OF that] .
  have "vf_BusID v \<in> set (root_ports (vfio_devices g))" if "v \<in> set ?vs" for v
    using bus [OF that] that unfolding ports' by (auto simp: root_ports_def split: if_splits)
  moreover have "vf_BusID (vfio_primary g) \<in> set (root_ports (vfio_devices g))" by (simp add: ports')
  ultimately have "list_all (\<lambda>v. vf_BusID v \<in> set (root_ports (vfio_devices g))) (vfio_devices g)"
    unfolding list_all_iff by (metis d set_ConsD)
  moreover have "\<not> SameSlot (gc_PCIAddr g) (gc_PCIAddr g)" by (simp add: SameSlot_def split: option.splits)
  ultimately show ?thesis
    using ports'(2) bus by (auto simp: d vfio_extras_addrs list_all_iff split: if_splits)
qed

subsection \<open>Properties of the built machine\<close>

lemma core_fields:
  "core m = c \<Longrightarrow> bm_memfd m = c_memfd c \<and> bm_virtiofsd m = c_virtiofsd c \<and>
     bm_vfioDevices m = c_vfio c \<and> bm_disks m = c_disks c \<and> bm_nics m = c_nics c \<and>
     bm_bootOrder m = c_boot c \<and> bm_vsock m = c_vsock c \<and> bm_memory m = c_memory c \<and> bm_name m = c_name c"
  by (auto simp: core_def)

lemmas built_fields = core_fields [OF buildMachine_core, simplified]


lemma disk_device_simps [simp]:
  "d_Path (disk_device env cfg d) = dc_Path d" "d_Media (disk_device env cfg d) = dc_Media d"
  by (simp_all add: disk_device_def NewDisk_def disk_option_defs)


lemma nic_config_frame:
  "nic_config env cfg = cfg\<lparr>NIC := (NIC cfg)\<lparr>nc_MAC := nc_MAC (NIC (nic_config env cfg))\<rparr>,
                            SSHPort := SSHPort (nic_config env cfg)\<rparr>"
  by (simp add: nic_config_def Let_def)

lemma nic_mode_config [simp]: "nic_mode h (nic_config env cfg) = nic_mode h cfg"
  by (simp add: nic_config_def nic_mode_def effectiveBridge_def Let_def)

lemma nic_config_MAC: "nc_MAC (NIC (nic_config env cfg)) \<noteq> []"
  by (simp add: nic_config_def Let_def DeterministicMAC_nonempty)

lemma nic_config_port:
  "SSHPort (nic_config env cfg) =
     (if SSHPort cfg > 0 \<and> nic_mode (be_host env) cfg \<noteq> ''bridge''
      then availablePort (be_portFree env) (SSHPort cfg) 2200 2299 else SSHPort cfg)"
  by (auto simp: nic_config_def nic_mode_def effectiveBridge_def Let_def)

lemma availablePort_pos: "0 < p \<Longrightarrow> 0 < lo \<Longrightarrow> 0 < availablePort free p lo hi"
  by (auto simp: availablePort_def find_Some_iff split: option.splits)

lemma nic_device_simps:
  "nic_Mode (nic_device env cfg) = nic_mode (be_host env) cfg"
  "nic_MAC (nic_device env cfg) = nc_MAC (NIC cfg)"
  "nic_HostFwds (nic_device env cfg) = nc_HostFwds (NIC cfg) @
     (if SSHPort cfg > 0 \<and> nic_mode (be_host env) cfg \<noteq> ''bridge'' then [ssh_forward (SSHPort cfg)] else [])"
  by (simp_all add: nic_device_def NewNIC_def Let_def)

lemma nic_config_HostFwds [simp]: "nc_HostFwds (NIC (nic_config env cfg)) = nc_HostFwds (NIC cfg)"
  by (simp add: nic_config_def Let_def)

text \<open>C17: The machine has one network device, with a MAC address that the configuration keeps.  On a
  bridge, which only a host with bridge support gets, no SSH forward is added and the configured
  port is kept.  Otherwise a requested SSH port is forwarded to the guest from the port recorded in
  the configuration, which is free unless it is the requested one and no port of 2200--2299 is
  free.  Nothing else of the configuration changes.\<close>

theorem buildMachine_network:
  assumes "buildMachine env cfg = (spawned, Inr (cfg', m, pids))"
  shows "\<exists>nic. bm_nics m = [nic] \<and> nic_MAC nic = nc_MAC (NIC cfg') \<and> nic_MAC nic \<noteq> [] \<and>
           (nic_Mode nic = ''bridge'' \<longrightarrow>
              SupportsBridgeNetworking (be_host env) \<and> nic_HostFwds nic = nc_HostFwds (NIC cfg) \<and>
              SSHPort cfg' = SSHPort cfg) \<and>
           (nic_Mode nic \<noteq> ''bridge'' \<and> SSHPort cfg > 0 \<longrightarrow>
              nic_HostFwds nic = nc_HostFwds (NIC cfg) @ [ssh_forward (SSHPort cfg')] \<and>
              (be_portFree env (SSHPort cfg') \<or>
               SSHPort cfg' = SSHPort cfg \<and>
               list_all (\<lambda>p. p = SSHPort cfg \<or> \<not> be_portFree env p) [2200..2299])) \<and>
           cfg' = cfg\<lparr>NIC := (NIC cfg)\<lparr>nc_MAC := nc_MAC (NIC cfg')\<rparr>, SSHPort := SSHPort cfg'\<rparr>"
proof -
  have cfg': "cfg' = nic_config env cfg" using assms by (rule buildMachine_Inr)
  let ?nic = "nic_device env cfg'"
  have nics: "bm_nics m = [?nic]" using built_fields [OF assms] cfg' by simp
  have mode: "nic_Mode ?nic = nic_mode (be_host env) cfg" by (simp add: nic_device_simps cfg')
  have "SupportsBridgeNetworking (be_host env)" if "nic_Mode ?nic = ''bridge''"
    using that by (auto simp: mode nic_mode_def effectiveBridge_def split: if_splits)
  moreover have "nic_HostFwds ?nic = nc_HostFwds (NIC cfg)" and "SSHPort cfg' = SSHPort cfg"
    if "nic_Mode ?nic = ''bridge''"
    using that by (simp_all add: mode nic_device_simps cfg' nic_config_port)
  moreover have "nic_HostFwds ?nic = nc_HostFwds (NIC cfg) @ [ssh_forward (SSHPort cfg')]"
    if "nic_Mode ?nic \<noteq> ''bridge'' \<and> SSHPort cfg > 0"
    using that by (simp add: mode nic_device_simps cfg' nic_config_port availablePort_pos)
  moreover have "be_portFree env (SSHPort cfg') \<or> SSHPort cfg' = SSHPort cfg \<and>
       list_all (\<lambda>p. p = SSHPort cfg \<or> \<not> be_portFree env p) [2200..2299]"
    if "nic_Mode ?nic \<noteq> ''bridge'' \<and> SSHPort cfg > 0"
  proof -
    have "SSHPort cfg' = availablePort (be_portFree env) (SSHPort cfg) 2200 2299"
      using that by (simp add: nic_device_simps cfg' nic_config_port)
    then show ?thesis using availablePort_spec [of "be_portFree env" "SSHPort cfg" 2200 2299] by metis
  qed
  moreover have "nic_MAC ?nic = nc_MAC (NIC cfg')" and "nic_MAC ?nic \<noteq> []"
    by (simp_all add: nic_device_simps cfg' nic_config_MAC)
  moreover have "cfg' = cfg\<lparr>NIC := (NIC cfg)\<lparr>nc_MAC := nc_MAC (NIC cfg')\<rparr>, SSHPort := SSHPort cfg'\<rparr>"
    unfolding cfg' by (rule nic_config_frame)
  ultimately show ?thesis using nics by blast
qed


subsection \<open>Concrete runs\<close>

definition demo_qemubin :: QemuBinEnv where
  "demo_qemubin = \<lparr>qb_home = Some ''/h'', qb_exists = (\<lambda>_. False), qb_marker = None,
     qb_lookPath = (\<lambda>_. None), qb_asset = (\<lambda>_. None), qb_unpacked = False, qb_writeMarker = False\<rparr>"

definition awake_probe :: Probe where
  "awake_probe = \<lparr>obs = (\<lambda>_. \<lparr>sys_file = (\<lambda>_. None), sys_link = (\<lambda>_. None), sys_dir = (\<lambda>_. None)\<rparr>),
     pr_control = False, pr_reset = False, polls = 0\<rparr>"

definition demo_benv :: BuildEnv where
  "demo_benv = \<lparr>be_host = demo_host, be_provider = demo_provider, be_petname = ''pet'', be_home = ''/h'',
     be_stat = (\<lambda>p. if p = ''/iso/gone.iso'' then NotExist else Exists), be_qemubin = demo_qemubin,
     be_portFree = (\<lambda>p. p \<noteq> 2222), be_freePort = (\<lambda>_. None), be_probe = (\<lambda>_. awake_probe),
     be_spawnVirtiofsd = (\<lambda>_. Some 77), be_startSwtpm = (\<lambda>_ _. False),
     be_state = Some (VMState_zero\<lparr>InstallState := ''ready''\<rparr>)\<rparr>"

definition demo_vm :: VMConfig where
  "demo_vm = VMConfig_zero
     \<lparr>Name := ''web'', Memory := ''4G'', CPUs := 2, CPUModel := ''host'', SSHPort := 2222,
      NIC := NICConfig_zero\<lparr>nc_Mode := ''user'', nc_MAC := ''52:54:00:00:00:01''\<rparr>,
      Disks := [DiskConfig_zero\<lparr>dc_Path := ''/d/web.qcow2'', dc_Media := ''disk''\<rparr>,
                DiskConfig_zero\<lparr>dc_Path := ''/iso/gone.iso'', dc_Media := ''cdrom''\<rparr>],
      VirtiofsMounts := [\<lparr>vm_SocketPath = [], vm_SharedDir = ''/share'', vm_Tag = ''data'', vm_Readonly = True\<rparr>],
      GPU := GPUConfig_zero\<lparr>gc_Mode := ''passthrough'', gc_PCIAddr := ''0000:08:00.0'',
                             gc_ExtraVFIOAddrs := [''0000:08:00.1'', ''0000:0a:00.0'']\<rparr>\<rparr>"

lemma demo_build_ok: "is_ok (snd (buildMachine demo_benv demo_vm))"
  by code_simp

lemma demo_build:
  obtains sp cfg' m pids where "buildMachine demo_benv demo_vm = (sp, Inr (cfg', m, pids))"
  using demo_build_ok by (cases "buildMachine demo_benv demo_vm"; cases "snd (buildMachine demo_benv demo_vm)") auto

lemma demo_host_linux:
  "SupportsVirtiofsd (be_host demo_benv)" "be_host demo_benv = demo_host"
  by (simp_all add: demo_benv_def demo_host_def SupportsVirtiofsd_def)



lemma demo_port: "availablePort (be_portFree demo_benv) 2222 2200 2299 = 2200"
proof -
  have "[2200..2299] = 2200 # [2201..2299::int]" by (simp add: upto_rec1)
  then show ?thesis by (simp add: availablePort_def demo_benv_def)
qed

theorem buildMachine_network_witness:
  "\<exists>sp cfg' m pids nic. buildMachine demo_benv demo_vm = (sp, Inr (cfg', m, pids)) \<and>
     bm_nics m = [nic] \<and> SSHPort cfg' = 2200 \<and> nic_HostFwds nic = [ssh_forward 2200]"
proof -
  obtain sp cfg' m pids where b: "buildMachine demo_benv demo_vm = (sp, Inr (cfg', m, pids))"
    by (rule demo_build)
  have c: "cfg' = nic_config demo_benv demo_vm" using b by (rule buildMachine_Inr)
  have mode: "nic_mode (be_host demo_benv) demo_vm = ''user''"
    by (simp add: nic_mode_def demo_vm_def NICConfig_zero_def)
  have p: "SSHPort cfg' = 2200"
    unfolding c nic_config_port using mode demo_port by (simp add: demo_vm_def)
  obtain nic where n: "bm_nics m = [nic]" "nic_Mode nic \<noteq> ''bridge'' \<and> SSHPort demo_vm > 0 \<longrightarrow>
      nic_HostFwds nic = nc_HostFwds (NIC demo_vm) @ [ssh_forward (SSHPort cfg')]"
    using buildMachine_network [OF b] by blast
  have "nic = nic_device demo_benv cfg'" using built_fields [OF b] n(1) c by simp
  then have "nic_Mode nic = ''user''" using mode by (simp add: nic_device_simps c)
  then have "nic_HostFwds nic = [ssh_forward 2200]"
    using n(2) p by (simp add: demo_vm_def NICConfig_zero_def)
  with b n(1) p show ?thesis by blast
qed


text \<open>The sibling test compares the addresses as they are written.  A primary given without its
  PCI domain, as \<open>vee create --gpu-pci 08:00.0\<close> stores it, and the audio function the IOMMU scan
  adds with the domain are not recognised as one device: the audio function gets a root port of its
  own, although the two normalised addresses are siblings.\<close>

theorem vfio_sibling_unnormalised:
  "SameSlot (normalizePCIAddr ''08:00.0'') ''0000:08:00.1'' \<and>
   map (\<lambda>v. (vf_PCIAddr v, vf_BusID v, vf_EmitRootPort v))
     (vfio_devices (GPUConfig_zero\<lparr>gc_PCIAddr := ''08:00.0'', gc_ExtraVFIOAddrs := [''0000:08:00.1'']\<rparr>)) =
   [(''08:00.0'', ''pcie.1'', True), (''0000:08:00.1'', ''pcie.2'', True)]"
  by code_simp

text \<open>When the software TPM does not start, the virtiofsd processes started before it stay
  behind: the run fails and returns no process identifiers.\<close>

theorem buildMachine_swtpm_failure:
  "buildMachine demo_benv (demo_vm\<lparr>TPM := Some \<lparr>tc_Enabled = True\<rparr>\<rparr>) = ([77], Inl SwtpmFailed)"
  by code_simp

end
