(* ===== verification/Hostname.thy ===== *)
theory Hostname
  imports Vee_Prelude
begin

text \<open>
  \<open>internal/vm/hostname.go\<close>: the entries vee keeps in \<open>/etc/hosts\<close>.  The file is its content;
  whether it can be opened, and whether \<open>sudo -n tee\<close> succeeds, are arguments.
\<close>

definition hostsMarker :: string where "hostsMarker = ''# vee-managed''"

datatype hosts_error = HostsOpen | HostsWrite

text \<open>\<open>bufio.ScanLines\<close>: lines without their terminator, one trailing carriage return dropped, and
  no empty line after the last terminator.\<close>

definition strip_cr :: "string \<Rightarrow> string" where
  "strip_cr l = (if l \<noteq> [] \<and> last l = CHR 0x0D then butlast l else l)"

definition ScanLines :: "string \<Rightarrow> string list" where
  "ScanLines s =
     (let ls = SplitC (CHR 0x0A) s in map strip_cr (if last ls = [] then butlast ls else ls))"

definition vee_entry_of :: "string \<Rightarrow> string \<Rightarrow> bool" where
  "vee_entry_of hostname line = (Contains line hostsMarker \<and> Contains line hostname)"

definition removeHostsEntry :: "bool \<Rightarrow> bool \<Rightarrow> string \<Rightarrow> string \<Rightarrow> string \<times> hosts_error option" where
  "removeHostsEntry canOpen canWrite content hostname =
     (if \<not> canOpen then (content, Some HostsOpen)
      else let total = ScanLines content;
               kept = filter (\<lambda>l. \<not> vee_entry_of hostname l) total
           in if length kept = length total then (content, None)
              else if \<not> canWrite then (content, Some HostsWrite)
              else (Join kept nl @ nl, None))"

definition UnregisterHostname :: "bool \<Rightarrow> bool \<Rightarrow> string \<Rightarrow> string \<Rightarrow> string \<times> hosts_error option" where
  "UnregisterHostname = removeHostsEntry"

definition hosts_entry :: "string \<Rightarrow> string \<Rightarrow> string" where
  "hosts_entry hostname ip =
     ip @ [CHR 0x09] @ hostname @ [CHR 0x09] @ hostname @ ''.local '' @ hostsMarker"

definition RegisterHostname ::
  "bool \<Rightarrow> bool \<Rightarrow> string \<Rightarrow> string \<Rightarrow> string \<Rightarrow> string \<times> hosts_error option" where
  "RegisterHostname canOpen canWrite content hostname ip =
     (case removeHostsEntry canOpen canWrite content hostname of
        (c, Some e) \<Rightarrow> (c, Some e)
      | (c, None) \<Rightarrow>
          if \<not> canWrite then (c, Some HostsWrite) else (c @ hosts_entry hostname ip @ nl, None))"

subsection \<open>Lemmas\<close>

definition plain_line :: "string \<Rightarrow> bool" where
  "plain_line l = (CHR 0x0A \<notin> set l \<and> CHR 0x0D \<notin> set l)"

lemma strip_cr_id: "CHR 0x0D \<notin> set l \<Longrightarrow> strip_cr l = l"
  by (auto simp: strip_cr_def) (metis last_in_set)

lemma SplitC_set: "x \<in> set (SplitC d s) \<Longrightarrow> set x \<subseteq> set s"
proof (induction s arbitrary: x)
  case (Cons c s)
  note IH = Cons.IH and prems = Cons.prems
  show ?case
  proof (cases "SplitC d s")
    case (Cons a ls)
    then have "set a \<subseteq> set s" and "\<And>y. y \<in> set ls \<Longrightarrow> set y \<subseteq> set s" using IH by simp_all
    then show ?thesis using Cons prems by (cases "c = d") auto
  qed simp
qed simp

lemma ScanLines_plain: "CHR 0x0D \<notin> set s \<Longrightarrow> list_all plain_line (ScanLines s)"
proof -
  assume a: "CHR 0x0D \<notin> set s"
  have "plain_line (strip_cr x)" if "x \<in> set (SplitC (CHR 0x0A) s)" for x
  proof -
    have "CHR 0x0D \<notin> set x" using SplitC_set [OF that] a by blast
    then show ?thesis using SplitC_no_sep [OF that] by (simp add: plain_line_def strip_cr_id)
  qed
  then show ?thesis
    by (auto simp: ScanLines_def Let_def list_all_iff dest: in_set_butlastD)
qed

lemma SplitC_Join_nl:
  "list_all plain_line ls \<Longrightarrow> ls \<noteq> [] \<Longrightarrow> SplitC (CHR 0x0A) (Join ls nl) = ls"
  unfolding nl_def by (rule SplitC_Join) (auto simp: plain_line_def list_all_iff)

lemma map_strip_cr: "list_all plain_line ls \<Longrightarrow> map strip_cr ls = ls"
  by (induction ls) (auto simp: plain_line_def strip_cr_id)

lemma ScanLines_Join:
  assumes "list_all plain_line ls" and "ls \<noteq> []"
  shows "ScanLines (Join ls nl @ nl) = ls"
proof -
  have "SplitC (CHR 0x0A) (Join ls nl @ nl) = ls @ [[]]"
    using SplitC_Join_nl [OF assms] by (simp add: nl_def SplitC_append_str)
  then show ?thesis using assms map_strip_cr by (simp add: ScanLines_def)
qed

text \<open>Appending a line to a file that is empty or ends with a terminator.\<close>

definition ends_line :: "string \<Rightarrow> bool" where
  "ends_line s = (s = [] \<or> last s = CHR 0x0A)"

lemma ScanLines_append:
  assumes "ends_line s" and "plain_line l"
  shows "ScanLines (s @ l @ nl) = ScanLines s @ [l]"
proof (cases s rule: rev_cases)
  case Nil
  then show ?thesis using assms(2) ScanLines_Join [of "[l]"] by (simp add: ScanLines_def)
next
  case (snoc s' c)
  then have c: "s = s' @ [CHR 0x0A]" using assms(1) by (simp add: ends_line_def)
  have "SplitC (CHR 0x0A) (l @ nl) = [l, []]"
    using assms(2) by (simp add: SplitC_append_sep nl_def plain_line_def)
  then have "SplitC (CHR 0x0A) (s @ l @ nl) = SplitC (CHR 0x0A) s' @ [l] @ [[]]"
    by (simp add: c SplitC_append_str)
  moreover have "SplitC (CHR 0x0A) s = SplitC (CHR 0x0A) s' @ [[]]" by (simp add: c SplitC_append_str)
  ultimately show ?thesis using assms(2) by (simp add: ScanLines_def butlast_append plain_line_def strip_cr_id)
qed

lemma ends_line_nl [simp]: "ends_line (s @ nl)"
  by (simp add: ends_line_def nl_def)

lemma removeHostsEntry_lines:
  assumes "removeHostsEntry True True content h = (content', None)" and "CHR 0x0D \<notin> set content"
    and "ends_line content" and "list_ex (\<lambda>l. \<not> vee_entry_of h l) (ScanLines content)"
  shows "ScanLines content' = filter (\<lambda>l. \<not> vee_entry_of h l) (ScanLines content)" and "ends_line content'"
proof -
  let ?k = "filter (\<lambda>l. \<not> vee_entry_of h l) (ScanLines content)"
  have "list_all plain_line ?k" using ScanLines_plain [OF assms(2)] by (simp add: list_all_iff)
  moreover have "?k \<noteq> []" using assms(4) by (auto simp: list_ex_iff filter_empty_conv)
  ultimately have j: "ScanLines (Join ?k nl @ nl) = ?k" by (rule ScanLines_Join)
  show "ScanLines content' = ?k" "ends_line content'"
    using assms(1,3) j filter_id_conv [of _ "ScanLines content"]
    by (auto simp: removeHostsEntry_def Let_def split: if_splits)
      (metis length_filter_less nat_neq_iff)
qed

lemma Contains_append: "Contains l s \<Longrightarrow> Contains (a @ l @ b) s"
  unfolding Contains_iff by (metis append.assoc)

lemma hosts_entry_vee: "vee_entry_of (h) (hosts_entry (h @ s) ip)"
proof -
  have "hosts_entry (h @ s) ip = (ip @ [CHR 0x09] @ h @ s @ [CHR 0x09] @ h @ s @ ''.local '') @ hostsMarker @ []"
    and "hosts_entry (h @ s) ip = (ip @ [CHR 0x09]) @ h @ (s @ [CHR 0x09] @ h @ s @ ''.local '' @ hostsMarker)"
    by (simp_all add: hosts_entry_def)
  then show ?thesis unfolding vee_entry_of_def Contains_iff by blast
qed

subsection \<open>Properties\<close>

text \<open>Registering a host name keeps, in order, every line of the file that is not an entry vee made
  for that name (the user's own lines among them), and adds exactly one entry, which maps the name
  to the address given; when the file cannot be written it is left as it was.\<close>

theorem RegisterHostname_lines:
  assumes "CHR 0x0D \<notin> set content" and "ends_line content"
    and "list_ex (\<lambda>l. \<not> vee_entry_of h l) (ScanLines content)" and "plain_line h" and "plain_line ip"
  shows "(\<exists>content'. RegisterHostname True True content h ip = (content', None) \<and>
            ScanLines content' = filter (\<lambda>l. \<not> vee_entry_of h l) (ScanLines content) @ [hosts_entry h ip] \<and>
            filter (\<lambda>l. \<not> Contains l hostsMarker) (ScanLines content') =
              filter (\<lambda>l. \<not> Contains l hostsMarker) (ScanLines content)) \<and>
         RegisterHostname True False content h ip = (content, Some HostsWrite)"
proof -
  obtain c where c: "removeHostsEntry True True content h = (c, None)"
    by (cases "removeHostsEntry True True content h") (auto simp: removeHostsEntry_def Let_def split: if_splits)
  have "plain_line (hosts_entry h ip)"
    using assms(4,5) by (auto simp: plain_line_def hosts_entry_def hostsMarker_def)
  then have "ScanLines (c @ hosts_entry h ip @ nl) =
             filter (\<lambda>l. \<not> vee_entry_of h l) (ScanLines content) @ [hosts_entry h ip]"
    using removeHostsEntry_lines [OF c assms(1-3)] ScanLines_append by simp
  moreover have "Contains (hosts_entry h ip) hostsMarker"
    using hosts_entry_vee [of h "[]" ip] by (simp add: vee_entry_of_def)
  moreover have "filter (\<lambda>l. \<not> vee_entry_of h l \<and> \<not> Contains l hostsMarker) ls =
                 filter (\<lambda>l. \<not> Contains l hostsMarker) ls" for ls
    by (rule filter_cong) (auto simp: vee_entry_of_def)
  moreover have "RegisterHostname True False content h ip = (content, Some HostsWrite)"
    by (simp add: RegisterHostname_def removeHostsEntry_def Let_def)
  ultimately show ?thesis by (simp add: RegisterHostname_def c conj_commute)
qed

text \<open>The entry to remove is found by substring: unregistering a name also removes the entry of
  every other VM whose host name merely starts with it.\<close>

theorem UnregisterHostname_substring:
  assumes "plain_line own" and "\<not> Contains own hostsMarker" and "plain_line (h @ s)" and "plain_line ip"
  shows "UnregisterHostname True True (own @ nl @ hosts_entry (h @ s) ip @ nl) h = (own @ nl, None)"
proof -
  have "plain_line (hosts_entry (h @ s) ip)"
    using assms(3,4) by (auto simp: plain_line_def hosts_entry_def hostsMarker_def)
  then have "ScanLines (own @ nl @ hosts_entry (h @ s) ip @ nl) = [own, hosts_entry (h @ s) ip]"
    using assms(1) ScanLines_Join [of "[own, hosts_entry (h @ s) ip]"] by simp
  moreover have "\<not> vee_entry_of h own" using assms(2) by (simp add: vee_entry_of_def)
  ultimately show ?thesis
    by (simp add: UnregisterHostname_def removeHostsEntry_def Let_def hosts_entry_vee)
qed

theorem RegisterHostname_lines_witness:
  "\<exists>c. RegisterHostname True True (''127.0.0.1 localhost'' @ nl) ''web'' ''10.0.0.5'' = (c, None) \<and>
       ScanLines c = [''127.0.0.1 localhost'', hosts_entry ''web'' ''10.0.0.5'']"
proof -
  let ?c = "''127.0.0.1 localhost'' @ nl"
  have l: "ScanLines ?c = [''127.0.0.1 localhost'']" by code_simp
  moreover have "\<not> vee_entry_of ''web'' ''127.0.0.1 localhost''" by code_simp
  moreover have "CHR 0x0D \<notin> set ?c" by code_simp
  ultimately show ?thesis
    using RegisterHostname_lines [of ?c "''web''" "''10.0.0.5''"]
    by (simp add: ends_line_def nl_def plain_line_def del: Contains.simps) blast
qed

theorem UnregisterHostname_substring_witness:
  "UnregisterHostname True True (''127.0.0.1 localhost'' @ nl @ hosts_entry ''web2'' ''10.0.0.6'' @ nl) ''web'' =
     (''127.0.0.1 localhost'' @ nl, None)"
proof -
  have "\<not> Contains ''127.0.0.1 localhost'' hostsMarker" by code_simp
  then show ?thesis
    using UnregisterHostname_substring [of "''127.0.0.1 localhost''" "''web''" "''2''" "''10.0.0.6''"]
    by (simp add: plain_line_def)
qed

end
