(* ===== verification/Boot.thy ===== *)
theory Boot
  imports Vee_Prelude
begin

text \<open>
  The phase watcher of \<open>internal/boot/phasewatcher.go\<close>, which follows the serial console of a
  starting VM.  A phase is the string the code uses for it.  The patterns are functions on a line
  that do what the regular expressions do; a captured group is the result.  The file is what each
  poll reads of it: the bytes appended since the last poll, and whether the idle timeout has passed.
\<close>

subsection \<open>Phases\<close>

definition PhaseUnknown :: string where "PhaseUnknown = []"

definition PhaseBIOSPost :: string where "PhaseBIOSPost = ''BIOS POST''"

definition PhaseBootloader :: string where "PhaseBootloader = ''Bootloader''"

definition PhaseKernelBoot :: string where "PhaseKernelBoot = ''Kernel boot''"

definition PhaseInit :: string where "PhaseInit = ''Init''"

definition PhaseCloudInit :: string where "PhaseCloudInit = ''Cloud-init''"

definition PhaseInstall :: string where "PhaseInstall = ''Installing''"

definition PhaseReady :: string where "PhaseReady = ''Ready''"

definition PhaseFailed :: string where "PhaseFailed = ''Failed''"

lemmas phase_defs = PhaseUnknown_def PhaseBIOSPost_def PhaseBootloader_def PhaseKernelBoot_def PhaseInit_def
  PhaseCloudInit_def PhaseInstall_def PhaseReady_def PhaseFailed_def

definition rank :: "string \<Rightarrow> nat" where
  "rank p =
     (if p = PhaseBIOSPost then 1 else if p = PhaseBootloader then 2 else if p = PhaseKernelBoot then 3
      else if p = PhaseInit then 4 else if p = PhaseCloudInit then 5 else if p = PhaseInstall then 6
      else if p = PhaseReady then 7 else 0)"

record boot_event =
  ev_Phase :: string
  ev_Detail :: string
  ev_PanicLine :: string

definition installStageLabels :: "(string \<times> string) list" where
  "installStageLabels =
     [(''clock-sync'', ''waiting for clock sync''),
      (''clock-sync-done'', ''clock synced''),
      (''network-wait'', ''waiting for network''),
      (''network-ready'', ''network ready''),
      (''partition'', ''partitioning disk''),
      (''reflector'', ''selecting mirrors''),
      (''reflector-done'', ''mirrors selected''),
      (''reflector-failed'', ''mirrors: using fallback''),
      (''pacstrap'', ''installing base system (this takes a while)''),
      (''pacstrap-done'', ''base system installed''),
      (''fstab'', ''generating fstab''),
      (''locale'', ''configuring locale''),
      (''users'', ''creating users''),
      (''services'', ''enabling services''),
      (''grub'', ''installing bootloader''),
      (''cleanup'', ''finalising install''),
      (''done'', ''install complete'')]"

subsection \<open>Patterns\<close>

definition re_space :: "char \<Rightarrow> bool" where
  "re_space c = (c \<in> set [CHR 0x09, CHR 0x0A, CHR 0x0C, CHR 0x0D, CHR '' ''])"

text \<open>The leftmost position at which \<open>f\<close> matches.\<close>

fun leftmost :: "(string \<Rightarrow> 'a option) \<Rightarrow> string \<Rightarrow> 'a option" where
  "leftmost f [] = f []"
| "leftmost f (c # s) = (case f (c # s) of None \<Rightarrow> leftmost f s | Some x \<Rightarrow> Some x)"

definition re_lit :: "string \<Rightarrow> string \<Rightarrow> string option" where
  "re_lit lit s = (if Contains s lit then Some [] else None)"

definition re_prefix :: "string \<Rightarrow> string \<Rightarrow> string option" where
  "re_prefix lit s = (if HasPrefix s lit then Some [] else None)"

text \<open>\<open>==> vee-install: stage=(\S+)\<close>, its group.\<close>

definition stage_here :: "string \<Rightarrow> string option" where
  "stage_here s =
     (case CutPrefix s ''==> vee-install: stage='' of
        None \<Rightarrow> None
      | Some r \<Rightarrow> let token = takeWhile (\<lambda>c. \<not> re_space c) r in if token = [] then None else Some token)"

definition re_stage :: "string \<Rightarrow> string option" where
  "re_stage s = leftmost stage_here s"

text \<open>\<open>cloud-init.*finished\<close>; the dot does not match a newline.\<close>

definition finished_here :: "string \<Rightarrow> string option" where
  "finished_here s =
     (case CutPrefix s ''cloud-init'' of
        None \<Rightarrow> None
      | Some r \<Rightarrow> if Contains (takeWhile (\<lambda>c. c \<noteq> CHR 0x0A) r) ''finished'' then Some [] else None)"

definition re_finished :: "string \<Rightarrow> string option" where
  "re_finished s = leftmost finished_here s"

text \<open>\<open>cloud-init\[\d+\]:\<close>\<close>

definition digits_then :: "string \<Rightarrow> string \<Rightarrow> string option" where
  "digits_then tail s =
     (let ds = takeWhile is_digit s in
      if ds \<noteq> [] \<and> HasPrefix (dropWhile is_digit s) tail then Some [] else None)"

definition unit_here :: "string \<Rightarrow> string option" where
  "unit_here s = Option.bind (CutPrefix s ''cloud-init['') (digits_then '']:'')"

definition re_unit :: "string \<Rightarrow> string option" where
  "re_unit s = leftmost unit_here s"

text \<open>\<open>^\[\s*0\.\d+\] \<close>\<close>

definition re_stamp :: "string \<Rightarrow> string option" where
  "re_stamp s =
     Option.bind (CutPrefix s ''['') (\<lambda>r.
       Option.bind (CutPrefix (dropWhile re_space r) ''0.'') (digits_then ''] ''))"

record pattern =
  pat_re :: "string \<Rightarrow> string option"
  pat_phase :: string
  pat_fail :: bool
  pat_detail :: bool

definition pat :: "(string \<Rightarrow> string option) \<Rightarrow> string \<Rightarrow> pattern" where
  "pat re phase = \<lparr>pat_re = re, pat_phase = phase, pat_fail = False, pat_detail = False\<rparr>"

definition fail_pat :: "string \<Rightarrow> pattern" where
  "fail_pat lit = \<lparr>pat_re = re_lit lit, pat_phase = PhaseFailed, pat_fail = True, pat_detail = False\<rparr>"

definition fail_markers :: "string list" where
  "fail_markers =
     [''Kernel panic'', ''end Kernel panic'', ''Oops:'', ''BUG:'', ''No bootable device'', ''==> vee-install: FAILED'']"

definition patterns :: "pattern list" where
  "patterns =
     map fail_pat fail_markers @
     [(pat re_stage PhaseInstall)\<lparr>pat_detail := True\<rparr>,
      pat re_finished PhaseReady,
      pat re_unit PhaseCloudInit,
      pat (re_lit ''Cloud-init v.'') PhaseCloudInit,
      pat (re_lit ''Reached target'') PhaseInit,
      pat (re_lit ''systemd[1]:'') PhaseInit,
      pat (re_lit ''Welcome to '') PhaseInit,
      pat (re_lit ''Linux version '') PhaseKernelBoot,
      pat re_stamp PhaseKernelBoot,
      pat (re_lit ''Command line:'') PhaseKernelBoot,
      pat (re_lit ''GRUB version'') PhaseBootloader,
      pat (re_prefix ''Booting '') PhaseBootloader,
      pat (re_lit ''Loading initial ramdisk'') PhaseBootloader,
      pat (re_lit ''systemd-boot'') PhaseBootloader,
      pat (re_lit ''BdsDxe:'') PhaseBIOSPost,
      pat (re_lit ''UEFI Interactive Shell'') PhaseBIOSPost,
      pat (re_lit ''SeaBIOS'') PhaseBIOSPost]"

fun classify_with :: "pattern list \<Rightarrow> string \<Rightarrow> string \<times> bool \<times> string \<times> string" where
  "classify_with [] line = (PhaseUnknown, False, [], [])"
| "classify_with (p # ps) line =
     (case pat_re p line of
        None \<Rightarrow> classify_with ps line
      | Some token \<Rightarrow>
          let det = (if pat_detail p
                     then (case map_of installStageLabels token of Some label \<Rightarrow> label | None \<Rightarrow> token) else [])
          in (pat_phase p, pat_fail p, line, det))"

definition classify :: "string \<Rightarrow> string \<times> bool \<times> string \<times> string" where
  "classify line = classify_with patterns line"

subsection \<open>Run\<close>

text \<open>The variables of \<open>Run\<close>; \<open>wt_done\<close> once it has returned.\<close>

record Watch =
  wt_leftover :: string
  wt_last :: string
  wt_done :: bool

definition watch_start :: Watch where
  "watch_start = \<lparr>wt_leftover = [], wt_last = [], wt_done = False\<rparr>"

text \<open>The body of the inner loop on a complete line.\<close>

definition watch_line :: "Watch \<Rightarrow> string \<Rightarrow> Watch \<times> boot_event list" where
  "watch_line w full =
     (case classify full of
        (phase, fail, panicLine, detail) \<Rightarrow>
          if wt_done w then (w, [])
          else if phase = PhaseUnknown then (w, [])
          else if fail then
            (w\<lparr>wt_done := True\<rparr>, [\<lparr>ev_Phase = PhaseFailed, ev_Detail = [], ev_PanicLine = panicLine\<rparr>])
          else if phase = PhaseInstall then
            (w\<lparr>wt_last := phase\<rparr>, [\<lparr>ev_Phase = phase, ev_Detail = detail, ev_PanicLine = []\<rparr>])
          else if rank phase \<le> rank (wt_last w) then (w, [])
          else (w\<lparr>wt_last := phase, wt_done := (phase = PhaseReady)\<rparr>,
                [\<lparr>ev_Phase = phase, ev_Detail = detail, ev_PanicLine = []\<rparr>]))"

fun watch_lines :: "Watch \<Rightarrow> string list \<Rightarrow> Watch \<times> boot_event list" where
  "watch_lines w [] = (w, [])"
| "watch_lines w (l # ls) =
     (let (w1, e1) = watch_line w l; (w2, e2) = watch_lines w1 ls in (w2, e1 @ e2))"

text \<open>\<open>ReadString\<close> until the end of what has been written: the complete lines, each with its
  newline, the first one continuing \<open>leftover\<close>; and the partial line that remains.\<close>

fun read_lines :: "string \<Rightarrow> string \<Rightarrow> string list \<times> string" where
  "read_lines leftover [] = ([], leftover)"
| "read_lines leftover (c # s) =
     (if c = CHR 0x0A then (let (ls, r) = read_lines [] s in ((leftover @ [c]) # ls, r))
      else read_lines (leftover @ [c]) s)"

definition watch_read :: "Watch \<Rightarrow> string \<Rightarrow> Watch \<times> boot_event list" where
  "watch_read w bytes =
     (let (ls, r) = read_lines (wt_leftover w) bytes in watch_lines (w\<lparr>wt_leftover := r\<rparr>) ls)"

definition timeout_event :: boot_event where
  "timeout_event =
     \<lparr>ev_Phase = PhaseFailed, ev_Detail = [], ev_PanicLine = ''boot timeout: no serial activity for ''\<rparr>"

text \<open>One turn of the outer loop; the second component says whether the idle timeout has passed.  The
  text of the duration in the timeout line is left out.\<close>

definition watch_poll :: "Watch \<Rightarrow> string \<times> bool \<Rightarrow> Watch \<times> boot_event list" where
  "watch_poll w input =
     (case input of
        (bytes, idle) \<Rightarrow>
          if wt_done w then (w, [])
          else let (w1, e1) = watch_read w bytes in
               if \<not> wt_done w1 \<and> idle \<and> wt_last w1 \<noteq> PhaseReady \<and> wt_last w1 \<noteq> PhaseFailed
               then (w1\<lparr>wt_done := True\<rparr>, e1 @ [timeout_event])
               else (w1, e1))"

fun watch_run :: "Watch \<Rightarrow> (string \<times> bool) list \<Rightarrow> Watch \<times> boot_event list" where
  "watch_run w [] = (w, [])"
| "watch_run w (i # is) =
     (let (w1, e1) = watch_poll w i; (w2, e2) = watch_run w1 is in (w2, e1 @ e2))"

subsection \<open>Lemmas\<close>

lemma read_lines_append:
  "read_lines l (a @ b) = (let (ls, r) = read_lines l a; (ls2, r2) = read_lines r b in (ls @ ls2, r2))"
proof (induction l a rule: read_lines.induct)
  case (2 l c s)
  then show ?case by (cases "c = CHR 0x0A") (auto simp: Let_def split: prod.splits)
qed (simp split: prod.split)

lemma watch_lines_append:
  "watch_lines w (a @ b) = (let (w1, e1) = watch_lines w a; (w2, e2) = watch_lines w1 b in (w2, e1 @ e2))"
  by (induction a arbitrary: w) (auto simp: Let_def split: prod.splits)

lemma watch_line_leftover:
  "watch_line (w\<lparr>wt_leftover := x\<rparr>) l = (case watch_line w l of (w1, e) \<Rightarrow> (w1\<lparr>wt_leftover := x\<rparr>, e))"
  by (cases "classify l") (simp add: watch_line_def)

lemma watch_lines_leftover:
  "watch_lines (w\<lparr>wt_leftover := x\<rparr>) ls = (case watch_lines w ls of (w1, e) \<Rightarrow> (w1\<lparr>wt_leftover := x\<rparr>, e))"
  by (induction ls arbitrary: w) (auto simp: watch_line_leftover Let_def split: prod.splits)

lemma watch_line_done: "wt_done w \<Longrightarrow> watch_line w l = (w, [])"
  by (cases "classify l") (simp add: watch_line_def)

lemma watch_lines_done: "wt_done w \<Longrightarrow> watch_lines w ls = (w, [])"
  by (induction ls) (simp_all add: watch_line_done)

lemma watch_run_done: "wt_done w \<Longrightarrow> watch_run w is = (w, [])"
  by (induction "is") (auto simp: watch_poll_def)

lemma watch_read_append:
  assumes "watch_read w a = (w1, e1)"
  shows "watch_read w (a @ b) =
    (if wt_done w1 then (w1\<lparr>wt_leftover := snd (read_lines (wt_leftover w) (a @ b))\<rparr>, e1)
     else case watch_read w1 b of (w2, e2) \<Rightarrow> (w2, e1 @ e2))"
proof -
  obtain ls r where a: "read_lines (wt_leftover w) a = (ls, r)" by (cases "read_lines (wt_leftover w) a")
  obtain ls2 r2 where b: "read_lines r b = (ls2, r2)" by (cases "read_lines r b")
  obtain v e where v: "watch_lines w ls = (v, e)" by (cases "watch_lines w ls")
  have w1: "w1 = v\<lparr>wt_leftover := r\<rparr>" "e1 = e"
    using assms by (auto simp: watch_read_def a watch_lines_leftover v)
  show ?thesis
    using watch_lines_done [of v ls2]
    by (auto simp: watch_read_def read_lines_append a b w1 watch_lines_leftover watch_lines_append v Let_def
        split: prod.splits)
qed

text \<open>What the watcher emits advances: a failure or readiness is the last event, and every other
  phase is later than the one before, except that an install stage may follow another.\<close>

fun phases_advance :: "string \<Rightarrow> boot_event list \<Rightarrow> bool" where
  "phases_advance l [] = True"
| "phases_advance l (e # es) =
     (if ev_Phase e = PhaseFailed then es = []
      else (rank l < rank (ev_Phase e) \<or> l = PhaseInstall \<and> ev_Phase e = PhaseInstall) \<and>
           (ev_Phase e = PhaseReady \<longrightarrow> es = []) \<and> phases_advance (ev_Phase e) es)"

lemma rank_simps [simp]:
  "rank PhaseInstall = 6" "rank PhaseReady = 7" "rank PhaseFailed = 0" "rank PhaseUnknown = 0" "rank [] = 0"
  by (simp_all add: rank_def phase_defs)

lemma rank_7: "rank p = 7 \<longleftrightarrow> p = PhaseReady" "rank p = 6 \<longleftrightarrow> p = PhaseInstall" "rank p \<le> 7"
  by (auto simp: rank_def phase_defs)

lemma phase_distinct [simp]: "PhaseInstall \<noteq> PhaseReady" "PhaseReady \<noteq> PhaseFailed" "PhaseInstall \<noteq> PhaseFailed"
  "PhaseInstall \<noteq> PhaseUnknown"
  by (simp_all add: phase_defs)

definition watching :: "Watch \<Rightarrow> bool" where
  "watching w \<longleftrightarrow> \<not> wt_done w \<and> wt_last w \<noteq> PhaseReady"

lemma watch_line_step:
  assumes "watching w" and "watch_line w l = (w', es)"
  shows "es = [] \<and> w' = w \<or>
    (\<exists>e. es = [e] \<and> phases_advance (wt_last w) [e] \<and>
      (if ev_Phase e = PhaseFailed \<or> ev_Phase e = PhaseReady then wt_done w' else watching w' \<and> wt_last w' = ev_Phase e))"
proof -
  obtain phase fail panicLine detail where c: "classify l = (phase, fail, panicLine, detail)"
    by (cases "classify l")
  have "rank (wt_last w) < 6 \<or> wt_last w = PhaseInstall"
    using rank_7 [of "wt_last w"] assms(1) by (auto simp: watching_def)
  moreover have "\<not> wt_done w" using assms(1) by (simp add: watching_def)
  moreover have "rank phase \<le> rank (wt_last w) \<or> phase \<noteq> PhaseFailed" by (cases "phase = PhaseFailed") auto
  ultimately show ?thesis
    using assms(2) by (auto simp: watch_line_def c watching_def split: if_splits)
qed

lemma phases_advance_snoc_start:
  "phases_advance l [e] \<Longrightarrow> ev_Phase e \<noteq> PhaseFailed \<Longrightarrow> ev_Phase e \<noteq> PhaseReady \<Longrightarrow>
   phases_advance (ev_Phase e) es \<Longrightarrow> phases_advance l (e # es)"
  by simp

text \<open>The events of a run, from any state of the watcher that has not returned: they advance from the
  last phase, and while the watcher runs its last phase is that of the last event.\<close>

definition run_ok :: "Watch \<Rightarrow> Watch \<times> boot_event list \<Rightarrow> bool" where
  "run_ok w r \<longleftrightarrow> phases_advance (wt_last w) (snd r) \<and>
     (\<not> wt_done (fst r) \<longrightarrow> watching (fst r) \<and> (\<forall>e \<in> set (snd r). ev_Phase e \<noteq> PhaseFailed \<and> ev_Phase e \<noteq> PhaseReady) \<and>
        wt_last (fst r) = last (wt_last w # map ev_Phase (snd r)))"

lemma phases_advance_append:
  assumes "phases_advance l a" and "\<forall>e \<in> set a. ev_Phase e \<noteq> PhaseFailed \<and> ev_Phase e \<noteq> PhaseReady"
    and "phases_advance (last (l # map ev_Phase a)) b"
  shows "phases_advance l (a @ b)"
  using assms by (induction a arbitrary: l) auto

lemma run_ok_compose:
  assumes "run_ok w (w1, e1)" and "\<not> wt_done w1 \<Longrightarrow> run_ok w1 (w2, e2)" and "wt_done w1 \<Longrightarrow> w2 = w1 \<and> e2 = []"
  shows "run_ok w (w2, e1 @ e2)"
proof (cases "wt_done w1")
  case True
  then show ?thesis using assms by (simp add: run_ok_def)
next
  case False
  then show ?thesis
    using assms(1,2) phases_advance_append [of "wt_last w" e1 e2] by (auto simp: run_ok_def)
qed

lemma watch_line_ok:
  assumes "watching w"
  shows "run_ok w (watch_line w l)"
proof -
  obtain w' es where r: "watch_line w l = (w', es)" by (cases "watch_line w l")
  from watch_line_step [OF assms r] show ?thesis
    using assms by (auto simp: run_ok_def r split: if_splits)
qed

lemma run_ok_watching: "run_ok w (w1, e1) \<Longrightarrow> \<not> wt_done w1 \<Longrightarrow> watching w1"
  by (simp add: run_ok_def)

lemma watch_lines_ok: "watching w \<Longrightarrow> run_ok w (watch_lines w ls)"
proof (induction ls arbitrary: w)
  case (Cons l ls)
  obtain w1 e1 where l: "watch_line w l = (w1, e1)" by (cases "watch_line w l")
  obtain w2 e2 where ls: "watch_lines w1 ls = (w2, e2)" by (cases "watch_lines w1 ls")
  have ok: "run_ok w (w1, e1)" using watch_line_ok [OF Cons.prems, of l] l by simp
  have "run_ok w (w2, e1 @ e2)"
    using Cons.IH [OF run_ok_watching [OF ok]] watch_lines_done [of w1 ls]
    by (intro run_ok_compose [OF ok]) (simp_all add: ls)
  then show ?case by (simp add: l ls)
qed (simp add: run_ok_def)

lemma watch_read_ok:
  assumes "watching w"
  shows "run_ok w (watch_read w bytes)"
proof -
  obtain ls r where rd: "read_lines (wt_leftover w) bytes = (ls, r)" by (cases "read_lines (wt_leftover w) bytes")
  have "watching (w\<lparr>wt_leftover := r\<rparr>)" using assms by (simp add: watching_def)
  from watch_lines_ok [OF this, of ls] show ?thesis by (simp add: watch_read_def rd run_ok_def)
qed

lemma watch_poll_ok:
  assumes "watching w"
  shows "run_ok w (watch_poll w i)"
proof -
  obtain bytes idle where i: "i = (bytes, idle)" by (cases i)
  obtain w1 e1 where rd: "watch_read w bytes = (w1, e1)" by (cases "watch_read w bytes")
  have ok: "run_ok w (w1, e1)" using watch_read_ok [OF assms, of bytes] rd by simp
  have "run_ok w (w1\<lparr>wt_done := True\<rparr>, e1 @ [timeout_event])" if "\<not> wt_done w1"
    by (rule run_ok_compose [OF ok]) (use that in \<open>auto simp: run_ok_def timeout_event_def\<close>)
  then show ?thesis using ok assms by (simp add: watch_poll_def i rd watching_def)
qed

lemma watch_run_ok: "watching w \<Longrightarrow> run_ok w (watch_run w is)"
proof (induction "is" arbitrary: w)
  case (Cons i "is")
  obtain w1 e1 where l: "watch_poll w i = (w1, e1)" by (cases "watch_poll w i")
  obtain w2 e2 where ls: "watch_run w1 is = (w2, e2)" by (cases "watch_run w1 is")
  have ok: "run_ok w (w1, e1)" using watch_poll_ok [OF Cons.prems, of i] l by simp
  have "run_ok w (w2, e1 @ e2)"
    using Cons.IH [OF run_ok_watching [OF ok]] watch_run_done [of w1 "is"]
    by (intro run_ok_compose [OF ok]) (simp_all add: ls)
  then show ?case by (simp add: l ls)
qed (simp add: run_ok_def)

lemma watching_start: "watching watch_start"
  by (simp add: watching_def watch_start_def phase_defs)

lemma failure_classified:
  assumes "list_ex (Contains line) fail_markers"
  shows "classify line = (PhaseFailed, True, line, [])"
proof -
  have "classify_with (map fail_pat ms @ ps) line = (PhaseFailed, True, line, [])"
    if "list_ex (Contains line) ms" for ms ps
    using that by (induction ms) (auto simp: fail_pat_def re_lit_def)
  then show ?thesis using assms by (simp add: classify_def patterns_def)
qed

lemma watch_line_failure:
  assumes "\<not> wt_done w" and "list_ex (Contains line) fail_markers"
  shows "watch_line w line =
    (w\<lparr>wt_done := True\<rparr>, [\<lparr>ev_Phase = PhaseFailed, ev_Detail = [], ev_PanicLine = line\<rparr>])"
  using assms failure_classified [OF assms(2)] by (simp add: watch_line_def phase_defs)

subsection \<open>Properties\<close>

text \<open>C20: whatever the console says and however it is read, the phases the watcher reports advance:
  each is later than the one before (an install stage may follow an install stage), and a failure or
  readiness is the last event.  If the watcher is still running, it has reported neither.\<close>

theorem phases_monotone:
  "phases_advance [] (snd (watch_run watch_start inputs)) \<and>
   (wt_done (fst (watch_run watch_start inputs)) \<or>
    list_all (\<lambda>e. ev_Phase e \<noteq> PhaseFailed \<and> ev_Phase e \<noteq> PhaseReady) (snd (watch_run watch_start inputs)))"
  using watch_run_ok [OF watching_start, of inputs] by (auto simp: run_ok_def watch_start_def list_all_iff)

text \<open>C21: the events do not depend on how the writes to the console are cut into reads: reading the
  pieces one poll at a time gives what reading their concatenation gives.\<close>

theorem watch_chunking:
  "snd (watch_run watch_start (map (\<lambda>c. (c, False)) chunks)) = snd (watch_read watch_start (concat chunks))"
proof -
  have "snd (watch_run w (map (\<lambda>c. (c, False)) chunks)) = snd (watch_read w (concat chunks))"
    if "\<not> wt_done w" for w
    using that
  proof (induction chunks arbitrary: w)
    case Nil
    then show ?case by (simp add: watch_read_def)
  next
    case (Cons c cs)
    obtain w1 e1 where rd: "watch_read w c = (w1, e1)" by (cases "watch_read w c")
    have poll: "watch_poll w (c, False) = (w1, e1)" using Cons.prems by (simp add: watch_poll_def rd)
    show ?case
      using Cons.IH [of w1] watch_run_done [of w1]
      by (cases "wt_done w1") (auto simp: poll watch_read_append [OF rd] split: prod.split)
  qed
  then show ?thesis by (simp add: watch_start_def)
qed

text \<open>C22: a failure on the console is never missed or shadowed: if the watcher is still running when
  it reaches a complete line with a failure marker, its next event is the last one, a failure that
  carries the line, whatever else the line and the rest of the console say.\<close>

theorem failure_reported:
  assumes "read_lines [] bytes = (before @ line # after, rest)" and "list_ex (Contains line) fail_markers"
    and "\<not> wt_done (fst (watch_lines watch_start before))"
  shows "snd (watch_run watch_start [(bytes, idle)]) =
    snd (watch_lines watch_start before) @ [\<lparr>ev_Phase = PhaseFailed, ev_Detail = [], ev_PanicLine = line\<rparr>]"
proof -
  obtain w1 e1 where b: "watch_lines watch_start before = (w1, e1)" by (cases "watch_lines watch_start before")
  let ?e = "\<lparr>ev_Phase = PhaseFailed, ev_Detail = [], ev_PanicLine = line\<rparr>"
  have fail: "watch_line w1 line = (w1\<lparr>wt_done := True\<rparr>, [?e])"
    by (rule watch_line_failure) (use assms(2,3) b in simp_all)
  have "watch_lines watch_start (before @ line # after) = (w1\<lparr>wt_done := True\<rparr>, e1 @ [?e])"
    using watch_lines_done [of "w1\<lparr>wt_done := True\<rparr>" after] by (simp add: watch_lines_append b fail)
  moreover have "read_lines (wt_leftover watch_start) bytes = (before @ line # after, rest)"
    using assms(1) by (simp add: watch_start_def)
  ultimately have "watch_read watch_start bytes = (w1\<lparr>wt_done := True, wt_leftover := rest\<rparr>, e1 @ [?e])"
    by (simp add: watch_read_def watch_lines_leftover)
  then show ?thesis by (simp add: watch_poll_def b) (simp add: watch_start_def)
qed

subsection \<open>Witnesses\<close>

definition demo_console :: string where
  "demo_console = ''[ 0.00] Linux version 6'' @ nl @ ''systemd[1]: Kernel panic'' @ nl @ ''SeaBIOS''"

theorem failure_reported_witness:
  "map ev_Phase (snd (watch_run watch_start [(demo_console, False)])) = [PhaseKernelBoot, PhaseFailed]"
proof -
  have rd: "read_lines [] demo_console =
      ([''[ 0.00] Linux version 6'' @ nl] @ (''systemd[1]: Kernel panic'' @ nl) # [], ''SeaBIOS'')" by code_simp
  have fail: "list_ex (Contains (''systemd[1]: Kernel panic'' @ nl)) fail_markers" by code_simp
  have run: "\<not> wt_done (fst (watch_lines watch_start [''[ 0.00] Linux version 6'' @ nl]))" by code_simp
  have "map ev_Phase (snd (watch_lines watch_start [''[ 0.00] Linux version 6'' @ nl])) = [PhaseKernelBoot]" by code_simp
  with failure_reported [OF rd fail run, of False] show ?thesis by simp
qed

end
