(* ===== verification/Lifecycle.thy ===== *)
theory Lifecycle
  imports Build_Machine Hostname Boot
begin

text \<open>
  The life of a VM in \<open>internal/vm\<close>: \<open>Start\<close>, the stop paths, stale-state cleanup, listing
  (\<open>manager.go\<close>), the daemon's passes (\<open>daemon.go\<close>), the reactions to guest events
  (\<open>qmp_registry.go\<close>), backend dispatch (\<open>backend.go\<close>), the retry without OpenGL
  (\<open>glfallback.go\<close>) and the recovery plan (\<open>recovery.go\<close>).

  A \<open>World\<close> is what the processes of vee share: the stored configurations and states (which
  \<open>Store\<close> keeps in files or in the database), the live processes, \<open>/etc/hosts\<close>, the files of the
  disks, the results the vz helpers left, and the foreground sessions that are waiting for their VM
  to exit.  \<open>w_readonly\<close> holds while the store rejects writes.  What a start asks of the host is
  the record \<open>StartEnv\<close>.  Documents in the store are taken to be readable; waiting for the guest's
  address, TrueNAS key injection, notifications and logging are left out.
\<close>

subsection \<open>The shared world\<close>

datatype proc = VMProc string | Helper string

record VzResult =
  vz_Error :: string
  vz_StopRequested :: bool

record World =
  w_configs :: "(string \<times> VMConfig) list"
  w_states :: "string \<rightharpoonup> VMState"
  w_procs :: "(int \<times> proc) list"
  w_foreground :: "(string \<times> VMState) list"
  w_hosts :: string
  w_files :: "string list"
  w_vzresult :: "string \<rightharpoonup> VzResult"
  w_readonly :: bool

definition isAlive :: "World \<Rightarrow> int \<Rightarrow> bool" where
  "isAlive w pid = (0 < pid \<and> pid \<in> fst ` set (w_procs w))"

definition kill_pid :: "int \<Rightarrow> World \<Rightarrow> World" where
  "kill_pid pid w = w\<lparr>w_procs := filter (\<lambda>(p, x). p \<noteq> pid) (w_procs w)\<rparr>"

definition loadConfig :: "World \<Rightarrow> string \<Rightarrow> VMConfig option" where
  "loadConfig w nm = map_of (w_configs w) nm"

definition loadState :: "World \<Rightarrow> string \<Rightarrow> VMState" where
  "loadState w nm = (case w_states w nm of None \<Rightarrow> VMState_zero | Some st \<Rightarrow> st)"

definition saveState :: "string \<Rightarrow> VMState \<Rightarrow> World \<Rightarrow> World \<times> bool" where
  "saveState nm st w =
     (if w_readonly w then (w, False) else (w\<lparr>w_states := (w_states w)(nm \<mapsto> st)\<rparr>, True))"

fun put_config :: "VMConfig \<Rightarrow> (string \<times> VMConfig) list \<Rightarrow> (string \<times> VMConfig) list" where
  "put_config cfg [] = [(Name cfg, cfg)]"
| "put_config cfg ((k, c) # rest) =
     (if k = Name cfg then (k, cfg) # rest else (k, c) # put_config cfg rest)"

definition saveConfig :: "VMConfig \<Rightarrow> World \<Rightarrow> World \<times> bool" where
  "saveConfig cfg w =
     (if w_readonly w then (w, False) else (w\<lparr>w_configs := put_config cfg (w_configs w)\<rparr>, True))"

definition unregister :: "VMConfig option \<Rightarrow> World \<Rightarrow> World" where
  "unregister c w =
     (case c of
        None \<Rightarrow> w
      | Some cfg \<Rightarrow>
          if Hostname cfg = [] then w
          else w\<lparr>w_hosts := fst (UnregisterHostname True True (w_hosts w) (Hostname cfg))\<rparr>)"

subsection \<open>Stale state and listing\<close>

definition settled :: "string \<Rightarrow> string" where
  "settled i = (if i = InstallStatePending then InstallStateReady else i)"

definition stale_state :: "VzResult option \<Rightarrow> VMState \<Rightarrow> VMState" where
  "stale_state vz st =
     (let p0 = VMState_zero\<lparr>InstallState := settled (InstallState st), InstalledAt := InstalledAt st,
                            DesiredState := DesiredState st, LastShutdownReason := LastShutdownReason st\<rparr>;
          p1 = (if LastShutdownReason p0 = [] \<and> VMState_BackendName (Some st) = VZ
                then (case vz of
                        Some r \<Rightarrow> if vz_Error r = [] \<and> \<not> vz_StopRequested r
                                  then p0\<lparr>LastShutdownReason := ShutdownReasonGuest,
                                         DesiredState := DesiredStateStopped\<rparr>
                                  else p0
                      | None \<Rightarrow> p0)
                else p0)
      in if LastShutdownReason p1 = [] then p1\<lparr>LastShutdownReason := ShutdownReasonCrash\<rparr> else p1)"

definition cleanupStaleVM :: "string \<Rightarrow> VMState \<Rightarrow> World \<Rightarrow> World" where
  "cleanupStaleVM nm st w = fst (saveState nm (stale_state (w_vzresult w nm) st) w)"

definition list_one :: "VMConfig \<Rightarrow> World \<Rightarrow> World \<times> (VMConfig \<times> VMState)" where
  "list_one cfg w =
     (let st = loadState w (Name cfg) in
      if Running st \<and> \<not> isAlive w (PID st)
      then (cleanupStaleVM (Name cfg) st w, (cfg, st\<lparr>Running := False\<rparr>))
      else (w, (cfg, st)))"

fun list_all_vms :: "VMConfig list \<Rightarrow> World \<Rightarrow> World \<times> (VMConfig \<times> VMState) list" where
  "list_all_vms [] w = (w, [])"
| "list_all_vms (cfg # cfgs) w =
     (let (w1, e) = list_one cfg w; (w2, es) = list_all_vms cfgs w1 in (w2, e # es))"

definition List_vms :: "World \<Rightarrow> World \<times> (VMConfig \<times> VMState) list" where
  "List_vms w = list_all_vms (map snd (w_configs w)) w"

subsection \<open>Stopping\<close>

definition desiredStateForReason :: "string \<Rightarrow> string" where
  "desiredStateForReason reason =
     (if reason = ShutdownReasonHost \<or> reason = ShutdownReasonReboot then DesiredStateRunning
      else DesiredStateStopped)"

text \<open>The wait for the process to exit: it is polled every 500 ms until the deadline; \<open>alive t\<close> is
  whether it is alive at time \<open>t\<close>.  The result is the time at which the wait ends.\<close>

function wait_exit :: "(int \<Rightarrow> bool) \<Rightarrow> int \<Rightarrow> int \<Rightarrow> int" where
  "wait_exit alive now deadline =
     (if now < deadline \<and> alive now then wait_exit alive (now + 500) deadline else now)"
  by pat_completeness auto
termination by (relation "measure (\<lambda>(alive, now, deadline). nat (deadline - now))") auto

declare wait_exit.simps [simp del]

definition stopped_state :: "string \<Rightarrow> VMState \<Rightarrow> VMState" where
  "stopped_state reason st =
     VMState_zero\<lparr>InstallState := settled (InstallState st), InstalledAt := InstalledAt st,
                  DesiredState := desiredStateForReason reason, LastShutdownReason := reason\<rparr>"

datatype stop_error = NotRunning | StopSaveFailed

definition kill_vm :: "VMState \<Rightarrow> World \<Rightarrow> World" where
  "kill_vm st w = fold kill_pid (filter (\<lambda>pid. 0 < pid) (VirtiofsdPIDs st)) (kill_pid (PID st) w)"

text \<open>\<open>stopWithReason\<close>: the guest is asked to power down and given 30 seconds (\<^const>\<open>wait_exit\<close>); a
  process still alive then is killed, so either way it is gone when the helpers are terminated.
  \<open>forceStopWithReason\<close> kills at once, and otherwise does the same.\<close>

definition stopWithReason :: "string \<Rightarrow> string \<Rightarrow> World \<Rightarrow> World \<times> stop_error option" where
  "stopWithReason reason nm w =
     (let st = loadState w nm in
      if \<not> Running st \<or> PID st = 0 then (w, Some NotRunning)
      else let w1 = unregister (loadConfig w nm) (kill_vm st w)
           in case saveState nm (stopped_state reason st) w1 of
                (w2, ok) \<Rightarrow> (w2, if ok then None else Some StopSaveFailed))"

definition forceStopWithReason :: "string \<Rightarrow> string \<Rightarrow> World \<Rightarrow> World \<times> stop_error option" where
  "forceStopWithReason reason nm w =
     (let st = loadState w nm in
      if \<not> Running st \<or> PID st = 0 then (w, Some NotRunning)
      else let w1 = unregister (loadConfig w nm) (kill_vm st w)
           in case saveState nm (stopped_state reason st) w1 of
                (w2, ok) \<Rightarrow> (w2, if ok then None else Some StopSaveFailed))"

fun stop_each :: "string \<Rightarrow> string list \<Rightarrow> World \<Rightarrow> World \<times> (string \<times> stop_error) list" where
  "stop_each reason [] w = (w, [])"
| "stop_each reason (nm # nms) w =
     (let (w1, e) = stopWithReason reason nm w; (w2, es) = stop_each reason nms w1
      in (w2, (case e of None \<Rightarrow> es | Some x \<Rightarrow> (nm, x) # es)))"

definition running_names :: "World \<Rightarrow> (VMConfig \<times> VMState) list \<Rightarrow> string list" where
  "running_names w entries =
     map (\<lambda>(cfg, st). Name cfg) (filter (\<lambda>(cfg, st). Running st \<and> isAlive w (PID st)) entries)"

definition StopAllRunning :: "string \<Rightarrow> World \<Rightarrow> World \<times> (string \<times> stop_error) list" where
  "StopAllRunning reason w =
     (let (w1, entries) = List_vms w in stop_each reason (running_names w1 entries) w1)"

definition runningVMCount :: "World \<Rightarrow> World \<times> nat" where
  "runningVMCount w = (let (w1, entries) = List_vms w in (w1, length (running_names w1 entries)))"

definition handleHostShutdown :: "World \<Rightarrow> World \<times> (string \<times> stop_error) list" where
  "handleHostShutdown w =
     (let (w1, n) = runningVMCount w in if n = 0 then (w1, []) else StopAllRunning ShutdownReasonHost w1)"

subsection \<open>Disk paths\<close>

definition diskFileSuffixes :: "string list" where
  "diskFileSuffixes = [''qcow2'', ''qcow'', ''img'', ''raw'', ''iso'', ''vmdk'', ''vdi'', ''vhd'']"

definition managedBootDiskAbsPath :: "string \<Rightarrow> DiskConfig \<Rightarrow> string" where
  "managedBootDiskAbsPath vmName d =
     (if list_ex (HasSuffix (dc_Path d)) diskFileSuffixes then dc_Path d
      else let format = (if dc_Format d = [] then ''qcow2'' else dc_Format d);
               nm = ''disk-'' @ vmName @ ''-'' @ dc_Size d @ ''.'' @ format
           in if dc_Path d = [] then nm else PathJoin [dc_Path d, nm])"

definition scratchDiskPath :: "string \<Rightarrow> DiskConfig \<Rightarrow> string" where
  "scratchDiskPath vmName d = managedBootDiskAbsPath vmName d"

definition deleteScratchDisks :: "string \<Rightarrow> DiskConfig list \<Rightarrow> World \<Rightarrow> World" where
  "deleteScratchDisks vmName ds w =
     (let gone = map (scratchDiskPath vmName) (filter IsScratch ds)
      in w\<lparr>w_files := filter (\<lambda>f. f \<notin> set gone) (w_files w)\<rparr>)"

subsection \<open>Starting\<close>

datatype RecoveryMode = RecoveryUnsupported | RecoveryMacOS | RecoveryLinuxKernel

definition RecoveryPlan :: "VMConfig \<Rightarrow> RecoveryMode" where
  "RecoveryPlan cfg =
     (if VMConfig_BackendName cfg = VZ then
        if MacOS cfg \<noteq> None then RecoveryMacOS
        else if Kernel cfg \<noteq> [] then RecoveryLinuxKernel
        else RecoveryUnsupported
      else RecoveryUnsupported)"

text \<open>What a start asks of the host: the environment of the machine builder, the vz builder (code
  for another platform), the TCP ports, the two possible launches with whether the process has
  exited again at once, \<open>qemu.log\<close>, the clock, and the address the guest got.\<close>

record StartEnv =
  se_build :: BuildEnv
  se_buildVZ :: "bool \<Rightarrow> VMConfig \<Rightarrow> VMConfig option"
  se_portInUse :: "int \<Rightarrow> bool"
  se_freeTCPPort :: "int option"
  se_launch :: "nat \<Rightarrow> StartResult option"
  se_exits :: "nat \<Rightarrow> bool"
  se_qemulog :: "string option"
  se_now :: time
  se_canWriteHosts :: bool
  se_ip :: "string option"

datatype start_error = NoConfig | AlreadyRunning int | SaveConfigFailed | SaveStateFailed | NoSpicePort
  | BuildFailed build_error | VZBuildFailed | UnknownBackend string | LaunchFailed

text \<open>The checks on the recorded state; a stale one is cleaned up, and the start goes on with an
  empty state.\<close>

definition start_check :: "string \<Rightarrow> VMConfig \<Rightarrow> World \<Rightarrow> World \<times> (start_error, VMState) result" where
  "start_check nm cfg w =
     (let st = loadState w nm in
      if \<not> Running st then (w, Inr st)
      else if isAlive w (PID st) then (w, Inl (AlreadyRunning (PID st)))
      else (cleanupStaleVM nm st (unregister (Some cfg) w), Inr VMState_zero))"

definition strip_install :: "VMConfig \<Rightarrow> VMConfig" where
  "strip_install cfg =
     cfg\<lparr>Disks := filter (\<lambda>d. \<not> IsScratch d \<and> \<not> IsInstallISO d) (Disks cfg), InstallDevices := []\<rparr>"

type_synonym start_progress = "World \<times> (start_error, VMConfig \<times> VMState) result"

definition skip_install_phase :: "time \<Rightarrow> string \<Rightarrow> VMConfig \<Rightarrow> VMState \<Rightarrow> World \<Rightarrow> start_progress" where
  "skip_install_phase now nm cfg st w =
     (if SkipInstall cfg \<and> InstallState st = [] then
        let w1 = deleteScratchDisks (Name cfg) (Disks cfg) w; cfg1 = strip_install cfg in
        case saveConfig cfg1 w1 of
          (w2, False) \<Rightarrow> (w2, Inl SaveConfigFailed)
        | (w2, True) \<Rightarrow>
            let st1 = st\<lparr>InstallState := InstallStateReady, InstalledAt := Some now\<rparr> in
            (case saveState nm st1 w2 of
               (w3, False) \<Rightarrow> (w3, Inl SaveStateFailed)
             | (w3, True) \<Rightarrow> (w3, Inr (cfg1, st1)))
      else (w, Inr (cfg, st)))"

definition hasInstallISO :: "VMConfig \<Rightarrow> bool" where
  "hasInstallISO cfg = list_ex IsInstallISO (Disks cfg)"

definition needs_strip :: "VMConfig \<Rightarrow> bool" where
  "needs_strip cfg = (list_ex (\<lambda>d. IsScratch d \<or> IsInstallISO d) (Disks cfg) \<or> InstallDevices cfg \<noteq> [])"

definition install_phase :: "string \<Rightarrow> VMConfig \<Rightarrow> VMState \<Rightarrow> World \<Rightarrow> start_progress" where
  "install_phase nm cfg st w =
     (if InstallState st = [] then
        if hasInstallISO cfg then
          let st1 = st\<lparr>InstallState := InstallStatePending\<rparr> in
          (case saveState nm st1 w of
             (w1, False) \<Rightarrow> (w1, Inl SaveStateFailed)
           | (w1, True) \<Rightarrow> (w1, Inr (cfg, st1)))
        else (w, Inr (cfg, st))
      else if InstallState st = InstallStateReady then
        let w1 = deleteScratchDisks (Name cfg) (Disks cfg) w; cfg1 = strip_install cfg in
        if needs_strip cfg then
          (case saveConfig cfg1 w1 of
             (w2, False) \<Rightarrow> (w2, Inl SaveConfigFailed)
           | (w2, True) \<Rightarrow> (w2, Inr (cfg1, st)))
        else (w1, Inr (cfg1, st))
      else (w, Inr (cfg, st)))"

definition ServiceSPICE :: string where "ServiceSPICE = ''spice''"

definition spice_phase :: "StartEnv \<Rightarrow> VMConfig \<Rightarrow> VMState \<Rightarrow> World \<Rightarrow> start_progress" where
  "spice_phase env cfg st w =
     (case SPICE cfg of
        None \<Rightarrow> (w, Inr (cfg, st))
      | Some sp \<Rightarrow>
          if VMConfig_BackendName cfg = QEMU \<and> sc_Port sp > 0 \<and> se_portInUse env (sc_Port sp) then
            (case se_freeTCPPort env of
               None \<Rightarrow> (w, Inl NoSpicePort)
             | Some port \<Rightarrow>
                 let cfg1 = cfg\<lparr>SPICE := Some (sp\<lparr>sc_Port := port\<rparr>),
                                Services := map (\<lambda>s. if se_Protocol s = ServiceSPICE then s\<lparr>se_Port := port\<rparr> else s)
                                                (Services cfg)\<rparr> in
                 (case saveConfig cfg1 w of
                    (w1, False) \<Rightarrow> (w1, Inl SaveConfigFailed)
                  | (w1, True) \<Rightarrow> (w1, Inr (cfg1, st))))
          else (w, Inr (cfg, st)))"

definition add_procs :: "proc \<Rightarrow> int list \<Rightarrow> World \<Rightarrow> World" where
  "add_procs x pids w = w\<lparr>w_procs := w_procs w @ map (\<lambda>p. (p, x)) pids\<rparr>"

text \<open>\<open>buildBackendMachine\<close>: the virtiofsd processes it starts stay alive whether or not it succeeds.\<close>

definition buildBackendMachine ::
  "StartEnv \<Rightarrow> bool \<Rightarrow> string \<Rightarrow> VMConfig \<Rightarrow> World \<Rightarrow> World \<times> (start_error, VMConfig \<times> int list) result" where
  "buildBackendMachine env recovery nm cfg w =
     (if VMConfig_BackendName cfg = QEMU then
        (case buildMachine ((se_build env)\<lparr>be_state := Some (loadState w nm)\<rparr>) cfg of
           (spawned, r) \<Rightarrow>
             (add_procs (Helper nm) spawned w,
              case r of
                Inl e \<Rightarrow> Inl (BuildFailed e)
              | Inr (cfg1, m, pids) \<Rightarrow> Inr (cfg1, pids)))
      else if VMConfig_BackendName cfg = VZ then
        (w, case se_buildVZ env recovery cfg of None \<Rightarrow> Inl VZBuildFailed | Some cfg1 \<Rightarrow> Inr (cfg1, []))
      else (w, Inl (UnknownBackend (Backend cfg))))"

definition StartDetached :: "StartEnv \<Rightarrow> nat \<Rightarrow> string \<Rightarrow> World \<Rightarrow> World \<times> (start_error, StartResult) result" where
  "StartDetached env n nm w =
     (case se_launch env n of
        None \<Rightarrow> (w, Inl LaunchFailed)
      | Some res \<Rightarrow> (if se_exits env n then w else add_procs (VMProc nm) [sr_PID res] w, Inr res))"

definition glCrashMarker :: string where
  "glCrashMarker = ''OpenGL is not supported by display backend''"

fun last_boot :: "string \<Rightarrow> string option" where
  "last_boot [] = None"
| "last_boot (c # s) =
     (case last_boot s of
        Some r \<Rightarrow> Some r
      | None \<Rightarrow> if HasPrefix (c # s) ''=== boot on '' then Some (c # s) else None)"

definition glCrashInQEMULog :: "string option \<Rightarrow> bool" where
  "glCrashInQEMULog log =
     (case log of
        None \<Rightarrow> False
      | Some s \<Rightarrow> Contains (case last_boot s of None \<Rightarrow> s | Some r \<Rightarrow> r) glCrashMarker)"

definition retryStartWithoutGL ::
  "StartEnv \<Rightarrow> bool \<Rightarrow> string \<Rightarrow> VMConfig \<Rightarrow> StartResult \<Rightarrow> World \<Rightarrow>
   World \<times> (start_error, StartResult) result" where
  "retryStartWithoutGL env recovery nm cfg res w =
     (if \<not> IsMacOS (be_host (se_build env)) \<or> gc_Mode (GPU cfg) \<noteq> GPUVirtio \<or> Headless cfg \<or> SPICE cfg \<noteq> None \<or>
         gc_disableGL (GPU cfg)
      then (w, Inr res)
      else if isAlive w (sr_PID res) \<or> \<not> glCrashInQEMULog (se_qemulog env) then (w, Inr res)
      else case buildBackendMachine env recovery nm (cfg\<lparr>GPU := (GPU cfg)\<lparr>gc_disableGL := True\<rparr>\<rparr>) w of
             (w1, Inl e) \<Rightarrow> (w1, Inl e)
           | (w1, Inr (cfg1, pids)) \<Rightarrow> StartDetached env 1 nm w1)"

definition launch :: "StartEnv \<Rightarrow> bool \<Rightarrow> string \<Rightarrow> VMConfig \<Rightarrow> World \<Rightarrow> World \<times> (start_error, StartResult) result" where
  "launch env recovery nm cfg w =
     (case saveConfig cfg w of
        (w1, False) \<Rightarrow> (w1, Inl SaveConfigFailed)
      | (w1, True) \<Rightarrow>
          (case StartDetached env 0 nm w1 of
             (w2, Inl e) \<Rightarrow> (w2, Inl e)
           | (w2, Inr res) \<Rightarrow> retryStartWithoutGL env recovery nm cfg res w2))"

definition assignControlSockets :: "VMConfig \<Rightarrow> StartResult \<Rightarrow> VMState \<Rightarrow> VMState" where
  "assignControlSockets cfg res st =
     (if VMConfig_BackendName cfg = VZ then st\<lparr>ControlSocket := sr_ControlSocket res\<rparr>
      else st\<lparr>QMPSocket := sr_ControlSocket res, QGASocket := sr_GuestAgentSocket res\<rparr>)"

definition started_state :: "StartEnv \<Rightarrow> VMConfig \<Rightarrow> VMState \<Rightarrow> int list \<Rightarrow> StartResult \<Rightarrow> VMState" where
  "started_state env cfg st pids res =
     (let s0 = VMState_zero\<lparr>PID := sr_PID res, st_Backend := VMConfig_BackendName cfg, VirtiofsdPIDs := pids,
                            StartedAt := Some (se_now env), Running := True, DesiredState := DesiredStateRunning,
                            InstallState := InstallState st, InstalledAt := InstalledAt st\<rparr>;
          s1 = assignControlSockets cfg res s0;
          s2 = (case SPICE cfg of None \<Rightarrow> s1 | Some sp \<Rightarrow> s1\<lparr>SPICEPort := sc_Port sp\<rparr>)
      in if SSHPort cfg > 0 \<and> \<not> effectiveBridge (be_host (se_build env)) cfg
         then s2\<lparr>st_SSHPort := SSHPort cfg\<rparr> else s2)"

definition register :: "StartEnv \<Rightarrow> VMConfig \<Rightarrow> World \<Rightarrow> World" where
  "register env cfg w =
     (case se_ip env of
        None \<Rightarrow> w
      | Some ip \<Rightarrow>
          if Hostname cfg = [] \<or> \<not> se_canWriteHosts env then w
          else w\<lparr>w_hosts := fst (RegisterHostname True True (w_hosts w) (Hostname cfg) ip)\<rparr>)"

definition bind_p :: "World \<times> ('e, 'a) result \<Rightarrow> ('a \<Rightarrow> World \<Rightarrow> World \<times> ('e, 'b) result) \<Rightarrow> World \<times> ('e, 'b) result" where
  "bind_p p f = (case p of (w, Inl e) \<Rightarrow> (w, Inl e) | (w, Inr a) \<Rightarrow> f a w)"

definition prepare :: "StartEnv \<Rightarrow> string \<Rightarrow> VMConfig \<Rightarrow> World \<Rightarrow> start_progress" where
  "prepare env nm cfg w =
     bind_p (start_check nm cfg w) (\<lambda>st w1.
     bind_p (skip_install_phase (se_now env) nm cfg st w1) (\<lambda>(cfg2, st2) w2.
     bind_p (install_phase nm cfg2 st2 w2) (\<lambda>(cfg3, st3) w3. spice_phase env cfg3 st3 w3)))"

text \<open>Both kinds of start up to the launched process: the final configuration, the state the start
  went on with, the helpers' PIDs, and the launch result.\<close>

definition start_common ::
  "StartEnv \<Rightarrow> bool \<Rightarrow> string \<Rightarrow> World \<Rightarrow>
   World \<times> (start_error, VMConfig \<times> VMState \<times> int list \<times> StartResult) result" where
  "start_common env recovery0 nm w =
     (case loadConfig w nm of
        None \<Rightarrow> (w, Inl NoConfig)
      | Some cfg \<Rightarrow>
          let recovery = (recovery0 \<and> RecoveryPlan cfg \<noteq> RecoveryUnsupported) in
          bind_p (prepare env nm cfg w) (\<lambda>(cfg1, st1) w1.
          bind_p (buildBackendMachine env recovery nm cfg1 w1) (\<lambda>(cfg2, pids) w2.
          bind_p (launch env recovery nm cfg2 w2) (\<lambda>res w3. (w3, Inr (cfg2, st1, pids, res))))))"

definition Start :: "StartEnv \<Rightarrow> bool \<Rightarrow> string \<Rightarrow> World \<Rightarrow> World \<times> start_error option" where
  "Start env recovery nm w =
     (case start_common env recovery nm w of
        (w1, Inl e) \<Rightarrow> (w1, Some e)
      | (w1, Inr (cfg, st, pids, res)) \<Rightarrow>
          (case saveState nm (started_state env cfg st pids res) w1 of
             (w2, False) \<Rightarrow> (w2, Some SaveStateFailed)
           | (w2, True) \<Rightarrow> (register env cfg w2, None)))"

text \<open>A foreground start records no helpers and then waits; the waiting session keeps the state it
  wrote.\<close>

definition Start_foreground :: "StartEnv \<Rightarrow> bool \<Rightarrow> string \<Rightarrow> World \<Rightarrow> World \<times> start_error option" where
  "Start_foreground env recovery nm w =
     (case start_common env recovery nm w of
        (w1, Inl e) \<Rightarrow> (w1, Some e)
      | (w1, Inr (cfg, st, pids, res)) \<Rightarrow>
          let fg = started_state env cfg st [] res in
          (case saveState nm fg w1 of
             (w2, False) \<Rightarrow> (w2, Some SaveStateFailed)
           | (w2, True) \<Rightarrow> (w2\<lparr>w_foreground := (nm, fg) # w_foreground w2\<rparr>, None)))"

text \<open>The end of the wait: when the process is seen dead, or when the command is cancelled.\<close>

definition foreground_end :: "string \<Rightarrow> VMState \<Rightarrow> World \<Rightarrow> World" where
  "foreground_end nm fg w =
     (let w1 = fst (saveState nm (fg\<lparr>Running := False\<rparr>) w)
      in w1\<lparr>w_foreground := remove1 (nm, fg) (w_foreground w1)\<rparr>)"

subsection \<open>Boot phases and readiness\<close>

definition persistPhase :: "string \<Rightarrow> string \<Rightarrow> time \<Rightarrow> string \<Rightarrow> World \<Rightarrow> World" where
  "persistPhase nm phase at panicLine w =
     (let s0 = (loadState w nm)\<lparr>BootPhase := phase, PhaseStartedAt := Some at\<rparr>;
          s1 = (if phase = PhaseFailed then s0\<lparr>LastPanicLine := TrimSpace panicLine\<rparr> else s0)
      in fst (saveState nm s1 w))"

definition markReady :: "string \<Rightarrow> time \<Rightarrow> World \<Rightarrow> World" where
  "markReady nm now w =
     fst (saveState nm ((loadState w nm)\<lparr>InstallState := InstallStateReady, InstalledAt := Some now,
                                         BootPhase := PhaseReady, PhaseStartedAt := Some now\<rparr>) w)"

subsection \<open>Guest events\<close>

definition recordGuestShutdown :: "string \<Rightarrow> World \<Rightarrow> World" where
  "recordGuestShutdown nm w =
     (let s0 = loadState w nm;
          s1 = (if LastShutdownReason s0 = [] then s0\<lparr>LastShutdownReason := ShutdownReasonGuest\<rparr> else s0)
      in fst (saveState nm (s1\<lparr>DesiredState := DesiredStateStopped\<rparr>) w))"

definition shouldPowerCycleOnGuestReset :: "World \<Rightarrow> string \<Rightarrow> bool" where
  "shouldPowerCycleOnGuestReset w nm =
     (let st = loadState w nm in Running st \<and> InstallState st \<noteq> InstallStatePending)"

definition powerCycleAfterGuestReset :: "StartEnv \<Rightarrow> string \<Rightarrow> World \<Rightarrow> World" where
  "powerCycleAfterGuestReset env nm w =
     (case forceStopWithReason ShutdownReasonReboot nm w of
        (w1, Some e) \<Rightarrow> w1
      | (w1, None) \<Rightarrow> fst (Start env False nm w1))"

text \<open>The event handlers, on the \<open>guest\<close> flag and the reason of the event.\<close>

definition handleShutdownEvent :: "StartEnv \<Rightarrow> string \<Rightarrow> bool \<Rightarrow> string \<Rightarrow> World \<Rightarrow> World" where
  "handleShutdownEvent env nm guest reason w =
     (if \<not> guest then w
      else if reason = ''guest-reset'' \<and> shouldPowerCycleOnGuestReset w nm then powerCycleAfterGuestReset env nm w
      else recordGuestShutdown nm w)"

definition handleResetEvent :: "StartEnv \<Rightarrow> string \<Rightarrow> bool \<Rightarrow> World \<Rightarrow> World" where
  "handleResetEvent env nm guest w =
     (if \<not> guest \<or> \<not> shouldPowerCycleOnGuestReset w nm then w else powerCycleAfterGuestReset env nm w)"

subsection \<open>The daemon\<close>

definition shouldDaemonStart :: "VMState option \<Rightarrow> bool" where
  "shouldDaemonStart s =
     (case s of
        None \<Rightarrow> True
      | Some st \<Rightarrow> DesiredState st \<noteq> DesiredStateStopped \<and> LastShutdownReason st \<noteq> ShutdownReasonGuest)"

definition autostart_one :: "(string \<Rightarrow> StartEnv) \<Rightarrow> string \<Rightarrow> World \<Rightarrow> World \<times> start_error option" where
  "autostart_one envs nm w =
     (let st = loadState w nm in
      if Running st \<and> isAlive w (PID st) then (w, None)
      else if \<not> shouldDaemonStart (Some st) then (w, None)
      else Start (envs nm) False nm w)"

fun autostart_each ::
  "(string \<Rightarrow> StartEnv) \<Rightarrow> string list \<Rightarrow> World \<Rightarrow> World \<times> (string \<times> start_error) list" where
  "autostart_each envs [] w = (w, [])"
| "autostart_each envs (nm # nms) w =
     (let (w1, e) = autostart_one envs nm w; (w2, es) = autostart_each envs nms w1
      in (w2, (case e of None \<Rightarrow> es | Some x \<Rightarrow> (nm, x) # es)))"

definition autostart_names :: "World \<Rightarrow> string list" where
  "autostart_names w = map Name (filter AutoStart (map snd (w_configs w)))"

definition startAutoStartVMs :: "(string \<Rightarrow> StartEnv) \<Rightarrow> World \<Rightarrow> World \<times> (string \<times> start_error) list" where
  "startAutoStartVMs envs w = autostart_each envs (autostart_names w) w"

text \<open>One pass of the daemon's loop: the autostart pass, then the adoption and the inhibitor, which
  list the VMs.\<close>

definition daemon_pass :: "(string \<Rightarrow> StartEnv) \<Rightarrow> World \<Rightarrow> World" where
  "daemon_pass envs w =
     (let w1 = fst (startAutoStartVMs envs w); w2 = fst (List_vms w1) in fst (runningVMCount w2))"

text \<open>The VMs whose connection the daemon takes over: for QEMU a live one with a QMP socket and no
  owner yet, for vz a live one with a control socket.\<close>

definition adopts :: "World \<Rightarrow> (string \<Rightarrow> bool) \<Rightarrow> VMConfig \<times> VMState \<Rightarrow> bool" where
  "adopts w owned e =
     (case e of
        (cfg, st) \<Rightarrow>
          Running st \<and>
          (if VMState_BackendName (Some st) = VZ then ControlSocket st \<noteq> [] \<and> isAlive w (PID st)
           else QMPSocket st \<noteq> [] \<and> isAlive w (PID st) \<and> \<not> owned (Name cfg)))"

definition adoptRunningVMs :: "(string \<Rightarrow> bool) \<Rightarrow> World \<Rightarrow> World \<times> string list" where
  "adoptRunningVMs owned w =
     (let (w1, entries) = List_vms w in (w1, map (\<lambda>(cfg, st). Name cfg) (filter (adopts w1 owned) entries)))"

subsection \<open>Runs\<close>

text \<open>Everything that can happen to the shared world, in any order: what the user asks for, the
  daemon's passes, the events of the guests (the watcher's handlers), the watcher of the boot
  phases, processes that exit, and the end of a foreground wait.\<close>

datatype event =
  UserStart string | UserStartForeground string | UserStop string | UserForceStop string | UserList
| DaemonPass | HostShutdown | GuestPoweroff string | GuestReset string | HostReset string
| BootPhaseSeen string | BecameReady string | ProcessExit int | ForegroundExit string | ForegroundCancel string

text \<open>The kernel gives a new process a positive PID that is not in use.\<close>

definition fresh :: "StartEnv \<Rightarrow> World \<Rightarrow> bool" where
  "fresh env w \<longleftrightarrow> (\<forall>n res. se_launch env n = Some res \<longrightarrow> 0 < sr_PID res \<and> sr_PID res \<notin> fst ` set (w_procs w))"

inductive vee_step :: "World \<Rightarrow> event \<Rightarrow> World \<Rightarrow> bool" where
  user_start: "fresh env w \<Longrightarrow> vee_step w (UserStart nm) (fst (Start env recovery nm w))"
| user_foreground: "fresh env w \<Longrightarrow> vee_step w (UserStartForeground nm) (fst (Start_foreground env recovery nm w))"
| user_stop: "vee_step w (UserStop nm) (fst (stopWithReason ShutdownReasonUser nm w))"
| user_force: "vee_step w (UserForceStop nm) (fst (forceStopWithReason ShutdownReasonUser nm w))"
| user_list: "vee_step w UserList (fst (List_vms w))"
| pass: "\<forall>n. fresh (envs n) w \<Longrightarrow> vee_step w DaemonPass (daemon_pass envs w)"
| host_shutdown: "vee_step w HostShutdown (fst (handleHostShutdown w))"
| poweroff: "fresh env w \<Longrightarrow> vee_step w (GuestPoweroff nm) (handleShutdownEvent env nm True ''guest-shutdown'' w)"
| reset: "fresh env w \<Longrightarrow> vee_step w (GuestReset nm) (handleResetEvent env nm True w)"
| host_reset: "vee_step w (HostReset nm) (handleResetEvent env nm False w)"
| boot_phase: "vee_step w (BootPhaseSeen nm) (persistPhase nm phase at line w)"
| ready: "vee_step w (BecameReady nm) (markReady nm now w)"
| exit: "vee_step w (ProcessExit pid) (kill_pid pid w)"
| fg_exit: "(nm, fg) \<in> set (w_foreground w) \<Longrightarrow> \<not> isAlive w (PID fg) \<Longrightarrow>
    vee_step w (ForegroundExit nm) (foreground_end nm fg w)"
| fg_cancel: "(nm, fg) \<in> set (w_foreground w) \<Longrightarrow> vee_step w (ForegroundCancel nm) (foreground_end nm fg w)"

inductive vee_run :: "World \<Rightarrow> event list \<Rightarrow> World \<Rightarrow> bool" where
  none: "vee_run w [] w"
| more: "vee_run w es w1 \<Longrightarrow> vee_step w1 e w2 \<Longrightarrow> vee_run w (es @ [e]) w2"

inductive_cases vee_stepE: "vee_step w e w'"

end
