(* ===== verification/Lifecycle_Safety.thy ===== *)
theory Lifecycle_Safety
  imports Lifecycle
begin

text \<open>
  What holds along every run of the world of \<open>Lifecycle\<close>: a parked VM stays off, a VM has at most one
  process, the daemon brings back what it should, an installed VM boots without its installer, a
  host shutdown is undone at the next boot; and the cases in which the code does otherwise.
\<close>

subsection \<open>Relations that every part of a start respects\<close>

lemma saveState_simps [simp]:
  "w_procs (fst (saveState n st w)) = w_procs w" "w_foreground (fst (saveState n st w)) = w_foreground w"
  "w_readonly (fst (saveState n st w)) = w_readonly w" "w_configs (fst (saveState n st w)) = w_configs w"
  "snd (saveState n st w) = (\<not> w_readonly w)"
  by (simp_all add: saveState_def)

lemma saveConfig_simps [simp]:
  "w_procs (fst (saveConfig c w)) = w_procs w" "w_foreground (fst (saveConfig c w)) = w_foreground w"
  "w_readonly (fst (saveConfig c w)) = w_readonly w" "w_states (fst (saveConfig c w)) = w_states w"
  "snd (saveConfig c w) = (\<not> w_readonly w)"
  by (simp_all add: saveConfig_def)

lemma loadState_saveState [simp]:
  "loadState (fst (saveState n st w)) nm = (if n = nm \<and> \<not> w_readonly w then st else loadState w nm)"
  by (simp add: saveState_def loadState_def)

lemma case_saved:
  "(case saveState n st w of (w1, False) \<Rightarrow> a w1 | (w1, True) \<Rightarrow> b w1) =
   (if w_readonly w then a w else b (fst (saveState n st w)))"
  "(case saveConfig c w of (w1, False) \<Rightarrow> a w1 | (w1, True) \<Rightarrow> b w1) =
   (if w_readonly w then a w else b (fst (saveConfig c w)))"
  by (simp_all add: saveState_def saveConfig_def)

text \<open>A start of the VM \<open>n\<close> is a sequence of writes of its state, of configurations, of the hosts
  file, of deletions of scratch disks and of new processes: a reflexive and transitive relation
  that each of them respects, the start respects.\<close>

locale start_rel =
  fixes R :: "World \<Rightarrow> World \<Rightarrow> bool" and n :: string
  assumes refl: "R w w"
    and trans: "R a b \<Longrightarrow> R b c \<Longrightarrow> R a c"
    and state: "R w (fst (saveState n st w))"
    and config: "R w (fst (saveConfig cfg w))"
    and unreg: "R w (unregister co w)"
    and scratch: "R w (deleteScratchDisks v ds w)"
    and procs: "x = Helper n \<or> x = VMProc n \<Longrightarrow> R w (add_procs x pids w)"
    and reg: "R w (register env cfg w)"
begin

lemma bind: "R w (fst p) \<Longrightarrow> (\<And>a w1. R w1 (fst (f a w1))) \<Longrightarrow> R w (fst (bind_p p f))"
  by (cases p; cases "snd p") (auto simp: bind_p_def intro: trans)

lemma check: "R w (fst (start_check n cfg w))"
  by (auto simp: start_check_def cleanupStaleVM_def Let_def intro: refl trans state unreg)

lemma skip: "R w (fst (skip_install_phase now n cfg st w))"
proof -
  let ?w1 = "deleteScratchDisks (Name cfg) (Disks cfg) w"
  have 1: "R w ?w1" by (rule scratch)
  have 2: "R w (fst (saveConfig c ?w1))" for c using 1 config trans by blast
  have "R w (fst (saveState n s (fst (saveConfig c ?w1))))" for s c using 2 state trans by blast
  then show ?thesis using 1 2 by (simp add: skip_install_phase_def case_saved Let_def refl)
qed

lemma install: "R w (fst (install_phase n cfg st w))"
proof -
  let ?w1 = "deleteScratchDisks (Name cfg) (Disks cfg) w"
  have 1: "R w ?w1" by (rule scratch)
  have "R w (fst (saveConfig c ?w1))" for c using 1 config trans by blast
  then show ?thesis using 1 state refl by (simp add: install_phase_def case_saved Let_def)
qed

lemma spice: "R w (fst (spice_phase env cfg st w))"
  using config refl by (auto simp: spice_phase_def case_saved Let_def split: option.splits)

lemma build: "R w (fst (buildBackendMachine env r n cfg w))"
  using procs refl by (auto simp: buildBackendMachine_def split: prod.splits)

lemma detached: "R w (fst (StartDetached env k n w))"
  using procs refl by (auto simp: StartDetached_def split: option.splits)

lemma retry: "R w (fst (retryStartWithoutGL env r n cfg res w))"
proof -
  let ?b = "buildBackendMachine env r n (cfg\<lparr>GPU := (GPU cfg)\<lparr>gc_disableGL := True\<rparr>\<rparr>) w"
  have "R w (fst ?b)" by (rule build)
  moreover have "R w (fst (StartDetached env 1 n (fst ?b)))" using calculation detached trans by blast
  ultimately show ?thesis
    using refl by (cases ?b; cases "snd ?b") (auto simp: retryStartWithoutGL_def)
qed

lemma launched: "R w (fst (launch env r n cfg w))"
proof -
  let ?w1 = "fst (saveConfig cfg w)"
  have 1: "R w ?w1" by (rule config)
  have 2: "R w (fst (StartDetached env 0 n ?w1))" using 1 detached trans by blast
  moreover have "R w (fst (retryStartWithoutGL env r n cfg res (fst (StartDetached env 0 n ?w1))))" for res
    using 2 retry trans by blast
  ultimately show ?thesis
    using 1 refl by (auto simp: launch_def case_saved split: prod.splits sum.splits)
qed

lemma prepared: "R w (fst (prepare env n cfg w))"
  unfolding prepare_def by (intro bind check) (auto split: prod.splits intro!: bind skip install spice)

lemma common: "R w (fst (start_common env r n w))"
  unfolding start_common_def
  by (auto simp: Let_def split: option.splits intro!: refl bind prepared build launched)

lemma started: "R w (fst (Start env r n w))"
proof -
  let ?c = "start_common env r n w"
  have 1: "R w (fst ?c)" by (rule common)
  have 2: "R w (fst (saveState n s (fst ?c)))" for s using 1 state trans by blast
  have "R w (register env cfg (fst (saveState n s (fst ?c))))" for cfg s using 2 reg trans by blast
  then show ?thesis
    using 1 2 by (auto simp: Start_def case_saved split: prod.splits sum.splits)
qed

end

text \<open>\<open>frame nm w w'\<close>: for the VM \<open>nm\<close>, \<open>w'\<close> has the state of \<open>w\<close>, no process \<open>w\<close> has not, and the
  same foreground sessions.\<close>

definition vm_pids :: "World \<Rightarrow> string \<Rightarrow> int set" where
  "vm_pids w nm = {p. (p, VMProc nm) \<in> set (w_procs w)}"

definition fg_of :: "World \<Rightarrow> string \<Rightarrow> (string \<times> VMState) list" where
  "fg_of w nm = filter (\<lambda>(n, s). n = nm) (w_foreground w)"

definition frame :: "string \<Rightarrow> World \<Rightarrow> World \<Rightarrow> bool" where
  "frame nm w w' \<longleftrightarrow> loadState w' nm = loadState w nm \<and> vm_pids w' nm \<subseteq> vm_pids w nm \<and>
     fg_of w' nm = fg_of w nm \<and> w_readonly w' = w_readonly w"

lemma frame_refl: "frame nm w w"
  by (simp add: frame_def)

lemma frame_trans: "frame nm w w1 \<Longrightarrow> frame nm w1 w2 \<Longrightarrow> frame nm w w2"
  by (auto simp: frame_def)

lemma unregister_simps [simp]:
  "w_procs (unregister co w) = w_procs w" "w_foreground (unregister co w) = w_foreground w"
  "w_readonly (unregister co w) = w_readonly w" "w_states (unregister co w) = w_states w"
  "w_configs (unregister co w) = w_configs w"
  by (simp_all add: unregister_def split: option.splits)

lemma register_simps [simp]:
  "w_procs (register env c w) = w_procs w" "w_foreground (register env c w) = w_foreground w"
  "w_readonly (register env c w) = w_readonly w" "w_states (register env c w) = w_states w"
  "w_configs (register env c w) = w_configs w"
  by (simp_all add: register_def split: option.splits)

lemma deleteScratchDisks_simps [simp]:
  "w_procs (deleteScratchDisks v ds w) = w_procs w" "w_foreground (deleteScratchDisks v ds w) = w_foreground w"
  "w_readonly (deleteScratchDisks v ds w) = w_readonly w" "w_states (deleteScratchDisks v ds w) = w_states w"
  "w_configs (deleteScratchDisks v ds w) = w_configs w"
  by (simp_all add: deleteScratchDisks_def Let_def)

lemma add_procs_simps [simp]:
  "w_procs (add_procs x pids w) = w_procs w @ map (\<lambda>p. (p, x)) pids" "w_foreground (add_procs x pids w) = w_foreground w"
  "w_readonly (add_procs x pids w) = w_readonly w" "w_states (add_procs x pids w) = w_states w"
  "w_configs (add_procs x pids w) = w_configs w"
  by (simp_all add: add_procs_def)

lemma loadState_simps [simp]:
  "loadState (fst (saveConfig c w)) = loadState w" "loadState (unregister co w) = loadState w"
  "loadState (register env c w) = loadState w" "loadState (deleteScratchDisks v ds w) = loadState w"
  "loadState (add_procs x pids w) = loadState w" "loadState (kill_pid p w) = loadState w"
  by (simp_all add: loadState_def fun_eq_iff kill_pid_def)

interpretation other_vm: start_rel "\<lambda>w w'. n \<noteq> nm \<longrightarrow> frame nm w w'" n
  by unfold_locales (auto simp: frame_def vm_pids_def fg_of_def)

interpretation grows: start_rel "\<lambda>w w'. set (w_procs w) \<subseteq> set (w_procs w') \<and> w_readonly w' = w_readonly w" n
  by unfold_locales auto

interpretation sessions: start_rel "\<lambda>w w'. w_foreground w' = w_foreground w" n
  by unfold_locales auto

lemma kill_pid_simps [simp]:
  "w_foreground (kill_pid p w) = w_foreground w" "w_readonly (kill_pid p w) = w_readonly w"
  "w_configs (kill_pid p w) = w_configs w" "w_states (kill_pid p w) = w_states w"
  "set (w_procs (kill_pid p w)) = {(q, x) \<in> set (w_procs w). q \<noteq> p}"
  by (auto simp: kill_pid_def)

lemma kill_vm_simps [simp]:
  "w_foreground (kill_vm st w) = w_foreground w" "w_readonly (kill_vm st w) = w_readonly w"
  "w_configs (kill_vm st w) = w_configs w" "loadState (kill_vm st w) = loadState w"
  "set (w_procs (kill_vm st w)) =
     {(q, x) \<in> set (w_procs w). q \<noteq> PID st \<and> (q \<in> set (VirtiofsdPIDs st) \<longrightarrow> q \<le> 0)}"
proof -
  have "w_foreground (fold kill_pid ps w) = w_foreground w \<and> w_readonly (fold kill_pid ps w) = w_readonly w \<and>
        w_configs (fold kill_pid ps w) = w_configs w \<and> loadState (fold kill_pid ps w) = loadState w \<and>
        set (w_procs (fold kill_pid ps w)) = {(q, x) \<in> set (w_procs w). q \<notin> set ps}" for ps w
    by (induction ps arbitrary: w) auto
  then show
    "w_foreground (kill_vm st w) = w_foreground w" "w_readonly (kill_vm st w) = w_readonly w"
    "w_configs (kill_vm st w) = w_configs w" "loadState (kill_vm st w) = loadState w"
    "set (w_procs (kill_vm st w)) =
       {(q, x) \<in> set (w_procs w). q \<noteq> PID st \<and> (q \<in> set (VirtiofsdPIDs st) \<longrightarrow> q \<le> 0)}"
    by (auto simp: kill_vm_def)
qed

text \<open>The two stop paths have the same effect.\<close>

lemma stop_cases:
  "stopWithReason reason nm w =
     (if \<not> Running (loadState w nm) \<or> PID (loadState w nm) = 0 then (w, Some NotRunning)
      else (fst (saveState nm (stopped_state reason (loadState w nm))
                  (unregister (loadConfig w nm) (kill_vm (loadState w nm) w))),
            if w_readonly w then Some StopSaveFailed else None))"
  by (simp add: stopWithReason_def Let_def split: prod.splits) (metis fst_conv snd_conv saveState_simps(5) unregister_simps(3) kill_vm_simps(2))

lemma force_eq_stop: "forceStopWithReason = stopWithReason"
  by (simp add: fun_eq_iff forceStopWithReason_def stopWithReason_def)

lemma stop_frame: "n \<noteq> nm \<Longrightarrow> frame nm w (fst (stopWithReason reason n w))"
  by (auto simp: stop_cases frame_def vm_pids_def fg_of_def)

subsection \<open>A parked VM\<close>

text \<open>\<open>held nm w w'\<close>: the VM, which \<open>w\<close> has parked, is parked in \<open>w'\<close>, is not marked running there
  unless it was, and has got no new process.\<close>

definition parked :: "World \<Rightarrow> string \<Rightarrow> bool" where
  "parked w nm = (DesiredState (loadState w nm) = DesiredStateStopped)"

definition held :: "string \<Rightarrow> World \<Rightarrow> World \<Rightarrow> bool" where
  "held nm w w' \<longleftrightarrow> (parked w nm \<longrightarrow> parked w' nm \<and> (Running (loadState w' nm) \<longrightarrow> Running (loadState w nm)) \<and>
     vm_pids w' nm \<subseteq> vm_pids w nm \<and> fg_of w' nm = fg_of w nm)"

lemma held_refl: "held nm w w"
  by (simp add: held_def)

lemma held_trans: "held nm w w1 \<Longrightarrow> held nm w1 w2 \<Longrightarrow> held nm w w2"
  by (auto simp: held_def)

lemma frame_held: "frame nm w w' \<Longrightarrow> held nm w w'"
  by (auto simp: frame_def held_def parked_def)

lemma stale_state_simps [simp]:
  "Running (stale_state vz st) = False"
  "DesiredState st = DesiredStateStopped \<Longrightarrow> DesiredState (stale_state vz st) = DesiredStateStopped"
  by (auto simp: stale_state_def Let_def VMState_zero_def split: option.splits)

lemma stopped_state_simps [simp]:
  "Running (stopped_state r st) = False" "DesiredState (stopped_state r st) = desiredStateForReason r"
  "LastShutdownReason (stopped_state r st) = r"
  by (simp_all add: stopped_state_def VMState_zero_def)

lemma own_held:
  "held nm w (cleanupStaleVM nm (loadState w nm) w)"
  "held nm w (persistPhase nm ph at l w)"
  "held nm w (markReady nm now w)"
  "held nm w (recordGuestShutdown nm w)"
  by (auto simp: held_def parked_def vm_pids_def fg_of_def cleanupStaleVM_def persistPhase_def markReady_def
      recordGuestShutdown_def Let_def)

lemma save_held: "n \<noteq> nm \<Longrightarrow> held nm w (fst (saveState n st w))"
  by (auto simp: held_def parked_def vm_pids_def fg_of_def)

lemma list_one_held: "held nm w (fst (list_one cfg w))"
  using own_held(1) [of "Name cfg" w] save_held [of "Name cfg" nm w]
  by (cases "Name cfg = nm") (auto simp: list_one_def Let_def held_refl cleanupStaleVM_def)

lemma list_held: "held nm w (fst (list_all_vms cfgs w))"
proof (induction cfgs arbitrary: w)
  case (Cons cfg cfgs)
  then show ?case using list_one_held [of nm w cfg] held_trans
    by (auto simp: Let_def split: prod.splits) (metis fst_conv)
qed (simp add: held_refl)

lemma List_held: "held nm w (fst (List_vms w))"
  by (simp add: List_vms_def list_held)

lemma autostart_one_held: "held nm w (fst (autostart_one envs n w))"
proof (cases "n = nm")
  case True
  then show ?thesis by (auto simp: autostart_one_def Let_def held_refl held_def parked_def shouldDaemonStart_def)
next
  case False
  then have "frame nm w (fst (Start (envs n) False n w))" using other_vm.started by blast
  then show ?thesis by (auto simp: autostart_one_def Let_def held_refl frame_held)
qed

lemma autostart_held: "held nm w (fst (autostart_each envs ns w))"
proof (induction ns arbitrary: w)
  case (Cons n ns)
  then show ?case using autostart_one_held [of nm w envs n] held_trans
    by (auto simp: Let_def split: prod.splits) (metis fst_conv)
qed (simp add: held_refl)

lemma daemon_pass_held: "held nm w (daemon_pass envs w)"
  using autostart_held List_held held_trans
  by (simp add: daemon_pass_def startAutoStartVMs_def runningVMCount_def Let_def split: prod.splits) (metis fst_conv)

lemma desired_user: "desiredStateForReason ShutdownReasonUser = DesiredStateStopped"
  "desiredStateForReason ShutdownReasonHost = DesiredStateRunning"
  "desiredStateForReason ShutdownReasonReboot = DesiredStateRunning"
  by (simp_all add: desiredStateForReason_def state_consts)

lemma user_stop_held: "held nm w (fst (stopWithReason ShutdownReasonUser n w))"
  by (auto simp: stop_cases held_def parked_def vm_pids_def fg_of_def desired_user)


lemma handleReset_frame:
  assumes "n \<noteq> nm"
  shows "frame nm w (handleResetEvent env n g w)" "frame nm w (handleShutdownEvent env n g r w)"
proof -
  have f: "frame nm w (fst (forceStopWithReason ShutdownReasonReboot n w))"
    using stop_frame [OF assms] by (simp add: force_eq_stop)
  moreover have "frame nm w1 (fst (Start env False n w1))" for w1 using other_vm.started assms by blast
  ultimately have p: "frame nm w (powerCycleAfterGuestReset env n w)"
    using frame_trans by (auto simp: powerCycleAfterGuestReset_def split: prod.splits option.splits)
  moreover have "frame nm w (recordGuestShutdown n w)"
    using assms by (auto simp: recordGuestShutdown_def Let_def frame_def vm_pids_def fg_of_def)
  ultimately show "frame nm w (handleResetEvent env n g w)" "frame nm w (handleShutdownEvent env n g r w)"
    by (simp_all add: handleResetEvent_def handleShutdownEvent_def frame_refl)
qed

lemma foreground_frames:
  assumes "n \<noteq> nm"
  shows "frame nm w (fst (Start_foreground env r n w))" "frame nm w (foreground_end n fg w)"
proof -
  have "frame nm w (fst (start_common env r n w))" using other_vm.common assms by blast
  then show "frame nm w (fst (Start_foreground env r n w))"
    using assms by (auto simp: Start_foreground_def case_saved Let_def frame_def vm_pids_def fg_of_def loadState_def
        split: prod.splits sum.splits) (auto simp: saveState_def split: if_splits)
  show "frame nm w (foreground_end n fg w)"
    using assms by (auto simp: foreground_end_def Let_def frame_def vm_pids_def fg_of_def filter_remove1 loadState_def)
      (auto simp: saveState_def)
qed

lemma stop_each_held: "\<not> Running (loadState w nm) \<Longrightarrow> held nm w (fst (stop_each r ns w)) \<and> frame nm w (fst (stop_each r ns w))"
proof (induction ns arbitrary: w)
  case (Cons n ns)
  let ?w1 = "fst (stopWithReason r n w)"
  have 1: "frame nm w ?w1"
    using stop_frame [of n nm w r] Cons.prems by (cases "n = nm") (simp_all add: stop_cases frame_refl)
  then have "\<not> Running (loadState ?w1 nm)" using Cons.prems by (simp add: frame_def)
  then have "frame nm ?w1 (fst (stop_each r ns ?w1))" using Cons.IH by blast
  then have "frame nm w (fst (stop_each r (n # ns) w))"
    using 1 frame_trans by (auto simp: Let_def split: prod.splits)
  then show ?case by (simp add: frame_held)
qed (simp add: held_refl frame_refl)

lemma runningVMCount_fst: "fst (runningVMCount w) = fst (List_vms w)"
  by (simp add: runningVMCount_def Let_def split: prod.splits)

lemma handleHostShutdown_cases:
  "fst (handleHostShutdown w) = fst (List_vms w) \<or>
   (\<exists>ns. fst (handleHostShutdown w) = fst (stop_each ShutdownReasonHost ns (fst (List_vms (fst (List_vms w))))))"
  by (cases "List_vms w"; cases "List_vms (fst (List_vms w))")
     (auto simp: handleHostShutdown_def StopAllRunning_def runningVMCount_def Let_def)

lemma host_shutdown_held:
  assumes "\<not> Running (loadState w nm)"
  shows "held nm w (fst (handleHostShutdown w))"
proof (cases "parked w nm")
  case True
  let ?w1 = "fst (List_vms w)" let ?w2 = "fst (List_vms ?w1)"
  have 1: "held nm w ?w1" and 2: "held nm ?w1 ?w2" by (rule List_held)+
  then have nr: "\<not> Running (loadState ?w2 nm)" using assms True by (auto simp: held_def)
  have "held nm w (fst (stop_each ShutdownReasonHost ns ?w2))" for ns
    using stop_each_held [OF nr] 1 2 held_trans by blast
  then show ?thesis using 1 handleHostShutdown_cases [of w] by metis
qed (simp add: held_def)

lemma vee_step_held:
  assumes "vee_step w e w'" and "fg_of w nm = []" and "e \<noteq> UserStart nm" and "e \<noteq> UserStartForeground nm"
    and "Running (loadState w nm) \<Longrightarrow> e \<noteq> GuestReset nm \<and> e \<noteq> HostShutdown"
  shows "held nm w w'"
  using assms(1)
proof cases
  case (user_start env n r)
  then show ?thesis using other_vm.started [of n nm w env r] assms(3) by (auto intro: frame_held)
next
  case (user_foreground env n r)
  then show ?thesis using foreground_frames(1) [of n nm w env r] assms(4) by (auto intro: frame_held)
next
  case (poweroff env n)
  then show ?thesis
    using handleReset_frame(2) [of n nm w env True "''guest-shutdown''"] own_held(4) [of nm w]
    by (cases "n = nm") (auto intro: frame_held simp: handleShutdownEvent_def)
next
  case (reset env n)
  then show ?thesis
    using handleReset_frame(1) [of n nm w env True] assms(5)
    by (cases "n = nm") (auto intro: frame_held simp: handleResetEvent_def shouldPowerCycleOnGuestReset_def Let_def held_refl)
next
  case (host_reset n env)
  then show ?thesis by (simp add: handleResetEvent_def held_refl)
next
  case (boot_phase n ph at l)
  then show ?thesis using own_held(2) [of nm w ph at l] save_held [of n nm w]
    by (cases "n = nm") (auto simp: persistPhase_def Let_def)
next
  case (ready n now)
  then show ?thesis using own_held(3) [of nm w now] save_held [of n nm w]
    by (cases "n = nm") (auto simp: markReady_def)
next
  case (exit p)
  then show ?thesis by (auto simp: held_def parked_def vm_pids_def fg_of_def)
next
  case (fg_exit n fg)
  then have "n \<noteq> nm" using assms(2) by (auto simp: fg_of_def filter_empty_conv)
  then show ?thesis using fg_exit foreground_frames(2) frame_held by blast
next
  case (fg_cancel n fg)
  then have "n \<noteq> nm" using assms(2) by (auto simp: fg_of_def filter_empty_conv)
  then show ?thesis using fg_cancel foreground_frames(2) frame_held by blast
next
  case host_shutdown
  then show ?thesis using host_shutdown_held assms(5) by blast
qed (simp_all add: user_stop_held force_eq_stop List_held daemon_pass_held)

text \<open>C1: a VM that the user has stopped, or whose guest has powered off, stays off: whatever happens
  afterwards (daemon passes, listings, other VMs' starts and stops, events of its own guest that
  arrive late, a host shutdown, in any order and number) it gets no new process, is not marked
  running again and stays parked, until the user starts it.  While it is still marked running a
  guest reset and a host shutdown are excepted, and so is a VM that a foreground start waits for.\<close>

theorem parked_vm_stays_off:
  assumes "vee_run w es w'" and "parked w nm" and "fg_of w nm = []"
    and "UserStart nm \<notin> set es" and "UserStartForeground nm \<notin> set es"
    and "Running (loadState w nm) \<longrightarrow> GuestReset nm \<notin> set es \<and> HostShutdown \<notin> set es"
  shows "parked w' nm \<and> vm_pids w' nm \<subseteq> vm_pids w nm \<and>
         (Running (loadState w' nm) \<longrightarrow> Running (loadState w nm))"
proof -
  have "held nm w w'"
    using assms
  proof (induction rule: vee_run.induct)
    case (more w es w1 e w2)
    then have h: "held nm w w1" by simp
    then have "held nm w1 w2"
      using vee_step_held [OF more.hyps(2), of nm] more.prems by (auto simp: held_def)
    then show ?case using h held_trans by blast
  qed (simp add: held_refl)
  then show ?thesis using assms(2) by (auto simp: held_def)
qed

subsection \<open>One process per VM\<close>

definition tracked :: "World \<Rightarrow> bool" where
  "tracked w \<longleftrightarrow> \<not> w_readonly w \<and> w_foreground w = [] \<and>
     (\<forall>nm. \<forall>p \<in> vm_pids w nm. 0 < p \<and> Running (loadState w nm) \<and> PID (loadState w nm) = p)"

definition tracked_vm :: "World \<Rightarrow> string \<Rightarrow> bool" where
  "tracked_vm w nm \<longleftrightarrow> (\<forall>p \<in> vm_pids w nm. 0 < p \<and> Running (loadState w nm) \<and> PID (loadState w nm) = p)"

lemma tracked_iff: "tracked w \<longleftrightarrow> \<not> w_readonly w \<and> w_foreground w = [] \<and> (\<forall>nm. tracked_vm w nm)"
  by (auto simp: tracked_def tracked_vm_def)

lemma frame_tracked: "frame nm w w' \<Longrightarrow> tracked_vm w nm \<Longrightarrow> tracked_vm w' nm"
  by (auto simp: frame_def tracked_vm_def)

lemma not_alive_no_pids:
  "tracked_vm w nm \<Longrightarrow> \<not> (Running (loadState w nm) \<and> isAlive w (PID (loadState w nm))) \<Longrightarrow> vm_pids w nm = {}"
  by (force simp: tracked_vm_def isAlive_def vm_pids_def image_iff)

text \<open>The parts of a start before the launch add no VM process.\<close>

definition same_pids :: "World \<Rightarrow> World \<Rightarrow> bool" where
  "same_pids w w' \<longleftrightarrow> (\<forall>n. vm_pids w' n = vm_pids w n)"

lemma bind_p_same:
  "same_pids w (fst p) \<Longrightarrow> (\<And>a w1. same_pids w1 (fst (f a w1))) \<Longrightarrow> same_pids w (fst (bind_p p f))"
  by (cases p; cases "snd p") (auto simp: bind_p_def same_pids_def)

lemma phases_same_pids:
  "same_pids w (fst (start_check n cfg w))"
  "same_pids w (fst (skip_install_phase now n cfg st w))"
  "same_pids w (fst (install_phase n cfg st w))"
  "same_pids w (fst (spice_phase env cfg st w))"
  "same_pids w (fst (buildBackendMachine env r n cfg w))"
  by (auto simp: same_pids_def vm_pids_def start_check_def cleanupStaleVM_def skip_install_phase_def install_phase_def
      spice_phase_def buildBackendMachine_def case_saved Let_def split: option.splits prod.splits)

lemma prepare_same_pids: "same_pids w (fst (prepare env n cfg w))"
  unfolding prepare_def by (intro bind_p_same phases_same_pids) (auto split: prod.splits intro!: bind_p_same phases_same_pids)

definition launched_ok :: "string \<Rightarrow> World \<times> (start_error, StartResult) result \<Rightarrow> bool" where
  "launched_ok nm p = (case p of (w, Inl e) \<Rightarrow> vm_pids w nm = {} | (w, Inr res) \<Rightarrow> vm_pids w nm \<subseteq> {sr_PID res} \<and> 0 < sr_PID res)"

definition positive :: "StartEnv \<Rightarrow> bool" where
  "positive env \<longleftrightarrow> (\<forall>n res. se_launch env n = Some res \<longrightarrow> 0 < sr_PID res)"

lemma fresh_positive: "fresh env w \<Longrightarrow> positive env"
  by (simp add: fresh_def positive_def)

lemma StartDetached_ok: "positive env \<Longrightarrow> vm_pids w nm = {} \<Longrightarrow> launched_ok nm (StartDetached env k nm w)"
  by (auto simp: StartDetached_def launched_ok_def positive_def vm_pids_def split: option.splits)

lemma retry_ok:
  assumes "positive env" and "vm_pids w nm \<subseteq> {sr_PID res}" and "0 < sr_PID res"
  shows "launched_ok nm (retryStartWithoutGL env r nm cfg res w)"
proof (cases "isAlive w (sr_PID res)")
  case True
  then show ?thesis using assms by (simp add: retryStartWithoutGL_def launched_ok_def)
next
  case False
  let ?b = "buildBackendMachine env r nm (cfg\<lparr>GPU := (GPU cfg)\<lparr>gc_disableGL := True\<rparr>\<rparr>) w"
  have "vm_pids w nm = {}" using False assms(2,3) by (force simp: isAlive_def vm_pids_def image_iff)
  then have b: "vm_pids (fst ?b) nm = {}" using phases_same_pids(5) by (simp add: same_pids_def)
  show ?thesis
    using assms b StartDetached_ok [OF assms(1) b, of 1]
    by (auto simp: retryStartWithoutGL_def launched_ok_def split: prod.splits sum.splits)
qed

lemma launch_ok:
  assumes "positive env" and "vm_pids w nm = {}"
  shows "launched_ok nm (launch env r nm cfg w)"
proof -
  let ?w1 = "fst (saveConfig cfg w)"
  have 1: "vm_pids ?w1 nm = {}" using assms(2) by (simp add: vm_pids_def)
  show ?thesis
  proof (cases "StartDetached env 0 nm ?w1")
    case (Pair w2 x)
    then show ?thesis
      using StartDetached_ok [OF assms(1) 1, of 0] retry_ok [OF assms(1)] assms(2)
      by (cases x) (auto simp: launch_def case_saved launched_ok_def)
  qed
qed

text \<open>A start either fails before the launch, or reaches it through the phases.\<close>

lemma start_common_cases:
  obtains (early) w1 e where "start_common env r nm w = (w1, Inl e)" and "same_pids w w1"
  | (late) cfg w1 cfg1 st1 w2 cfg2 pids rec
  where "loadConfig w nm = Some cfg" and "prepare env nm cfg w = (w1, Inr (cfg1, st1))"
    and "buildBackendMachine env rec nm cfg1 w1 = (w2, Inr (cfg2, pids))" and "same_pids w w2"
    and "start_common env r nm w = bind_p (launch env rec nm cfg2 w2) (\<lambda>res w3. (w3, Inr (cfg2, st1, pids, res)))"
proof (cases "loadConfig w nm")
  case None
  then show ?thesis using early by (simp add: start_common_def same_pids_def)
next
  case (Some cfg)
  let ?rec = "r \<and> RecoveryPlan cfg \<noteq> RecoveryUnsupported"
  obtain w1 x1 where p: "prepare env nm cfg w = (w1, x1)" by force
  then have s1: "same_pids w w1" using prepare_same_pids [of w env nm cfg] by simp
  show ?thesis
  proof (cases x1)
    case (Inl err)
    then show ?thesis using early s1 Some p by (simp add: start_common_def bind_p_def Let_def)
  next
    case (Inr a1)
    then obtain cfg1 st1 where a1: "x1 = Inr (cfg1, st1)" by force
    obtain w2 x2 where b: "buildBackendMachine env ?rec nm cfg1 w1 = (w2, x2)" by force
    then have s2: "same_pids w w2" using phases_same_pids(5) [of w1 env ?rec nm cfg1] s1 by (simp add: same_pids_def)
    show ?thesis
    proof (cases x2)
      case (Inl err)
      then show ?thesis using early s2 Some p a1 b by (simp add: start_common_def bind_p_def Let_def)
    next
      case (Inr a2)
      then obtain cfg2 pids where a2: "x2 = Inr (cfg2, pids)" by force
      show ?thesis using late [OF Some _ _ s2] p a1 b a2 Some by (simp add: start_common_def bind_p_def Let_def)
    qed
  qed
qed

lemma started_state_simps [simp]:
  "Running (started_state env cfg st pids res)" "PID (started_state env cfg st pids res) = sr_PID res"
  "DesiredState (started_state env cfg st pids res) = DesiredStateRunning"
  "LastShutdownReason (started_state env cfg st pids res) = []"
  "InstallState (started_state env cfg st pids res) = InstallState st"
  "VirtiofsdPIDs (started_state env cfg st pids res) = pids"
  by (simp_all add: started_state_def assignControlSockets_def VMState_zero_def Let_def split: option.splits)

lemma already_running:
  assumes "Running (loadState w nm)" and "isAlive w (PID (loadState w nm))"
  shows "fst (Start env r nm w) = w"
  using assms by (simp add: Start_def start_common_def prepare_def start_check_def bind_p_def Let_def split: option.splits)

lemma Start_tracked:
  assumes "tracked w" and "positive env"
  shows "tracked (fst (Start env r nm w))"
proof -
  let ?w = "fst (Start env r nm w)"
  have ro: "\<not> w_readonly ?w" using grows.started [of w env r nm] assms(1) by (simp add: tracked_def)
  have fg: "w_foreground ?w = []" using sessions.started [of env r nm w] assms(1) by (simp add: tracked_def)
  have oth: "tracked_vm ?w n" if "n \<noteq> nm" for n
    using other_vm.started [of nm n w env r] that assms(1) frame_tracked by (auto simp: tracked_iff)
  have "tracked_vm ?w nm"
  proof (cases "Running (loadState w nm) \<and> isAlive w (PID (loadState w nm))")
    case True
    then show ?thesis using assms(1) already_running by (simp add: tracked_iff)
  next
    case False
    then have e: "vm_pids w nm = {}" using assms(1) not_alive_no_pids by (auto simp: tracked_iff)
    show ?thesis
    proof (cases rule: start_common_cases [of env r nm w])
      case (early w1 err)
      then show ?thesis using e by (simp add: Start_def tracked_vm_def same_pids_def)
    next
      case (late cfg w1 cfg1 st1 w2 cfg2 pids rec)
      have "launched_ok nm (launch env rec nm cfg2 w2)"
        using launch_ok [OF assms(2)] late(4) e by (simp add: same_pids_def)
      then show ?thesis
        using ro by (cases "launch env rec nm cfg2 w2"; cases "snd (launch env rec nm cfg2 w2)")
          (auto simp: Start_def late(5) bind_p_def case_saved launched_ok_def tracked_vm_def vm_pids_def)
    qed
  qed
  then show ?thesis using ro fg oth by (metis tracked_iff)
qed

lemma stop_tracked: "tracked w \<Longrightarrow> tracked (fst (stopWithReason reason nm w))"
  by (auto simp: tracked_def stop_cases vm_pids_def)

lemma kill_tracked: "tracked w \<Longrightarrow> tracked (kill_pid p w)"
  by (auto simp: tracked_def vm_pids_def)

lemma saved_tracked:
  "tracked w \<Longrightarrow> Running st = Running (loadState w nm) \<Longrightarrow> PID st = PID (loadState w nm) \<Longrightarrow>
   tracked (fst (saveState nm st w))"
  by (auto simp: tracked_def vm_pids_def)

lemma cleanup_tracked:
  "tracked w \<Longrightarrow> \<not> (Running (loadState w nm) \<and> isAlive w (PID (loadState w nm))) \<Longrightarrow>
   tracked (fst (saveState nm st w))"
  using not_alive_no_pids [of w nm] by (auto simp: tracked_def tracked_vm_def vm_pids_def)

lemma list_one_tracked: "tracked w \<Longrightarrow> tracked (fst (list_one cfg w))"
  using cleanup_tracked [of w "Name cfg"] by (simp add: list_one_def cleanupStaleVM_def Let_def)

lemma list_tracked: "tracked w \<Longrightarrow> tracked (fst (list_all_vms cfgs w))"
proof (induction cfgs arbitrary: w)
  case (Cons cfg cfgs)
  then show ?case using list_one_tracked [of w cfg] by (auto simp: Let_def split: prod.splits) (metis fst_conv)
qed simp

lemma List_tracked: "tracked w \<Longrightarrow> tracked (fst (List_vms w))"
  by (simp add: List_vms_def list_tracked)

lemma autostart_tracked:
  "tracked w \<Longrightarrow> \<forall>n. positive (envs n) \<Longrightarrow> tracked (fst (autostart_each envs ns w))"
proof (induction ns arbitrary: w)
  case (Cons n ns)
  have "tracked (fst (autostart_one envs n w))"
    using Cons.prems Start_tracked by (simp add: autostart_one_def Let_def)
  then show ?case using Cons by (auto simp: Let_def split: prod.splits) (metis fst_conv)
qed simp

lemma stop_each_tracked: "tracked w \<Longrightarrow> tracked (fst (stop_each r ns w))"
proof (induction ns arbitrary: w)
  case (Cons n ns)
  then show ?case using stop_tracked [of w r n] by (auto simp: Let_def split: prod.splits) (metis fst_conv)
qed simp

lemma host_shutdown_tracked: "tracked w \<Longrightarrow> tracked (fst (handleHostShutdown w))"
  using List_tracked stop_each_tracked handleHostShutdown_cases [of w] by metis

lemma power_cycle_tracked: "tracked w \<Longrightarrow> positive env \<Longrightarrow> tracked (powerCycleAfterGuestReset env nm w)"
  using stop_tracked [of w ShutdownReasonReboot nm] Start_tracked
  by (auto simp: powerCycleAfterGuestReset_def force_eq_stop split: prod.splits option.splits)

lemma vee_step_tracked:
  assumes "vee_step w e w'" and "tracked w" and "\<forall>nm. e \<noteq> UserStartForeground nm"
  shows "tracked w'"
  using assms(1)
proof cases
  case (user_start env n r)
  then show ?thesis using Start_tracked assms(2) fresh_positive by blast
next
  case (pass envs)
  then have "tracked (fst (autostart_each envs (autostart_names w) w))"
    using autostart_tracked assms(2) fresh_positive by blast
  then show ?thesis
    using pass List_tracked
    by (simp add: daemon_pass_def startAutoStartVMs_def Let_def runningVMCount_fst)
next
  case (poweroff env n)
  then show ?thesis using assms(2) saved_tracked [OF assms(2), of _ n]
    by (simp add: handleShutdownEvent_def recordGuestShutdown_def Let_def)
next
  case (reset env n)
  then show ?thesis using assms(2) power_cycle_tracked fresh_positive by (simp add: handleResetEvent_def)
next
  case (host_reset n env)
  then show ?thesis using assms(2) by (simp add: handleResetEvent_def)
next
  case (fg_exit n fg)
  then show ?thesis using assms(2) by (simp add: tracked_def)
next
  case (fg_cancel n fg)
  then show ?thesis using assms(2) by (simp add: tracked_def)
qed (use assms(2,3) in \<open>simp_all add: stop_tracked force_eq_stop List_tracked kill_tracked host_shutdown_tracked
    saved_tracked persistPhase_def markReady_def Let_def\<close>)



subsection \<open>The daemon brings VMs back\<close>

lemma Start_ok_state:
  assumes "Start env r nm w = (w', None)"
  obtains w1 cfg st pids res where "start_common env r nm w = (w1, Inr (cfg, st, pids, res))" and "\<not> w_readonly w1"
    and "w' = register env cfg (fst (saveState nm (started_state env cfg st pids res) w1))"
    and "loadState w' nm = started_state env cfg st pids res"
  using assms by (auto simp: Start_def case_saved split: prod.splits sum.splits if_splits)

lemma launch_alive:
  assumes "launch env r nm cfg w = (w', Inr res)" and "\<forall>n. \<not> se_exits env n" and "positive env"
  shows "isAlive w' (sr_PID res)"
proof -
  let ?w1 = "fst (saveConfig cfg w)"
  obtain res0 where s0: "StartDetached env 0 nm ?w1 = (add_procs (VMProc nm) [sr_PID res0] ?w1, Inr res0)"
      and l0: "se_launch env 0 = Some res0"
    using assms(1,2)
    by (cases "se_launch env 0") (auto simp: launch_def case_saved StartDetached_def split: if_splits)
  have "0 < sr_PID res0" using assms(3) l0 by (simp add: positive_def)
  then have "isAlive (add_procs (VMProc nm) [sr_PID res0] ?w1) (sr_PID res0)" by (simp add: isAlive_def)
  then show ?thesis
    using assms(1) s0 by (auto simp: launch_def case_saved retryStartWithoutGL_def split: if_splits)
qed

lemma Start_alive:
  assumes "Start env r nm w = (w', None)" and "\<forall>n. \<not> se_exits env n" and "positive env"
  shows "isAlive w' (PID (loadState w' nm))"
proof -
  obtain w1 cfg st pids res where c: "start_common env r nm w = (w1, Inr (cfg, st, pids, res))"
    and w': "w' = register env cfg (fst (saveState nm (started_state env cfg st pids res) w1))"
    and l: "loadState w' nm = started_state env cfg st pids res"
    using Start_ok_state [OF assms(1)] by metis
  have "isAlive w1 (sr_PID res)"
  proof (cases rule: start_common_cases [of env r nm w])
    case (late cfg0 wa cfg1 st1 w2 cfg2 pids2 rec)
    then show ?thesis
      using c launch_alive [of env rec nm cfg2 w2 w1 res] assms(2,3)
      by (auto simp: bind_p_def split: prod.splits sum.splits)
  qed (use c in simp)
  then have "isAlive w' (sr_PID res)" by (simp add: w' isAlive_def)
  then show ?thesis by (simp add: l)
qed

lemma alive_mono: "set (w_procs w) \<subseteq> set (w_procs w') \<Longrightarrow> isAlive w p \<Longrightarrow> isAlive w' p"
  by (auto simp: isAlive_def)

lemma autostart_each_other:
  assumes "nm \<notin> set ns"
  shows "frame nm w (fst (autostart_each envs ns w)) \<and> set (w_procs w) \<subseteq> set (w_procs (fst (autostart_each envs ns w)))"
  using assms
proof (induction ns arbitrary: w)
  case (Cons n ns)
  let ?w1 = "fst (autostart_one envs n w)"
  have "frame nm w ?w1" using other_vm.started [of n nm w "envs n" False] Cons.prems
    by (auto simp: autostart_one_def Let_def frame_refl)
  moreover have "set (w_procs w) \<subseteq> set (w_procs ?w1)"
    using grows.started [of w "envs n" False n] by (simp add: autostart_one_def Let_def)
  ultimately show ?case using Cons frame_trans by (auto simp: Let_def split: prod.splits) (metis fst_conv subsetD)+
qed (simp add: frame_refl)

lemma autostart_one_running:
  assumes "autostart_one envs nm w = (w', None)" and "shouldDaemonStart (Some (loadState w nm))"
    and "\<forall>n. \<not> se_exits (envs nm) n" and "positive (envs nm)"
  shows "Running (loadState w' nm) \<and> isAlive w' (PID (loadState w' nm))"
proof (cases "Running (loadState w nm) \<and> isAlive w (PID (loadState w nm))")
  case False
  then have s: "Start (envs nm) False nm w = (w', None)" using assms(1,2) by (auto simp: autostart_one_def Let_def split: if_splits)
  then show ?thesis using Start_ok_state [OF s] Start_alive [OF s assms(3,4)] by (metis started_state_simps(1))
qed (use assms(1) in \<open>auto simp: autostart_one_def Let_def\<close>)

text \<open>C3: one autostart pass brings back every VM it should: an auto-start VM that is neither parked nor
  shut down by its guest (it crashed, its host was rebooted, or it was never started) is, after the
  pass, running with a live process, unless the pass reports a start error for it.  A process that
  exits at once is excepted.\<close>

theorem autostart_recovers:
  assumes "nm \<in> set (autostart_names w)" and "distinct (autostart_names w)"
    and "shouldDaemonStart (Some (loadState w nm))"
    and "\<forall>n. \<not> se_exits (envs nm) n" and "positive (envs nm)"
    and "startAutoStartVMs envs w = (w', errs)"
  shows "nm \<in> fst ` set errs \<or> Running (loadState w' nm) \<and> isAlive w' (PID (loadState w' nm))"
proof -
  obtain pre post where ns: "autostart_names w = pre @ nm # post" and np: "nm \<notin> set pre" "nm \<notin> set post"
    using assms(1,2) by (metis split_list distinct_append not_distinct_conv_prefix distinct.simps(2) disjoint_insert(1) list.simps(15))
  have split: "autostart_each envs (xs @ ys) v =
      (let (v1, e1) = autostart_each envs xs v; (v2, e2) = autostart_each envs ys v1 in (v2, e1 @ e2))" for xs ys v
    by (induction xs arbitrary: v) (auto simp: Let_def split: prod.splits option.splits)
  let ?w1 = "fst (autostart_each envs pre w)"
  have st: "loadState ?w1 nm = loadState w nm" using autostart_each_other [OF np(1)] by (simp add: frame_def)
  obtain w2 e where o: "autostart_one envs nm ?w1 = (w2, e)" by force
  show ?thesis
  proof (cases e)
    case None
    then have r: "Running (loadState w2 nm) \<and> isAlive w2 (PID (loadState w2 nm))"
      using autostart_one_running [of envs nm ?w1 w2] o st assms(3-5) by simp
    have "w' = fst (autostart_each envs post w2)"
      using assms(6) o None by (simp add: startAutoStartVMs_def ns split Let_def split: prod.splits)
    then show ?thesis
      using r autostart_each_other [OF np(2), of w2 envs] alive_mono [of w2 w'] by (auto simp: frame_def)
  next
    case (Some x)
    then have "(nm, x) \<in> set errs"
      using assms(6) o by (auto simp: startAutoStartVMs_def ns split Let_def split: prod.splits)
    then show ?thesis by force
  qed
qed

subsection \<open>Installation\<close>

lemma map_of_put_config: "map_of (put_config cfg cs) = (map_of cs)(Name cfg \<mapsto> cfg)"
  by (induction cs) (auto simp: fun_eq_iff)

lemma loadConfig_saveConfig:
  "\<not> w_readonly w \<Longrightarrow> loadConfig (fst (saveConfig cfg w)) nm = (if nm = Name cfg then Some cfg else loadConfig w nm)"
  by (simp add: loadConfig_def saveConfig_def map_of_put_config)

lemma loadConfig_simps [simp]:
  "loadConfig (fst (saveState n st w)) = loadConfig w" "loadConfig (add_procs x ps w) = loadConfig w"
  "loadConfig (register env c w) = loadConfig w"
  by (simp_all add: fun_eq_iff loadConfig_def)

lemma build_keeps [simp]:
  "loadConfig (fst (buildBackendMachine env r nm cfg w)) = loadConfig w"
  "loadState (fst (buildBackendMachine env r nm cfg w)) = loadState w"
  "loadConfig (fst (StartDetached env k nm w)) = loadConfig w"
  "loadConfig (fst (retryStartWithoutGL env r nm cfg res w)) = loadConfig w"
proof -
  show b: "loadConfig (fst (buildBackendMachine env r nm cfg w)) = loadConfig w" for cfg
    by (simp add: buildBackendMachine_def split: prod.splits)
  show "loadState (fst (buildBackendMachine env r nm cfg w)) = loadState w"
    by (simp add: buildBackendMachine_def split: prod.splits)
  show d: "loadConfig (fst (StartDetached env k nm w)) = loadConfig w" for k w
    by (simp add: StartDetached_def split: option.splits)
  let ?c = "cfg\<lparr>GPU := (GPU cfg)\<lparr>gc_disableGL := True\<rparr>\<rparr>"
  show "loadConfig (fst (retryStartWithoutGL env r nm cfg res w)) = loadConfig w"
    using b [of ?c] d [of 1 "fst (buildBackendMachine env r nm ?c w)"]
    by (auto simp: retryStartWithoutGL_def split: prod.splits sum.splits)
qed

lemma built_config:
  assumes "buildBackendMachine env r nm cfg w = (w', Inr (cfg', pids))" and "VMConfig_BackendName cfg = QEMU"
  shows "Name cfg' = Name cfg \<and> Disks cfg' = Disks cfg \<and> InstallDevices cfg' = InstallDevices cfg"
proof -
  let ?b = "(se_build env)\<lparr>be_state := Some (loadState w nm)\<rparr>"
  obtain sp m where b: "buildMachine ?b cfg = (sp, Inr (cfg', m, pids))"
    using assms by (auto simp: buildBackendMachine_def split: prod.splits sum.splits)
  have "cfg' = nic_config ?b cfg" using b by (rule buildMachine_Inr)
  then show ?thesis by (simp add: nic_config_def Let_def)
qed

lemma launch_config:
  assumes "launch env r nm cfg w = (w', Inr res)"
  shows "loadConfig w' (Name cfg) = Some cfg"
proof -
  let ?w1 = "fst (saveConfig cfg w)"
  have ro: "\<not> w_readonly w" using assms by (auto simp: launch_def case_saved)
  obtain w2 x where s: "StartDetached env 0 nm ?w1 = (w2, x)" by force
  then have "loadConfig w2 = loadConfig ?w1" using build_keeps(3) [of env 0 nm ?w1] by simp
  moreover obtain res0 where "retryStartWithoutGL env r nm cfg res0 w2 = (w', Inr res)"
    using assms s ro by (cases x) (auto simp: launch_def case_saved)
  then have "loadConfig w' = loadConfig w2" using build_keeps(4) [of env r nm cfg res0 w2] by simp
  ultimately show ?thesis using loadConfig_saveConfig [OF ro] by simp
qed

lemma spice_phase_frame:
  assumes "spice_phase env cfg st w = (w', Inr (cfg', st'))"
  shows "st' = st \<and> Name cfg' = Name cfg \<and> Disks cfg' = Disks cfg \<and> InstallDevices cfg' = InstallDevices cfg \<and>
         VMConfig_BackendName cfg' = VMConfig_BackendName cfg"
  using assms
  by (auto simp: spice_phase_def case_saved Let_def VMConfig_BackendName_def split: option.splits if_splits)

definition installer_free :: "VMConfig \<Rightarrow> bool" where
  "installer_free cfg \<longleftrightarrow> list_all (\<lambda>d. \<not> IsScratch d \<and> \<not> IsInstallISO d) (Disks cfg) \<and> InstallDevices cfg = []"

lemma prepare_ready:
  assumes "prepare env nm cfg w = (w1, Inr (cfg1, st1))" and "\<not> Running (loadState w nm)"
    and "InstallState (loadState w nm) = InstallStateReady"
  shows "st1 = loadState w nm \<and> Name cfg1 = Name cfg \<and> installer_free cfg1 \<and>
         VMConfig_BackendName cfg1 = VMConfig_BackendName cfg"
proof -
  have ne: "InstallStateReady \<noteq> []" by (simp add: state_consts)
  obtain w2 where i: "spice_phase env (strip_install cfg) (loadState w nm) w2 = (w1, Inr (cfg1, st1))"
    using assms ne
    by (auto simp: prepare_def bind_p_def start_check_def skip_install_phase_def install_phase_def case_saved Let_def
        split: if_splits)
  show ?thesis
    using spice_phase_frame [OF i]
    by (auto simp: strip_install_def installer_free_def list_all_iff VMConfig_BackendName_def)
qed


text \<open>C36: starting a VM whose process exited while it was still marked running forgets its
  installation: with the installer attached, an installation that had just finished is recorded as
  pending again, although the clean-up in the same start recorded it as ready.\<close>

theorem Start_stale_reinstalls:
  assumes "Start env r nm w = (w', None)" and "loadConfig w nm = Some cfg" and "hasInstallISO cfg" and "\<not> SkipInstall cfg"
    and "Running (loadState w nm)" and "\<not> isAlive w (PID (loadState w nm))"
    and "InstallState (loadState w nm) \<in> {InstallStatePending, InstallStateReady}"
  shows "InstallState (loadState w' nm) = InstallStatePending \<and>
         InstallState (stale_state (w_vzresult w nm) (loadState w nm)) = InstallStateReady"
proof -
  obtain w1 c st pids res where c: "start_common env r nm w = (w1, Inr (c, st, pids, res))"
    and l: "loadState w' nm = started_state env c st pids res"
    using Start_ok_state [OF assms(1)] by metis
  have "InstallState (loadState w' nm) = InstallStatePending"
  proof (cases rule: start_common_cases [of env r nm w])
    case (late cfg0 wa cfg1 st1 w2 cfg2 pids2 rec)
    have "cfg0 = cfg" using late(1) assms(2) by simp
    moreover have z: "InstallState VMState_zero = []" by (simp add: VMState_zero_def)
    ultimately obtain wb where
      "spice_phase env cfg (VMState_zero\<lparr>InstallState := InstallStatePending\<rparr>) wb = (wa, Inr (cfg1, st1))"
      using late(2) assms(3-6)
      by (auto simp: prepare_def bind_p_def start_check_def skip_install_phase_def install_phase_def case_saved Let_def
          split: if_splits)
    then have "InstallState st1 = InstallStatePending" using spice_phase_frame by fastforce
    moreover have "st = st1" using c late(5) by (auto simp: bind_p_def split: prod.splits sum.splits)
    ultimately show ?thesis by (simp add: l)
  qed (use c in simp)
  moreover have "InstallState (stale_state vz s) = settled (InstallState s)" for vz s
    by (auto simp: stale_state_def Let_def VMState_zero_def split: option.splits)
  ultimately show ?thesis using assms(7) by (auto simp: settled_def)
qed

subsection \<open>Foreground starts\<close>

text \<open>C35: the end of a foreground start writes back the state it remembers.  Cancelling the command
  leaves the VM running but recorded as stopped, so \<open>vee stop\<close> refuses to stop it and nothing
  refuses to start it a second time; and after \<open>vee stop\<close> in another terminal, the VM the user
  stopped is one the daemon restarts.\<close>

theorem foreground_end_forgets:
  assumes "\<not> w_readonly w" and "DesiredState fg = DesiredStateRunning" and "LastShutdownReason fg = []"
  shows "(isAlive w (PID fg) \<longrightarrow>
            isAlive (foreground_end nm fg w) (PID fg) \<and>
            snd (stopWithReason ShutdownReasonUser nm (foreground_end nm fg w)) = Some NotRunning \<and>
            start_check nm cfg (foreground_end nm fg w) =
              (foreground_end nm fg w, Inr (loadState (foreground_end nm fg w) nm))) \<and>
         shouldDaemonStart (Some (loadState
           (foreground_end nm fg (fst (stopWithReason ShutdownReasonUser nm w))) nm))"
proof -
  have l: "loadState (foreground_end nm fg v) nm = fg\<lparr>Running := False\<rparr>" if "\<not> w_readonly v" for v
    using that by (simp add: foreground_end_def saveState_def loadState_def Let_def)
  have "isAlive (foreground_end nm fg w) p = isAlive w p" for p
    by (simp add: foreground_end_def isAlive_def Let_def)
  moreover have "\<not> w_readonly (fst (stopWithReason ShutdownReasonUser nm w))"
    using assms(1) by (simp add: stop_cases)
  moreover have "DesiredStateRunning \<noteq> DesiredStateStopped" "ShutdownReasonGuest \<noteq> []" by (simp_all add: state_consts)
  ultimately show ?thesis
    using assms l [OF assms(1)] l [of "fst (stopWithReason ShutdownReasonUser nm w)"]
    by (auto simp: stop_cases start_check_def shouldDaemonStart_def Let_def)
qed

subsection \<open>Stopping and host shutdown\<close>

text \<open>The wait for a guest to power down ends: at the first poll at which the process is gone, or
  less than one poll interval after the deadline; up to then the process was alive at every poll.\<close>

theorem wait_exit_ends:
  "now \<le> wait_exit alive now deadline \<and>
   wait_exit alive now deadline \<le> max now (deadline + 499) \<and>
   (\<not> alive (wait_exit alive now deadline) \<or> deadline \<le> wait_exit alive now deadline) \<and>
   (\<forall>k. 0 \<le> k \<and> now + 500 * k < wait_exit alive now deadline \<longrightarrow> alive (now + 500 * k))"
proof (induction alive now deadline rule: wait_exit.induct)
  case (1 alive now deadline)
  show ?case
  proof (cases "now < deadline \<and> alive now")
    case True
    then have eq: "wait_exit alive now deadline = wait_exit alive (now + 500) deadline" by (subst wait_exit.simps) simp
    have IH: "now + 500 \<le> wait_exit alive (now + 500) deadline"
      "wait_exit alive (now + 500) deadline \<le> max (now + 500) (deadline + 499)"
      "\<not> alive (wait_exit alive (now + 500) deadline) \<or> deadline \<le> wait_exit alive (now + 500) deadline"
      "\<And>k. 0 \<le> k \<Longrightarrow> now + 500 + 500 * k < wait_exit alive (now + 500) deadline \<Longrightarrow> alive (now + 500 + 500 * k)"
      using 1 [OF True] by blast+
    have "alive (now + 500 * k)" if k: "0 \<le> k" "now + 500 * k < wait_exit alive (now + 500) deadline" for k
    proof (cases "k = 0")
      case False
      then have "alive (now + 500 + 500 * (k - 1))" using k by (intro IH(4)) auto
      then show ?thesis by (simp add: algebra_simps)
    qed (use True in simp)
    then show ?thesis using IH(1-3) True unfolding eq by auto
  next
    case False
    then have "wait_exit alive now deadline = now" by (subst wait_exit.simps) auto
    then show ?thesis using False by auto
  qed
qed


lemma list_one_keeps [simp]:
  "w_procs (fst (list_one cfg w)) = w_procs w" "w_readonly (fst (list_one cfg w)) = w_readonly w"
  "w_configs (fst (list_one cfg w)) = w_configs w"
  by (simp_all add: list_one_def cleanupStaleVM_def Let_def)

lemma list_one_live:
  assumes "Running (loadState w nm)" and "isAlive w (PID (loadState w nm))"
  shows "loadState (fst (list_one cfg w)) nm = loadState w nm"
  using assms by (simp add: list_one_def cleanupStaleVM_def Let_def)

lemma list_live:
  assumes "Running (loadState w nm)" and "isAlive w (PID (loadState w nm))" and "list_all_vms cfgs w = (w', es)"
  shows "w_procs w' = w_procs w \<and> w_readonly w' = w_readonly w \<and> w_configs w' = w_configs w \<and>
         loadState w' nm = loadState w nm \<and>
         (\<forall>cfg \<in> set cfgs. Name cfg = nm \<longrightarrow> (cfg, loadState w nm) \<in> set es)"
  using assms
proof (induction cfgs arbitrary: w w' es)
  case (Cons cfg cfgs)
  obtain w1 x where o: "list_one cfg w = (w1, x)" by (cases "list_one cfg w")
  obtain es1 where r: "list_all_vms cfgs w1 = (w', es1)" and es: "es = x # es1"
    using Cons.prems(3) o by (auto simp: Let_def split: prod.splits)
  have k: "w_procs w1 = w_procs w" "w_readonly w1 = w_readonly w" "w_configs w1 = w_configs w"
    using list_one_keeps [of cfg w] o by simp_all
  have l: "loadState w1 nm = loadState w nm" using list_one_live [OF Cons.prems(1,2), of cfg] o by simp
  have "isAlive w1 (PID (loadState w1 nm))" using Cons.prems(2) k l by (simp add: isAlive_def)
  note IH = Cons.IH [OF _ this r]
  have "x = (cfg, loadState w nm)" if "Name cfg = nm"
    using o Cons.prems(1,2) that by (auto simp: list_one_def Let_def)
  then show ?case using IH Cons.prems(1) k l es by auto
qed simp

lemma stop_each_shrinks: "set (w_procs (fst (stop_each r xs v))) \<subseteq> set (w_procs v)"
proof (induction xs arbitrary: v)
  case (Cons x xs)
  have "set (w_procs (fst (stopWithReason r x v))) \<subseteq> set (w_procs v)" by (auto simp: stop_cases)
  moreover have "fst (stop_each r (x # xs) v) = fst (stop_each r xs (fst (stopWithReason r x v)))"
    by (simp add: Let_def split: prod.splits)
  ultimately show ?case using Cons [of "fst (stopWithReason r x v)"] by simp
qed simp

lemma stop_each_stops:
  assumes "nm \<in> set ns" and "Running (loadState w nm)" and "PID (loadState w nm) \<noteq> 0" and "\<not> w_readonly w"
  shows "loadState (fst (stop_each r ns w)) nm = stopped_state r (loadState w nm) \<and>
         PID (loadState w nm) \<notin> fst ` set (w_procs (fst (stop_each r ns w)))"
  using assms
proof (induction ns arbitrary: w)
  case (Cons n ns)
  let ?w1 = "fst (stopWithReason r n w)"
  have shrink: "set (w_procs (fst (stop_each r xs v))) \<subseteq> set (w_procs v)" for xs v
    by (rule stop_each_shrinks)
  have f: "fst (stop_each r (n # ns) w) = fst (stop_each r ns ?w1)" by (simp add: Let_def split: prod.splits)
  show ?case
  proof (cases "n = nm")
    case True
    then have s: "loadState ?w1 nm = stopped_state r (loadState w nm)" and p: "PID (loadState w nm) \<notin> fst ` set (w_procs ?w1)"
      using Cons.prems by (auto simp: stop_cases)
    have "frame nm ?w1 (fst (stop_each r ns ?w1))" using stop_each_held [of ?w1 nm r ns] s by simp
    then show ?thesis using s p shrink [of ns ?w1] unfolding f by (auto simp: frame_def)
  next
    case False
    have "frame nm w ?w1" using stop_frame [OF False] .
    then show ?thesis using Cons.IH [of ?w1] Cons.prems False unfolding f by (auto simp: frame_def)
  qed
qed simp


text \<open>The order of the two writes at a host shutdown matters: the power-down the shutdown requests
  makes the guest report its own power-off.  Recorded before the stop is, that report is
  overwritten; recorded after it, the VM is parked although only the host went down, and the next
  boot does not bring it back.\<close>

theorem late_poweroff_parks:
  assumes "\<not> w_readonly w" and "Running (loadState w nm)" and "PID (loadState w nm) \<noteq> 0"
  shows "shouldDaemonStart (Some (loadState
           (fst (stopWithReason ShutdownReasonHost nm (recordGuestShutdown nm w))) nm)) \<and>
         \<not> shouldDaemonStart (Some (loadState
           (recordGuestShutdown nm (fst (stopWithReason ShutdownReasonHost nm w))) nm))"
  using assms
  by (simp add: stop_cases recordGuestShutdown_def Let_def shouldDaemonStart_def desired_user)
     (simp add: state_consts)


subsection \<open>Witnesses\<close>

definition demo_senv :: StartEnv where
  "demo_senv = \<lparr>se_build = demo_benv, se_buildVZ = (\<lambda>_ _. None), se_portInUse = (\<lambda>_. False), se_freeTCPPort = None,
     se_launch = (\<lambda>n. Some \<lparr>sr_PID = 500, sr_ControlSocket = ''/q'', sr_GuestAgentSocket = ''/g'', sr_LeaseBaseline = 0\<rparr>),
     se_exits = (\<lambda>_. False), se_qemulog = None, se_now = 7, se_canWriteHosts = False, se_ip = None\<rparr>"

definition demo_auto :: VMConfig where
  "demo_auto = demo_vm\<lparr>AutoStart := True\<rparr>"

definition demo_world :: World where
  "demo_world = \<lparr>w_configs = [(''web'', demo_auto)], w_states = (\<lambda>_. None), w_procs = [], w_foreground = [],
     w_hosts = [], w_files = [], w_vzresult = (\<lambda>_. None), w_readonly = False\<rparr>"

definition demo_in :: "VMState \<Rightarrow> World" where
  "demo_in st = demo_world\<lparr>w_states := [''web'' \<mapsto> st]\<rparr>"

definition demo_stopped :: VMState where
  "demo_stopped = VMState_zero\<lparr>DesiredState := DesiredStateStopped, InstallState := InstallStateReady\<rparr>"

definition demo_running :: VMState where
  "demo_running = VMState_zero\<lparr>Running := True, PID := 400, DesiredState := DesiredStateRunning,
     InstallState := InstallStatePending\<rparr>"

lemma demo_fresh: "fresh demo_senv w \<longleftrightarrow> 500 \<notin> fst ` set (w_procs w)" "positive demo_senv"
  by (auto simp: fresh_def positive_def demo_senv_def)

theorem parked_vm_stays_off_witness:
  "\<exists>w'. vee_run (demo_in demo_stopped) [DaemonPass, GuestReset ''web''] w' \<and> parked w' ''web'' \<and> vm_pids w' ''web'' = {}"
proof -
  let ?w = "demo_in demo_stopped" let ?w1 = "daemon_pass (\<lambda>_. demo_senv) ?w" let ?w2 = "handleResetEvent demo_senv ''web'' True ?w1"
  have "fresh demo_senv ?w" by (simp add: demo_fresh demo_in_def demo_world_def)
  then have "vee_step ?w DaemonPass ?w1" by (intro vee_step.pass) simp
  then have 1: "vee_run ?w ([] @ [DaemonPass]) ?w1" by (rule vee_run.more [OF vee_run.none])
  have "w_procs ?w1 = []" by code_simp
  then have "fresh demo_senv ?w1" by (simp add: demo_fresh)
  then have "vee_step ?w1 (GuestReset ''web'') ?w2" by (rule vee_step.reset)
  then have 2: "vee_run ?w (([] @ [DaemonPass]) @ [GuestReset ''web'']) ?w2" by (rule vee_run.more [OF 1])
  have p: "parked ?w ''web''" "fg_of ?w ''web'' = []" "\<not> Running (loadState ?w ''web'')" by code_simp+
  have "vm_pids ?w ''web'' = {}" by (simp add: vm_pids_def demo_in_def demo_world_def)
  then show ?thesis using parked_vm_stays_off [OF 2 p(1,2)] 2 p(3) by auto
qed


theorem autostart_recovers_witness:
  "Running (loadState (fst (startAutoStartVMs (\<lambda>_. demo_senv) demo_world)) ''web'')"
proof -
  obtain w' errs where s: "startAutoStartVMs (\<lambda>_. demo_senv) demo_world = (w', errs)" by force
  have "snd (startAutoStartVMs (\<lambda>_. demo_senv) demo_world) = []" by code_simp
  then have e: "errs = []" using s by simp
  have n: "autostart_names demo_world = [''web'']" by code_simp
  have d: "shouldDaemonStart (Some (loadState demo_world ''web''))" by code_simp
  show ?thesis
    using autostart_recovers [of "''web''" demo_world "\<lambda>_. demo_senv", OF _ _ d _ demo_fresh(2) s] n e s
    by (simp add: demo_senv_def)
qed


theorem Start_stale_reinstalls_witness:
  "InstallState (loadState (fst (Start demo_senv False ''web'' (demo_in demo_running))) ''web'') = InstallStatePending"
proof -
  let ?w = "demo_in demo_running"
  have "snd (Start demo_senv False ''web'' ?w) = None" by code_simp
  then obtain w' where s: "Start demo_senv False ''web'' ?w = (w', None)" by (metis prod.collapse)
  have c: "loadConfig ?w ''web'' = Some demo_auto" "hasInstallISO demo_auto" "\<not> SkipInstall demo_auto"
    "Running (loadState ?w ''web'')" "\<not> isAlive ?w (PID (loadState ?w ''web''))"
    "InstallState (loadState ?w ''web'') = InstallStatePending" by code_simp+
  show ?thesis using Start_stale_reinstalls [OF s c(1-5)] s c(6) by simp
qed

theorem foreground_end_forgets_witness:
  "shouldDaemonStart (Some (loadState (foreground_end ''web'' demo_running
     (fst (stopWithReason ShutdownReasonUser ''web'' (demo_in demo_running)))) ''web''))"
  using foreground_end_forgets [of "demo_in demo_running" demo_running "''web''" demo_auto]
  by (simp add: demo_in_def demo_world_def demo_running_def VMState_zero_def)


theorem late_poweroff_parks_witness:
  "\<not> shouldDaemonStart (Some (loadState
     (recordGuestShutdown ''web'' (fst (stopWithReason ShutdownReasonHost ''web'' (demo_in demo_running)))) ''web''))"
  using late_poweroff_parks [of "demo_in demo_running" "''web''"]
  by (simp add: demo_in_def demo_world_def demo_running_def loadState_def VMState_zero_def)

theorem wait_exit_ends_witness:
  "wait_exit (\<lambda>t. t < 1200) 0 30000 = 1500 \<and> 1000 < (1200 :: int) \<and> 1500 \<le> max 0 (30000 + 499 :: int)"
proof -
  have e: "wait_exit (\<lambda>t. t < 1200) 0 30000 = 1500" by code_simp
  show ?thesis using wait_exit_ends [of 0 "\<lambda>t. t < 1200" 30000] unfolding e by (auto dest: spec [of _ 2])
qed

end
