(* ===== verification/Tunnels.thy ===== *)
theory Tunnels
  imports Lifecycle_Safety "HOL-Library.Product_Lexorder" "HOL-Library.Multiset" "HOL-Library.AList"
begin

text \<open>
  Background tunnels: the registry of \<open>internal/vm/tunnel_registry.go\<close>, the daemon's reconciliation
  of \<open>tunnel_daemon.go\<close>, the router that publishes HTTP tunnels under host names of
  \<open>tunnel_router.go\<close>, and \<open>services.go\<close>.  The registry file is missing, unreadable or a list of
  specifications.  A proxy is the address and port it listens on; whether a port is free and which
  port a listener gets are the environment.  Go iterates over maps in any order; the model iterates
  over association lists, and the lemmas say where the order does not matter.
\<close>

subsection \<open>tunnel_registry.go\<close>

definition BindLoopback :: string where "BindLoopback = ''127.0.0.1''"

definition BindHost :: string where "BindHost = ''0.0.0.0''"

record TunnelSpec =
  ts_VM :: string
  ts_Service :: string
  ts_Bind :: string
  ts_Port :: int
  ts_Hostname :: string
  ts_Protocol :: string

definition Spec_Key :: "TunnelSpec \<Rightarrow> string" where
  "Spec_Key t = ts_VM t @ ''/'' @ ts_Service t"

definition BindAddr :: "TunnelSpec \<Rightarrow> string" where
  "BindAddr t = (if ts_Bind t = BindHost then BindHost else BindLoopback)"

definition VHost :: "TunnelSpec \<Rightarrow> string" where
  "VHost t = (if ts_Hostname t \<noteq> [] then ts_Hostname t else ts_Service t)"

datatype registry_file = NoFile | BadFile | Specs "TunnelSpec list"

datatype registry_error = RegistryParse | RegistryWrite

definition sortSpecs :: "TunnelSpec list \<Rightarrow> TunnelSpec list" where
  "sortSpecs specs = sort_key (\<lambda>t. (ts_VM t, ts_Service t)) specs"

definition registry_load :: "registry_file \<Rightarrow> (registry_error, TunnelSpec list) result" where
  "registry_load f =
     (case f of NoFile \<Rightarrow> Inr [] | BadFile \<Rightarrow> Inl RegistryParse | Specs specs \<Rightarrow> Inr (sortSpecs specs))"

definition registry_save :: "bool \<Rightarrow> TunnelSpec list \<Rightarrow> registry_file \<Rightarrow> registry_file \<times> registry_error option" where
  "registry_save canWrite specs f =
     (if canWrite then (Specs (sortSpecs specs), None) else (f, Some RegistryWrite))"

definition without_key :: "string \<Rightarrow> TunnelSpec list \<Rightarrow> TunnelSpec list" where
  "without_key k specs = filter (\<lambda>s. Spec_Key s \<noteq> k) specs"

definition Registry_Add :: "bool \<Rightarrow> TunnelSpec \<Rightarrow> registry_file \<Rightarrow> registry_file \<times> registry_error option" where
  "Registry_Add canWrite spec f =
     (case registry_load f of
        Inl e \<Rightarrow> (f, Some e)
      | Inr specs \<Rightarrow> registry_save canWrite (without_key (Spec_Key spec) specs @ [spec]) f)"

definition Registry_RemoveKey ::
  "bool \<Rightarrow> string \<Rightarrow> registry_file \<Rightarrow> registry_file \<times> bool \<times> registry_error option" where
  "Registry_RemoveKey canWrite k f =
     (case registry_load f of
        Inl e \<Rightarrow> (f, False, Some e)
      | Inr specs \<Rightarrow>
          if list_ex (\<lambda>s. Spec_Key s = k) specs
          then let (f1, err) = registry_save canWrite (without_key k specs) f in (f1, True, err)
          else (f, False, None))"

definition Registry_Remove ::
  "bool \<Rightarrow> string \<Rightarrow> string \<Rightarrow> registry_file \<Rightarrow> registry_file \<times> bool \<times> registry_error option" where
  "Registry_Remove canWrite vmName service f = Registry_RemoveKey canWrite (vmName @ ''/'' @ service) f"

definition RemoveVM :: "bool \<Rightarrow> string \<Rightarrow> registry_file \<Rightarrow> registry_file \<times> registry_error option" where
  "RemoveVM canWrite vmName f =
     (case registry_load f of
        Inl e \<Rightarrow> (f, Some e)
      | Inr specs \<Rightarrow>
          let out = filter (\<lambda>s. ts_VM s \<noteq> vmName) specs in
          if length out = length specs then (f, None) else registry_save canWrite out f)"

definition sanitize_char :: "char \<Rightarrow> char option" where
  "sanitize_char r =
     (if CHR ''a'' \<le> r \<and> r \<le> CHR ''z'' \<or> CHR ''0'' \<le> r \<and> r \<le> CHR ''9'' then Some r
      else if r = CHR ''-'' \<or> r = CHR '' '' \<or> r = CHR ''_'' \<or> r = CHR ''.'' then Some (CHR ''-'')
      else None)"

definition SanitizeHostname :: "string \<Rightarrow> string" where
  "SanitizeHostname s = TrimF (\<lambda>c. c = CHR ''-'') (List.map_filter sanitize_char (ToLower s))"

subsection \<open>services.go\<close>

definition ServiceHTTP :: string where "ServiceHTTP = ''http''"

definition ServiceHTTPS :: string where "ServiceHTTPS = ''https''"

definition resolve_service :: "VMConfig \<Rightarrow> VMState \<Rightarrow> ServiceEntry \<Rightarrow> ServiceEntry" where
  "resolve_service cfg st s =
     (if se_Protocol s = ServiceSPICE then
        if SPICEPort st > 0 then s\<lparr>se_Port := SPICEPort st\<rparr>
        else (case SPICE cfg of None \<Rightarrow> s | Some sp \<Rightarrow> s\<lparr>se_Port := sc_Port sp\<rparr>)
      else s)"

definition ResolvedServices :: "VMConfig \<Rightarrow> VMState \<Rightarrow> ServiceEntry list" where
  "ResolvedServices cfg st = map (resolve_service cfg st) (Services cfg)"

text \<open>\<open>FindHostFwd\<close> on a forward of the form \<open>proto:addr:port-:guest\<close>; \<open>strconv.Atoi\<close> is
  \<^const>\<open>ParseInt64\<close> on a 64-bit host.\<close>

fun CutS :: "string \<Rightarrow> string \<Rightarrow> (string \<times> string) option" where
  "CutS sep s =
     (if HasPrefix s sep then Some ([], drop (length sep) s)
      else case s of [] \<Rightarrow> None | c # cs \<Rightarrow> map_option (\<lambda>(a, b). (c # a, b)) (CutS sep cs))"

declare CutS.simps [simp del]

definition fwd_port :: "string \<Rightarrow> string \<Rightarrow> int option" where
  "fwd_port guestStr fwd =
     (case CutS ''-:'' fwd of
        None \<Rightarrow> None
      | Some (h, g) \<Rightarrow>
          if g \<noteq> guestStr then None
          else (case CutC (CHR '':'') h of
                  None \<Rightarrow> None
                | Some (proto, r) \<Rightarrow>
                    (case CutC (CHR '':'') r of None \<Rightarrow> None | Some (addr, p) \<Rightarrow> ParseInt64 p)))"

fun FindHostFwd :: "string list \<Rightarrow> int \<Rightarrow> int" where
  "FindHostFwd [] guestPort = 0"
| "FindHostFwd (fwd # fwds) guestPort =
     (case fwd_port (Itoa guestPort) fwd of Some p \<Rightarrow> p | None \<Rightarrow> FindHostFwd fwds guestPort)"

definition arrow :: string where
  "arrow = [CHR '' '', CHR 0xE2, CHR 0x86, CHR 0x92, CHR '' '']"

definition ServiceURL :: "VMConfig \<Rightarrow> ServiceEntry \<Rightarrow> string" where
  "ServiceURL cfg s =
     (let scheme = (if se_Protocol s = ServiceHTTP then ''http://''
                    else if se_Protocol s = ServiceHTTPS then ''https://'' else []);
          hostPort = FindHostFwd (nc_HostFwds (NIC cfg)) (se_Port s) in
      if se_Protocol s = ServiceSPICE then ''spice://localhost:'' @ Itoa (se_Port s)
      else if nc_Mode (NIC cfg) = ''user'' \<and> hostPort > 0 then scheme @ ''localhost:'' @ Itoa hostPort
      else scheme @ ''localhost:<proxy>'' @ arrow @ ''guest:'' @ Itoa (se_Port s))"

subsection \<open>tunnel_daemon.go\<close>

record activeTunnel =
  at_spec :: TunnelSpec
  at_bind :: string
  at_port :: int
  at_guestPort :: int
  at_protocol :: string

datatype tunnel_reason = VMNotRunning | ServiceGone string string | PortUnassigned | ListenFailed

record Tunnels =
  tn_active :: "(string \<times> activeTunnel) list"
  tn_inactive :: "string \<rightharpoonup> tunnel_reason"

text \<open>\<open>te_listen addr port\<close> is the port a listener on \<open>addr:port\<close> gets, \<open>te_portFree\<close> the probe of
  \<open>isPortFree\<close>, and \<open>te_canWrite\<close> whether the registry file can be replaced.\<close>

record TunnelEnv =
  te_listen :: "string \<Rightarrow> int \<Rightarrow> int option"
  te_portFree :: "int \<Rightarrow> bool"
  te_canWrite :: bool

record wantEntry =
  we_spec :: TunnelSpec
  we_guestPort :: int
  we_protocol :: string

definition running_entries :: "World \<Rightarrow> (VMConfig \<times> VMState) list \<Rightarrow> (string \<times> VMConfig \<times> VMState) list" where
  "running_entries w entries =
     map (\<lambda>(cfg, st). (Name cfg, cfg, st)) (filter (\<lambda>(cfg, st). Running st \<and> isAlive w (PID st)) entries)"

definition want :: "(string \<times> VMConfig \<times> VMState) list \<Rightarrow> TunnelSpec \<Rightarrow> (tunnel_reason, wantEntry) result" where
  "want running spec =
     (case map_of (rev running) (ts_VM spec) of
        None \<Rightarrow> Inl VMNotRunning
      | Some (cfg, st) \<Rightarrow>
          (case List.find (\<lambda>s. se_Name s = ts_Service spec) (ResolvedServices cfg st) of
             None \<Rightarrow> Inl (ServiceGone (ts_VM spec) (ts_Service spec))
           | Some s \<Rightarrow>
               if se_Port s \<le> 0 then Inl PortUnassigned
               else Inr \<lparr>we_spec = spec, we_guestPort = se_Port s, we_protocol = se_Protocol s\<rparr>))"

definition keep_tunnel :: "(string \<rightharpoonup> wantEntry) \<Rightarrow> string \<times> activeTunnel \<Rightarrow> bool" where
  "keep_tunnel wanted kt =
     (case kt of
        (k, t) \<Rightarrow>
          (case wanted k of
             None \<Rightarrow> False
           | Some wa \<Rightarrow> BindAddr (we_spec wa) = BindAddr (at_spec t) \<and>
                          ts_Port (we_spec wa) = ts_Port (at_spec t) \<and> we_guestPort wa = at_guestPort t))"

definition tunnelPortMin :: int where "tunnelPortMin = 2300"

definition tunnelPortMax :: int where "tunnelPortMax = 2399"

definition start_tunnel :: "TunnelEnv \<Rightarrow> string \<times> wantEntry \<Rightarrow> Tunnels \<times> registry_file \<Rightarrow> Tunnels \<times> registry_file" where
  "start_tunnel env kw s =
     (case (kw, s) of
        ((k, wa), (tn, f)) \<Rightarrow>
          if k \<in> fst ` set (tn_active tn) then (tn, f)
          else let spec = we_spec wa;
                   port = (if ts_Port spec \<le> 0 then availablePort (te_portFree env) 0 tunnelPortMin tunnelPortMax
                           else ts_Port spec) in
               (case te_listen env (BindAddr spec) port of
                  None \<Rightarrow> (tn\<lparr>tn_inactive := (tn_inactive tn)(k \<mapsto> ListenFailed)\<rparr>, f)
                | Some p \<Rightarrow>
                    (tn\<lparr>tn_active := tn_active tn @
                         [(k, \<lparr>at_spec = spec, at_bind = BindAddr spec, at_port = p,
                               at_guestPort = we_guestPort wa, at_protocol = we_protocol wa\<rparr>)]\<rparr>,
                     if p \<noteq> ts_Port spec \<or> ts_Protocol spec \<noteq> we_protocol wa
                     then fst (Registry_Add (te_canWrite env) (spec\<lparr>ts_Port := p, ts_Protocol := we_protocol wa\<rparr>) f)
                     else f)))"

definition wanted_list :: "(string \<times> VMConfig \<times> VMState) list \<Rightarrow> TunnelSpec list \<Rightarrow> (string \<times> wantEntry) list" where
  "wanted_list running specs =
     List.map_filter (\<lambda>s. case want running s of Inl e \<Rightarrow> None | Inr wa \<Rightarrow> Some (Spec_Key s, wa)) specs"

definition reasons_list :: "(string \<times> VMConfig \<times> VMState) list \<Rightarrow> TunnelSpec list \<Rightarrow> (string \<times> tunnel_reason) list" where
  "reasons_list running specs =
     List.map_filter (\<lambda>s. case want running s of Inl e \<Rightarrow> Some (Spec_Key s, e) | Inr wa \<Rightarrow> None) specs"

text \<open>A pass on the specifications and the running VMs; later entries of a map win.\<close>

definition reconcile ::
  "TunnelEnv \<Rightarrow> (string \<times> VMConfig \<times> VMState) list \<Rightarrow> TunnelSpec list \<Rightarrow> Tunnels \<times> registry_file \<Rightarrow>
   Tunnels \<times> registry_file" where
  "reconcile env running specs s =
     (case s of
        (tn, f) \<Rightarrow>
          let wl = wanted_list running specs;
              tn1 = tn\<lparr>tn_inactive := map_of (rev (reasons_list running specs)),
                       tn_active := filter (keep_tunnel (map_of (rev wl))) (tn_active tn)\<rparr>
          in fold (start_tunnel env) (rev (AList.clearjunk (rev wl))) (tn1, f))"

definition reconcileTunnels :: "TunnelEnv \<Rightarrow> World \<Rightarrow> Tunnels \<times> registry_file \<Rightarrow> World \<times> Tunnels \<times> registry_file" where
  "reconcileTunnels env w s =
     (case registry_load (snd s) of
        Inl e \<Rightarrow> (w, s)
      | Inr specs \<Rightarrow>
          let (w1, entries) = List_vms w in (w1, reconcile env (running_entries w1 entries) specs s))"

definition stopAllTunnels :: "Tunnels \<Rightarrow> Tunnels" where
  "stopAllTunnels tn = tn\<lparr>tn_active := []\<rparr>"

record TunnelStatus =
  tst_VM :: string
  tst_Service :: string
  tst_Hostname :: string
  tst_Bind :: string
  tst_Port :: int
  tst_GuestPort :: int
  tst_Protocol :: string
  tst_Active :: bool
  tst_Reason :: "tunnel_reason option"

definition tunnel_status :: "Tunnels \<Rightarrow> TunnelSpec \<Rightarrow> TunnelStatus" where
  "tunnel_status tn spec =
     (let st = \<lparr>tst_VM = ts_VM spec, tst_Service = ts_Service spec, tst_Hostname = VHost spec,
                tst_Bind = BindAddr spec, tst_Port = ts_Port spec, tst_GuestPort = 0,
                tst_Protocol = ts_Protocol spec, tst_Active = False, tst_Reason = None\<rparr> in
      case map_of (tn_active tn) (Spec_Key spec) of
        Some t \<Rightarrow> st\<lparr>tst_Active := True, tst_Port := at_port t, tst_Bind := at_bind t,
                     tst_GuestPort := at_guestPort t, tst_Protocol := at_protocol t\<rparr>
      | None \<Rightarrow> st\<lparr>tst_Reason := tn_inactive tn (Spec_Key spec)\<rparr>)"

definition TunnelStatuses :: "Tunnels \<Rightarrow> registry_file \<Rightarrow> (registry_error, TunnelStatus list) result" where
  "TunnelStatuses tn f = bind_r (registry_load f) (\<lambda>specs. Inr (map (tunnel_status tn) specs))"

definition route_label :: "activeTunnel \<Rightarrow> string option" where
  "route_label t =
     (if at_protocol t \<noteq> ServiceHTTP \<and> at_protocol t \<noteq> ServiceHTTPS then None
      else let label = SanitizeHostname (VHost (at_spec t)) in if label = [] then None else Some label)"

definition add_route :: "activeTunnel \<Rightarrow> (string \<rightharpoonup> activeTunnel) \<Rightarrow> (string \<rightharpoonup> activeTunnel)" where
  "add_route t out =
     (case route_label t of
        None \<Rightarrow> out
      | Some label \<Rightarrow>
          (case out label of
             Some existing \<Rightarrow> if Spec_Key (at_spec existing) < Spec_Key (at_spec t) then out else out(label \<mapsto> t)
           | None \<Rightarrow> out(label \<mapsto> t)))"

definition activeRoutes :: "activeTunnel list \<Rightarrow> (string \<rightharpoonup> activeTunnel)" where
  "activeRoutes ts = fold add_route ts (\<lambda>_. None)"

subsection \<open>tunnel_router.go\<close>

text \<open>\<open>net.SplitHostPort\<close>, its host; \<^const>\<open>None\<close> for an address it rejects.\<close>

definition SplitHostPort_host :: "string \<Rightarrow> string option" where
  "SplitHostPort_host hp =
     (case LastCutC (CHR '':'') hp of
        None \<Rightarrow> None
      | Some (before, port) \<Rightarrow>
          if HasPrefix hp ''['' then
            (case CutC (CHR '']'') hp of
               None \<Rightarrow> None
             | Some (pre, post) \<Rightarrow>
                 if post = CHR '':'' # port \<and> CHR ''['' \<notin> set (tl hp) \<and> CHR '']'' \<notin> set post
                 then Some (tl pre) else None)
          else if CHR '':'' \<in> set before \<or> CHR ''['' \<in> set hp \<or> CHR '']'' \<in> set hp then None
          else Some before)"

definition first_label :: "string \<Rightarrow> string" where
  "first_label h = (case CutC (CHR ''.'') h of None \<Rightarrow> h | Some (a, b) \<Rightarrow> a)"

definition routerLabel :: "string \<Rightarrow> string" where
  "routerLabel host =
     (let h = (case SplitHostPort_host host of None \<Rightarrow> host | Some x \<Rightarrow> x)
      in SanitizeHostname (first_label (TrimF (\<lambda>c. c = CHR ''.'') (ToLower h))))"

definition routerHostSuffix :: "string option \<Rightarrow> string" where
  "routerHostSuffix h =
     (case h of None \<Rightarrow> ''local'' | Some s \<Rightarrow> if s = [] then ''local'' else ToLower (first_label s))"

definition tunnelTargetURL :: "activeTunnel \<Rightarrow> string" where
  "tunnelTargetURL t =
     (if at_protocol t = ServiceHTTPS then ''https'' else ''http'') @ ''://127.0.0.1:'' @ Itoa (at_port t)"

fun htmlEscape :: "string \<Rightarrow> string" where
  "htmlEscape [] = []"
| "htmlEscape (c # s) =
     (if c = CHR ''&'' then ''&amp;'' else if c = CHR ''<'' then ''&lt;'' else if c = CHR ''>'' then ''&gt;''
      else if c = CHR 0x22 then ''&quot;'' else if c = CHR 0x27 then ''&#39;'' else [c]) @ htmlEscape s"

definition route_item :: "string \<Rightarrow> string \<times> activeTunnel \<Rightarrow> string" where
  "route_item suffix lt =
     (case lt of
        (label, t) \<Rightarrow>
          (let host = label @ ''.'' @ suffix in
           ''<li><a href='' @ [CHR 0x22] @ ''http://'' @ htmlEscape host @ ''/'' @ [CHR 0x22] @ ''>'' @ htmlEscape host @
           ''</a> <code>&mdash; '' @ htmlEscape (ts_VM (at_spec t)) @ ''/'' @ htmlEscape (ts_Service (at_spec t)) @
           '' &rarr; guest:'' @ Itoa (at_guestPort t) @ ''</code></li>''))"

definition routes_list :: "activeTunnel list \<Rightarrow> (string \<times> activeTunnel) list" where
  "routes_list ts =
     (let labels = sort (remdups (List.map_filter route_label ts)) in
      List.map_filter (\<lambda>l. map_option (\<lambda>t. (l, t)) (activeRoutes ts l)) labels)"

definition writeRouterIndex :: "string \<Rightarrow> (string \<times> activeTunnel) list \<Rightarrow> string \<Rightarrow> int \<times> string" where
  "writeRouterIndex suffix routes requested =
     (if requested \<noteq> [] \<and> routes \<noteq> [] then 404 else 200,
      ''<!DOCTYPE html><html><head><meta charset='' @ [CHR 0x22] @ ''utf-8'' @ [CHR 0x22] @ ''><title>vee tunnels</title>'' @
      ''<style>body{font-family:system-ui,monospace;background:#0d0d0d;color:#e0e0e0;padding:2rem}'' @
      ''h1{color:#5af}a{color:#5af}li{margin:.3rem 0}code{color:#888}</style></head><body>'' @
      ''<h1>vee tunnels</h1>'' @
      (if routes = []
       then ''<p>No HTTP tunnels are published.</p>'' @
            ''<p><code>vee tunnel &lt;vm&gt; &lt;service&gt; --host --background</code></p>''
       else ''<ul>'' @ concat (map (route_item suffix) routes) @ ''</ul>'') @
      ''</body></html>'')"

datatype router_reply = RouterIndex "int \<times> string" | RouterProxy string

definition tunnelRouterHandler :: "string \<Rightarrow> activeTunnel list \<Rightarrow> string \<Rightarrow> router_reply" where
  "tunnelRouterHandler suffix ts host =
     (let label = routerLabel host in
      case activeRoutes ts label of
        None \<Rightarrow> RouterIndex (writeRouterIndex suffix (routes_list ts) label)
      | Some t \<Rightarrow> RouterProxy (tunnelTargetURL t))"

subsection \<open>sshproxy.go\<close>

definition setStateSSHPort :: "string \<Rightarrow> int \<Rightarrow> World \<Rightarrow> World" where
  "setStateSSHPort nm port w =
     (let st = loadState w nm in
      if st_SSHPort st = port then w else fst (saveState nm (st\<lparr>st_SSHPort := port\<rparr>) w))"

definition clearStateSSHPort :: "string \<Rightarrow> int \<Rightarrow> World \<Rightarrow> World" where
  "clearStateSSHPort nm port w =
     (let st = loadState w nm in
      if st_SSHPort st \<noteq> port then w else fst (saveState nm (st\<lparr>st_SSHPort := 0\<rparr>) w))"

definition wants_proxy :: "Host \<Rightarrow> World \<Rightarrow> VMConfig \<times> VMState \<Rightarrow> bool" where
  "wants_proxy h w e =
     (case e of (cfg, st) \<Rightarrow> Running st \<and> isAlive w (PID st) \<and> effectiveBridge h cfg \<and> SSHPort cfg > 0)"

fun stop_proxies :: "(string \<times> int) list \<Rightarrow> World \<Rightarrow> World" where
  "stop_proxies [] w = w"
| "stop_proxies ((nm, p) # ps) w = stop_proxies ps (clearStateSSHPort nm p w)"

fun start_proxies :: "TunnelEnv \<Rightarrow> VMConfig list \<Rightarrow> (string \<times> int) list \<times> World \<Rightarrow> (string \<times> int) list \<times> World" where
  "start_proxies env [] s = s"
| "start_proxies env (cfg # cfgs) (ps, w) =
     start_proxies env cfgs
       (if Name cfg \<in> fst ` set ps then (ps, w)
        else case te_listen env BindLoopback (availablePort (te_portFree env) (SSHPort cfg) 2200 2299) of
               None \<Rightarrow> (ps, w)
             | Some p \<Rightarrow> (ps @ [(Name cfg, p)], setStateSSHPort (Name cfg) p w))"

definition reconcileSSHProxies ::
  "TunnelEnv \<Rightarrow> Host \<Rightarrow> World \<times> (string \<times> int) list \<Rightarrow> World \<times> (string \<times> int) list" where
  "reconcileSSHProxies env h s =
     (let (w, ps) = s;
          (w1, entries) = List_vms w;
          wanted = map fst (filter (wants_proxy h w1) entries);
          keep = (\<lambda>(nm, p). nm \<in> Name ` set wanted);
          w2 = stop_proxies (filter (\<lambda>x. \<not> keep x) ps) w1;
          (ps2, w3) = start_proxies env wanted (filter keep ps, w2)
      in (w3, ps2))"

definition stopAllSSHProxies :: "World \<times> (string \<times> int) list \<Rightarrow> World \<times> (string \<times> int) list" where
  "stopAllSSHProxies s = (stop_proxies (snd s) (fst s), [])"

definition tunnelSSHEndpoint :: "World \<Rightarrow> (string \<times> int) list \<Rightarrow> string \<Rightarrow> string \<Rightarrow> string \<times> int" where
  "tunnelSSHEndpoint w proxies vmName ip =
     (case map_of proxies vmName of
        Some p \<Rightarrow> (BindLoopback, p)
      | None \<Rightarrow>
          if st_SSHPort (loadState w vmName) > 0 then (BindLoopback, st_SSHPort (loadState w vmName))
          else if ip \<noteq> [] then (ip, 22) else ([], 0))"

text \<open>One connection through a proxy.  \<open>ip\<close> is the resolved guest address, \<open>direct\<close> whether the
  direct dial works and \<open>fallback\<close>, when there is one, whether the SSH dial works; the result is the
  path the connection takes and the latch afterwards.\<close>

datatype dial_path = DialFailed | Direct | OverSSH

definition sticky :: "bool \<Rightarrow> bool option \<Rightarrow> bool" where
  "sticky useFallback fallback = (useFallback \<and> fallback \<noteq> None)"

definition forward :: "string option \<Rightarrow> bool \<Rightarrow> bool option \<Rightarrow> bool \<Rightarrow> dial_path \<times> bool" where
  "forward ip direct fallback useFallback =
     (case ip of
        None \<Rightarrow> (DialFailed, useFallback)
      | Some a \<Rightarrow>
          if sticky useFallback fallback
          then (if fallback = Some True then OverSSH else DialFailed, useFallback)
          else if direct then (Direct, useFallback)
          else (case fallback of
                  None \<Rightarrow> (DialFailed, useFallback)
                | Some ok \<Rightarrow> if ok then (OverSSH, True) else (DialFailed, useFallback)))"

text \<open>The shared SSH connections, numbered by the order in which they are opened.  \<open>raced\<close> is the
  connection another caller cached between the look-up and the insertion.\<close>

definition sshTunnelClient ::
  "(string \<rightharpoonup> nat) \<Rightarrow> string \<Rightarrow> nat option \<Rightarrow> nat option \<Rightarrow> (string \<rightharpoonup> nat) \<times> nat option" where
  "sshTunnelClient clients vmName dialled raced =
     (case clients vmName of
        Some c \<Rightarrow> (clients, Some c)
      | None \<Rightarrow>
          (case dialled of
             None \<Rightarrow> (clients, None)
           | Some cl \<Rightarrow>
               (case raced of
                  Some c \<Rightarrow> (clients(vmName \<mapsto> c), Some c)
                | None \<Rightarrow> (clients(vmName \<mapsto> cl), Some cl))))"

definition dropSSHTunnelClient :: "(string \<rightharpoonup> nat) \<Rightarrow> string \<Rightarrow> nat \<Rightarrow> (string \<rightharpoonup> nat)" where
  "dropSSHTunnelClient clients vmName cl =
     (if clients vmName = Some cl then clients(vmName := None) else clients)"

subsection \<open>The registry is a finite map\<close>

definition registry_ok :: "registry_file \<Rightarrow> bool" where
  "registry_ok f =
     (case f of NoFile \<Rightarrow> True | BadFile \<Rightarrow> False
      | Specs specs \<Rightarrow> distinct (map Spec_Key specs) \<and> sorted (map (\<lambda>t. (ts_VM t, ts_Service t)) specs))"

definition registry_find :: "registry_file \<Rightarrow> string \<Rightarrow> TunnelSpec option" where
  "registry_find f k =
     (case registry_load f of Inl e \<Rightarrow> None | Inr specs \<Rightarrow> List.find (\<lambda>s. Spec_Key s = k) specs)"

lemma mset_sortSpecs [simp]: "mset (sortSpecs specs) = mset specs"
  by (simp add: sortSpecs_def)

lemma set_sortSpecs [simp]: "set (sortSpecs specs) = set specs"
  by (simp add: sortSpecs_def)

lemma keys_sortSpecs [simp]: "distinct (map Spec_Key (sortSpecs specs)) = distinct (map Spec_Key specs)"
  by (rule mset_eq_imp_distinct_iff) (simp add: sortSpecs_def)

lemma sorted_sortSpecs: "sorted (map (\<lambda>t. (ts_VM t, ts_Service t)) (sortSpecs specs))"
  by (simp add: sortSpecs_def)

lemma find_key_sortSpecs [simp]:
  "distinct (map Spec_Key specs) \<Longrightarrow>
   List.find (\<lambda>s. Spec_Key s = k) (sortSpecs specs) = List.find (\<lambda>s. Spec_Key s = k) specs"
  by (rule find_key_cong) simp_all

lemma find_without_key:
  "List.find (\<lambda>s. Spec_Key s = k') (without_key k specs) =
     (if k' = k then None else List.find (\<lambda>s. Spec_Key s = k') specs)"
  by (induction specs) (auto simp: without_key_def)

lemma set_without_key [simp]: "set (without_key k specs) = {s \<in> set specs. Spec_Key s \<noteq> k}"
  by (auto simp: without_key_def)

lemma distinct_without_key: "distinct (map Spec_Key specs) \<Longrightarrow> distinct (map Spec_Key (without_key k specs))"
  by (simp add: without_key_def distinct_map_filter)

lemma registry_load_ok:
  "registry_ok f \<Longrightarrow> \<exists>specs. registry_load f = Inr specs \<and> distinct (map Spec_Key specs)"
  by (auto simp: registry_ok_def registry_load_def split: registry_file.splits)

lemma registry_save_ok:
  assumes "distinct (map Spec_Key specs)"
  shows "registry_ok (fst (registry_save True specs f))"
    and "registry_find (fst (registry_save True specs f)) k = List.find (\<lambda>s. Spec_Key s = k) specs"
  using assms
  by (simp_all add: registry_save_def registry_ok_def registry_find_def registry_load_def sorted_sortSpecs)

lemma distinct_readd:
  "distinct (map Spec_Key specs) \<Longrightarrow> distinct (map Spec_Key (without_key (Spec_Key v) specs @ [v]))"
  by (auto simp: distinct_without_key)

lemma Registry_Add_ok:
  assumes "registry_ok f"
  shows "registry_ok (fst (Registry_Add True v f))"
    and "registry_find (fst (Registry_Add True v f)) = (registry_find f)(Spec_Key v \<mapsto> v)"
proof -
  obtain specs where specs: "registry_load f = Inr specs" "distinct (map Spec_Key specs)"
    using registry_load_ok [OF assms] by blast
  have add: "Registry_Add True v f = registry_save True (without_key (Spec_Key v) specs @ [v]) f"
    by (simp add: Registry_Add_def specs)
  show "registry_ok (fst (Registry_Add True v f))"
    unfolding add by (rule registry_save_ok) (rule distinct_readd [OF specs(2)])
  show "registry_find (fst (Registry_Add True v f)) = (registry_find f)(Spec_Key v \<mapsto> v)"
    unfolding add
    by (rule ext, subst registry_save_ok(2) [OF distinct_readd [OF specs(2)]])
      (simp add: find_append find_without_key registry_find_def specs split: option.split)
qed

lemma Registry_RemoveKey_ok:
  assumes "registry_ok f"
  shows "registry_ok (fst (Registry_RemoveKey True k f))"
    and "registry_find (fst (Registry_RemoveKey True k f)) = (registry_find f)(k := None)"
proof -
  obtain specs where specs: "registry_load f = Inr specs" "distinct (map Spec_Key specs)"
    using registry_load_ok [OF assms] by blast
  have del: "fst (Registry_RemoveKey True k f) =
      (if list_ex (\<lambda>s. Spec_Key s = k) specs then fst (registry_save True (without_key k specs) f) else f)"
    by (simp add: Registry_RemoveKey_def specs split: prod.split)
  show "registry_ok (fst (Registry_RemoveKey True k f))"
    unfolding del using assms registry_save_ok(1) [OF distinct_without_key [OF specs(2)]] by simp
  have none: "List.find (\<lambda>s. Spec_Key s = k) specs = None" if "\<not> list_ex (\<lambda>s. Spec_Key s = k) specs"
    using that by (simp add: find_None_iff list_ex_iff)
  show "registry_find (fst (Registry_RemoveKey True k f)) = (registry_find f)(k := None)"
    unfolding del using none registry_save_ok(2) [OF distinct_without_key [OF specs(2)]]
    by (auto simp: fun_eq_iff find_without_key registry_find_def specs)
qed

lemma RemoveVM_ok:
  assumes "registry_ok f"
  shows "registry_ok (fst (RemoveVM True nm f))"
    and "registry_find (fst (RemoveVM True nm f)) k =
      (case registry_find f k of None \<Rightarrow> None | Some s \<Rightarrow> if ts_VM s \<noteq> nm then Some s else None)"
proof -
  obtain specs where specs: "registry_load f = Inr specs" "distinct (map Spec_Key specs)"
    using registry_load_ok [OF assms] by blast
  define out where "out = filter (\<lambda>s. ts_VM s \<noteq> nm) specs"
  have keys: "distinct (map Spec_Key out)" using specs(2) by (simp add: out_def distinct_map_filter)
  have rm: "fst (RemoveVM True nm f) = (if length out = length specs then f else fst (registry_save True out f))"
    by (simp add: RemoveVM_def specs out_def Let_def)
  have same: "out = specs" if "length out = length specs"
    using that by (metis filter_id_conv length_filter_less less_irrefl out_def)
  show "registry_ok (fst (RemoveVM True nm f))"
    using assms registry_save_ok(1) [OF keys] by (simp add: rm)
  show "registry_find (fst (RemoveVM True nm f)) k =
      (case registry_find f k of None \<Rightarrow> None | Some s \<Rightarrow> if ts_VM s \<noteq> nm then Some s else None)"
  proof (cases "length out = length specs")
    case True
    have "registry_find f k = List.find (\<lambda>s. Spec_Key s = k) out"
      using same [OF True] by (simp add: registry_find_def specs)
    then show ?thesis
      using True find_filter_key [OF specs(2), of k "\<lambda>s. ts_VM s \<noteq> nm"] by (simp add: rm registry_find_def specs out_def)
  next
    case False
    then show ?thesis
      using registry_save_ok(2) [OF keys] find_filter_key [OF specs(2), of k "\<lambda>s. ts_VM s \<noteq> nm"]
      by (simp add: rm registry_find_def specs out_def)
  qed
qed

interpretation registry: keyed_table registry_ok "\<lambda>_. True" Spec_Key registry_find
  "\<lambda>f v. fst (Registry_Add True v f)" "\<lambda>f k. fst (Registry_RemoveKey True k f)"
  by unfold_locales (simp_all add: Registry_Add_ok Registry_RemoveKey_ok)

subsection \<open>A pass of the reconciliation\<close>

definition tunnel_ok :: "string \<times> activeTunnel \<Rightarrow> bool" where
  "tunnel_ok kt = (fst kt = Spec_Key (at_spec (snd kt)) \<and> at_bind (snd kt) = BindAddr (at_spec (snd kt)))"

definition tunnels_ok :: "Tunnels \<Rightarrow> bool" where
  "tunnels_ok tn = (distinct (map fst (tn_active tn)) \<and> list_all tunnel_ok (tn_active tn))"

text \<open>A listener serves a specification: it is bound where the specification says, on the port the
  specification records if it records one, and leads to the port the VM declares.\<close>

definition serves :: "wantEntry \<Rightarrow> activeTunnel \<Rightarrow> bool" where
  "serves wa t = (at_bind t = BindAddr (we_spec wa) \<and> at_guestPort t = we_guestPort wa)"

lemma want_spec: "want running spec = Inr wa \<Longrightarrow> we_spec wa = spec"
  by (auto simp: want_def split: option.splits if_splits)

lemma result_opt:
  "(case r of Inl e \<Rightarrow> None | Inr wa \<Rightarrow> Some (k', wa)) = Some (k, x) \<longleftrightarrow> k = k' \<and> r = Inr x"
  "(case r of Inl e \<Rightarrow> Some (k', e) | Inr wa \<Rightarrow> None) = Some (k, y) \<longleftrightarrow> k = k' \<and> r = Inl y"
  by (cases r; auto)+

lemma set_wanted_list:
  "(k, wa) \<in> set (wanted_list running specs) \<longleftrightarrow>
     (\<exists>s \<in> set specs. k = Spec_Key s \<and> want running s = Inr wa)"
  by (simp add: wanted_list_def set_map_filter result_opt)

lemma set_reasons_list:
  "(k, e) \<in> set (reasons_list running specs) \<longleftrightarrow>
     (\<exists>s \<in> set specs. k = Spec_Key s \<and> want running s = Inl e)"
  by (simp add: reasons_list_def set_map_filter result_opt)

lemma distinct_wanted_list:
  "distinct (map Spec_Key specs) \<Longrightarrow> distinct (map fst (wanted_list running specs))"
  unfolding wanted_list_def by (rule distinct_map_filter_keys) (auto split: sum.splits)

lemma distinct_reasons_list:
  "distinct (map Spec_Key specs) \<Longrightarrow> distinct (map fst (reasons_list running specs))"
  unfolding reasons_list_def by (rule distinct_map_filter_keys) (auto split: sum.splits)

text \<open>One start, as a step of the fold.\<close>

lemma start_tunnel_cases:
  obtains (kept) "k \<in> fst ` set (tn_active tn)" "start_tunnel env (k, wa) (tn, f) = (tn, f)"
  | (failed) "k \<notin> fst ` set (tn_active tn)"
      "start_tunnel env (k, wa) (tn, f) = (tn\<lparr>tn_inactive := (tn_inactive tn)(k \<mapsto> ListenFailed)\<rparr>, f)"
  | (started) p f' where "k \<notin> fst ` set (tn_active tn)"
      "start_tunnel env (k, wa) (tn, f) =
        (tn\<lparr>tn_active := tn_active tn @
          [(k, \<lparr>at_spec = we_spec wa, at_bind = BindAddr (we_spec wa), at_port = p,
                at_guestPort = we_guestPort wa, at_protocol = we_protocol wa\<rparr>)]\<rparr>, f')"
proof (cases "k \<in> fst ` set (tn_active tn)")
  case True
  then show ?thesis using kept by (simp add: start_tunnel_def)
next
  case False
  define port where "port = (if ts_Port (we_spec wa) \<le> 0
    then availablePort (te_portFree env) 0 tunnelPortMin tunnelPortMax else ts_Port (we_spec wa))"
  show ?thesis
  proof (cases "te_listen env (BindAddr (we_spec wa)) port")
    case None
    then show ?thesis using failed False by (simp add: start_tunnel_def port_def Let_def)
  next
    case (Some p)
    then show ?thesis using started False by (simp add: start_tunnel_def port_def Let_def)
  qed
qed

text \<open>What the starts of \<open>wl\<close> keep and what they reach, from the tunnels \<open>tn\<close>.\<close>

definition explained :: "Tunnels \<Rightarrow> string \<Rightarrow> bool" where
  "explained tn k = (k \<in> fst ` set (tn_active tn) \<or> tn_inactive tn k \<noteq> None)"

lemma start_tunnel_step:
  assumes "start_tunnel env (k, wa) (tn, f) = (tn', f')" and "k = Spec_Key (we_spec wa)" and "tunnels_ok tn"
  shows "tunnels_ok tn'" "set (tn_active tn) \<subseteq> set (tn_active tn')" "explained tn' k"
    "explained tn k' \<Longrightarrow> explained tn' k'"
    "(k', t) \<in> set (tn_active tn') \<Longrightarrow> (k', t) \<in> set (tn_active tn) \<or> k' = k \<and> serves wa t"
    "k' \<noteq> k \<Longrightarrow> tn_inactive tn' k' = tn_inactive tn k'"
  using assms
  by (cases rule: start_tunnel_cases [of k tn env wa f];
      auto simp: tunnels_ok_def tunnel_ok_def explained_def serves_def)+

lemma start_fold:
  assumes "fold (start_tunnel env) wl (tn, f) = (tn', f')"
    and "\<And>k wa. (k, wa) \<in> set wl \<Longrightarrow> k = Spec_Key (we_spec wa)" and "tunnels_ok tn"
  shows "tunnels_ok tn' \<and> set (tn_active tn) \<subseteq> set (tn_active tn') \<and>
    (\<forall>k. explained tn k \<or> k \<in> fst ` set wl \<longrightarrow> explained tn' k) \<and>
    (\<forall>k t. (k, t) \<in> set (tn_active tn') \<longrightarrow>
       (k, t) \<in> set (tn_active tn) \<or> (\<exists>wa. (k, wa) \<in> set wl \<and> serves wa t)) \<and>
    (\<forall>k. k \<notin> fst ` set wl \<longrightarrow> tn_inactive tn' k = tn_inactive tn k)"
  using assms
proof (induction wl arbitrary: tn f)
  case (Cons kw wl)
  obtain k wa where kw: "kw = (k, wa)" by (cases kw)
  obtain tn1 f1 where step: "start_tunnel env (k, wa) (tn, f) = (tn1, f1)" by (cases "start_tunnel env (k, wa) (tn, f)")
  have key: "k = Spec_Key (we_spec wa)" using Cons.prems(2) kw by simp
  note one = start_tunnel_step [OF step key Cons.prems(3)]
  have rest: "fold (start_tunnel env) wl (tn1, f1) = (tn', f')" using Cons.prems(1) kw step by simp
  note ih = Cons.IH [OF rest Cons.prems(2) one(1)]
  show ?case
  proof (intro conjI)
    show "tunnels_ok tn'" using ih kw by simp
    show "set (tn_active tn) \<subseteq> set (tn_active tn')" using ih one(2) kw by auto
    show "\<forall>k. explained tn k \<or> k \<in> fst ` set (kw # wl) \<longrightarrow> explained tn' k"
      using ih one(3,4) kw by auto
    show "\<forall>k t. (k, t) \<in> set (tn_active tn') \<longrightarrow>
       (k, t) \<in> set (tn_active tn) \<or> (\<exists>wa. (k, wa) \<in> set (kw # wl) \<and> serves wa t)"
      using ih one(5) kw by (metis list.set_intros(1,2) )
    show "\<forall>k. k \<notin> fst ` set (kw # wl) \<longrightarrow> tn_inactive tn' k = tn_inactive tn k"
      using ih one(6) kw by simp
  qed
qed simp


text \<open>The pass as a whole.\<close>

lemma reconcile_eq:
  assumes "distinct (map Spec_Key specs)"
  shows "reconcile env running specs (tn, f) =
    fold (start_tunnel env) (wanted_list running specs)
      (tn\<lparr>tn_inactive := map_of (reasons_list running specs),
          tn_active := filter (keep_tunnel (map_of (wanted_list running specs))) (tn_active tn)\<rparr>, f)"
  using assms
  by (simp add: reconcile_def Let_def map_of_rev distinct_wanted_list distinct_reasons_list
      distinct_clearjunk_id rev_map [symmetric])

lemma wanted_at:
  assumes "distinct (map Spec_Key specs)"
  shows "map_of (wanted_list running specs) k = Some wa \<longleftrightarrow> (\<exists>s \<in> set specs. k = Spec_Key s \<and> want running s = Inr wa)"
    and "map_of (reasons_list running specs) k = Some e \<longleftrightarrow> (\<exists>s \<in> set specs. k = Spec_Key s \<and> want running s = Inl e)"
  using assms
  by (simp_all add: map_of_eq_Some_iff distinct_wanted_list distinct_reasons_list set_wanted_list set_reasons_list)

lemma kept_serves:
  assumes "tunnel_ok (k, t)" and "keep_tunnel wanted (k, t)"
  obtains wa where "wanted k = Some wa" "serves wa t"
  using assms by (auto simp: keep_tunnel_def serves_def tunnel_ok_def split: option.splits)

lemma reconcile_result:
  assumes distinct: "distinct (map Spec_Key specs)" and ok: "tunnels_ok tn"
    and run: "reconcile env running specs (tn, f) = (tn', f')"
  shows "tunnels_ok tn'"
    and "(k, t) \<in> set (tn_active tn') \<Longrightarrow>
      \<exists>s \<in> set specs. \<exists>wa. k = Spec_Key s \<and> want running s = Inr wa \<and> serves wa t"
    and "s \<in> set specs \<Longrightarrow> explained tn' (Spec_Key s)"
    and "s \<in> set specs \<Longrightarrow> want running s = Inl e \<Longrightarrow>
      Spec_Key s \<notin> fst ` set (tn_active tn') \<and> tn_inactive tn' (Spec_Key s) = Some e"
    and "keep_tunnel (map_of (wanted_list running specs)) kt \<Longrightarrow> kt \<in> set (tn_active tn) \<Longrightarrow> kt \<in> set (tn_active tn')"
proof -
  define wl where "wl = wanted_list running specs"
  define tn1 where "tn1 = tn\<lparr>tn_inactive := map_of (reasons_list running specs),
          tn_active := filter (keep_tunnel (map_of wl)) (tn_active tn)\<rparr>"
  have fold: "fold (start_tunnel env) wl (tn1, f) = (tn', f')"
    using run by (simp add: reconcile_eq [OF distinct] wl_def tn1_def)
  have keys: "k = Spec_Key (we_spec wa)" if "(k, wa) \<in> set wl" for k wa
    using that by (auto simp: wl_def set_wanted_list dest: want_spec)
  have ok1: "tunnels_ok tn1"
    using ok by (auto simp: tunnels_ok_def tn1_def distinct_map_filter list_all_iff)
  note all = start_fold [OF fold keys ok1]
  show "tunnels_ok tn'" using all by simp
  show served: "\<exists>s \<in> set specs. \<exists>wa. k = Spec_Key s \<and> want running s = Inr wa \<and> serves wa t"
    if "(k, t) \<in> set (tn_active tn')" for k t
  proof -
    consider "(k, t) \<in> set (tn_active tn1)" | wa where "(k, wa) \<in> set wl" "serves wa t" using all \<open>(k, t) \<in> set (tn_active tn')\<close> by blast
    then show ?thesis
    proof cases
      case 1
      then have "tunnel_ok (k, t)" "keep_tunnel (map_of wl) (k, t)"
        using ok1 by (auto simp: tunnels_ok_def tn1_def list_all_iff)
      then obtain wa where "map_of wl k = Some wa" "serves wa t" by (rule kept_serves)
      then show ?thesis using wanted_at(1) [OF distinct] by (auto simp: wl_def)
    next
      case 2
      then show ?thesis by (auto simp: wl_def set_wanted_list)
    qed
  qed
  show "explained tn' (Spec_Key s)" if "s \<in> set specs" for s
  proof (cases "want running s")
    case (Inl e)
    then have "explained tn1 (Spec_Key s)"
      using wanted_at(2) [OF distinct, of running "Spec_Key s" e] that by (auto simp: explained_def tn1_def)
    then show ?thesis using all by blast
  next
    case (Inr wa)
    then have "(Spec_Key s, wa) \<in> set wl" using that by (auto simp: wl_def set_wanted_list)
    then have "Spec_Key s \<in> fst ` set wl" by force
    then show ?thesis using all by blast
  qed
  have unique: "s = s'" if "s \<in> set specs" "s' \<in> set specs" "Spec_Key s = Spec_Key s'" for s s'
    using that distinct by (meson distinct_map inj_onD)
  show "Spec_Key s \<notin> fst ` set (tn_active tn') \<and> tn_inactive tn' (Spec_Key s) = Some e"
    if "s \<in> set specs" "want running s = Inl e"
  proof
    show "Spec_Key s \<notin> fst ` set (tn_active tn')"
    proof
      assume "Spec_Key s \<in> fst ` set (tn_active tn')"
      then obtain t where "(Spec_Key s, t) \<in> set (tn_active tn')" by force
      from served [OF this] obtain s' wa where s': "s' \<in> set specs" "Spec_Key s = Spec_Key s'" "want running s' = Inr wa"
        by blast
      from unique [OF that(1) s'(1,2)] s'(3) that(2) show False by simp
    qed
    have "Spec_Key s \<notin> fst ` set wl"
    proof
      assume "Spec_Key s \<in> fst ` set wl"
      then obtain s' wa where s': "s' \<in> set specs" "Spec_Key s = Spec_Key s'" "want running s' = Inr wa"
        by (auto simp: wl_def set_wanted_list)
      from unique [OF that(1) s'(1,2)] s'(3) that(2) show False by simp
    qed
    then show "tn_inactive tn' (Spec_Key s) = Some e"
      using all wanted_at(2) [OF distinct, of running "Spec_Key s" e] that by (auto simp: tn1_def)
  qed
  show "kt \<in> set (tn_active tn')" if "keep_tunnel (map_of (wanted_list running specs)) kt" "kt \<in> set (tn_active tn)"
    using all that by (auto simp: tn1_def wl_def)
qed

lemma want_Inr:
  assumes "want (running_entries w entries) s = Inr wa"
  shows "\<exists>cfg st svc. (cfg, st) \<in> set entries \<and> Name cfg = ts_VM s \<and> Running st \<and> isAlive w (PID st) \<and>
    svc \<in> set (ResolvedServices cfg st) \<and> se_Name svc = ts_Service s \<and> se_Port svc = we_guestPort wa \<and>
    0 < we_guestPort wa"
proof -
  define running where "running = running_entries w entries"
  obtain cfg st svc where at: "map_of (rev running) (ts_VM s) = Some (cfg, st)"
    and find: "List.find (\<lambda>x. se_Name x = ts_Service s) (ResolvedServices cfg st) = Some svc"
    and port: "\<not> se_Port svc \<le> 0" "we_guestPort wa = se_Port svc"
    using assms by (auto simp: want_def running_def [symmetric] split: option.splits if_splits)
  have "(ts_VM s, cfg, st) \<in> set running" using map_of_SomeD [OF at] by simp
  then have "(cfg, st) \<in> set entries" "Name cfg = ts_VM s" "Running st" "isAlive w (PID st)"
    by (auto simp: running_def running_entries_def)
  moreover have "svc \<in> set (ResolvedServices cfg st)" "se_Name svc = ts_Service s"
    using find by (auto simp: find_Some_iff)
  ultimately show ?thesis using port by fastforce
qed

lemma registry_find_load:
  assumes "registry_load f = Inr specs" and "distinct (map Spec_Key specs)"
  shows "registry_find f k = Some s \<longleftrightarrow> s \<in> set specs \<and> Spec_Key s = k"
  using assms by (simp add: registry_find_def find_key_iff)

text \<open>The fields the daemon records in the registry do not change what is wanted.\<close>

lemma want_recorded:
  "want running s = Inr wa \<Longrightarrow>
   want running (s\<lparr>ts_Port := p, ts_Protocol := q\<rparr>) = Inr (wa\<lparr>we_spec := s\<lparr>ts_Port := p, ts_Protocol := q\<rparr>\<rparr>)"
  by (auto simp: want_def split: option.splits if_splits)

lemma Spec_Key_recorded [simp]: "Spec_Key (s\<lparr>ts_Port := p, ts_Protocol := q\<rparr>) = Spec_Key s"
  by (simp add: Spec_Key_def)

subsection \<open>The routes\<close>

lemma activeRoutes_snoc: "activeRoutes (ts @ [t]) = add_route t (activeRoutes ts)"
  by (simp add: activeRoutes_def)

lemma add_route_other: "route_label t \<noteq> Some l \<Longrightarrow> add_route t out l = out l"
  by (auto simp: add_route_def split: option.splits)

lemma add_route_same:
  "route_label t = Some l \<Longrightarrow>
   add_route t out l =
     (case out l of
        Some u \<Rightarrow> if Spec_Key (at_spec u) < Spec_Key (at_spec t) then Some u else Some t
      | None \<Rightarrow> Some t)"
  by (auto simp: add_route_def split: option.splits)

definition wins :: "activeTunnel list \<Rightarrow> string \<Rightarrow> activeTunnel \<Rightarrow> bool" where
  "wins ts l t \<longleftrightarrow> t \<in> set ts \<and> route_label t = Some l \<and>
     (\<forall>u \<in> set ts. route_label u = Some l \<longrightarrow> Spec_Key (at_spec t) \<le> Spec_Key (at_spec u))"

lemma wins_unique:
  assumes "distinct (map (\<lambda>t. Spec_Key (at_spec t)) ts)" and "wins ts l t" and "wins ts l u"
  shows "t = u"
proof -
  have "Spec_Key (at_spec t) = Spec_Key (at_spec u)" using assms(2,3) by (simp add: wins_def order_antisym)
  then show ?thesis using assms by (simp add: wins_def distinct_map inj_on_def)
qed

lemma activeRoutes_cases:
  "case activeRoutes ts l of None \<Rightarrow> \<forall>t \<in> set ts. route_label t \<noteq> Some l | Some t \<Rightarrow> wins ts l t"
proof (induction ts rule: rev_induct)
  case Nil
  then show ?case by (simp add: activeRoutes_def)
next
  case (snoc t ts)
  show ?case
  proof (cases "route_label t = Some l")
    case True
    show ?thesis
    proof (cases "activeRoutes ts l")
      case None
      then show ?thesis using snoc True
        by (auto simp: activeRoutes_snoc add_route_same wins_def)
    next
      case (Some u)
      then have u: "wins ts l u" using snoc by simp
      show ?thesis
      proof (cases "Spec_Key (at_spec u) < Spec_Key (at_spec t)")
        case True
        with u Some \<open>route_label t = Some l\<close> show ?thesis
          by (auto simp: activeRoutes_snoc add_route_same wins_def intro: less_imp_le)
      next
        case False
        then have "Spec_Key (at_spec t) \<le> Spec_Key (at_spec u)" by simp
        with u Some False \<open>route_label t = Some l\<close> show ?thesis
          by (auto simp: activeRoutes_snoc add_route_same wins_def intro: order_trans)
      qed
    qed
  next
    case False
    then show ?thesis using snoc
      by (auto simp: activeRoutes_snoc add_route_other wins_def split: option.splits)
  qed
qed

lemma activeRoutes_iff:
  assumes "distinct (map (\<lambda>t. Spec_Key (at_spec t)) ts)"
  shows "activeRoutes ts l = Some t \<longleftrightarrow> wins ts l t"
proof
  show "wins ts l t" if "activeRoutes ts l = Some t" using activeRoutes_cases [of ts l] that by simp
  show "activeRoutes ts l = Some t" if "wins ts l t"
  proof (cases "activeRoutes ts l")
    case None
    then show ?thesis using activeRoutes_cases [of ts l] that by (auto simp: wins_def)
  next
    case (Some u)
    then show ?thesis using activeRoutes_cases [of ts l] wins_unique [OF assms that] by simp
  qed
qed

subsection \<open>Host names\<close>

definition label_char :: "char \<Rightarrow> bool" where
  "label_char c \<longleftrightarrow> CHR ''a'' \<le> c \<and> c \<le> CHR ''z'' \<or> CHR ''0'' \<le> c \<and> c \<le> CHR ''9'' \<or> c = CHR ''-''"

definition dns_label :: "string \<Rightarrow> bool" where
  "dns_label l \<longleftrightarrow> list_all label_char l \<and> (l \<noteq> [] \<longrightarrow> hd l \<noteq> CHR ''-'' \<and> last l \<noteq> CHR ''-'')"

lemma sanitize_char_label: "sanitize_char r = Some c \<Longrightarrow> label_char c"
  by (auto simp: sanitize_char_def label_char_def split: if_splits)

lemma dns_label_Sanitize: "dns_label (SanitizeHostname s)"
proof -
  have "label_char c" if "c \<in> set (SanitizeHostname s)" for c
    using set_TrimF [OF that [unfolded SanitizeHostname_def]]
    by (auto simp: set_map_filter intro: sanitize_char_label)
  moreover have "hd (SanitizeHostname s) \<noteq> CHR ''-'' \<and> last (SanitizeHostname s) \<noteq> CHR ''-''"
    if "SanitizeHostname s \<noteq> []"
    using TrimF_ends [OF that [unfolded SanitizeHostname_def]] by (simp add: SanitizeHostname_def)
  ultimately show ?thesis by (simp add: dns_label_def list_all_iff)
qed

lemma label_char_fixed: "label_char c \<Longrightarrow> lower_char c = c" "label_char c \<Longrightarrow> sanitize_char c = Some c"
  by (auto simp: label_char_def lower_char_def sanitize_char_def less_eq_char_def)

lemma label_char_neq: "label_char c \<Longrightarrow> c \<notin> {CHR ''.'', CHR '':'', CHR ''['', CHR '']''}"
  by (auto simp: label_char_def less_eq_char_def)

lemma Sanitize_id:
  assumes "dns_label l"
  shows "SanitizeHostname l = l"
proof -
  have l: "list_all label_char l" using assms by (simp add: dns_label_def)
  have "ToLower l = l" using l by (induction l) (auto simp: ToLower_def label_char_fixed)
  moreover have "List.map_filter sanitize_char l = l"
    using l by (induction l) (auto simp: List.map_filter_simps label_char_fixed)
  moreover have "TrimF (\<lambda>c. c = CHR ''-'') l = l"
    using assms TrimF_label [of l "\<lambda>c. c = CHR ''-''" "[]"]
    by (cases "l = []") (auto simp: dns_label_def TrimF_def TrimRightF_def)
  ultimately show ?thesis by (simp add: SanitizeHostname_def)
qed

lemma first_label_append:
  assumes "CHR ''.'' \<notin> set l" and "r = [] \<or> hd r = CHR ''.''"
  shows "first_label (l @ r) = l"
  using assms by (induction l) (cases r; auto simp: first_label_def split: option.splits)+

text \<open>A published name, with or without a port, leads back to its label.\<close>

definition plain_host :: "string \<Rightarrow> bool" where
  "plain_host h \<longleftrightarrow> CHR '':'' \<notin> set h \<and> CHR ''['' \<notin> set h \<and> CHR '']'' \<notin> set h"

lemma SplitHostPort_plain:
  assumes "plain_host h"
  shows "SplitHostPort_host h = None" and "plain_host p \<Longrightarrow> SplitHostPort_host (h @ CHR '':'' # p) = Some h"
proof -
  show "SplitHostPort_host h = None"
    using assms by (simp add: SplitHostPort_host_def LastCutC_def plain_host_def CutC_none)
  assume p: "plain_host p"
  then have cut: "LastCutC (CHR '':'') (h @ CHR '':'' # p) = Some (h, p)"
    using LastCutC_append [of "CHR '':''" p h] by (simp add: plain_host_def)
  have "\<not> HasPrefix (h @ CHR '':'' # p) ''[''"
    using assms by (cases h) (auto simp: plain_host_def)
  then show "SplitHostPort_host (h @ CHR '':'' # p) = Some h"
    using assms p by (auto simp: SplitHostPort_host_def cut plain_host_def)
qed

lemma routerLabel_published:
  assumes l: "dns_label l" "l \<noteq> []" and h: "plain_host suffix"
    and port: "port = [] \<or> (\<exists>p. port = CHR '':'' # p \<and> plain_host p)"
  shows "routerLabel (l @ ''.'' @ suffix @ port) = l"
proof -
  have lab: "label_char c" if "c \<in> set l" for c using l(1) that by (auto simp: dns_label_def list_all_iff)
  have host: "plain_host (l @ ''.'' @ suffix)"
    using h lab label_char_neq by (auto simp: plain_host_def) 
  have split: "(case SplitHostPort_host (l @ ''.'' @ suffix @ port) of None \<Rightarrow> l @ ''.'' @ suffix @ port | Some x \<Rightarrow> x) =
      l @ ''.'' @ suffix"
    using port SplitHostPort_plain [OF host] by auto
  have low: "ToLower (l @ ''.'' @ suffix) = l @ ''.'' @ ToLower suffix"
  proof -
    have "map lower_char l = l" using lab label_char_fixed(1) by (intro map_idI) blast
    then show ?thesis by (simp add: ToLower_def lower_char_def)
  qed
  have dot: "CHR ''.'' \<notin> set l" using lab label_char_neq by blast
  have "TrimF (\<lambda>c. c = CHR ''.'') (l @ ''.'' @ ToLower suffix) =
      l @ TrimRightF (\<lambda>c. c = CHR ''.'') (''.'' @ ToLower suffix)"
    using dot l(2) hd_in_set [OF l(2)] last_in_set [OF l(2)] by (intro TrimF_label) metis+
  moreover have "TrimRightF (\<lambda>c. c = CHR ''.'') (''.'' @ x) = [] \<or>
      hd (TrimRightF (\<lambda>c. c = CHR ''.'') (''.'' @ x)) = CHR ''.''" for x
    using TrimRightF_hd by fastforce
  ultimately show ?thesis
    using first_label_append [OF dot] Sanitize_id [OF l(1)]
    unfolding routerLabel_def Let_def split low by simp
qed

subsection \<open>Properties\<close>

text \<open>C27: the tunnel registry is a finite map: any sequence of \<open>Add\<close> and \<open>Remove\<close> on a well-formed
  registry file leaves a well-formed file (sorted by VM and service, one entry per key), and looking a
  tunnel up in it gives what the same updates give on a map from keys to specifications.\<close>

theorem registry_refines:
  assumes "registry_ok f"
  shows "let f' = foldl (table_step (\<lambda>f v. fst (Registry_Add True v f)) (\<lambda>f k. fst (Registry_RemoveKey True k f))) f ops
    in registry_ok f' \<and> registry_find f' = foldl (map_op Spec_Key) (registry_find f) ops"
proof -
  have "list_all (op_valid (\<lambda>_. True)) ops" by (simp add: list_all_iff) (metis op_valid.elims)
  then show ?thesis using registry.wf_run [OF assms] registry.lookup_run [OF assms] by (simp add: Let_def)
qed

text \<open>C9: after a pass of the daemon every background listener belongs to a registered tunnel, is bound
  to the address its specification asks for (loopback unless published), and leads to a port that a
  service of that name declares in a VM that is running and alive; no tunnel is open for a stopped VM.
  Every registered tunnel is open or has a recorded reason, and the listeners stay well-formed.\<close>

theorem reconcileTunnels_correct:
  assumes "registry_ok f" and "tunnels_ok tn" and "reconcileTunnels env w (tn, f) = (w', tn', f')"
  shows "tunnels_ok tn' \<and>
    (\<forall>k t. (k, t) \<in> set (tn_active tn') \<longrightarrow>
      (\<exists>s cfg st svc. registry_find f k = Some s \<and> at_bind t = BindAddr s \<and>
        (cfg, st) \<in> set (snd (List_vms w)) \<and> Name cfg = ts_VM s \<and> Running st \<and> isAlive w' (PID st) \<and>
        svc \<in> set (ResolvedServices cfg st) \<and> se_Name svc = ts_Service s \<and>
        se_Port svc = at_guestPort t \<and> 0 < at_guestPort t)) \<and>
    (\<forall>k s. registry_find f k = Some s \<longrightarrow> k \<in> fst ` set (tn_active tn') \<or> tn_inactive tn' k \<noteq> None)"
proof (intro conjI allI impI)
  obtain specs where specs: "registry_load f = Inr specs" "distinct (map Spec_Key specs)"
    using registry_load_ok [OF assms(1)] by blast
  define entries where "entries = snd (List_vms w)"
  have lw: "List_vms w = (w', entries)"
    and run: "reconcile env (running_entries w' entries) specs (tn, f) = (tn', f')"
    using assms(3) by (auto simp: reconcileTunnels_def specs entries_def split: prod.splits)
  note result = reconcile_result [OF specs(2) assms(2) run]
  note found = registry_find_load [OF specs]
  show "tunnels_ok tn'" by (rule result(1))
  show "\<exists>s cfg st svc. registry_find f k = Some s \<and> at_bind t = BindAddr s \<and>
        (cfg, st) \<in> set (snd (List_vms w)) \<and> Name cfg = ts_VM s \<and> Running st \<and> isAlive w' (PID st) \<and>
        svc \<in> set (ResolvedServices cfg st) \<and> se_Name svc = ts_Service s \<and>
        se_Port svc = at_guestPort t \<and> 0 < at_guestPort t"
    if act: "(k, t) \<in> set (tn_active tn')" for k t
  proof -
    obtain s wa where s: "s \<in> set specs" "k = Spec_Key s" "want (running_entries w' entries) s = Inr wa" "serves wa t"
      using result(2) [OF act] by blast
    have "registry_find f k = Some s" using s(1,2) by (simp add: found)
    moreover have "at_bind t = BindAddr s" "at_guestPort t = we_guestPort wa"
      using s(4) want_spec [OF s(3)] by (simp_all add: serves_def)
    ultimately show ?thesis using want_Inr [OF s(3)] by (simp add: lw)
  qed
  show "k \<in> fst ` set (tn_active tn') \<or> tn_inactive tn' k \<noteq> None" if "registry_find f k = Some s" for k s
    using result(3) [of s] that by (simp add: found explained_def)
qed


text \<open>The route table does not depend on the order in which Go visits the map of active tunnels: a
  label leads to the HTTP or HTTPS tunnel of that label whose key is the least.\<close>

theorem activeRoutes_winner:
  assumes "distinct (map (\<lambda>t. Spec_Key (at_spec t)) ts)"
  shows "activeRoutes ts l = Some t \<longleftrightarrow>
    t \<in> set ts \<and> route_label t = Some l \<and>
    (\<forall>u \<in> set ts. route_label u = Some l \<longrightarrow> Spec_Key (at_spec t) \<le> Spec_Key (at_spec u))"
  using activeRoutes_iff [OF assms] by (simp add: wins_def)

text \<open>C28: a request for a published name, with or without a port in its \<open>Host\<close> header, is proxied to
  the listener of the tunnel that owns the label.  Nothing is asked of the tunnel's bind address: a
  tunnel bound to loopback is served too, although the router listens on every interface.\<close>

theorem published_name_routes:
  assumes "distinct (map (\<lambda>t. Spec_Key (at_spec t)) ts)" and "activeRoutes ts l = Some t"
    and "plain_host suffix" and "port = [] \<or> (\<exists>p. port = CHR '':'' # p \<and> plain_host p)"
  shows "tunnelRouterHandler s ts (l @ ''.'' @ suffix @ port) = RouterProxy (tunnelTargetURL t)"
proof -
  have "route_label t = Some l" using assms(1,2) by (simp add: activeRoutes_iff wins_def)
  then have "dns_label l" "l \<noteq> []"
    using dns_label_Sanitize by (auto simp: route_label_def Let_def split: if_splits)
  then show ?thesis
    using assms(2) routerLabel_published [OF _ _ assms(3,4)] by (simp add: tunnelRouterHandler_def)
qed

subsection \<open>SSH loopback proxies\<close>

definition proxies_ok :: "World \<Rightarrow> (string \<times> int) list \<Rightarrow> bool" where
  "proxies_ok w ps \<longleftrightarrow> distinct (map fst ps) \<and> (\<forall>(nm, p) \<in> set ps. st_SSHPort (loadState w nm) = p)"

lemma list_one_running:
  assumes "list_one cfg w = (w1, e)" and "Running (loadState w1 nm)"
  shows "loadState w1 nm = loadState w nm"
  using assms by (auto simp: list_one_def Let_def cleanupStaleVM_def split: if_splits)

lemma list_one_procs: "list_one cfg w = (w1, e) \<Longrightarrow> w_procs w1 = w_procs w \<and> w_readonly w1 = w_readonly w"
  by (auto simp: list_one_def Let_def cleanupStaleVM_def saveState_def split: if_splits)

lemma list_one_entry:
  assumes "list_one cfg w = (w1, (cfg', st))" and "Running st"
  shows "cfg' = cfg" "st = loadState w1 (Name cfg)" "isAlive w1 (PID st)"
  using assms by (auto simp: list_one_def Let_def split: if_splits)

lemma list_all_vms_keeps:
  assumes "Running (loadState w nm)" and "isAlive w (PID (loadState w nm))" and "list_all_vms cfgs w = (w1, es)"
  shows "loadState w1 nm = loadState w nm"
  using assms
proof (induction cfgs arbitrary: w es)
  case (Cons cfg cfgs)
  obtain w2 e where one: "list_one cfg w = (w2, e)" by (cases "list_one cfg w")
  have same: "loadState w2 nm = loadState w nm" "w_procs w2 = w_procs w"
    using one Cons.prems(1,2) list_one_procs [OF one]
    by (auto simp: list_one_def Let_def cleanupStaleVM_def split: if_splits)
  obtain es' where "list_all_vms cfgs w2 = (w1, es')"
    using Cons.prems(3) one by (auto split: prod.splits)
  from Cons.IH [OF _ _ this] Cons.prems same show ?case by (simp add: isAlive_def)
qed simp

lemma list_all_vms_entry:
  assumes "list_all_vms cfgs w = (w1, es)" and "(cfg, st) \<in> set es" and "Running st"
  shows "st = loadState w (Name cfg) \<and> isAlive w (PID st)"
  using assms
proof (induction cfgs arbitrary: w es)
  case (Cons c cfgs)
  obtain w2 e where one: "list_one c w = (w2, e)" by (cases "list_one c w")
  obtain es' where rest: "list_all_vms cfgs w2 = (w1, es')" and es: "es = e # es'"
    using Cons.prems(1) one by (auto split: prod.splits)
  note procs = list_one_procs [OF one]
  consider "(cfg, st) = e" | "(cfg, st) \<in> set es'" using Cons.prems(2) es by auto
  then show ?case
  proof cases
    case 1
    note e = list_one_entry [OF one [folded 1] Cons.prems(3)]
    have "loadState w2 (Name c) = loadState w (Name c)"
      by (rule list_one_running [OF one]) (use e Cons.prems(3) in simp)
    with e procs show ?thesis by (simp add: isAlive_def)
  next
    case 2
    note ih = Cons.IH [OF rest 2 Cons.prems(3)]
    note st = conjunct1 [OF ih] conjunct2 [OF ih]
    have "loadState w2 (Name cfg) = loadState w (Name cfg)"
      by (rule list_one_running [OF one]) (use st(1) Cons.prems(3) in simp)
    with st procs show ?thesis by (simp add: isAlive_def)
  qed
qed simp

lemma list_all_vms_readonly: "list_all_vms cfgs w = (w1, es) \<Longrightarrow> w_readonly w1 = w_readonly w"
proof (induction cfgs arbitrary: w es)
  case (Cons c cfgs)
  obtain w2 e where one: "list_one c w = (w2, e)" by (cases "list_one c w")
  obtain es' where "list_all_vms cfgs w2 = (w1, es')" using Cons.prems one by (auto split: prod.splits)
  from Cons.IH [OF this] list_one_procs [OF one] show ?case by simp
qed simp

lemma stop_proxies_frame:
  "w_readonly (stop_proxies ps w) = w_readonly w"
  "nm \<notin> fst ` set ps \<Longrightarrow> loadState (stop_proxies ps w) nm = loadState w nm"
  by (induction ps w rule: stop_proxies.induct) (auto simp: clearStateSSHPort_def Let_def)

lemma setStateSSHPort_frame:
  "w_readonly (setStateSSHPort nm p w) = w_readonly w"
  "nm' \<noteq> nm \<Longrightarrow> loadState (setStateSSHPort nm p w) nm' = loadState w nm'"
  "\<not> w_readonly w \<Longrightarrow> st_SSHPort (loadState (setStateSSHPort nm p w) nm) = p"
  by (auto simp: setStateSSHPort_def Let_def)

lemma start_proxies_ok:
  assumes "start_proxies env cfgs (ps, w) = (ps', w')" and "proxies_ok w ps" and "\<not> w_readonly w"
  shows "proxies_ok w' ps' \<and> fst ` set ps' \<subseteq> fst ` set ps \<union> Name ` set cfgs"
  using assms
proof (induction cfgs arbitrary: ps w)
  case (Cons cfg cfgs)
  define q where "q = te_listen env BindLoopback (availablePort (te_portFree env) (SSHPort cfg) 2200 2299)"
  show ?case
  proof (cases "Name cfg \<in> fst ` set ps \<or> q = None")
    case True
    then have "start_proxies env cfgs (ps, w) = (ps', w')" using Cons.prems(1)
      by (cases "Name cfg \<in> fst ` set ps") (simp_all add: q_def)
    from Cons.IH [OF this Cons.prems(2,3)] show ?thesis by auto
  next
    case False
    then obtain p where p: "q = Some p" by blast
    define w1 where "w1 = setStateSSHPort (Name cfg) p w"
    have run: "start_proxies env cfgs (ps @ [(Name cfg, p)], w1) = (ps', w')"
      using Cons.prems(1) False p by (simp add: q_def w1_def)
    have "st_SSHPort (loadState w1 nm) = x" if "(nm, x) \<in> set ps" for nm x
    proof -
      have "nm \<noteq> Name cfg" using that False by force
      then show ?thesis using that Cons.prems(2) by (auto simp: proxies_ok_def w1_def setStateSSHPort_frame)
    qed
    then have "proxies_ok w1 (ps @ [(Name cfg, p)])"
      using Cons.prems(2,3) False by (auto simp: proxies_ok_def w1_def setStateSSHPort_frame)
    from Cons.IH [OF run this] Cons.prems(3) show ?thesis by (auto simp: w1_def setStateSSHPort_frame)
  qed
qed simp

text \<open>A pass over the SSH loopback proxies keeps one proxy per VM, only for running bridged VMs with
  an SSH port, and the VM's state records the port each proxy listens on, so that the endpoint picked
  for an SSH connection is the proxy.\<close>

theorem ssh_proxies_recorded:
  assumes "proxies_ok w ps" and "\<not> w_readonly w" and "reconcileSSHProxies env h (w, ps) = (w', ps')"
  shows "proxies_ok w' ps' \<and>
    (\<forall>(nm, p) \<in> set ps'. \<exists>cfg. Name cfg = nm \<and> effectiveBridge h cfg \<and> 0 < SSHPort cfg \<and>
       Running (loadState w nm) \<and> isAlive w (PID (loadState w nm)) \<and> tunnelSSHEndpoint w' ps' nm ip = (BindLoopback, p))"
proof -
  obtain w1 entries where lw: "list_all_vms (map snd (w_configs w)) w = (w1, entries)"
    by (cases "list_all_vms (map snd (w_configs w)) w")
  define wanted where "wanted = map fst (filter (wants_proxy h w1) entries)"
  define keep where "keep = (\<lambda>(nm, p :: int). nm \<in> Name ` set wanted)"
  define w2 where "w2 = stop_proxies (filter (\<lambda>x. \<not> keep x) ps) w1"
  have "reconcileSSHProxies env h (w, ps) = (case start_proxies env wanted (filter keep ps, w2) of (ps2, w3) \<Rightarrow> (w3, ps2))"
    by (simp add: reconcileSSHProxies_def List_vms_def lw Let_def wanted_def keep_def w2_def)
  then have start: "start_proxies env wanted (filter keep ps, w2) = (ps', w')"
    using assms(3) by (cases "start_proxies env wanted (filter keep ps, w2)") simp
  have live: "Running (loadState w (Name cfg)) \<and> isAlive w (PID (loadState w (Name cfg))) \<and>
      effectiveBridge h cfg \<and> 0 < SSHPort cfg" if wanted: "cfg \<in> set wanted" for cfg
  proof -
    obtain st where st: "(cfg, st) \<in> set entries" "wants_proxy h w1 (cfg, st)" using wanted by (auto simp: wanted_def)
    then have run: "Running st" by (simp add: wants_proxy_def)
    note entry = list_all_vms_entry [OF lw st(1) run]
    show ?thesis using conjunct2 [OF entry] run st(2) by (simp add: wants_proxy_def conjunct1 [OF entry, symmetric])
  qed
  have "loadState w2 nm = loadState w nm" if kept: "(nm, p) \<in> set (filter keep ps)" for nm p
  proof -
    obtain cfg where cfg: "cfg \<in> set wanted" "nm = Name cfg" using kept by (auto simp: keep_def)
    have "nm \<notin> fst ` set (filter (\<lambda>x. \<not> keep x) ps)" using cfg by (auto simp: keep_def)
    then show ?thesis using live [OF cfg(1)] list_all_vms_keeps [OF _ _ lw] by (simp add: w2_def stop_proxies_frame cfg(2))
  qed
  then have "proxies_ok w2 (filter keep ps)" using assms(1) by (auto simp: proxies_ok_def distinct_map_filter)
  moreover have "\<not> w_readonly w2" using assms(2) list_all_vms_readonly [OF lw] by (simp add: w2_def stop_proxies_frame)
  ultimately have ok: "proxies_ok w' ps'" and sub: "fst ` set ps' \<subseteq> fst ` set (filter keep ps) \<union> Name ` set wanted"
    using start_proxies_ok [OF start] by blast+
  have "\<exists>cfg. Name cfg = nm \<and> effectiveBridge h cfg \<and> 0 < SSHPort cfg \<and>
       Running (loadState w nm) \<and> isAlive w (PID (loadState w nm)) \<and> tunnelSSHEndpoint w' ps' nm ip = (BindLoopback, p)"
    if p: "(nm, p) \<in> set ps'" for nm p
  proof -
    have "nm \<in> Name ` set wanted" using sub p by (force simp: keep_def)
    then obtain cfg where "cfg \<in> set wanted" "Name cfg = nm" by blast
    moreover have "map_of ps' nm = Some p" using ok p by (simp add: proxies_ok_def)
    ultimately show ?thesis using live by (fastforce simp: tunnelSSHEndpoint_def)
  qed
  with ok show ?thesis by blast
qed

subsection \<open>Witnesses\<close>

definition demo_service :: VMConfig where
  "demo_service = VMConfig_zero\<lparr>Name := ''web'', SSHPort := 2222,
     NIC := \<lparr>nc_Mode = ''bridge'', nc_Bridge = [], nc_Model = [], nc_MAC = [], nc_HostFwds = []\<rparr>,
     Services := [\<lparr>se_Name = ''ui'', se_Port = 8080, se_Protocol = ''http''\<rparr>]\<rparr>"

definition demo_served :: World where
  "demo_served = (demo_in demo_running)\<lparr>w_configs := [(''web'', demo_service)], w_procs := [(400, VMProc ''web'')]\<rparr>"

definition demo_spec :: "string \<Rightarrow> int \<Rightarrow> TunnelSpec" where
  "demo_spec s p = \<lparr>ts_VM = ''web'', ts_Service = s, ts_Bind = [], ts_Port = p, ts_Hostname = [], ts_Protocol = ''http''\<rparr>"

definition demo_tenv :: TunnelEnv where
  "demo_tenv = \<lparr>te_listen = (\<lambda>a p. Some (if p = 0 then 40000 else p)), te_portFree = (\<lambda>_. True), te_canWrite = True\<rparr>"

definition no_tunnels :: Tunnels where
  "no_tunnels = \<lparr>tn_active = [], tn_inactive = (\<lambda>_. None)\<rparr>"

definition demo_tunnel :: "string \<Rightarrow> activeTunnel" where
  "demo_tunnel s = \<lparr>at_spec = demo_spec s 2301, at_bind = BindLoopback, at_port = 2301, at_guestPort = 8080, at_protocol = ''http''\<rparr>"

theorem registry_refines_witness:
  "registry_find (fst (Registry_RemoveKey True ''web/db'' (fst (Registry_Add True (demo_spec ''ui'' 1) (Specs [demo_spec ''db'' 2]))))) ''web/ui''
     = Some (demo_spec ''ui'' 1)"
proof -
  have "registry_ok (Specs [demo_spec ''db'' 2])" by code_simp
  from registry_refines [OF this, of "[Put (demo_spec ''ui'' 1), Del ''web/db'']"]
  show ?thesis by (simp add: Let_def demo_spec_def Spec_Key_def)
qed

definition demo_pass :: "World \<times> Tunnels \<times> registry_file" where
  "demo_pass = reconcileTunnels demo_tenv demo_served (no_tunnels, Specs [demo_spec ''db'' 2302, demo_spec ''ui'' 2301])"

lemma demo_pass_active: "map fst (tn_active (fst (snd demo_pass))) = [''web/ui'']"
  by code_simp

theorem reconcileTunnels_correct_witness:
  "\<exists>t cfg st. (''web/ui'', t) \<in> set (tn_active (fst (snd demo_pass))) \<and> at_bind t = BindLoopback \<and>
     (cfg, st) \<in> set (snd (List_vms demo_served)) \<and> Running st \<and> tn_inactive (fst (snd demo_pass)) ''web/db'' \<noteq> None"
proof -
  obtain w' tn' f' where run: "demo_pass = (w', tn', f')" by (cases demo_pass) auto
  have "registry_ok (Specs [demo_spec ''db'' 2302, demo_spec ''ui'' 2301])" "tunnels_ok no_tunnels" by code_simp+
  note correct = reconcileTunnels_correct [OF this run [unfolded demo_pass_def]]
  have active: "map fst (tn_active tn') = [''web/ui'']" by (rule demo_pass_active [unfolded run fst_conv snd_conv])
  then obtain t where one: "tn_active tn' = [(''web/ui'', t)]" by (auto simp: map_eq_Cons_conv)
  then have t: "(''web/ui'', t) \<in> set (tn_active tn')" by simp
  have "registry_find (Specs [demo_spec ''db'' 2302, demo_spec ''ui'' 2301]) ''web/db'' \<noteq> None" by code_simp
  then obtain s where s: "registry_find (Specs [demo_spec ''db'' 2302, demo_spec ''ui'' 2301]) ''web/db'' = Some s" by blast
  have "''web/db'' \<notin> fst ` set (tn_active tn')" by (simp add: one)
  moreover obtain s' cfg st where "registry_find (Specs [demo_spec ''db'' 2302, demo_spec ''ui'' 2301]) ''web/ui'' = Some s'"
      "at_bind t = BindAddr s'" "(cfg, st) \<in> set (snd (List_vms demo_served))" "Running st"
    using correct t by blast
  moreover have "registry_find (Specs [demo_spec ''db'' 2302, demo_spec ''ui'' 2301]) ''web/ui'' = Some (demo_spec ''ui'' 2301)" by code_simp
  moreover have "BindAddr (demo_spec ''ui'' 2301) = BindLoopback" by code_simp
  moreover have "tn_inactive tn' ''web/db'' \<noteq> None" using correct s calculation(1) by blast
  ultimately show ?thesis unfolding run fst_conv snd_conv using t by auto
qed


theorem activeRoutes_winner_witness:
  "activeRoutes [(demo_tunnel ''ui''), (demo_tunnel ''db'')] ''ui'' = Some (demo_tunnel ''ui'')"
proof -
  have "distinct (map (\<lambda>t. Spec_Key (at_spec t)) [(demo_tunnel ''ui''), (demo_tunnel ''db'')])" by code_simp
  moreover have "route_label (demo_tunnel ''ui'') = Some ''ui''" "route_label (demo_tunnel ''db'') = Some ''db''" by code_simp+
  ultimately show ?thesis using activeRoutes_winner [of "[(demo_tunnel ''ui''), (demo_tunnel ''db'')]" "''ui''" "demo_tunnel ''ui''"]
    by simp
qed

theorem published_name_routes_witness:
  "tunnelRouterHandler ''host'' [demo_tunnel ''ui''] ''ui.host:80'' = RouterProxy ''http://127.0.0.1:2301''"
proof -
  have "activeRoutes [demo_tunnel ''ui''] ''ui'' = Some (demo_tunnel ''ui'')"
    by (simp add: activeRoutes_def add_route_def) code_simp
  moreover have "tunnelTargetURL (demo_tunnel ''ui'') = ''http://127.0.0.1:2301''" by code_simp
  ultimately show ?thesis
    using published_name_routes [of "[demo_tunnel ''ui'']" "''ui''" "demo_tunnel ''ui''" "''host''" "'':80''" "''host''"]
    by (simp add: plain_host_def)
qed

theorem ssh_proxies_recorded_witness:
  "\<exists>w' ps'. reconcileSSHProxies demo_tenv demo_host (demo_served, []) = (w', ps') \<and> proxies_ok w' ps' \<and>
     ps' = [(''web'', 2222)] \<and> st_SSHPort (loadState w' ''web'') = 2222"
proof -
  obtain w' ps' where run: "reconcileSSHProxies demo_tenv demo_host (demo_served, []) = (w', ps')"
    by (cases "reconcileSSHProxies demo_tenv demo_host (demo_served, [])")
  have "proxies_ok demo_served []" by (simp add: proxies_ok_def)
  moreover have "\<not> w_readonly demo_served" by code_simp
  ultimately have "proxies_ok w' ps'" using ssh_proxies_recorded [OF _ _ run] by blast
  moreover have "snd (reconcileSSHProxies demo_tenv demo_host (demo_served, [])) = [(''web'', 2222)]" by code_simp
  ultimately show ?thesis using run by (auto simp: proxies_ok_def)
qed

end
