(* ===== verification/Readiness.thy ===== *)
theory Readiness
  imports Tunnels
begin

text \<open>
  When a VM is ready and how vee reaches into it: \<open>WaitReadyWithPhases\<close> and \<open>waitReadyVZ\<close> of
  \<open>internal/vm/manager.go\<close> and \<open>backend_vz.go\<close>, \<open>WaitSSHReady\<close> of \<open>waitssh.go\<close>, the copy to
  and from a guest of \<open>scp.go\<close>, and the quoting of \<open>sshexec.go\<close>.  A wait is a loop over what
  happens next: a tick, with the world and what the probes answer at that time, a failure the phase
  watcher reports, or the end of the context.  The loop has no result while nothing ends it.
\<close>

subsection \<open>Endpoints\<close>

text \<open>What the host answers: addresses, connections, and commands over SSH.\<close>

record ProbeEnv =
  pe_key :: bool
  pe_ipFromMAC :: "string \<Rightarrow> string option"
  pe_ipFromQGA :: "string \<Rightarrow> string option"
  pe_exec :: "string \<Rightarrow> int \<Rightarrow> string \<Rightarrow> string \<Rightarrow> bool"
  pe_dial :: "int \<Rightarrow> bool"
  pe_ping :: "string \<Rightarrow> bool"
  pe_lease :: "string \<Rightarrow> nat"
  pe_ssh22 :: "string \<Rightarrow> bool"

datatype endpoint_error = InvalidPort string string | NoAddress string | NoEndpoint string

definition splitSSHHostPort :: "string \<Rightarrow> (endpoint_error, string \<times> int) result" where
  "splitSSHHostPort s =
     (case (SplitHostPort_host s, LastCutC (CHR '':'') s) of
        (Some h, Some (b, p)) \<Rightarrow>
          (case ParseInt64 p of
             None \<Rightarrow> Inl (InvalidPort p s)
           | Some port \<Rightarrow> if port \<le> 0 then Inl (InvalidPort p s) else Inr (h, port))
      | _ \<Rightarrow> Inr (s, 22))"

definition guestSSHEndpoint :: "ProbeEnv \<Rightarrow> VMConfig \<Rightarrow> VMState \<Rightarrow> (endpoint_error, string \<times> int) result" where
  "guestSSHEndpoint env cfg st =
     (if SSHHost cfg \<noteq> [] then splitSSHHostPort (SSHHost cfg)
      else if st_SSHPort st > 0 then Inr (''127.0.0.1'', st_SSHPort st)
      else if nc_MAC (NIC cfg) \<noteq> [] then
        (case pe_ipFromMAC env (nc_MAC (NIC cfg)) of
           Some ip \<Rightarrow> Inr (ip, 22)
         | None \<Rightarrow>
             if QGASocket st = [] then Inl (NoAddress (Name cfg))
             else (case pe_ipFromQGA env (QGASocket st) of
                     None \<Rightarrow> Inl (NoAddress (Name cfg))
                   | Some ip \<Rightarrow> Inr (ip, 22)))
      else Inl (NoEndpoint (Name cfg)))"

definition authProbeSpec :: "VMConfig option \<Rightarrow> (string \<times> string) option" where
  "authProbeSpec c =
     (case c of
        None \<Rightarrow> None
      | Some cfg \<Rightarrow>
          if Template cfg = ''truenas'' then None
          else let user = SSHUsername cfg in
               if user = [] then None else Some (user, if WindowsGuest cfg then ''ver'' else ''true''))"

subsection \<open>WaitReadyWithPhases\<close>

datatype wait_result = WaitOk | WaitNotRunning | WaitExited | WaitCancelled | WaitBootFailed string | WaitTimeout
  | WaitSave

datatype wait_input = WCancel | WFailed string | WTick World bool ProbeEnv

definition floor_probe :: "ProbeEnv \<Rightarrow> VMState \<Rightarrow> bool" where
  "floor_probe env st = (st_SSHPort st > 0 \<and> pe_dial env (st_SSHPort st) \<or> QGASocket st \<noteq> [] \<and> pe_ping env (QGASocket st))"

definition auth_probe :: "ProbeEnv \<Rightarrow> VMConfig \<Rightarrow> string \<times> string \<Rightarrow> VMState \<Rightarrow> bool" where
  "auth_probe env cfg uc st =
     (case guestSSHEndpoint env cfg st of
        Inl e \<Rightarrow> False
      | Inr (host, port) \<Rightarrow> pe_exec env host port (fst uc) (snd uc))"

text \<open>The account and the configuration the probe uses, chosen once at the start of the wait.\<close>

definition probe_tier :: "ProbeEnv \<Rightarrow> VMConfig option \<Rightarrow> (VMConfig \<times> string \<times> string) option" where
  "probe_tier env c =
     (case (c, authProbeSpec c) of
        (Some cfg, Some uc) \<Rightarrow> if pe_key env then Some (cfg, uc) else None
      | _ \<Rightarrow> None)"

definition ready_probe :: "(VMConfig \<times> string \<times> string) option \<Rightarrow> ProbeEnv \<Rightarrow> VMState \<Rightarrow> bool" where
  "ready_probe tier env st =
     (case tier of Some (cfg, uc) \<Rightarrow> auth_probe env cfg uc st | None \<Rightarrow> floor_probe env st)"

definition mark_result :: "string \<Rightarrow> time \<Rightarrow> World \<Rightarrow> wait_result \<times> World" where
  "mark_result nm now w = (if w_readonly w then WaitSave else WaitOk, markReady nm now w)"

text \<open>\<open>WTick w late env\<close> is a tick of the ticker in world \<open>w\<close>, after the deadline if \<open>late\<close>.\<close>

fun wait_loop ::
  "string \<Rightarrow> time \<Rightarrow> (VMConfig \<times> string \<times> string) option \<Rightarrow> VMState \<Rightarrow> World \<Rightarrow> wait_input list \<Rightarrow> (wait_result \<times> World) option"
where
  "wait_loop nm now tier st w [] = None"
| "wait_loop nm now tier st w (WCancel # is) = Some (WaitCancelled, w)"
| "wait_loop nm now tier st w (WFailed line # is) = Some (WaitBootFailed (TrimSpace line), w)"
| "wait_loop nm now tier st w (WTick w1 late env # is) =
     (if \<not> isAlive w1 (PID st) then
        Some (if InstallState st = InstallStatePending \<and> LastShutdownReason st = ShutdownReasonGuest
              then WaitOk else WaitExited, w1)
      else if late then Some (WaitTimeout, w1)
      else let st1 = loadState w1 nm in
           if ready_probe tier env st1 then Some (mark_result nm now w1)
           else wait_loop nm now tier st1 w1 is)"

datatype vz_input = VCancel | VTick World bool ProbeEnv

definition vz_probe :: "ProbeEnv \<Rightarrow> string \<Rightarrow> nat \<Rightarrow> bool" where
  "vz_probe env mac baseline =
     (let e = pe_lease env mac in
      e > 0 \<and> e > baseline \<or>
      (case pe_ipFromMAC env mac of None \<Rightarrow> False | Some ip \<Rightarrow> pe_ssh22 env ip))"

fun vz_loop :: "string \<Rightarrow> time \<Rightarrow> string \<Rightarrow> VMState \<Rightarrow> World \<Rightarrow> vz_input list \<Rightarrow> (wait_result \<times> World) option" where
  "vz_loop nm now mac st w [] = None"
| "vz_loop nm now mac st w (VCancel # is) = Some (WaitCancelled, w)"
| "vz_loop nm now mac st w (VTick w1 late env # is) =
     (if \<not> isAlive w1 (PID st) then Some (WaitExited, w1)
      else if vz_probe env mac (LeaseBaseline st) then Some (mark_result nm now w1)
      else if late then Some (WaitTimeout, w1)
      else vz_loop nm now mac st w1 is)"

definition waitReadyVZ :: "string \<Rightarrow> time \<Rightarrow> VMState \<Rightarrow> World \<Rightarrow> vz_input list \<Rightarrow> (wait_result \<times> World) option" where
  "waitReadyVZ nm now st w is =
     (if \<not> isAlive w (PID st) then Some (WaitExited, w)
      else let mac = (case loadConfig w nm of None \<Rightarrow> [] | Some cfg \<Rightarrow> nc_MAC (NIC cfg)) in
           if mac = [] then Some (mark_result nm now w) else vz_loop nm now mac st w is)"

definition vz_inputs :: "wait_input list \<Rightarrow> vz_input list" where
  "vz_inputs is = List.map_filter (\<lambda>i. case i of WCancel \<Rightarrow> Some VCancel | WFailed l \<Rightarrow> None
                                        | WTick w late env \<Rightarrow> Some (VTick w late env)) is"

definition WaitReadyWithPhases :: "string \<Rightarrow> time \<Rightarrow> ProbeEnv \<Rightarrow> World \<Rightarrow> wait_input list \<Rightarrow> (wait_result \<times> World) option" where
  "WaitReadyWithPhases nm now env w is =
     (let st = loadState w nm in
      if \<not> Running st \<or> PID st = 0 then Some (WaitNotRunning, w)
      else if VMState_BackendName (Some st) = VZ then waitReadyVZ nm now st w (vz_inputs is)
      else if st_SSHPort st = 0 \<and> QGASocket st = [] then
        Some (if \<not> isAlive w (PID st) then (WaitExited, w)
              else if InstallState st = InstallStatePending then (WaitOk, w)
              else mark_result nm now w)
      else let tier = probe_tier env (loadConfig w nm) in
           if ready_probe tier env st then Some (mark_result nm now w) else wait_loop nm now tier st w is)"

subsection \<open>waitssh.go\<close>

datatype run_outcome = RunOk | RunExit int | RunBroken

datatype ci_result = CloudInitDone | CloudInitFailed int | CloudInitInterrupted

definition waitCloudInitDone :: "run_outcome \<Rightarrow> ci_result" where
  "waitCloudInitDone r =
     (case r of
        RunOk \<Rightarrow> CloudInitDone
      | RunExit n \<Rightarrow> if n = 2 \<or> n = 127 then CloudInitDone else CloudInitFailed n
      | RunBroken \<Rightarrow> CloudInitInterrupted)"

text \<open>One attempt: the world it sees, whether the deadline has passed or the context is done when it
  begins, what the host answers, whether the dial works, how the probe and the cloud-init wait end,
  and whether the context is done when the latter returns.\<close>

record ssh_attempt =
  sa_world :: World
  sa_late :: bool
  sa_cancelled :: bool
  sa_env :: ProbeEnv
  sa_dial :: bool
  sa_run :: run_outcome
  sa_cloudInit :: run_outcome
  sa_cancelledAfter :: bool

datatype ssh_wait = SshReady | SshNotFound | SshNotRunning | SshNoAccount | SshNoKey | SshTimeout | SshCancelled
  | SshExited | SshCloudInit ci_result

fun ssh_loop :: "string \<Rightarrow> VMConfig \<Rightarrow> bool \<Rightarrow> ssh_attempt list \<Rightarrow> ssh_wait option" where
  "ssh_loop nm cfg cloudInit [] = None"
| "ssh_loop nm cfg cloudInit (a # as) =
     (let w = sa_world a; st = loadState w nm in
      if sa_late a then Some SshTimeout
      else if sa_cancelled a then Some SshCancelled
      else if \<not> Running st \<or> \<not> isAlive w (PID st) then
        (if LastShutdownReason st = ShutdownReasonReboot then ssh_loop nm cfg cloudInit as else Some SshExited)
      else (case guestSSHEndpoint (sa_env a) cfg st of
              Inl e \<Rightarrow> ssh_loop nm cfg cloudInit as
            | Inr hp \<Rightarrow>
                if \<not> sa_dial a \<or> sa_run a \<noteq> RunOk then ssh_loop nm cfg cloudInit as
                else if cloudInit \<and> \<not> WindowsGuest cfg then
                  (case waitCloudInitDone (sa_cloudInit a) of
                     CloudInitDone \<Rightarrow> Some SshReady
                   | CloudInitFailed n \<Rightarrow> Some (SshCloudInit (CloudInitFailed n))
                   | CloudInitInterrupted \<Rightarrow>
                       if sa_cancelledAfter a then Some (SshCloudInit CloudInitInterrupted)
                       else ssh_loop nm cfg cloudInit as)
                else Some SshReady))"

definition ssh_user :: "string \<Rightarrow> VMConfig \<Rightarrow> string" where
  "ssh_user given cfg =
     (let u = (if given = [] then SSHUsername cfg else given) in
      if u = [] \<and> Template cfg = ''truenas'' then TrueNASUser cfg else u)"

definition WaitSSHReady :: "string \<Rightarrow> bool \<Rightarrow> bool \<Rightarrow> World \<Rightarrow> ssh_attempt list \<Rightarrow> ssh_wait option" where
  "WaitSSHReady nm key cloudInit w as =
     (case loadConfig w nm of
        None \<Rightarrow> Some SshNotFound
      | Some cfg \<Rightarrow>
          if \<not> Running (loadState w nm) then Some SshNotRunning
          else if ssh_user [] cfg = [] then Some SshNoAccount
          else if \<not> key then Some SshNoKey
          else ssh_loop nm cfg cloudInit as)"

subsection \<open>scp.go and sshexec.go\<close>

record CopySpec =
  cs_VMName :: string
  cs_GuestPath :: string
  cs_HostPath :: string
  cs_ToGuest :: bool
  cs_Recursive :: bool
  cs_User :: string

definition scp_remote :: "string \<Rightarrow> string \<Rightarrow> CopySpec \<Rightarrow> bool \<Rightarrow> string" where
  "scp_remote user host spec windowsGuest =
     (let guestPath = (if windowsGuest then ReplaceC (CHR 0x5C) ''/'' (cs_GuestPath spec) else cs_GuestPath spec)
      in (if user \<noteq> [] then user @ ''@'' @ host else host) @ '':'' @ guestPath)"

definition scp_local :: "CopySpec \<Rightarrow> string" where
  "scp_local spec =
     (if \<not> IsAbs (cs_HostPath spec) \<and> Contains (cs_HostPath spec) '':'' then ''./'' @ cs_HostPath spec
      else cs_HostPath spec)"

definition buildScpArgs :: "string \<Rightarrow> string \<Rightarrow> int \<Rightarrow> string \<Rightarrow> string \<Rightarrow> CopySpec \<Rightarrow> bool \<Rightarrow> string list" where
  "buildScpArgs user host port identity knownHosts spec windowsGuest =
     [''-o'', ''BatchMode=yes''] @
     (if knownHosts \<noteq> []
      then [''-o'', ''UserKnownHostsFile='' @ knownHosts, ''-o'', ''StrictHostKeyChecking=accept-new''] else []) @
     (if port \<noteq> 22 then [''-P'', Itoa port] else []) @
     (if identity \<noteq> [] then [''-i'', identity] else []) @
     (if cs_Recursive spec then [''-r''] else []) @
     (if cs_ToGuest spec then [scp_local spec, scp_remote user host spec windowsGuest]
      else [scp_remote user host spec windowsGuest, scp_local spec])"

definition drop_pattern :: "string \<Rightarrow> int \<Rightarrow> string" where
  "drop_pattern host port = (if port \<noteq> 22 then ''['' @ host @ '']:'' @ Itoa port else host)"

definition known_host_line :: "string \<Rightarrow> string \<Rightarrow> bool" where
  "known_host_line pattern line =
     (case Fields line of [] \<Rightarrow> False | f # fs \<Rightarrow> pattern \<in> set (SplitC (CHR '','') f))"

text \<open>The content of \<open>known_hosts\<close> afterwards, if it can be read.\<close>

definition ScrubKnownHost :: "string \<Rightarrow> string \<Rightarrow> int \<Rightarrow> string" where
  "ScrubKnownHost data host port =
     (let kept = filter (\<lambda>l. \<not> known_host_line (drop_pattern host port) l) (ScanLines data)
      in Join kept nl @ (if kept \<noteq> [] then nl else []))"

datatype copy_error = CopyNotFound | CopyNotRunning | CopyEndpoint endpoint_error

text \<open>The arguments of the \<open>scp\<close> that \<open>CopyPath\<close> runs, and the content of \<open>known_hosts\<close> when it
  does; \<open>home\<close> is the user's directory and \<open>hasKey\<close> whether vee's key exists there.\<close>

definition CopyPath ::
  "ProbeEnv \<Rightarrow> string \<Rightarrow> bool \<Rightarrow> string \<Rightarrow> World \<Rightarrow> CopySpec \<Rightarrow> (copy_error, string list \<times> string) result" where
  "CopyPath env home hasKey known w spec =
     (case loadConfig w (cs_VMName spec) of
        None \<Rightarrow> Inl CopyNotFound
      | Some cfg \<Rightarrow>
          let st = loadState w (cs_VMName spec) in
          if \<not> Running st then Inl CopyNotRunning
          else (case guestSSHEndpoint env cfg st of
                  Inl e \<Rightarrow> Inl (CopyEndpoint e)
                | Inr (host, port) \<Rightarrow>
                    Inr (buildScpArgs (ssh_user (cs_User spec) cfg) host port
                           (if hasKey then PathJoin [home, ''.vee'', ''ssh'', ''id_ed25519''] else [])
                           (PathJoin [home, ''.vee'', ''ssh'', ''known_hosts'']) spec (WindowsGuest cfg),
                         ScrubKnownHost known host port)))"

text \<open>\<open>shellQuote\<close>, on valid UTF-8.\<close>

fun quote_body :: "string \<Rightarrow> string" where
  "quote_body [] = []"
| "quote_body (c # s) =
     (if c = CHR 0x27 then [CHR 0x27, CHR 0x5C, CHR 0x27, CHR 0x27] else [c]) @ quote_body s"

definition shellQuote :: "string \<Rightarrow> string" where
  "shellQuote s = [CHR 0x27] @ quote_body s @ [CHR 0x27]"

subsection \<open>The readiness wait\<close>

lemma markReady_recorded:
  "\<not> w_readonly w \<Longrightarrow> InstallState (loadState (markReady nm now w) nm) = InstallStateReady \<and>
     BootPhase (loadState (markReady nm now w) nm) = PhaseReady"
  by (simp add: markReady_def)

lemma mark_result_ok:
  "mark_result nm now w = (WaitOk, w') \<longleftrightarrow> \<not> w_readonly w \<and> w' = markReady nm now w"
  by (auto simp: mark_result_def split: if_splits)

text \<open>The worlds a wait has seen: the one it starts in and those of its ticks.\<close>

definition tick_worlds :: "wait_input list \<Rightarrow> World list" where
  "tick_worlds is = List.map_filter (\<lambda>i. case i of WTick w late env \<Rightarrow> Some w | _ \<Rightarrow> None) is"

lemma tick_worlds_simps [simp]:
  "tick_worlds [] = []" "tick_worlds (WTick w late env # is) = w # tick_worlds is"
  "tick_worlds (WCancel # is) = tick_worlds is" "tick_worlds (WFailed l # is) = tick_worlds is"
  by (simp_all add: tick_worlds_def List.map_filter_simps)

definition install_over :: "VMState \<Rightarrow> bool" where
  "install_over st \<longleftrightarrow> InstallState st = InstallStatePending \<and> LastShutdownReason st = ShutdownReasonGuest"

definition recorded_ready :: "string \<Rightarrow> World \<Rightarrow> bool" where
  "recorded_ready nm w \<longleftrightarrow> InstallState (loadState w nm) = InstallStateReady \<and> BootPhase (loadState w nm) = PhaseReady"

lemma wait_loop_ok:
  assumes "wait_loop nm now tier st w is = Some (WaitOk, w')"
  shows "(\<exists>v env. v \<in> set (tick_worlds is) \<and> ready_probe tier env (loadState v nm) \<and> recorded_ready nm w') \<or>
    install_over st \<or> (\<exists>v \<in> set (tick_worlds is). install_over (loadState v nm))"
  using assms
proof (induction nm now tier st w "is" rule: wait_loop.induct)
  case (4 nm now tier st w w1 late env "is")
  show ?case
  proof (cases "isAlive w1 (PID st) \<and> \<not> late")
    case False
    then show ?thesis using "4.prems" by (auto simp: install_over_def split: if_splits)
  next
    case alive: True
    show ?thesis
    proof (cases "ready_probe tier env (loadState w1 nm)")
      case True
      then have "recorded_ready nm w'"
        using "4.prems" alive by (auto simp: mark_result_ok recorded_ready_def markReady_recorded)
      then show ?thesis using True by auto
    next
      case False
      then have "wait_loop nm now tier (loadState w1 nm) w1 is = Some (WaitOk, w')"
        using "4.prems" alive by simp
      from "4.IH" [OF _ _ refl False this] alive show ?thesis by fastforce
    qed
  qed
qed simp_all

lemma wait_loop_returns:
  assumes "WTick v True env \<in> set is"
  shows "wait_loop nm now tier st w is \<noteq> None"
  using assms
  by (induction nm now tier st w "is" rule: wait_loop.induct) (auto simp: Let_def)

lemma vz_loop_returns:
  assumes "VTick v True env \<in> set is"
  shows "vz_loop nm now mac st w is \<noteq> None"
  using assms by (induction nm now mac st w "is" rule: vz_loop.induct) auto

lemma vz_inputs_tick: "WTick v late env \<in> set is \<Longrightarrow> VTick v late env \<in> set (vz_inputs is)"
  by (force simp: vz_inputs_def set_map_filter)


text \<open>C33: the wait for readiness ends: once a tick comes after the deadline it has a result, on either
  backend, whatever the probes answer.\<close>

theorem wait_ready_returns:
  assumes "WTick v True env' \<in> set is"
  shows "\<exists>r w'. WaitReadyWithPhases nm now env w is = Some (r, w')"
  using wait_loop_returns [OF assms] vz_loop_returns [OF vz_inputs_tick [OF assms]]
  by (auto simp: WaitReadyWithPhases_def waitReadyVZ_def Let_def not_None_eq)


subsection \<open>Quoting and known hosts\<close>

lemma sh_word_body: "sh_word True (quote_body s @ CHR 0x27 # r) = map_option (apfst (append s)) (sh_word False r)"
  by (induction s) (cases "sh_word False r"; auto)+

text \<open>A POSIX shell reads a quoted string back as one word, the string itself, whatever characters
  it has, and goes on after it.\<close>

theorem shellQuote_roundtrip: "sh_word False (shellQuote s @ '' '' @ rest) = Some (s, '' '' @ rest)"
  by (simp add: shellQuote_def sh_word_body)

text \<open>Scrubbing a host from \<open>known_hosts\<close> removes exactly the lines whose host list names it, and
  keeps every other line as it was and in order.\<close>

theorem ScrubKnownHost_lines:
  assumes "CHR 0x0D \<notin> set data"
  shows "ScanLines (ScrubKnownHost data host port) =
    filter (\<lambda>l. \<not> known_host_line (drop_pattern host port) l) (ScanLines data)"
proof -
  let ?kept = "filter (\<lambda>l. \<not> known_host_line (drop_pattern host port) l) (ScanLines data)"
  have "list_all plain_line ?kept" using ScanLines_plain [OF assms] by (simp add: list_all_iff)
  then show ?thesis
    using ScanLines_Join [of ?kept] by (cases "?kept = []") (simp_all add: ScrubKnownHost_def Let_def ScanLines_def)
qed

subsection \<open>Witnesses\<close>

definition demo_penv :: "bool \<Rightarrow> ProbeEnv" where
  "demo_penv up = \<lparr>pe_key = True, pe_ipFromMAC = (\<lambda>_. None), pe_ipFromQGA = (\<lambda>_. None),
     pe_exec = (\<lambda>h p u c. up \<and> p = 2222 \<and> c = ''true''), pe_dial = (\<lambda>_. True), pe_ping = (\<lambda>_. False),
     pe_lease = (\<lambda>_. 0), pe_ssh22 = (\<lambda>_. False)\<rparr>"

definition demo_guest :: World where
  "demo_guest = demo_served\<lparr>w_configs := [(''web'', demo_service\<lparr>SSHUser := ''u''\<rparr>)],
     w_states := [''web'' \<mapsto> demo_running\<lparr>st_SSHPort := 2222\<rparr>]\<rparr>"

lemma demo_guest_facts:
  "loadState demo_guest ''web'' = demo_running\<lparr>st_SSHPort := 2222\<rparr>"
  "probe_tier (demo_penv up) (loadConfig demo_guest ''web'') = Some (demo_service\<lparr>SSHUser := ''u''\<rparr>, ''u'', ''true'')"
  by code_simp+


theorem wait_ready_returns_witness:
  "\<exists>r w'. WaitReadyWithPhases ''web'' 9 (demo_penv False) demo_guest
     [WTick demo_guest False (demo_penv False), WTick demo_guest True (demo_penv False)] = Some (r, w')"
  by (rule wait_ready_returns [of demo_guest "demo_penv False"]) simp


definition demo_known :: string where
  "demo_known = ''10.0.0.5 ssh-ed25519 A'' @ nl @ ''10.0.0.6,host ssh-ed25519 B'' @ nl"

theorem ScrubKnownHost_lines_witness:
  "ScanLines (ScrubKnownHost demo_known ''10.0.0.6'' 22) = [''10.0.0.5 ssh-ed25519 A'']"
proof -
  have "CHR 0x0D \<notin> set demo_known" by code_simp
  moreover have "filter (\<lambda>l. \<not> known_host_line (drop_pattern ''10.0.0.6'' 22) l) (ScanLines demo_known) =
      [''10.0.0.5 ssh-ed25519 A'']" by code_simp
  ultimately show ?thesis using ScrubKnownHost_lines by simp
qed

end
