(* ===== verification/Boot_Disk.thy ===== *)
theory Boot_Disk
  imports Tunnels
begin

text \<open>
  Moving the boot disk of a VM and deleting a VM: \<open>findManagedBootDisk\<close>, \<open>MoveBootDisk\<close>,
  \<open>moveFile\<close>, \<open>Delete\<close>, \<open>relocatedBootDisk\<close> and \<open>deleteVMDir\<close> of \<open>internal/vm/manager.go\<close>.
  The files are a map from clean absolute paths to contents; a directory exists while a file lies
  below it.  How a rename ends (done, across file systems, or failed) and which of the other calls
  fail are the environment.
\<close>

type_synonym 'c files = "string \<rightharpoonup> 'c"

definition findManagedBootDisk :: "VMConfig \<Rightarrow> nat option" where
  "findManagedBootDisk cfg =
     map_option fst (List.find (\<lambda>(i, d). \<not> (dc_Passthrough d \<or> dc_ImageFile d \<or> dc_Media d \<noteq> ''disk'' \<or> dc_Format d \<noteq> ''qcow2''))
       (List.enumerate 0 (Disks cfg)))"

datatype rename_result = RenameOk | RenameXdev | RenameFailed

record MoveEnv =
  me_rename :: "string \<Rightarrow> string \<Rightarrow> rename_result"
  me_copy :: "string \<Rightarrow> string \<Rightarrow> bool"
  me_remove :: "string \<Rightarrow> bool"
  me_mkdir :: "string \<Rightarrow> bool"
  me_cwd :: "string option"

datatype move_error = MoveRunning | MoveNoConfig | MoveNoDisk | MoveMissing string | MoveCwd | MoveSame string
  | MoveExists string | MoveMkdir string | MoveFailed | MoveNotRemoved | MoveSave | MoveSaveStuck string

definition moveFile :: "MoveEnv \<Rightarrow> string \<Rightarrow> string \<Rightarrow> 'c files \<Rightarrow> 'c files \<times> move_error option" where
  "moveFile env src dst fs =
     (case fs src of
        None \<Rightarrow> (fs, Some MoveFailed)
      | Some c \<Rightarrow>
          (case me_rename env src dst of
             RenameOk \<Rightarrow> (fs(src := None, dst \<mapsto> c), None)
           | RenameFailed \<Rightarrow> (fs, Some MoveFailed)
           | RenameXdev \<Rightarrow>
               if \<not> me_copy env src dst then (fs(dst := None), Some MoveFailed)
               else if \<not> me_remove env src then (fs(dst \<mapsto> c), Some MoveNotRemoved)
               else (fs(dst \<mapsto> c, src := None), None)))"

definition boot_disk_src :: "string \<Rightarrow> string \<Rightarrow> DiskConfig \<Rightarrow> string" where
  "boot_disk_src storagePath nm d =
     (let src = managedBootDiskAbsPath nm d in
      if IsAbs src then src else PathJoin [vmDir storagePath nm, src])"

definition set_disk_path :: "nat \<Rightarrow> string \<Rightarrow> VMConfig \<Rightarrow> VMConfig" where
  "set_disk_path i p cfg = cfg\<lparr>Disks := (Disks cfg)[i := (Disks cfg ! i)\<lparr>dc_Path := p\<rparr>]\<rparr>"

text \<open>The move of a disk that has been found, from the check of its source on.\<close>

definition move_found ::
  "MoveEnv \<Rightarrow> VMConfig \<Rightarrow> nat \<Rightarrow> string \<Rightarrow> string \<Rightarrow> World \<times> 'c files \<Rightarrow>
   (World \<times> 'c files) \<times> (move_error, string \<times> string) result" where
  "move_found env cfg i src targetDir s =
     (case s of
        (w, fs) \<Rightarrow>
          if fs src = None then (s, Inl (MoveMissing src))
          else (case PathAbs (me_cwd env) targetDir of
                  None \<Rightarrow> (s, Inl MoveCwd)
                | Some absTarget \<Rightarrow>
                    let dst = PathJoin [absTarget, PathBase src] in
                    if dst = src then (s, Inl (MoveSame dst))
                    else if fs dst \<noteq> None then (s, Inl (MoveExists dst))
                    else if \<not> me_mkdir env absTarget then (s, Inl (MoveMkdir absTarget))
                    else (case moveFile env src dst fs of
                            (fs1, Some e) \<Rightarrow> ((w, fs1), Inl e)
                          | (fs1, None) \<Rightarrow>
                              (case saveConfig (set_disk_path i dst cfg) w of
                                 (w1, True) \<Rightarrow> ((w1, fs1), Inr (src, dst))
                               | (w1, False) \<Rightarrow>
                                   (case moveFile env dst src fs1 of
                                      (fs2, Some e) \<Rightarrow> ((w1, fs2), Inl (MoveSaveStuck dst))
                                    | (fs2, None) \<Rightarrow> ((w1, fs2), Inl MoveSave))))))"

definition MoveBootDisk ::
  "MoveEnv \<Rightarrow> string \<Rightarrow> string \<Rightarrow> string \<Rightarrow> World \<times> 'c files \<Rightarrow>
   (World \<times> 'c files) \<times> (move_error, string \<times> string) result" where
  "MoveBootDisk env storagePath nm targetDir s =
     (let st = loadState (fst s) nm in
      if Running st \<and> isAlive (fst s) (PID st) then (s, Inl MoveRunning)
      else (case loadConfig (fst s) nm of
              None \<Rightarrow> (s, Inl MoveNoConfig)
            | Some cfg \<Rightarrow>
                (case findManagedBootDisk cfg of
                   None \<Rightarrow> (s, Inl MoveNoDisk)
                 | Some i \<Rightarrow> move_found env cfg i (boot_disk_src storagePath nm (Disks cfg ! i)) targetDir s)))"

definition relocatedBootDisk :: "string \<Rightarrow> string \<Rightarrow> VMConfig \<Rightarrow> string option" where
  "relocatedBootDisk nm dir cfg =
     (case findManagedBootDisk cfg of
        None \<Rightarrow> None
      | Some i \<Rightarrow>
          let d = Disks cfg ! i; path = managedBootDiskAbsPath nm d in
          if dc_Path d = [] then None
          else if \<not> IsAbs path \<or> \<not> HasPrefix (PathBase path) (''disk-'' @ nm @ ''-'') then None
          else (case PathRel dir path of
                  Some rel \<Rightarrow> if HasPrefix rel ''..'' then Some path else None
                | None \<Rightarrow> Some path))"

text \<open>What lies below a directory, and the removal of a VM's directory but for its backups.  The
  result says whether anything is left there.\<close>

definition under :: "string \<Rightarrow> string \<Rightarrow> bool" where
  "under dir p = HasPrefix p (dir @ ''/'')"

definition deleteVMDir :: "string \<Rightarrow> 'c files \<Rightarrow> 'c files" where
  "deleteVMDir dir fs = (\<lambda>p. if under dir p \<and> \<not> under (dir @ ''/backups'') p then None else fs p)"

definition forget_vm :: "string \<Rightarrow> World \<Rightarrow> World" where
  "forget_vm nm w = w\<lparr>w_configs := filter (\<lambda>(k, c). k \<noteq> nm) (w_configs w), w_states := (w_states w)(nm := None)\<rparr>"

definition Delete ::
  "MoveEnv \<Rightarrow> bool \<Rightarrow> string \<Rightarrow> string \<Rightarrow> World \<times> 'c files \<times> registry_file \<Rightarrow>
   (World \<times> 'c files \<times> registry_file) \<times> move_error option" where
  "Delete env canWrite storagePath nm s =
     (case s of
        (w, fs, reg) \<Rightarrow>
          let st = loadState w nm; dir = vmDir storagePath nm in
          if Running st \<and> isAlive w (PID st) then (s, Some MoveRunning)
          else let relocated = (case loadConfig w nm of None \<Rightarrow> None | Some cfg \<Rightarrow> relocatedBootDisk nm dir cfg);
                   fs1 = (case relocated of
                            None \<Rightarrow> fs
                          | Some p \<Rightarrow> if me_remove env p then fs(p := None) else fs)
               in ((forget_vm nm w, deleteVMDir dir fs1, fst (RemoveVM canWrite nm reg)), None))"

subsection \<open>Lemmas on the move\<close>

lemma enumerate_find:
  "List.find (\<lambda>(i, d). P d) (List.enumerate k xs) = Some (i, d) \<Longrightarrow> k \<le> i \<and> i < k + length xs \<and> xs ! (i - k) = d \<and> P d"
proof (induction xs arbitrary: k)
  case (Cons x xs)
  show ?case
  proof (cases "P x")
    case False
    then have "List.find (\<lambda>(i, d). P d) (List.enumerate (Suc k) xs) = Some (i, d)" using Cons.prems by simp
    from Cons.IH [OF this] show ?thesis by (auto simp: nth_Cons')
  qed (use Cons.prems in simp)
qed simp

lemma findManagedBootDisk_Some:
  assumes "findManagedBootDisk cfg = Some i"
  shows "i < length (Disks cfg)" "\<not> dc_Passthrough (Disks cfg ! i)" "\<not> dc_ImageFile (Disks cfg ! i)"
    "dc_Media (Disks cfg ! i) = ''disk''" "dc_Format (Disks cfg ! i) = ''qcow2''"
  using assms enumerate_find [where k = 0 and xs = "Disks cfg" and i = i]
  by (auto simp: findManagedBootDisk_def)

text \<open>A move leaves everything but its two paths alone, and the content is at one of them.\<close>

definition content_kept :: "string \<Rightarrow> string \<Rightarrow> 'c files \<Rightarrow> 'c files \<Rightarrow> bool" where
  "content_kept src dst fs fs' \<longleftrightarrow>
     (\<forall>p. p \<noteq> src \<and> p \<noteq> dst \<longrightarrow> fs' p = fs p) \<and> (fs' src = fs src \<or> fs' dst = fs src)"

lemma moveFile_ok:
  assumes "moveFile env src dst fs = (fs1, None)" and "src \<noteq> dst"
  shows "fs src \<noteq> None" "fs1 = fs(src := None, dst := fs src)"
  using assms by (auto simp: moveFile_def fun_upd_twist split: option.splits rename_result.splits if_splits)

lemma moveFile_error:
  assumes "moveFile env src dst fs = (fs1, Some e)" and "src \<noteq> dst" and "fs dst = None"
  shows "fs1 src = fs src" "p \<noteq> dst \<Longrightarrow> fs1 p = fs p" "fs1 dst = None \<or> fs1 dst = fs src"
  using assms by (auto simp: moveFile_def split: option.splits rename_result.splits if_splits)

text \<open>Every branch of the move, by how it ends.\<close>

lemma move_found_cases:
  assumes "move_found env cfg i src targetDir (w, fs) = ((w', fs'), r)"
  obtains (early) e where "w' = w" "fs' = fs" "r = Inl e"
  | (stuck) dst e where "w' = w" "src \<noteq> dst" "fs dst = None" "moveFile env src dst fs = (fs', Some e)" "r = Inl e"
  | (rollback) dst fs1 e' e where "w_readonly w" "w' = w" "src \<noteq> dst" "fs dst = None"
      "moveFile env src dst fs = (fs1, None)" "moveFile env dst src fs1 = (fs', e')" "r = Inl e"
      "e = (case e' of None \<Rightarrow> MoveSave | Some _ \<Rightarrow> MoveSaveStuck dst)"
  | (moved) dst absTarget where "\<not> w_readonly w" "w' = fst (saveConfig (set_disk_path i dst cfg) w)" "src \<noteq> dst"
      "fs dst = None" "moveFile env src dst fs = (fs', None)" "r = Inr (src, dst)"
      "PathAbs (me_cwd env) targetDir = Some absTarget" "dst = PathJoin [absTarget, PathBase src]"
proof (cases "PathAbs (me_cwd env) targetDir")
  case None
  then show ?thesis using assms early by (auto simp: move_found_def split: if_splits)
next
  case target: (Some absTarget)
  define dst where "dst = PathJoin [absTarget, PathBase src]"
  show ?thesis
  proof (cases "fs src = None \<or> dst = src \<or> fs dst \<noteq> None \<or> \<not> me_mkdir env absTarget")
    case True
    then show ?thesis
      using assms target early by (auto simp: move_found_def dst_def [symmetric] Let_def split: if_splits)
  next
    case False
    obtain fs1 e where mv: "moveFile env src dst fs = (fs1, e)" by (cases "moveFile env src dst fs")
    show ?thesis
    proof (cases e)
      case (Some e')
      have "w' = w" "fs' = fs1" "r = Inl e'"
        using assms False target mv Some by (auto simp: move_found_def dst_def [symmetric] Let_def)
      then show ?thesis using stuck [of dst e'] mv Some False by auto
    next
      case None
      obtain fs2 e2 where undo: "moveFile env dst src fs1 = (fs2, e2)" by (cases "moveFile env dst src fs1")
      have "move_found env cfg i src targetDir (w, fs) =
          (case saveConfig (set_disk_path i dst cfg) w of
             (w1, True) \<Rightarrow> ((w1, fs1), Inr (src, dst))
           | (w1, False) \<Rightarrow>
               (case moveFile env dst src fs1 of
                  (fs2, Some e) \<Rightarrow> ((w1, fs2), Inl (MoveSaveStuck dst))
                | (fs2, None) \<Rightarrow> ((w1, fs2), Inl MoveSave)))"
        using False target mv None by (auto simp: move_found_def dst_def [symmetric] Let_def)
      note run = assms [symmetric, unfolded this]
      show ?thesis
      proof (cases "w_readonly w")
        case True
        then have "((w', fs'), r) = ((w, fs2), Inl (case e2 of None \<Rightarrow> MoveSave | Some _ \<Rightarrow> MoveSaveStuck dst))"
          using run undo by (cases e2) (simp_all add: saveConfig_def)
        then show ?thesis using rollback [OF True _ _ _ mv [unfolded None], of e2] False undo by auto
      next
        case ro: False
        then have "((w', fs'), r) = ((fst (saveConfig (set_disk_path i dst cfg) w), fs1), Inr (src, dst))"
          using run by (simp add: saveConfig_def)
        then show ?thesis
          using moved [OF ro _ _ _ _ _ target dst_def] mv None False by auto
      qed
    qed
  qed
qed

text \<open>Where the moved file is found again.\<close>

lemma PathBase_last: "CHR ''/'' \<notin> set b \<Longrightarrow> b \<noteq> [] \<Longrightarrow> PathBase (a @ CHR ''/'' # b) = b"
proof -
  assume b: "CHR ''/'' \<notin> set b" "b \<noteq> []"
  then have "last b \<noteq> CHR ''/''" using last_in_set by metis
  then have "TrimRightF (\<lambda>c. c = CHR ''/'') (a @ CHR ''/'' # b) = a @ CHR ''/'' # b"
    using TrimRightF_append [of "a @ CHR ''/'' # b" "\<lambda>c. c = CHR ''/''" "[]"] b by (simp add: TrimRightF_def)
  then show ?thesis using LastCutC_append [OF b(1), of a] by (simp add: PathBase_def)
qed

lemma suffix_base:
  assumes "HasSuffix (a @ CHR ''/'' # b) s" and "CHR ''/'' \<notin> set s"
  shows "HasSuffix b s"
  using assms HasPrefix_sep [of "CHR ''/''" "rev s" "rev b" "rev a"] by (simp add: HasSuffix_def)

definition disk_suffix :: "string \<Rightarrow> bool" where
  "disk_suffix p = list_ex (HasSuffix p) diskFileSuffixes"

lemma disk_suffix_base: "disk_suffix (a @ CHR ''/'' # b) \<Longrightarrow> disk_suffix b"
proof -
  assume "disk_suffix (a @ CHR ''/'' # b)"
  then obtain s where s: "s \<in> set diskFileSuffixes" "HasSuffix (a @ CHR ''/'' # b) s"
    by (auto simp: disk_suffix_def list_ex_iff)
  moreover have "CHR ''/'' \<notin> set s" using s(1) by (auto simp: diskFileSuffixes_def)
  ultimately show ?thesis using suffix_base by (auto simp: disk_suffix_def list_ex_iff)
qed

lemma disk_suffix_append: "disk_suffix b \<Longrightarrow> disk_suffix (a @ b)"
  by (auto simp: disk_suffix_def list_ex_iff HasSuffix_iff) (metis append_assoc)

lemma disk_suffix_plain:
  assumes "disk_suffix b" and "CHR ''/'' \<notin> set b"
  shows "plain_comp b"
proof -
  have "\<not> disk_suffix []" "\<not> disk_suffix ''.''" "\<not> disk_suffix ''..''" by code_simp+
  then show ?thesis using assms by (auto simp: plain_comp_def)
qed

lemma abs_path_last: "\<exists>a. abs_path (cs @ [c]) = a @ CHR ''/'' # c"
  by (cases "cs = []") (auto simp: abs_path_def Join_append)

lemma managed_verbatim: "disk_suffix p \<Longrightarrow> managedBootDiskAbsPath nm (d\<lparr>dc_Path := p\<rparr>) = p"
  by (simp add: managedBootDiskAbsPath_def disk_suffix_def)

text \<open>The configurations on which the source is an absolute path with a disk's file name.\<close>

definition movable :: "string \<Rightarrow> string \<Rightarrow> DiskConfig \<Rightarrow> bool" where
  "movable storagePath nm d \<longleftrightarrow>
     IsAbs storagePath \<and> CHR ''/'' \<notin> set nm \<and> CHR ''/'' \<notin> set (dc_Size d) \<and> dc_Format d = ''qcow2'' \<and>
     (dc_Path d = [] \<or> IsAbs (dc_Path d))"

lemma boot_disk_src_shape:
  assumes "movable storagePath nm d"
  shows "\<exists>a b. boot_disk_src storagePath nm d = a @ CHR ''/'' # b \<and> CHR ''/'' \<notin> set b \<and> disk_suffix b"
proof (cases "disk_suffix (dc_Path d)")
  case True
  then have "dc_Path d \<noteq> []" by (auto simp: disk_suffix_def diskFileSuffixes_def HasSuffix_def)
  then have abs: "IsAbs (dc_Path d)" using assms by (simp add: movable_def)
  then have src: "boot_disk_src storagePath nm d = dc_Path d"
    using True by (simp add: boot_disk_src_def managedBootDiskAbsPath_def disk_suffix_def)
  have "CHR ''/'' \<in> set (dc_Path d)" using abs by (auto simp: IsAbs_def HasPrefix_iff)
  then obtain a b where "dc_Path d = a @ CHR ''/'' # b" "CHR ''/'' \<notin> set b"
    by (metis split_list_last)
  then show ?thesis using src True disk_suffix_base by metis
next
  case False
  define gen where "gen = ''disk-'' @ nm @ ''-'' @ dc_Size d @ ''.qcow2''"
  have gen: "CHR ''/'' \<notin> set gen" "disk_suffix gen"
    using assms by (auto simp: gen_def movable_def disk_suffix_def diskFileSuffixes_def HasSuffix_def)
  have plain: "plain_comp gen" using gen by (intro disk_suffix_plain)
  have eq: "managedBootDiskAbsPath nm d = (if dc_Path d = [] then gen else PathJoin [dc_Path d, gen])"
    using False assms by (simp add: managedBootDiskAbsPath_def disk_suffix_def movable_def gen_def Let_def)
  have "\<exists>cs. boot_disk_src storagePath nm d = abs_path (cs @ [gen])"
  proof (cases "dc_Path d = []")
    case True
    have "\<not> IsAbs gen" by (simp add: gen_def IsAbs_def)
    moreover have "IsAbs (vmDir storagePath nm)"
      using assms IsAbs_PathJoin by (simp add: vmDir_def movable_def)
    ultimately show ?thesis using True eq plain PathJoin_abs by (auto simp: boot_disk_src_def Let_def)
  next
    case False
    then have "PathJoin [dc_Path d, gen] = abs_path (root_comps (dc_Path d) @ [gen])"
      using assms plain by (simp add: PathJoin_abs movable_def)
    then show ?thesis using False eq by (auto simp: boot_disk_src_def Let_def)
  qed
  then show ?thesis using abs_path_last gen by metis
qed

lemma moved_resolves:
  assumes "movable storagePath nm d" and "IsAbs absTarget"
    and "dst = PathJoin [absTarget, PathBase (boot_disk_src storagePath nm d)]"
  shows "boot_disk_src storagePath nm (d\<lparr>dc_Path := dst\<rparr>) = dst" "disk_suffix dst"
    "PathBase dst = PathBase (boot_disk_src storagePath nm d)" "IsAbs dst"
proof -
  obtain a b where src: "boot_disk_src storagePath nm d = a @ CHR ''/'' # b" "CHR ''/'' \<notin> set b" "disk_suffix b"
    using boot_disk_src_shape [OF assms(1)] by blast
  have plain: "plain_comp b" using src(2,3) by (intro disk_suffix_plain)
  then have base: "PathBase (boot_disk_src storagePath nm d) = b"
    using src by (simp add: PathBase_last plain_comp_def)
  have dst: "dst = abs_path (root_comps absTarget @ [b])"
    using assms(2,3) base plain by (simp add: PathJoin_abs)
  obtain a' where a': "dst = a' @ CHR ''/'' # b" using abs_path_last dst by metis
  show suf: "disk_suffix dst" using disk_suffix_append [OF src(3), of "a' @ ''/''"] a' by simp
  show "PathBase dst = PathBase (boot_disk_src storagePath nm d)"
    using base a' src(2) plain by (simp add: PathBase_last plain_comp_def)
  show abs: "IsAbs dst" by (simp add: dst)
  show "boot_disk_src storagePath nm (d\<lparr>dc_Path := dst\<rparr>) = dst"
    using abs by (simp add: boot_disk_src_def managed_verbatim [OF suf])
qed

lemma PathAbs_abs: "PathAbs wd p = Some q \<Longrightarrow> (\<forall>c. wd = Some c \<longrightarrow> IsAbs c) \<Longrightarrow> IsAbs q"
proof (cases "IsAbs p")
  case True
  assume "PathAbs wd p = Some q"
  then show ?thesis using True by (auto simp: PathAbs_def Clean_def IsAbs_def)
next
  case False
  assume "PathAbs wd p = Some q" and "\<forall>c. wd = Some c \<longrightarrow> IsAbs c"
  then show ?thesis using False IsAbs_PathJoin by (auto simp: PathAbs_def)
qed

lemma find_enumerate_cong:
  assumes "length xs = length ys" and "\<And>i. i < length xs \<Longrightarrow> P (xs ! i) = P (ys ! i)"
  shows "map_option fst (List.find (\<lambda>(i, d). P d) (List.enumerate k xs)) =
    map_option fst (List.find (\<lambda>(i, d). P d) (List.enumerate k ys))"
  using assms
proof (induction xs ys arbitrary: k rule: list_induct2)
  case (Cons x xs y ys)
  have "P x = P y" using Cons.prems [of 0] by simp
  moreover have "\<And>i. i < length xs \<Longrightarrow> P (xs ! i) = P (ys ! i)" using Cons.prems [of "Suc _"] by simp
  ultimately show ?case using Cons.IH [of "Suc k"] by simp
qed simp

lemma update_nth: "xs[i := x] ! j = (if i = j \<and> i < length xs then x else xs ! j)"
  by (cases "i < length xs") (auto simp: list_update_beyond)

lemma findManagedBootDisk_set_path: "findManagedBootDisk (set_disk_path i p cfg) = findManagedBootDisk cfg"
  unfolding findManagedBootDisk_def
  by (rule find_enumerate_cong) (simp_all add: set_disk_path_def update_nth)

lemma MoveBootDisk_found:
  assumes "MoveBootDisk env storagePath nm targetDir (w, fs) = ((w', fs'), r)"
    and "loadConfig w nm = Some cfg" and "findManagedBootDisk cfg = Some i"
  shows "(w' = w \<and> fs' = fs \<and> r = Inl MoveRunning) \<or>
    move_found env cfg i (boot_disk_src storagePath nm (Disks cfg ! i)) targetDir (w, fs) = ((w', fs'), r)"
  using assms by (auto simp: MoveBootDisk_def Let_def split: if_splits)

lemma MoveBootDisk_early:
  assumes "MoveBootDisk env storagePath nm targetDir (w, fs) = ((w', fs'), r)"
    and "loadConfig w nm = None \<or> (\<exists>cfg. loadConfig w nm = Some cfg \<and> findManagedBootDisk cfg = None)"
  shows "w' = w \<and> fs' = fs \<and> (\<exists>e. r = Inl e)"
  using assms by (auto simp: MoveBootDisk_def Let_def split: if_splits)

lemma relocatedBootDisk_name:
  "relocatedBootDisk nm dir cfg = Some p \<Longrightarrow> HasPrefix (PathBase p) (''disk-'' @ nm @ ''-'')"
  by (auto simp: relocatedBootDisk_def Let_def split: option.splits if_splits)

lemma map_of_filter_key: "map_of (filter (\<lambda>(k, c). k \<noteq> nm) xs) = (map_of xs)(nm := None)"
  by (induction xs) (auto simp: fun_eq_iff)

text \<open>The configuration after a successful move.\<close>

lemma moved_config:
  assumes "MoveBootDisk env storagePath nm targetDir (w, fs) = ((w', fs'), Inr (src, dst))"
    and "loadConfig w nm = Some cfg" and "Name cfg = nm" and "findManagedBootDisk cfg = Some i"
    and "movable storagePath nm (Disks cfg ! i)" and "\<forall>c. me_cwd env = Some c \<longrightarrow> IsAbs c"
  shows "loadConfig w' = (loadConfig w)(nm \<mapsto> set_disk_path i dst cfg)"
    "Disks (set_disk_path i dst cfg) ! i = (Disks cfg ! i)\<lparr>dc_Path := dst\<rparr>"
    "managedBootDiskAbsPath nm ((Disks cfg ! i)\<lparr>dc_Path := dst\<rparr>) = dst" "IsAbs dst" "dst \<noteq> []"
    "PathBase dst = PathBase src" "fs' dst \<noteq> None" "src = boot_disk_src storagePath nm (Disks cfg ! i)"
    "fs dst = None" "fs' = fs(src := None, dst := fs src)" "fs src \<noteq> None"
    "boot_disk_src storagePath nm ((Disks cfg ! i)\<lparr>dc_Path := dst\<rparr>) = dst"
proof -
  let ?src = "boot_disk_src storagePath nm (Disks cfg ! i)"
  have mv: "move_found env cfg i ?src targetDir (w, fs) = ((w', fs'), Inr (src, dst))"
    using MoveBootDisk_found [OF assms(1,2,4)] by simp
  obtain absTarget where moved: "\<not> w_readonly w" "w' = fst (saveConfig (set_disk_path i dst cfg) w)" "src \<noteq> dst"
      "fs dst = None" "moveFile env src dst fs = (fs', None)" "src = ?src"
      "PathAbs (me_cwd env) targetDir = Some absTarget" "dst = PathJoin [absTarget, PathBase ?src]"
    using mv by (cases rule: move_found_cases) auto
  have "IsAbs absTarget" using PathAbs_abs [OF moved(7)] assms(6) by simp
  note res = moved_resolves [OF assms(5) this moved(8)]
  show "loadConfig w' = (loadConfig w)(nm \<mapsto> set_disk_path i dst cfg)"
    using moved(1,2) assms(3) by (simp add: fun_eq_iff saveConfig_def loadConfig_def map_of_put_config set_disk_path_def)
  show "Disks (set_disk_path i dst cfg) ! i = (Disks cfg ! i)\<lparr>dc_Path := dst\<rparr>"
    using findManagedBootDisk_Some(1) [OF assms(4)] by (simp add: set_disk_path_def)
  show "managedBootDiskAbsPath nm ((Disks cfg ! i)\<lparr>dc_Path := dst\<rparr>) = dst" by (rule managed_verbatim [OF res(2)])
  show "IsAbs dst" by (rule res(4))
  then show "dst \<noteq> []" by (auto simp: IsAbs_def)
  show "src = ?src" by (rule moved(6))
  then show "PathBase dst = PathBase src" using res(3) by simp
  show "fs dst = None" by (rule moved(4))
  show fs': "fs' = fs(src := None, dst := fs src)" and "fs src \<noteq> None"
    using moveFile_ok [OF moved(5,3)] by simp_all
  then show "fs' dst \<noteq> None" by simp
  show "boot_disk_src storagePath nm ((Disks cfg ! i)\<lparr>dc_Path := dst\<rparr>) = dst" by (rule res(1))
qed

text \<open>A move that fails after the disk was found, by what it leaves.\<close>

definition disk_safe :: "move_error \<Rightarrow> 'c files \<Rightarrow> 'c files \<Rightarrow> bool" where
  "disk_safe e fs fs' \<longleftrightarrow>
     fs' = fs \<or> e \<noteq> MoveSave \<and> (\<exists>src dst. fs src \<noteq> None \<and> fs dst = None \<and> content_kept src dst fs fs')"

lemma moveFile_error_safe:
  assumes "moveFile env src dst fs = (fs', Some e)" and "src \<noteq> dst" and "fs dst = None"
  shows "disk_safe e fs fs'"
proof (cases "fs src = None")
  case True
  then show ?thesis using assms by (simp add: moveFile_def disk_safe_def)
next
  case False
  have "e \<noteq> MoveSave" using assms(1) by (auto simp: moveFile_def split: option.splits rename_result.splits if_splits)
  moreover have "content_kept src dst fs fs'"
    using moveFile_error(1,2) [OF assms] by (simp add: content_kept_def)
  ultimately show ?thesis using assms(3) False by (auto simp: disk_safe_def)
qed

lemma rollback_safe:
  assumes "moveFile env src dst fs = (fs1, None)" and "moveFile env dst src fs1 = (fs', e')" and "src \<noteq> dst"
    and "fs dst = None"
  shows "disk_safe (case e' of None \<Rightarrow> MoveSave | Some _ \<Rightarrow> MoveSaveStuck dst) fs fs'"
proof (cases e')
  case None
  have "fs' = fs"
    using moveFile_ok(2) [OF assms(2) [unfolded None]] moveFile_ok(2) [OF assms(1,3)] assms(3,4) by (auto simp: fun_eq_iff)
  then show ?thesis by (simp add: disk_safe_def)
next
  case (Some x)
  note there = moveFile_ok [OF assms(1,3)]
  have "fs1 src = None" using there(2) assms(3) by simp
  note err = moveFile_error [OF assms(2) [unfolded Some] _ this]
  have "content_kept src dst fs fs'" using err(1,2) assms(3) there(2) by (auto simp: content_kept_def)
  then show ?thesis using there(1) assms(4) Some by (auto simp: disk_safe_def)
qed

lemma move_found_error:
  assumes "move_found env cfg i src targetDir (w, fs) = ((w', fs'), Inl e)"
  shows "w' = w \<and> disk_safe e fs fs'"
  using assms
proof (cases rule: move_found_cases)
  case (stuck dst e')
  then show ?thesis using moveFile_error_safe by auto
next
  case (rollback dst fs1 e' e'')
  then show ?thesis using rollback_safe by auto
qed (simp_all add: disk_safe_def)

subsection \<open>Properties\<close>

text \<open>C7: a successful move of a boot disk puts the content of the old file at the new path, where
  there was no file, and removes the old file; no other file changes.  The stored configuration is the
  old one but for the path of that disk, and the disk it names resolves to the new file.\<close>

theorem MoveBootDisk_correct:
  assumes "MoveBootDisk env storagePath nm targetDir (w, fs) = ((w', fs'), Inr (src, dst))"
    and "loadConfig w nm = Some cfg" and "Name cfg = nm" and "findManagedBootDisk cfg = Some i"
    and "movable storagePath nm (Disks cfg ! i)" and "\<forall>c. me_cwd env = Some c \<longrightarrow> IsAbs c"
  shows "src = boot_disk_src storagePath nm (Disks cfg ! i) \<and> fs src \<noteq> None \<and> fs dst = None \<and>
    fs' = fs(src := None, dst := fs src) \<and>
    loadConfig w' = (loadConfig w)(nm \<mapsto> set_disk_path i dst cfg) \<and>
    findManagedBootDisk (set_disk_path i dst cfg) = Some i \<and>
    boot_disk_src storagePath nm (Disks (set_disk_path i dst cfg) ! i) = dst"
  using moved_config [OF assms] assms(4) by (simp add: findManagedBootDisk_set_path)

text \<open>C6: a move that fails never loses the disk: whatever step fails (the checks, the copy across
  file systems, removing the original, saving the configuration, or moving back after that), the
  store is as before, the content is still at the old path or at the new one, and no other file
  changes.  When the configuration could not be saved and the file was moved back, all is as before.\<close>

theorem MoveBootDisk_failure_keeps_disk:
  assumes "MoveBootDisk env storagePath nm targetDir (w, fs) = ((w', fs'), Inl e)"
  shows "w' = w \<and> (fs' = fs \<or> (e \<noteq> MoveSave \<and> (\<exists>src dst. fs src \<noteq> None \<and> fs dst = None \<and> content_kept src dst fs fs')))"
proof (cases "\<exists>cfg i. loadConfig w nm = Some cfg \<and> findManagedBootDisk cfg = Some i")
  case False
  then have "loadConfig w nm = None \<or> (\<exists>cfg. loadConfig w nm = Some cfg \<and> findManagedBootDisk cfg = None)" by auto
  then show ?thesis using MoveBootDisk_early [OF assms] by blast
next
  case True
  then obtain cfg i where "loadConfig w nm = Some cfg" "findManagedBootDisk cfg = Some i" by blast
  from MoveBootDisk_found [OF assms this] show ?thesis
    using move_found_error [of env cfg i _ targetDir w fs w' fs' e] by (auto simp: disk_safe_def)
qed


text \<open>A disk that was moved is deleted with its VM: if the move put a disk with a generated name
  outside the VM's directory, deleting the VM afterwards removes the file at its new path.\<close>

theorem moved_disk_deleted:
  assumes "MoveBootDisk env storagePath nm targetDir (w, fs) = ((w1, fs1), Inr (src, dst))"
    and "loadConfig w nm = Some cfg" and "Name cfg = nm" and "findManagedBootDisk cfg = Some i"
    and "movable storagePath nm (Disks cfg ! i)" and "\<forall>c. me_cwd env = Some c \<longrightarrow> IsAbs c"
    and "HasPrefix (PathBase src) (''disk-'' @ nm @ ''-'')"
    and "PathRel (vmDir storagePath nm) dst = Some rel" and "HasPrefix rel ''..''"
    and "Delete env True storagePath nm (w1, fs1, reg) = ((w2, fs2, reg2), None)" and "me_remove env dst"
  shows "fs1 dst \<noteq> None \<and> fs2 dst = None"
proof -
  note src = moved_config [OF assms(1-6)]
  have cfg1: "loadConfig w1 nm = Some (set_disk_path i dst cfg)" using src(1) by simp
  have "relocatedBootDisk nm (vmDir storagePath nm) (set_disk_path i dst cfg) = Some dst"
    using src(2-6) assms(7-9)
    by (auto simp: relocatedBootDisk_def findManagedBootDisk_set_path assms(4) Let_def)
  then have "fs2 = deleteVMDir (vmDir storagePath nm) (fs1(dst := None))"
    using assms(10,11) cfg1 by (auto simp: Delete_def Let_def split: if_splits)
  then have "fs2 dst = None" by (simp add: deleteVMDir_def)
  with src(7) show ?thesis by simp
qed

subsection \<open>Witnesses\<close>

definition demo_disk :: DiskConfig where
  "demo_disk = DiskConfig_zero\<lparr>dc_Size := ''20G'', dc_Format := ''qcow2'', dc_Media := ''disk''\<rparr>"

definition demo_disk_vm :: VMConfig where
  "demo_disk_vm = VMConfig_zero\<lparr>Name := ''web'', Disks := [demo_disk]\<rparr>"

definition demo_disk_world :: World where
  "demo_disk_world = (demo_in demo_stopped)\<lparr>w_configs := [(''web'', demo_disk_vm)]\<rparr>"

definition demo_menv :: "rename_result \<Rightarrow> MoveEnv" where
  "demo_menv r = \<lparr>me_rename = (\<lambda>a b. r), me_copy = (\<lambda>a b. False), me_remove = (\<lambda>_. True), me_mkdir = (\<lambda>_. True), me_cwd = Some ''/w''\<rparr>"

definition demo_src :: string where "demo_src = ''/vee/web/disk-web-20G.qcow2''"

definition demo_files :: "nat files" where
  "demo_files = [demo_src \<mapsto> 7, ''/vee/web/backups/b1'' \<mapsto> 8]"

definition demo_move :: "rename_result \<Rightarrow> (World \<times> nat files) \<times> (move_error, string \<times> string) result" where
  "demo_move r = MoveBootDisk (demo_menv r) ''/vee'' ''web'' ''disks'' (demo_disk_world, demo_files)"

lemma demo_move_facts:
  "loadConfig demo_disk_world ''web'' = Some demo_disk_vm" "Name demo_disk_vm = ''web''"
  "findManagedBootDisk demo_disk_vm = Some 0" "movable ''/vee'' ''web'' (Disks demo_disk_vm ! 0)"
  "snd (demo_move RenameOk) = Inr (demo_src, ''/w/disks/disk-web-20G.qcow2'')"
  "snd (demo_move RenameXdev) = Inl MoveFailed"
  by code_simp+

lemma demo_menv_cwd: "\<forall>c. me_cwd (demo_menv r) = Some c \<longrightarrow> IsAbs c"
  by (simp add: demo_menv_def IsAbs_def)

theorem MoveBootDisk_correct_witness:
  "snd (fst (demo_move RenameOk)) ''/w/disks/disk-web-20G.qcow2'' = Some 7"
proof -
  obtain w' fs' r where run: "demo_move RenameOk = ((w', fs'), r)" by (metis surj_pair)
  then have r: "r = Inr (demo_src, ''/w/disks/disk-web-20G.qcow2'')" using demo_move_facts(5) by simp
  have "demo_files demo_src = Some 7" by code_simp
  then show ?thesis
    using MoveBootDisk_correct [OF run [unfolded r demo_move_def] demo_move_facts(1-4) demo_menv_cwd] run by simp
qed

theorem MoveBootDisk_failure_keeps_disk_witness:
  "\<exists>p. snd (fst (demo_move RenameXdev)) p \<noteq> None"
proof -
  obtain w' fs' r where run: "demo_move RenameXdev = ((w', fs'), r)" by (metis surj_pair)
  then have r: "r = Inl MoveFailed" using demo_move_facts(6) by simp
  have "demo_files demo_src \<noteq> None" by code_simp
  moreover have "\<exists>p. fs' p \<noteq> None" if "fs src \<noteq> None" "content_kept src dst fs fs'" for fs src dst
    using that unfolding content_kept_def by metis
  ultimately have "\<exists>p. fs' p \<noteq> None"
    using MoveBootDisk_failure_keeps_disk [OF run [unfolded r demo_move_def]] by metis
  then show ?thesis using run by simp
qed


theorem moved_disk_deleted_witness:
  "case demo_move RenameOk of
     ((w1, fs1), r) \<Rightarrow>
       (case Delete (demo_menv RenameOk) True ''/vee'' ''web'' (w1, fs1, NoFile) of
          ((w2, fs2, reg2), e) \<Rightarrow> fs2 ''/w/disks/disk-web-20G.qcow2'' = None)"
proof -
  obtain w1 fs1 r where run: "demo_move RenameOk = ((w1, fs1), r)" by (metis surj_pair)
  then have r: "r = Inr (demo_src, ''/w/disks/disk-web-20G.qcow2'')" using demo_move_facts(5) by simp
  obtain w2 fs2 reg2 e where del: "Delete (demo_menv RenameOk) True ''/vee'' ''web'' (w1, fs1, NoFile) = ((w2, fs2, reg2), e)"
    by (metis surj_pair)
  have "snd (case demo_move RenameOk of ((w1, fs1), r) \<Rightarrow> Delete (demo_menv RenameOk) True ''/vee'' ''web'' (w1, fs1, NoFile)) = None"
    by code_simp
  then have e: "e = None" using run del by simp
  have pre: "HasPrefix (PathBase demo_src) (''disk-'' @ ''web'' @ ''-'')" by code_simp
  have rel: "PathRel (vmDir ''/vee'' ''web'') ''/w/disks/disk-web-20G.qcow2'' = Some ''../../w/disks/disk-web-20G.qcow2''" by code_simp
  have up: "HasPrefix ''../../w/disks/disk-web-20G.qcow2'' ''..''" by simp
  have rm: "me_remove (demo_menv RenameOk) ''/w/disks/disk-web-20G.qcow2''" by (simp add: demo_menv_def)
  from moved_disk_deleted [OF run [unfolded r demo_move_def] demo_move_facts(1-4) demo_menv_cwd pre rel up del [unfolded e] rm]
  show ?thesis using run del by simp
qed

end
