(* ===== verification/Iso9660.thy ===== *)
theory Iso9660
  imports Vee_Prelude
begin

text \<open>
  The seed image writer of \<open>internal/cloudinit/iso9660.go\<close> and \<open>seed.go\<close>: an ISO 9660 volume with
  a Joliet tree, byte by byte.  A \<open>uint32\<close> is a natural number below \<open>2^32\<close>, wrapped where the
  code adds; a file name is ASCII, where the UTF-16 code of a character is its byte.  The reader in
  the second part follows the volume format and not the writer: it starts from a volume descriptor,
  takes the root directory from it, walks the directory records and reads the extent of a name.
\<close>

type_synonym bytes = "8 word list"

definition ascii_bytes :: "string \<Rightarrow> bytes" where
  "ascii_bytes s = map of_char s"

definition isoSectorSize :: nat where "isoSectorSize = 2048"

record isoFile =
  if_name :: string
  if_data :: bytes

subsection \<open>Fields\<close>

definition le16 :: "nat \<Rightarrow> bytes" where
  "le16 v = [of_nat v, of_nat (v div 256)]"

definition le32 :: "nat \<Rightarrow> bytes" where
  "le32 v = [of_nat v, of_nat (v div 256), of_nat (v div 65536), of_nat (v div 16777216)]"

definition putBothEndian32 :: "nat \<Rightarrow> bytes" where
  "putBothEndian32 v = le32 v @ rev (le32 v)"

definition putBothEndian16 :: "nat \<Rightarrow> bytes" where
  "putBothEndian16 v = le16 v @ rev (le16 v)"

definition ucs2BE :: "string \<Rightarrow> bytes" where
  "ucs2BE s = concat (map (\<lambda>c. [0, of_char c]) s)"

definition writeStrField :: "nat \<Rightarrow> string \<Rightarrow> bool \<Rightarrow> bytes" where
  "writeStrField n s joliet =
     (if joliet then
        let enc0 = ucs2BE s; enc = (if length enc0 > n then take (n - n mod 2) enc0 else enc0) in
        enc @ concat (replicate ((n - length enc) div 2) [0, 0x20]) @ replicate ((n - length enc) mod 2) 0
      else take n (ascii_bytes s) @ replicate (n - length s) 0x20)"

definition fillTextFields :: "nat \<Rightarrow> bool \<Rightarrow> bytes" where
  "fillTextFields n joliet =
     (if joliet then concat (replicate (n div 2) [0, 0x20]) @ replicate (n mod 2) 0 else replicate n 0x20)"

text \<open>\<open>copy(s[o:], d)\<close> where the destination has room for \<open>d\<close>.\<close>

definition patch :: "nat \<times> bytes \<Rightarrow> bytes \<Rightarrow> bytes" where
  "patch od s = take (fst od) s @ snd od @ drop (fst od + length (snd od)) s"

subsection \<open>Directory records\<close>

record dirRecord =
  dr_name :: string
  dr_startSector :: nat
  dr_length :: nat
  dr_isDir :: bool

datatype dir_kind = DirNormal | DirSelf | DirParent

definition dir_ident :: "dirRecord \<Rightarrow> dir_kind \<Rightarrow> bool \<Rightarrow> bytes" where
  "dir_ident r kind joliet =
     (case kind of
        DirSelf \<Rightarrow> [0]
      | DirParent \<Rightarrow> [1]
      | DirNormal \<Rightarrow> if \<not> joliet then ascii_bytes (dr_name r @ '';1'') else ucs2BE (dr_name r))"

definition rec_len :: "nat \<Rightarrow> nat" where
  "rec_len n = min 255 (let l = 33 + n in if l mod 2 \<noteq> 0 then l + 1 else l)"

definition buildDirRecord :: "dirRecord \<Rightarrow> dir_kind \<Rightarrow> bool \<Rightarrow> bytes" where
  "buildDirRecord r kind joliet =
     (let ident = dir_ident r kind joliet; recLen = rec_len (length ident) in
      [of_nat recLen, 0] @ putBothEndian32 (dr_startSector r) @ putBothEndian32 (dr_length r) @ replicate 7 0 @
      [if dr_isDir r then 2 else 0] @ [0, 0] @ putBothEndian16 1 @ [of_nat (length ident)] @
      take (recLen - 33) (ident @ [0]))"

text \<open>Appending the records to the sector: a copy beyond its end is cut off, and a start beyond its
  end is a panic.\<close>

fun append_records :: "bytes \<Rightarrow> nat \<Rightarrow> bytes list \<Rightarrow> bytes option" where
  "append_records s off [] = Some s"
| "append_records s off (rec # recs) =
     (if off > length s then None
      else append_records (patch (off, take (length s - off) rec) s) (off + length rec) recs)"

definition dir_self :: "nat \<Rightarrow> dirRecord" where
  "dir_self lba = \<lparr>dr_name = [], dr_startSector = lba, dr_length = isoSectorSize, dr_isDir = True\<rparr>"

definition buildDirectory :: "nat \<Rightarrow> dirRecord list \<Rightarrow> bool \<Rightarrow> bytes option" where
  "buildDirectory dirLBA files joliet =
     append_records (replicate isoSectorSize 0) 0
       (buildDirRecord (dir_self dirLBA) DirSelf joliet # buildDirRecord (dir_self dirLBA) DirParent joliet #
        map (\<lambda>f. buildDirRecord f DirNormal joliet) files)"

subsection \<open>Descriptors and path tables\<close>

definition rootPathTableSize :: nat where "rootPathTableSize = 10"

definition buildVolumeDescriptor :: "8 word \<Rightarrow> bool \<Rightarrow> string \<Rightarrow> nat \<Rightarrow> nat \<Rightarrow> nat \<Rightarrow> nat \<Rightarrow> bytes" where
  "buildVolumeDescriptor descType joliet volID totalSectors pathTableLBA pathTableMLBA rootDirLBA =
     fold patch
       [(0, [descType]), (1, ascii_bytes ''CD001''), (6, [1]),
        (88, if joliet then [0x25, 0x2F, 0x45] else []),
        (40, writeStrField 32 volID joliet),
        (80, putBothEndian32 totalSectors),
        (120, putBothEndian16 1), (124, putBothEndian16 1),
        (128, putBothEndian16 isoSectorSize),
        (132, putBothEndian32 rootPathTableSize),
        (140, le32 pathTableLBA), (148, rev (le32 pathTableMLBA)),
        (156, buildDirRecord (dir_self rootDirLBA) DirSelf joliet),
        (190, fillTextFields 623 joliet),
        (881, [1])]
       (replicate isoSectorSize 0)"

definition buildRootPathTable :: "nat \<Rightarrow> bool \<Rightarrow> bytes" where
  "buildRootPathTable rootDirLBA bigEndian =
     patch (0, [1, 0] @ (if bigEndian then rev (le32 rootDirLBA) @ rev (le16 1) else le32 rootDirLBA @ le16 1) @ [0, 0])
       (replicate isoSectorSize 0)"

definition terminator :: bytes where
  "terminator = patch (0, [0xFF] @ ascii_bytes ''CD001'' @ [1]) (replicate isoSectorSize 0)"

subsection \<open>writeISO\<close>

record placed =
  pl_file :: isoFile
  pl_start :: nat

definition sectors_of :: "bytes \<Rightarrow> nat" where
  "sectors_of data = (let n = (length data + isoSectorSize - 1) div isoSectorSize in if n = 0 then 1 else n)"

fun place :: "nat \<Rightarrow> isoFile list \<Rightarrow> placed list \<times> nat" where
  "place sector [] = ([], sector)"
| "place sector (f # fs) =
     (let (ps, t) = place ((sector + sectors_of (if_data f)) mod 2 ^ 32) fs
      in (\<lparr>pl_file = f, pl_start = sector\<rparr> # ps, t))"

definition writeSector :: "nat \<times> bytes \<Rightarrow> bytes \<Rightarrow> bytes" where
  "writeSector sd buf = patch (fst sd * isoSectorSize, take isoSectorSize (snd sd)) buf"

definition file_entry :: "placed \<Rightarrow> dirRecord" where
  "file_entry p =
     \<lparr>dr_name = if_name (pl_file p), dr_startSector = pl_start p, dr_length = length (if_data (pl_file p)), dr_isDir = False\<rparr>"

definition maxFileBytes :: nat where "maxFileBytes = 64 * 1024 * 1024"

datatype iso_error = SeedTooBig string | IsoPanic | SeedEmpty

definition writeISO :: "string \<Rightarrow> isoFile list \<Rightarrow> (iso_error, bytes) result" where
  "writeISO volID files =
     (case List.find (\<lambda>f. length (if_data f) > maxFileBytes) files of
        Some f \<Rightarrow> Inl (SeedTooBig (if_name f))
      | None \<Rightarrow>
          let (ps, total) = place 25 files; entries = map file_entry ps in
          (case (buildDirectory 23 entries False, buildDirectory 24 entries True) of
             (Some rootPrimary, Some rootJoliet) \<Rightarrow>
               Inr (fold patch (map (\<lambda>p. (pl_start p * isoSectorSize, if_data (pl_file p))) ps)
                 (fold writeSector
                   [(16, buildVolumeDescriptor 1 False volID total 19 20 23),
                    (17, buildVolumeDescriptor 2 True volID total 21 22 24),
                    (18, terminator),
                    (19, buildRootPathTable 23 False), (20, buildRootPathTable 23 True),
                    (21, buildRootPathTable 24 False), (22, buildRootPathTable 24 True),
                    (23, rootPrimary), (24, rootJoliet)]
                   (replicate (total * isoSectorSize) 0)))
           | _ \<Rightarrow> Inl IsoPanic))"

definition buildISONative :: "bytes \<Rightarrow> bytes \<Rightarrow> (iso_error, bytes) result" where
  "buildISONative ud md =
     writeISO ''cidata'' [\<lparr>if_name = ''user-data'', if_data = ud\<rparr>, \<lparr>if_name = ''meta-data'', if_data = md\<rparr>]"

definition GenerateSeed :: "isoFile list \<Rightarrow> (iso_error, bytes) result" where
  "GenerateSeed files = (if files = [] then Inl SeedEmpty else writeISO ''cidata'' files)"

subsection \<open>A reader of the format\<close>

definition get :: "nat \<Rightarrow> nat \<Rightarrow> bytes \<Rightarrow> bytes" where
  "get off n s = take n (drop off s)"

definition u32 :: "bytes \<Rightarrow> nat" where
  "u32 b = unat (b ! 0) + 256 * unat (b ! 1) + 65536 * unat (b ! 2) + 16777216 * unat (b ! 3)"

function scan_dir :: "bytes \<Rightarrow> (bytes \<times> nat \<times> nat) list" where
  "scan_dir s =
     (if length s < 33 \<or> unat (s ! 0) < 33 then []
      else (get 33 (unat (s ! 32)) s, u32 (get 2 4 s), u32 (get 10 4 s)) # scan_dir (drop (unat (s ! 0)) s))"
  by auto
termination by (relation "measure length") auto

declare scan_dir.simps [simp del]

definition read_file :: "nat \<Rightarrow> bytes \<Rightarrow> bytes \<Rightarrow> bytes option" where
  "read_file sec ident img =
     (let desc = get (sec * 2048) 2048 img in
      if get 1 5 desc \<noteq> ascii_bytes ''CD001'' then None
      else map_option (\<lambda>(lba, n). get (lba * 2048) n img)
             (map_of (scan_dir (get (u32 (get 158 4 desc) * 2048) (u32 (get 166 4 desc)) img)) ident))"

definition volume_label :: "bytes \<Rightarrow> bytes" where
  "volume_label img = get (16 * 2048 + 40) 32 img"

subsection \<open>Lemmas on fields and patches\<close>

lemma length_le [simp]: "length (le16 v) = 2" "length (le32 v) = 4" "length (putBothEndian16 v) = 4"
  "length (putBothEndian32 v) = 8"
  by (simp_all add: le16_def le32_def putBothEndian16_def putBothEndian32_def)

lemma u32_le32: "v < 2 ^ 32 \<Longrightarrow> u32 (le32 v) = v"
proof -
  assume v: "v < 2 ^ 32"
  have b: "unat (of_nat n :: 8 word) = n mod 256" for n by (simp add: unat_of_nat)
  define a where "a = v div 256"
  define c where "c = a div 256"
  define e where "e = c div 256"
  have d: "v div 65536 = c" "v div 16777216 = e"
    using div_mult2_eq [of v 256 256] div_mult2_eq [of v 65536 256] by (simp_all add: a_def c_def e_def)
  have "e < 256" using v by (simp add: e_def c_def a_def div_mult2_eq [symmetric] less_mult_imp_div_less)
  moreover have "v = 256 * a + v mod 256" "a = 256 * c + a mod 256" "c = 256 * e + c mod 256"
    by (simp_all add: a_def c_def e_def)
  ultimately show ?thesis unfolding u32_def le32_def by (simp add: b d a_def [symmetric])
qed

lemma length_ascii_bytes [simp]: "length (ascii_bytes s) = length s"
  by (simp add: ascii_bytes_def)

lemma length_ucs2BE [simp]: "length (ucs2BE s) = 2 * length s"
  by (induction s) (simp_all add: ucs2BE_def)

lemma unat_of_char: "unat (of_char c :: 8 word) = of_char c"
proof -
  have "(of_char c :: 8 word) = of_nat (of_char c)" by (simp add: of_nat_of_char)
  then show ?thesis by (simp add: unat_of_nat take_bit_eq_mod of_char_mod_256)
qed

lemma of_char_inj: "(of_char a :: 8 word) = of_char b \<longleftrightarrow> a = b"
  by (metis unat_of_char char_of_char)

lemma ascii_bytes_inj: "ascii_bytes a = ascii_bytes b \<longleftrightarrow> a = b"
  unfolding ascii_bytes_def by (intro inj_eq inj_mapI injI) (simp add: of_char_inj)

lemma ucs2BE_inj: "ucs2BE a = ucs2BE b \<longleftrightarrow> a = b"
proof (induction a arbitrary: b)
  case Nil
  then show ?case by (cases b) (simp_all add: ucs2BE_def)
next
  case (Cons c a)
  then show ?case by (cases b) (auto simp: ucs2BE_def of_char_inj)
qed

lemma length_concat_pairs: "length (concat (replicate k [a, b])) = 2 * k"
  by (induction k) simp_all

lemma length_writeStrField [simp]: "length (writeStrField n s joliet) = n"
  by (auto simp: writeStrField_def Let_def length_concat_pairs min_def)

lemma length_fillTextFields [simp]: "length (fillTextFields n joliet) = n"
  by (simp add: fillTextFields_def length_concat_pairs)

text \<open>Where a patch lies and where it does not.\<close>

lemma length_patch [simp]: "o' + length d \<le> length s \<Longrightarrow> length (patch (o', d) s) = length s"
  by (simp add: patch_def)

lemma get_patch_in:
  assumes "p \<le> a" and "a + n \<le> p + length d" and "p + length d \<le> length s"
  shows "get a n (patch (p, d) s) = get (a - p) n d"
proof -
  obtain k where a: "a = p + k" using assms(1) le_Suc_ex by blast
  then show ?thesis using assms by (simp add: get_def patch_def)
qed

lemma get_patch_before: "a + n \<le> p \<Longrightarrow> p + length d \<le> length s \<Longrightarrow> get a n (patch (p, d) s) = get a n s"
  by (simp add: get_def patch_def drop_take min_absorb1)

lemma get_patch_after:
  assumes "p + length d \<le> a" and "p + length d \<le> length s"
  shows "get a n (patch (p, d) s) = get a n s"
proof -
  obtain k where "a = p + length d + k" using assms(1) le_Suc_ex by blast
  then show ?thesis using assms by (simp add: get_def patch_def add.commute add.left_commute)
qed

lemma length_get [simp]: "a + n \<le> length s \<Longrightarrow> length (get a n s) = n"
  by (simp add: get_def)

lemma get_get: "b + m \<le> n \<Longrightarrow> get b m (get a n s) = get (a + b) m s"
  by (simp add: get_def drop_take min_def add.commute)

lemma get_all: "get 0 (length s) s = s"
  by (simp add: get_def)

lemmas get_patch = get_patch_in get_patch_before get_patch_after

subsection \<open>The directory\<close>

lemma length_buildDirRecord [simp]:
  "length (dir_ident r kind joliet) \<le> 221 \<Longrightarrow>
   length (buildDirRecord r kind joliet) = rec_len (length (dir_ident r kind joliet))"
  by (auto simp: buildDirRecord_def Let_def rec_len_def min_def)

lemma append_records_eq:
  assumes "off + length (concat recs) \<le> length s"
  shows "append_records s off recs = Some (take off s @ concat recs @ drop (off + length (concat recs)) s)"
  using assms
proof (induction recs arbitrary: s off)
  case (Cons rec recs)
  have fit: "take (length s - off) rec = rec" "off + length rec \<le> length s" using Cons.prems by simp_all
  have "append_records (patch (off, rec) s) (off + length rec) recs =
      Some (take (off + length rec) (patch (off, rec) s) @ concat recs @
        drop (off + length rec + length (concat recs)) (patch (off, rec) s))"
    using Cons.prems by (intro Cons.IH) simp
  then show ?case using fit Cons.prems by (simp add: patch_def add.assoc add.commute add.left_commute)
qed simp

lemma scan_dir_zeros: "scan_dir (replicate k 0) = []"
  by (subst scan_dir.simps) (cases k; simp)

text \<open>One record, read back.\<close>

lemma scan_dir_record:
  assumes len: "length (dir_ident r kind joliet) \<le> 221" and "dr_startSector r < 2 ^ 32" and "dr_length r < 2 ^ 32"
  shows "scan_dir (buildDirRecord r kind joliet @ rest) =
    (dir_ident r kind joliet, dr_startSector r, dr_length r) # scan_dir rest"
proof -
  define ident where "ident = dir_ident r kind joliet"
  define n where "n = rec_len (length ident)"
  define b where "b = buildDirRecord r kind joliet"
  define pad where "pad = take (n - 33 - length ident) [0 :: 8 word]"
  have n: "33 \<le> n" "n \<le> 255" "33 + length ident \<le> n" "n \<le> 34 + length ident"
    using len by (auto simp: n_def ident_def rec_len_def Let_def min_def)
  define pre where "pre = [of_nat n, 0] @ putBothEndian32 (dr_startSector r) @ putBothEndian32 (dr_length r) @
      replicate 7 0 @ [if dr_isDir r then 2 else 0] @ [0, 0] @ putBothEndian16 1"
  have pre: "length pre = 32" by (simp add: pre_def)
  have "take (n - 33) (ident @ [0]) = ident @ pad" using n by (simp add: pad_def)
  then have b: "b = pre @ of_nat (length ident) # ident @ pad"
    by (simp add: b_def buildDirRecord_def Let_def ident_def [symmetric] n_def [symmetric] pre_def)
  have lb: "length b = n" using length_buildDirRecord [OF len] by (simp add: b_def n_def ident_def)
  have word: "unat (of_nat m :: 8 word) = m" if "m < 256" for m using that by (simp add: unat_of_nat)
  have "b ! 0 = of_nat n" by (simp add: b pre_def)
  then have len_b: "unat ((b @ rest) ! 0) = n" using n lb word [of n] by (simp add: nth_append)
  have at32: "(b @ rest) ! 32 = of_nat (length ident)" using pre by (simp add: b nth_append)
  have "get 2 4 pre = le32 (dr_startSector r)" "get 10 4 pre = le32 (dr_length r)"
    by (simp_all add: pre_def get_def putBothEndian32_def)
  then have get2: "get 2 4 (b @ rest) = le32 (dr_startSector r)" and get10: "get 10 4 (b @ rest) = le32 (dr_length r)"
    using pre by (simp_all add: b get_def)
  have get33: "get 33 (length ident) (b @ rest) = ident" using pre by (simp add: b get_def)
  have "scan_dir (b @ rest) = (get 33 (unat ((b @ rest) ! 32)) (b @ rest), u32 (get 2 4 (b @ rest)), u32 (get 10 4 (b @ rest))) #
      scan_dir (drop (unat ((b @ rest) ! 0)) (b @ rest))"
    using n lb len_b by (subst scan_dir.simps) auto
  moreover have "unat (of_nat (length ident) :: 8 word) = length ident" using n by (intro word) simp
  ultimately show ?thesis
    using assms(2,3) lb by (simp add: len_b at32 get2 get10 get33 u32_le32 b_def [symmetric] ident_def [symmetric])
qed

lemma scan_records:
  assumes "\<And>r. r \<in> set rs \<Longrightarrow> length (dir_ident r DirNormal joliet) \<le> 221 \<and> dr_startSector r < 2 ^ 32 \<and> dr_length r < 2 ^ 32"
  shows "scan_dir (concat (map (\<lambda>r. buildDirRecord r DirNormal joliet) rs) @ replicate k 0) =
    map (\<lambda>r. (dir_ident r DirNormal joliet, dr_startSector r, dr_length r)) rs"
  using assms by (induction rs) (simp_all add: scan_dir_zeros scan_dir_record)

definition dir_bytes :: "dirRecord list \<Rightarrow> bool \<Rightarrow> nat" where
  "dir_bytes rs joliet = 68 + (\<Sum>r \<leftarrow> rs. rec_len (length (dir_ident r DirNormal joliet)))"

lemma buildDirectory_scan:
  assumes wf: "\<And>r. r \<in> set rs \<Longrightarrow> length (dir_ident r DirNormal joliet) \<le> 221 \<and> dr_startSector r < 2 ^ 32 \<and> dr_length r < 2 ^ 32"
    and fits: "dir_bytes rs joliet \<le> 2048" and lba: "lba < 2 ^ 32"
  shows "\<exists>d. buildDirectory lba rs joliet = Some d \<and> length d = 2048 \<and>
    scan_dir d = ([0], lba, 2048) # ([1], lba, 2048) #
      map (\<lambda>r. (dir_ident r DirNormal joliet, dr_startSector r, dr_length r)) rs"
proof -
  define self where "self = buildDirRecord (dir_self lba) DirSelf joliet"
  define parent where "parent = buildDirRecord (dir_self lba) DirParent joliet"
  define body where "body = concat (map (\<lambda>r. buildDirRecord r DirNormal joliet) rs)"
  have fields: "dr_startSector (dir_self lba) = lba" "dr_length (dir_self lba) = 2048"
    by (simp_all add: dir_self_def isoSectorSize_def)
  have idents: "dir_ident (dir_self lba) DirSelf joliet = [0]" "dir_ident (dir_self lba) DirParent joliet = [1]"
    by (simp_all add: dir_ident_def)
  have len2: "length self = 34" "length parent = 34"
    using length_buildDirRecord [of "dir_self lba" DirSelf joliet] length_buildDirRecord [of "dir_self lba" DirParent joliet]
    by (simp_all add: self_def parent_def idents rec_len_def)
  have lenb: "length body = (\<Sum>r \<leftarrow> rs. rec_len (length (dir_ident r DirNormal joliet)))"
    using wf unfolding body_def by (induction rs) simp_all
  let ?all = "self @ parent @ body"
  have room: "length ?all \<le> 2048" using fits lenb len2 by (simp add: dir_bytes_def)
  define d where "d = ?all @ replicate (2048 - length ?all) 0"
  have "buildDirectory lba rs joliet = Some d"
    using append_records_eq [of 0 "self # parent # map (\<lambda>r. buildDirRecord r DirNormal joliet) rs" "replicate 2048 0"] room
    by (simp add: buildDirectory_def isoSectorSize_def self_def parent_def body_def d_def)
  moreover have "length d = 2048" using room by (simp add: d_def)
  moreover have "scan_dir (self @ x) = ([0], lba, 2048) # scan_dir x" "scan_dir (parent @ x) = ([1], lba, 2048) # scan_dir x" for x
    using scan_dir_record [of "dir_self lba" DirSelf joliet x] scan_dir_record [of "dir_self lba" DirParent joliet x] lba
    by (simp_all add: self_def parent_def idents fields)
  moreover have "scan_dir (body @ replicate k 0) = map (\<lambda>r. (dir_ident r DirNormal joliet, dr_startSector r, dr_length r)) rs" for k
    unfolding body_def by (rule scan_records [OF wf])
  ultimately show ?thesis by (simp add: d_def)
qed

subsection \<open>The image\<close>

lemma length_fold_patch:
  "list_all (\<lambda>(p, d). p + length d \<le> length s) xs \<Longrightarrow> length (fold patch xs s) = length s"
  by (induction xs arbitrary: s) (auto simp: list_all_iff)

lemma get_fold_other:
  "list_all (\<lambda>(p, d). p + length d \<le> length s \<and> (a + n \<le> p \<or> p + length d \<le> a)) xs \<Longrightarrow>
   get a n (fold patch xs s) = get a n s"
proof (induction xs arbitrary: s)
  case (Cons x xs)
  obtain p d where x: "x = (p, d)" by (cases x)
  have "get a n (patch (p, d) s) = get a n s" "length (patch (p, d) s) = length s"
    using Cons.prems x by (auto simp: get_patch_before get_patch_after)
  with Cons x show ?case by simp
qed simp

lemma get_fold_in:
  assumes "list_all (\<lambda>(p, d). p + length d \<le> length s) (xs @ (q, e) # ys)" and "q \<le> a" and "a + n \<le> q + length e"
    and "list_all (\<lambda>(p, d). a + n \<le> p \<or> p + length d \<le> a) ys"
  shows "get a n (fold patch (xs @ (q, e) # ys) s) = get (a - q) n e"
proof -
  define s1 where "s1 = fold patch xs s"
  have len: "length s1 = length s" using assms(1) by (simp add: s1_def length_fold_patch)
  have "get a n (fold patch ys (patch (q, e) s1)) = get a n (patch (q, e) s1)"
    using assms(1,4) len by (intro get_fold_other) (auto simp: list_all_iff)
  also have "\<dots> = get (a - q) n e" using assms len by (intro get_patch_in) simp_all
  finally show ?thesis by (simp add: s1_def)
qed

lemma length_root_record [simp]: "length (buildDirRecord (dir_self lba) DirSelf joliet) = 34"
  using length_buildDirRecord [of "dir_self lba" DirSelf joliet] by (simp add: dir_ident_def rec_len_def)

lemma root_record_fields:
  "get 2 4 (buildDirRecord (dir_self lba) DirSelf joliet) = le32 lba"
  "get 10 4 (buildDirRecord (dir_self lba) DirSelf joliet) = le32 2048"
  by (simp_all add: buildDirRecord_def Let_def get_def dir_self_def putBothEndian32_def isoSectorSize_def)

lemma volume_descriptor:
  fixes ty joliet volID secs pl pm root
  defines "desc \<equiv> buildVolumeDescriptor ty joliet volID secs pl pm root"
  shows "length desc = 2048" "get 1 5 desc = ascii_bytes ''CD001''" "get 40 32 desc = writeStrField 32 volID joliet"
    "get 158 4 desc = le32 root" "get 166 4 desc = le32 2048"
proof -
  define z where "z = replicate isoSectorSize (0 :: 8 word)"
  have z: "length z = 2048" unfolding z_def isoSectorSize_def by (rule length_replicate)
  let ?rec = "buildDirRecord (dir_self root) DirSelf joliet"
  let ?a = "[(0, [ty])]"
  let ?b = "[(6, [1]), (88, if joliet then [0x25, 0x2F, 0x45] else [])]"
  let ?c = "[(80, putBothEndian32 secs), (120, putBothEndian16 1), (124, putBothEndian16 1),
        (128, putBothEndian16 2048), (132, putBothEndian32 rootPathTableSize), (140, le32 pl), (148, rev (le32 pm))]"
  let ?e = "[(190, fillTextFields 623 joliet), (881, [1 :: 8 word])]"
  let ?cd = "(1, ascii_bytes ''CD001'')" and ?vol = "(40, writeStrField 32 volID joliet)" and ?root = "(156, ?rec)"
  have desc: "desc = fold patch (?a @ ?cd # ?b @ ?vol # ?c @ ?root # ?e) z"
    unfolding desc_def buildVolumeDescriptor_def z_def [symmetric] by (simp add: isoSectorSize_def)
  have fit: "list_all (\<lambda>(p, d). p + length d \<le> length z) (?a @ ?cd # ?b @ ?vol # ?c @ ?root # ?e)" by (simp add: z)
  show "length desc = 2048" unfolding desc using length_fold_patch [OF fit] z by (rule trans)
  have "get 1 5 desc = get (1 - 1) 5 (ascii_bytes ''CD001'')"
    unfolding desc by (rule get_fold_in [OF fit]) simp_all
  then show "get 1 5 desc = ascii_bytes ''CD001''" by (simp add: get_def)
  have "get 40 32 desc = get (40 - 40) 32 (writeStrField 32 volID joliet)"
    using get_fold_in [of z "?a @ ?cd # ?b" 40 "writeStrField 32 volID joliet" "?c @ ?root # ?e" 40 32] fit
    unfolding desc append_Cons append_assoc by (simp del: fold_simps)
  then show "get 40 32 desc = writeStrField 32 volID joliet" by (simp add: get_def)
  have "get a 4 desc = get (a - 156) 4 ?rec" if "156 \<le> a" "a \<le> 186" for a
    using get_fold_in [of z "?a @ ?cd # ?b @ ?vol # ?c" 156 ?rec ?e a 4] fit that
    unfolding desc append_Cons append_assoc by (simp del: fold_simps)
  from this [of 158] this [of 166] show "get 158 4 desc = le32 root" "get 166 4 desc = le32 2048"
    by (simp_all add: root_record_fields)
qed

lemma sectors_of_covers: "length d \<le> sectors_of d * 2048"
proof -
  have "n \<le> (2047 + n) div 2048 * 2048" for n :: nat by linarith
  then show ?thesis by (auto simp: sectors_of_def Let_def isoSectorSize_def div_eq_0_iff)
qed

lemma sectors_of_le: "length d \<le> maxFileBytes \<Longrightarrow> sectors_of d \<le> 32768"
  by (auto simp: sectors_of_def Let_def isoSectorSize_def maxFileBytes_def)

text \<open>Placement hands out consecutive runs of sectors as long as the running sector number does not
  wrap; writing the files then leaves everything below the first run alone.\<close>

lemma place_shape:
  assumes "place sector fs = (ps, t)" and "sector + (\<Sum>f \<leftarrow> fs. sectors_of (if_data f)) < 2 ^ 32"
  shows "t = sector + (\<Sum>f \<leftarrow> fs. sectors_of (if_data f)) \<and> map pl_file ps = fs \<and>
    (\<forall>p \<in> set ps. sector \<le> pl_start p \<and> pl_start p + sectors_of (if_data (pl_file p)) \<le> t)"
  using assms
proof (induction fs arbitrary: sector ps)
  case (Cons f fs)
  let ?n = "sector + sectors_of (if_data f)"
  have n: "?n mod 2 ^ 32 = ?n" using Cons.prems(2) by simp
  obtain qs where qs: "place ?n fs = (qs, t)" "ps = \<lparr>pl_file = f, pl_start = sector\<rparr> # qs"
    using Cons.prems(1) n by (auto simp: Let_def split: prod.splits)
  from Cons.IH [OF qs(1)] Cons.prems(2) qs(2) show ?case by fastforce
qed simp

abbreviation file_patch :: "placed \<Rightarrow> nat \<times> bytes" where
  "file_patch p \<equiv> (pl_start p * isoSectorSize, if_data (pl_file p))"

lemma place_write:
  assumes "place sector fs = (ps, t)" and "sector + (\<Sum>f \<leftarrow> fs. sectors_of (if_data f)) < 2 ^ 32"
    and "t * 2048 \<le> length buf"
  shows "length (fold patch (map file_patch ps) buf) = length buf \<and>
    (\<forall>a n. a + n \<le> sector * 2048 \<longrightarrow> get a n (fold patch (map file_patch ps) buf) = get a n buf) \<and>
    (\<forall>p \<in> set ps. get (pl_start p * 2048) (length (if_data (pl_file p))) (fold patch (map file_patch ps) buf) = if_data (pl_file p))"
  using assms
proof (induction fs arbitrary: sector ps buf)
  case (Cons f fs)
  let ?d = "if_data f" and ?n = "sector + sectors_of (if_data f)"
  have n: "?n mod 2 ^ 32 = ?n" using Cons.prems(2) by simp
  obtain qs where qs: "place ?n fs = (qs, t)" "ps = \<lparr>pl_file = f, pl_start = sector\<rparr> # qs"
    using Cons.prems(1) n by (auto simp: Let_def split: prod.splits)
  have sum: "?n + (\<Sum>f \<leftarrow> fs. sectors_of (if_data f)) < 2 ^ 32" using Cons.prems(2) by simp
  have "?n \<le> t" using place_shape [OF qs(1) sum] by simp
  then have le: "?n * 2048 \<le> length buf" using Cons.prems(3) mult_le_mono1 le_trans by blast
  have cov: "sector * 2048 + length ?d \<le> ?n * 2048" using sectors_of_covers [of ?d] by (simp add: algebra_simps)
  define buf1 where "buf1 = patch (sector * 2048, ?d) buf"
  have len: "length buf1 = length buf" unfolding buf1_def using cov le by (intro length_patch) linarith
  from Cons.IH [OF qs(1) sum, of buf1] Cons.prems(3) len
  have ih: "length (fold patch (map file_patch qs) buf1) = length buf"
    "\<And>a n. a + n \<le> ?n * 2048 \<Longrightarrow> get a n (fold patch (map file_patch qs) buf1) = get a n buf1"
    "\<And>p. p \<in> set qs \<Longrightarrow> get (pl_start p * 2048) (length (if_data (pl_file p))) (fold patch (map file_patch qs) buf1) = if_data (pl_file p)"
    by auto
  have all: "fold patch (map file_patch ps) buf = fold patch (map file_patch qs) buf1"
    by (simp add: qs(2) buf1_def isoSectorSize_def)
  have first: "get (sector * 2048) (length ?d) (fold patch (map file_patch qs) buf1) = ?d"
    using ih(2) [OF cov] get_patch_in [of "sector * 2048" "sector * 2048" "length ?d" ?d buf] cov le
    by (simp add: buf1_def get_def)
  have low: "get a n (fold patch (map file_patch qs) buf1) = get a n buf" if "a + n \<le> sector * 2048" for a n
    using ih(2) [of a n] that get_patch_before [of a n "sector * 2048" ?d buf] cov le by (simp add: buf1_def)
  show ?case using ih(1,3) first low unfolding all by (auto simp: qs(2))
qed simp

lemma writeSector_fold:
  assumes "distinct (map fst xs)" and "list_all (\<lambda>(k, d). length d = 2048 \<and> (k + 1) * 2048 \<le> length buf) xs"
  shows "length (fold writeSector xs buf) = length buf \<and>
    list_all (\<lambda>(k, d). get (k * 2048) 2048 (fold writeSector xs buf) = d) xs \<and>
    (\<forall>k. k \<notin> fst ` set xs \<longrightarrow> get (k * 2048) 2048 (fold writeSector xs buf) = get (k * 2048) 2048 buf)"
  using assms
proof (induction xs arbitrary: buf)
  case (Cons x xs)
  obtain j d where x: "x = (j, d)" by (cases x)
  define buf1 where "buf1 = patch (j * 2048, d) buf"
  have w: "writeSector (j, d) buf = buf1" and fit: "j * 2048 + length d \<le> length buf" and d: "length d = 2048"
    using Cons.prems(2) by (simp_all add: x writeSector_def isoSectorSize_def buf1_def algebra_simps)
  have len: "length buf1 = length buf" using fit by (simp add: buf1_def)
  have own: "get (j * 2048) 2048 buf1 = d"
    using get_patch_in [of "j * 2048" "j * 2048" 2048 d buf] fit d by (simp add: buf1_def get_def)
  have other: "get (k * 2048) 2048 buf1 = get (k * 2048) 2048 buf" if "k \<noteq> j" for k
  proof (cases "k < j")
    case True
    then have "k * 2048 + 2048 \<le> j * 2048" by simp
    with fit show ?thesis by (simp add: buf1_def get_patch_before)
  next
    case False
    with that have "j * 2048 + length d \<le> k * 2048" by (simp add: d)
    with fit show ?thesis by (simp add: buf1_def get_patch_after)
  qed
  from Cons.IH [of buf1] Cons.prems len show ?case by (auto simp: x w own other)
qed simp

lemma length_tables [simp]: "length (buildRootPathTable lba big) = 2048" "length terminator = 2048"
  by (simp_all add: buildRootPathTable_def terminator_def patch_def isoSectorSize_def)

text \<open>Seed files an image can carry: plain names, files within the size limit and both directory trees
  within their one sector.\<close>

definition seed_fits :: "isoFile list \<Rightarrow> bool" where
  "seed_fits files \<longleftrightarrow>
     distinct (map if_name files) \<and>
     list_all (\<lambda>f. if_name f \<noteq> [] \<and> length (if_name f) \<le> 110 \<and> list_all (\<lambda>c. of_char c < (128 :: nat)) (if_name f) \<and>
       length (if_data f) \<le> maxFileBytes) files \<and>
     68 + (\<Sum>f \<leftarrow> files. rec_len (length (if_name f) + 2)) \<le> 2048 \<and>
     68 + (\<Sum>f \<leftarrow> files. rec_len (2 * length (if_name f))) \<le> 2048"

lemma seed_fits_total:
  assumes "seed_fits files"
  shows "25 + (\<Sum>f \<leftarrow> files. sectors_of (if_data f)) < 2 ^ 32"
proof -
  have "34 * length fs \<le> (\<Sum>f \<leftarrow> fs. rec_len (length (if_name f) + 2))" for fs :: "isoFile list"
    by (induction fs) (auto simp: rec_len_def Let_def min_def)
  from this [of files] assms have "length files \<le> 60" by (simp add: seed_fits_def)
  moreover have "(\<Sum>f \<leftarrow> fs. sectors_of (if_data f)) \<le> 32768 * length fs"
    if "list_all (\<lambda>f. length (if_data f) \<le> maxFileBytes) fs" for fs
    using that by (induction fs) (use sectors_of_le in \<open>fastforce\<close>)+
  from this [of files] have "(\<Sum>f \<leftarrow> files. sectors_of (if_data f)) \<le> 32768 * length files"
    using assms by (simp add: seed_fits_def list_all_iff)
  ultimately show ?thesis by simp
qed

text \<open>What the image of fitting files holds: a descriptor and a directory of each tree in their
  sectors, and every file where the directories say.\<close>

lemma writeISO_layout:
  assumes fits: "seed_fits files"
  shows "\<exists>img (ps :: placed list) t. writeISO volID files = Inr img \<and> map pl_file ps = files \<and>
    get (16 * 2048) 2048 img = buildVolumeDescriptor 1 False volID t 19 20 23 \<and>
    get (17 * 2048) 2048 img = buildVolumeDescriptor 2 True volID t 21 22 24 \<and>
    scan_dir (get (23 * 2048) 2048 img) = ([0], 23, 2048) # ([1], 23, 2048) #
      map (\<lambda>p. (ascii_bytes (if_name (pl_file p) @ '';1''), pl_start p, length (if_data (pl_file p)))) ps \<and>
    scan_dir (get (24 * 2048) 2048 img) = ([0], 24, 2048) # ([1], 24, 2048) #
      map (\<lambda>p. (ucs2BE (if_name (pl_file p)), pl_start p, length (if_data (pl_file p)))) ps \<and>
    (\<forall>p \<in> set ps. get (pl_start p * 2048) (length (if_data (pl_file p))) img = if_data (pl_file p))"
proof -
  obtain ps t where pl: "place 25 files = (ps, t)" by (cases "place 25 files")
  note shape = place_shape [OF pl seed_fits_total [OF fits]]
  have files: "map pl_file ps = files" and t: "25 \<le> t" using shape by simp_all
  have wf: "length (if_name (pl_file p)) \<le> 110" "length (if_data (pl_file p)) \<le> maxFileBytes" "pl_start p < 2 ^ 32"
    if "p \<in> set ps" for p
    using that fits shape seed_fits_total [OF fits] by (auto simp: seed_fits_def list_all_iff)
  have ok: "length (dir_ident r DirNormal j) \<le> 221 \<and> dr_startSector r < 2 ^ 32 \<and> dr_length r < 2 ^ 32"
    if "r \<in> set (map file_entry ps)" for r j
    using that wf by (fastforce simp: file_entry_def dir_ident_def maxFileBytes_def)
  have rec: "dir_bytes (map file_entry ps) j \<le> 2048" for j
    using fits unfolding files [symmetric]
    by (cases j) (simp_all add: seed_fits_def dir_bytes_def file_entry_def dir_ident_def comp_def)
  obtain d1 where d1: "buildDirectory 23 (map file_entry ps) False = Some d1" "length d1 = 2048"
    "scan_dir d1 = ([0], 23, 2048) # ([1], 23, 2048) #
      map (\<lambda>p. (ascii_bytes (if_name (pl_file p) @ '';1''), pl_start p, length (if_data (pl_file p)))) ps"
    using buildDirectory_scan [OF ok rec, of 23 False] by (auto simp: file_entry_def dir_ident_def comp_def)
  obtain d2 where d2: "buildDirectory 24 (map file_entry ps) True = Some d2" "length d2 = 2048"
    "scan_dir d2 = ([0], 24, 2048) # ([1], 24, 2048) #
      map (\<lambda>p. (ucs2BE (if_name (pl_file p)), pl_start p, length (if_data (pl_file p)))) ps"
    using buildDirectory_scan [OF ok rec, of 24 True] by (auto simp: file_entry_def dir_ident_def comp_def)
  let ?xs = "[(16, buildVolumeDescriptor 1 False volID t 19 20 23), (17, buildVolumeDescriptor 2 True volID t 21 22 24),
    (18, terminator), (19, buildRootPathTable 23 False), (20, buildRootPathTable 23 True),
    (21, buildRootPathTable 24 False), (22, buildRootPathTable 24 True), (23, d1), (24, d2)]"
  define buf where "buf = fold writeSector ?xs (replicate (t * isoSectorSize) 0)"
  define img where "img = fold patch (map file_patch ps) buf"
  have "list_all (\<lambda>(k, d). length d = 2048 \<and> (k + 1) * 2048 \<le> length (replicate (t * isoSectorSize) (0 :: 8 word))) ?xs"
    using t by (simp add: volume_descriptor d1 d2 isoSectorSize_def)
  from writeSector_fold [OF _ this]
  have buf: "length buf = t * 2048" "list_all (\<lambda>(k, d). get (k * 2048) 2048 buf = d) ?xs"
    by (simp_all add: buf_def isoSectorSize_def)
  note w = place_write [OF pl seed_fits_total [OF fits], of buf, folded img_def]
  have low: "get (k * 2048) 2048 img = get (k * 2048) 2048 buf" if "k < 25" for k
    using w that buf(1) by simp
  have "List.find (\<lambda>f. length (if_data f) > maxFileBytes) files = None"
    using fits by (auto simp: find_None_iff seed_fits_def list_all_iff)
  then have res: "writeISO volID files = Inr img"
    by (simp add: writeISO_def pl d1(1) d2(1) img_def buf_def)
  have data: "\<forall>p \<in> set ps. get (pl_start p * 2048) (length (if_data (pl_file p))) img = if_data (pl_file p)"
    using w buf(1) by simp
  have sec: "get (16 * 2048) 2048 img = buildVolumeDescriptor 1 False volID t 19 20 23"
    "get (17 * 2048) 2048 img = buildVolumeDescriptor 2 True volID t 21 22 24"
    "get (23 * 2048) 2048 img = d1" "get (24 * 2048) 2048 img = d2"
    using low [of 16] low [of 17] low [of 23] low [of 24] buf(2) by simp_all
  show ?thesis
    by (rule exI [of _ img], rule exI [of _ ps], rule exI [of _ t])
      (simp only: res files sec d1(3) d2(3) simp_thms, rule data)
qed

text \<open>A tree of such an image is read back: the descriptor leads to the directory and the directory to
  the file.\<close>

lemma read_tree:
  assumes desc: "get (sec * 2048) 2048 img = buildVolumeDescriptor ty joliet volID t pl pm lba" and lba: "lba < 2 ^ 32"
    and dir: "scan_dir (get (lba * 2048) 2048 img) = ([0], lba, 2048) # ([1], lba, 2048) #
      map (\<lambda>p. (k p, pl_start p, length (if_data (pl_file p)))) ps"
    and keys: "distinct (map k ps)" "\<And>p. p \<in> set ps \<Longrightarrow> 2 \<le> length (k p)"
    and data: "\<And>p. p \<in> set ps \<Longrightarrow> get (pl_start p * 2048) (length (if_data (pl_file p))) img = if_data (pl_file p)"
    and p: "p \<in> set ps"
  shows "read_file sec (k p) img = Some (if_data (pl_file p))"
proof -
  have "map_of (map (\<lambda>p. (k p, pl_start p, length (if_data (pl_file p)))) ps) (k p) = Some (pl_start p, length (if_data (pl_file p)))"
    using keys(1) p by (intro map_of_is_SomeI) (auto simp: comp_def)
  moreover have "k p \<noteq> [0]" "k p \<noteq> [1]" using keys(2) [OF p] by auto
  ultimately show ?thesis
    using dir data [OF p] lba by (simp add: read_file_def Let_def desc volume_descriptor [unfolded One_nat_def] u32_le32)
qed

text \<open>So a reader that starts from either volume descriptor finds every file.\<close>

lemma writeISO_readable:
  assumes fits: "seed_fits files"
  shows "\<exists>img. writeISO volID files = Inr img \<and> volume_label img = writeStrField 32 volID False \<and>
    (\<forall>f \<in> set files. read_file 16 (ascii_bytes (if_name f @ '';1'')) img = Some (if_data f) \<and>
      read_file 17 (ucs2BE (if_name f)) img = Some (if_data f))"
proof -
  obtain img t and ps :: "placed list" where img: "writeISO volID files = Inr img" and files: "map pl_file ps = files"
    and desc: "get (16 * 2048) 2048 img = buildVolumeDescriptor 1 False volID t 19 20 23"
      "get (17 * 2048) 2048 img = buildVolumeDescriptor 2 True volID t 21 22 24"
    and dir: "scan_dir (get (23 * 2048) 2048 img) = ([0], 23, 2048) # ([1], 23, 2048) #
        map (\<lambda>p. (ascii_bytes (if_name (pl_file p) @ '';1''), pl_start p, length (if_data (pl_file p)))) ps"
      "scan_dir (get (24 * 2048) 2048 img) = ([0], 24, 2048) # ([1], 24, 2048) #
        map (\<lambda>p. (ucs2BE (if_name (pl_file p)), pl_start p, length (if_data (pl_file p)))) ps"
    and data: "\<And>p. p \<in> set ps \<Longrightarrow> get (pl_start p * 2048) (length (if_data (pl_file p))) img = if_data (pl_file p)"
    using writeISO_layout [OF fits, of volID] by blast
  have dist: "distinct (map (\<lambda>p. if_name (pl_file p)) ps)" and
    name: "\<And>p. p \<in> set ps \<Longrightarrow> if_name (pl_file p) \<noteq> []"
    using fits by (auto simp: seed_fits_def list_all_iff comp_def simp flip: files)
  have keys: "distinct (map (\<lambda>p. ascii_bytes (if_name (pl_file p) @ '';1'')) ps)"
    "distinct (map (\<lambda>p. ucs2BE (if_name (pl_file p))) ps)"
    using dist by (simp_all add: distinct_map inj_on_def ascii_bytes_inj ucs2BE_inj)
  have long: "2 \<le> length (ucs2BE (if_name (pl_file p)))" if "p \<in> set ps" for p
    using name [OF that] by (cases "if_name (pl_file p)") simp_all
  have "volume_label img = get 40 32 (get (16 * 2048) 2048 img)" by (simp add: volume_label_def get_get)
  then have "volume_label img = writeStrField 32 volID False" by (simp only: desc volume_descriptor)
  moreover have "read_file 16 (ascii_bytes (if_name (pl_file p) @ '';1'')) img = Some (if_data (pl_file p))"
    "read_file 17 (ucs2BE (if_name (pl_file p))) img = Some (if_data (pl_file p))" if "p \<in> set ps" for p
    using read_tree [OF desc(1) _ dir(1) keys(1) _ data that] read_tree [OF desc(2) _ dir(2) keys(2) long data that]
    by simp_all
  ultimately show ?thesis using img by (auto simp flip: files)
qed

text \<open>C14: the built-in image writer makes readable images: for files that fit, \<open>GenerateSeed\<close> succeeds,
  the volume label is \<open>cidata\<close>, and a reader that follows the primary tree (identifier "name;1") or
  the Joliet tree (identifier "name" in UCS-2) from the volume descriptor finds every file with
  exactly its bytes, whatever their lengths.\<close>

theorem GenerateSeed_readable:
  assumes "files \<noteq> []" and "seed_fits files"
  shows "\<exists>img. GenerateSeed files = Inr img \<and> volume_label img = writeStrField 32 ''cidata'' False \<and>
    (\<forall>f \<in> set files. read_file 16 (ascii_bytes (if_name f @ '';1'')) img = Some (if_data f) \<and>
      read_file 17 (ucs2BE (if_name f)) img = Some (if_data f))"
  using writeISO_readable [OF assms(2), of "''cidata''"] assms(1) by (simp add: GenerateSeed_def)

theorem GenerateSeed_readable_witness:
  "\<exists>img. GenerateSeed [\<lparr>if_name = ''a'', if_data = [1, 2, 3]\<rparr>, \<lparr>if_name = ''b'', if_data = []\<rparr>] = Inr img \<and>
     read_file 17 (ucs2BE ''a'') img = Some [1, 2, 3] \<and> read_file 16 (ascii_bytes ''b;1'') img = Some []"
proof -
  have "seed_fits [\<lparr>if_name = ''a'', if_data = [1, 2, 3]\<rparr>, \<lparr>if_name = ''b'', if_data = []\<rparr>]"
    by (simp add: seed_fits_def rec_len_def maxFileBytes_def)
  from GenerateSeed_readable [OF _ this] show ?thesis by auto
qed

end
