(* ===== verification/Cloud_Init.thy ===== *)
theory Cloud_Init
  imports Iso9660 Config
begin

text \<open>
  First-boot configuration: \<open>internal/cloudinit/cloudinit.go\<close> renders a configuration to cloud-init's
  user data and meta data and builds the seed image.  \<open>cloudinit.Config\<close> has the fields of the
  \<open>cloud_init\<close> section of a VM's configuration, whose record stands for both.  A text is written line
  by line.  The second part reads the user data the way a YAML parser does where the code relies on
  it: a literal block scalar takes its indentation from its first line that is not blank.
\<close>

subsection \<open>renderUserData\<close>

definition emit_lines :: "string list \<Rightarrow> string" where
  "emit_lines ls = concat (map (\<lambda>l. l @ nl) ls)"

definition item_lines :: "string \<Rightarrow> string list \<Rightarrow> string list" where
  "item_lines ind ks = map (\<lambda>k. ind @ ''- '' @ k) ks"

definition hasUsersBlock :: "CloudInitConfig \<Rightarrow> bool" where
  "hasUsersBlock cfg \<longleftrightarrow> ci_User cfg \<noteq> [] \<and> ci_User cfg \<noteq> ci_DefaultUser cfg"

definition users_section :: "CloudInitConfig \<Rightarrow> string list" where
  "users_section cfg =
     [''users:''] @
     (if ci_DefaultUser cfg \<noteq> [] \<and> ci_SSHKeys cfg \<noteq> [] then
        [''  - name: '' @ ci_DefaultUser cfg,
         ''    sudo: ALL=(ALL) NOPASSWD:ALL'',
         ''    groups: [adm, cdrom, dip, lxd, sudo, plugdev]'',
         ''    shell: /bin/bash'',
         ''    ssh_authorized_keys:''] @ item_lines ''      '' (ci_SSHKeys cfg)
      else [''  - default'']) @
     [''  - name: '' @ ci_User cfg,
      ''    sudo: ALL=(ALL) NOPASSWD:ALL'',
      ''    shell: /bin/bash'',
      ''    no_user_group: true''] @
     (if ci_SSHKeys cfg \<noteq> [] then [''    ssh_authorized_keys:''] @ item_lines ''      '' (ci_SSHKeys cfg) else [])"

definition pw_targets :: "CloudInitConfig \<Rightarrow> string list" where
  "pw_targets cfg =
     (if ci_User cfg \<noteq> [] then [ci_User cfg] else []) @
     (if ci_DefaultUser cfg \<noteq> [] \<and> ci_DefaultUser cfg \<noteq> ci_User cfg then [ci_DefaultUser cfg] else [])"

definition pw_cmd :: "string \<Rightarrow> string \<Rightarrow> string" where
  "pw_cmd t pw = ''echo '' @ [CHR 0x27] @ t @ '':'' @
     ReplaceC CHR 0x27 [CHR 0x27, CHR 0x5C, CHR 0x27, CHR 0x27] pw @ [CHR 0x27] @ '' | chpasswd''"

definition first_boot_cmds :: "CloudInitConfig \<Rightarrow> string list" where
  "first_boot_cmds cfg =
     (if ci_Password cfg \<noteq> [] then map (\<lambda>t. pw_cmd t (ci_Password cfg)) (pw_targets cfg) else []) @ ci_RunCmds cfg"

definition block_lines :: "string \<Rightarrow> string \<Rightarrow> string list" where
  "block_lines ind c = map (\<lambda>l. ind @ l) (SplitC (CHR 0x0A) c)"

definition write_file_head :: "CloudInitWriteFile \<Rightarrow> string list" where
  "write_file_head f =
     [''    permissions: '' @ [CHR 0x27] @ (if wf_Permissions f = [] then ''0644'' else wf_Permissions f) @ [CHR 0x27]] @
     (if wf_Owner f \<noteq> [] then [''    owner: '' @ [CHR 0x27] @ wf_Owner f @ [CHR 0x27]] else []) @
     (if wf_Defer f then [''    defer: true''] else []) @
     (if wf_Encoding f \<noteq> [] then [''    encoding: '' @ wf_Encoding f] else [])"

definition write_file_lines :: "CloudInitWriteFile \<Rightarrow> string list" where
  "write_file_lines f =
     [''  - path: '' @ wf_Path f] @ write_file_head f @ [''    content: |''] @ block_lines ''      '' (wf_Content f)"

definition runcmd_lines :: "string \<Rightarrow> string list" where
  "runcmd_lines c = [''  - |''] @ block_lines ''    '' c"

definition head_section :: "CloudInitConfig \<Rightarrow> string list" where
  "head_section cfg =
     [''#cloud-config''] @
     (if ci_Hostname cfg \<noteq> [] then [''hostname: '' @ ci_Hostname cfg] else []) @
     (if ci_SSHKeys cfg \<noteq> [] \<and> \<not> hasUsersBlock cfg
      then [''ssh_authorized_keys:''] @ item_lines ''  '' (ci_SSHKeys cfg) else []) @
     (if hasUsersBlock cfg then users_section cfg else [])"

definition files_section :: "CloudInitConfig \<Rightarrow> string list" where
  "files_section cfg =
     (if ci_WriteFiles cfg \<noteq> [] then [''write_files:''] @ concat (map write_file_lines (ci_WriteFiles cfg)) else [])"

definition packages_section :: "CloudInitConfig \<Rightarrow> string list" where
  "packages_section cfg =
     (if ci_Packages cfg \<noteq> []
      then [''packages:''] @ item_lines ''  '' (ci_Packages cfg) @ [''package_update: true'', ''package_upgrade: false'']
      else [])"

definition runcmd_section :: "CloudInitConfig \<Rightarrow> string list" where
  "runcmd_section cfg =
     (if first_boot_cmds cfg \<noteq> [] then [''runcmd:''] @ concat (map runcmd_lines (first_boot_cmds cfg)) else [])"

definition renderUserData :: "CloudInitConfig \<Rightarrow> string" where
  "renderUserData cfg =
     emit_lines (head_section cfg @ files_section cfg @ packages_section cfg @ runcmd_section cfg)"

definition renderMetaData :: "CloudInitConfig \<Rightarrow> string" where
  "renderMetaData cfg =
     (let hostname = (if ci_Hostname cfg = [] then ''vee-vm'' else ci_Hostname cfg) in
      emit_lines [''instance-id: '' @ hostname, ''local-hostname: '' @ hostname])"

subsection \<open>Building the image\<close>

datatype iso_plan = RunTool string "string list" | RunHdiutil | WriteNative

definition mkisofsTool :: "(string \<Rightarrow> bool) \<Rightarrow> string \<Rightarrow> string \<Rightarrow> string \<Rightarrow> (string \<times> string list) option" where
  "mkisofsTool onPath isoPath udPath mdPath =
     (if onPath ''xorriso'' then
        Some (''xorriso'', [''-as'', ''mkisofs'', ''-output'', isoPath, ''-volid'', ''cidata'', ''-joliet'', ''-rock'', udPath, mdPath])
      else if onPath ''genisoimage'' then
        Some (''genisoimage'', [''-output'', isoPath, ''-volid'', ''cidata'', ''-joliet'', ''-rock'', udPath, mdPath])
      else None)"

definition buildISO :: "(string \<Rightarrow> bool) \<Rightarrow> bool \<Rightarrow> string \<Rightarrow> string \<Rightarrow> string \<Rightarrow> iso_plan" where
  "buildISO onPath darwin isoPath udPath mdPath =
     (case mkisofsTool onPath isoPath udPath mdPath of
        Some (tool, args) \<Rightarrow> RunTool tool args
      | None \<Rightarrow> if darwin \<and> onPath ''hdiutil'' then RunHdiutil else WriteNative)"

text \<open>\<open>Generate\<close> on a file system that takes every write: the two texts and the image, which an
  external tool (\<open>tool_image\<close>) or the built-in writer makes of them.\<close>

definition Generate ::
  "(string \<Rightarrow> bool) \<Rightarrow> bool \<Rightarrow> (iso_plan \<Rightarrow> bytes \<Rightarrow> bytes \<Rightarrow> (iso_error, bytes) result) \<Rightarrow> string \<Rightarrow> CloudInitConfig \<Rightarrow>
   (iso_error, (string \<times> bytes) list) result" where
  "Generate onPath darwin tool_image dir cfg =
     (let ud = ascii_bytes (renderUserData cfg); md = ascii_bytes (renderMetaData cfg);
          udPath = PathJoin [dir, ''user-data'']; mdPath = PathJoin [dir, ''meta-data''];
          isoPath = PathJoin [dir, ''cidata.iso'']; plan = buildISO onPath darwin isoPath udPath mdPath in
      bind_r (if plan = WriteNative then buildISONative ud md else tool_image plan ud md)
        (\<lambda>img. Inr [(udPath, ud), (mdPath, md), (isoPath, img)]))"


subsection \<open>Reading the user data\<close>

definition indent :: "string \<Rightarrow> nat" where
  "indent l = length (takeWhile (\<lambda>c. c = CHR '' '') l)"

definition blank :: "string \<Rightarrow> bool" where
  "blank l \<longleftrightarrow> list_all (\<lambda>c. c = CHR '' '') l"

text \<open>The text of a literal scalar with clip chomping: the lines up to the last one that is not empty,
  each with its line break.\<close>

definition clip :: "string list \<Rightarrow> string" where
  "clip ls = emit_lines (rev (dropWhile (\<lambda>l. l = []) (rev ls)))"

text \<open>A literal block scalar below a node of indentation \<open>n\<close>, with the lines after it.  Its own
  indentation is that of its first line that is not blank; a blank line before that one must not be
  indented further.\<close>

definition literal_block :: "nat \<Rightarrow> string list \<Rightarrow> (string \<times> string list) option" where
  "literal_block n ls =
     (case dropWhile blank ls of
        [] \<Rightarrow> Some ([], [])
      | l # rest \<Rightarrow>
          let k = indent l in
          if k \<le> n then Some ([], l # rest)
          else if list_ex (\<lambda>b. k < length b) (takeWhile blank ls) then None
          else Some (clip (map (drop k) (takeWhile (\<lambda>l. blank l \<or> k \<le> indent l) ls)),
                 dropWhile (\<lambda>l. blank l \<or> k \<le> indent l) ls))"

lemma literal_block_rest: "literal_block n ls = Some (c, rest) \<Longrightarrow> length rest \<le> length ls"
  by (auto simp: literal_block_def Let_def split: list.splits if_splits)
    (metis length_Cons length_dropWhile_le, metis length_dropWhile_le)

text \<open>The items of \<open>runcmd\<close>: block scalars of a sequence indented by two, which only a line at the
  margin ends.\<close>

function read_cmds :: "string list \<Rightarrow> string list option" where
  "read_cmds ls =
     (case ls of
        [] \<Rightarrow> Some []
      | l # rest \<Rightarrow>
          if l \<noteq> ''  - |'' then (if indent l = 0 then Some [] else None)
          else (case literal_block 2 rest of
                  None \<Rightarrow> None
                | Some (c, rest') \<Rightarrow> map_option (Cons c) (read_cmds rest')))"
  by pat_completeness auto
termination
  by (relation "measure length") (auto dest!: literal_block_rest)

declare read_cmds.simps [simp del]

text \<open>The items of \<open>write_files\<close>, with the path and the content of each.\<close>

function read_files :: "string list \<Rightarrow> (string \<times> string) list option" where
  "read_files ls =
     (case ls of
        [] \<Rightarrow> Some []
      | l # rest \<Rightarrow>
          (case CutPrefix l ''  - path: '' of
             None \<Rightarrow> (if indent l = 0 then Some [] else None)
           | Some p \<Rightarrow>
               (case dropWhile (\<lambda>l. l \<noteq> ''    content: |'') rest of
                  [] \<Rightarrow> None
                | _ # rest1 \<Rightarrow>
                    (case literal_block 4 rest1 of
                       None \<Rightarrow> None
                     | Some (c, rest') \<Rightarrow> map_option (Cons (p, c)) (read_files rest')))))"
  by pat_completeness auto
termination
proof (relation "measure length", goal_cases)
  case (2 ls l rest p y rest1 x c rest')
  have "length (y # rest1) \<le> length rest" using 2(3) length_dropWhile_le by metis
  with literal_block_rest [of 4 rest1 c rest'] 2 show ?case by auto
qed simp

declare read_files.simps [simp del]

definition section_of :: "string \<Rightarrow> string \<Rightarrow> string list" where
  "section_of key doc = tl (dropWhile (\<lambda>l. l \<noteq> key) (SplitC (CHR 0x0A) doc))"

definition read_runcmd :: "string \<Rightarrow> string list option" where
  "read_runcmd doc = read_cmds (section_of ''runcmd:'' doc)"

definition read_write_files :: "string \<Rightarrow> (string \<times> string) list option" where
  "read_write_files doc = read_files (section_of ''write_files:'' doc)"

subsection \<open>What is read is what was configured\<close>

text \<open>A text that a literal block carries: its first line with any character does not start with a
  blank.\<close>

definition block_plain :: "string \<Rightarrow> bool" where
  "block_plain c \<longleftrightarrow> (case dropWhile (\<lambda>l. l = []) (SplitC (CHR 0x0A) c) of [] \<Rightarrow> True | l # _ \<Rightarrow> hd l \<noteq> CHR '' '')"

definition one_line :: "string \<Rightarrow> bool" where
  "one_line s \<longleftrightarrow> CHR 0x0A \<notin> set s"

lemma one_line_simps [simp]:
  "one_line []" "one_line (a @ b) \<longleftrightarrow> one_line a \<and> one_line b" "one_line (c # s) \<longleftrightarrow> c \<noteq> CHR 0x0A \<and> one_line s"
  by (auto simp: one_line_def)

lemma while_all_append:
  "list_all P xs \<Longrightarrow> dropWhile P (xs @ ys) = dropWhile P ys"
  "list_all P xs \<Longrightarrow> takeWhile P (xs @ ys) = xs @ takeWhile P ys"
  by (induction xs) simp_all

lemma SplitC_emit_lines: "list_all one_line ls \<Longrightarrow> SplitC (CHR 0x0A) (emit_lines ls) = ls @ [[]]"
  by (induction ls) (simp_all add: emit_lines_def nl_def one_line_def SplitC_append_sep)

lemma clip_empty: "list_all (\<lambda>l. l = []) ls \<Longrightarrow> clip ls = []"
  by (simp add: clip_def emit_lines_def dropWhile_all list_all_iff)

lemma clip_snoc_empty [simp]: "clip (ls @ [[]]) = clip ls"
  by (simp add: clip_def)

lemma indent_pad: "k \<le> indent (replicate k (CHR '' '') @ l)"
  by (induction k) (simp_all add: indent_def)

lemma indent_pad_word: "l \<noteq> [] \<Longrightarrow> hd l \<noteq> CHR '' '' \<Longrightarrow> indent (replicate k (CHR '' '') @ l) = k"
  by (induction k) (auto simp: indent_def neq_Nil_conv)

lemma blank_pad: "blank (replicate k (CHR '' '') @ l) \<longleftrightarrow> blank l"
  by (induction k) (simp_all add: blank_def)

lemma blank_spaces: "blank (replicate k (CHR '' ''))"
  by (induction k) (simp_all add: blank_def)

text \<open>The lines after a block: the end of the document, or a line of the enclosing structure.\<close>

definition ends_block :: "nat \<Rightarrow> string list \<Rightarrow> bool" where
  "ends_block n rest \<longleftrightarrow> rest = [[]] \<or> (\<exists>l r. rest = l # r \<and> \<not> blank l \<and> indent l \<le> n)"

definition after_block :: "string list \<Rightarrow> string list" where
  "after_block rest = (if rest = [[]] then [] else rest)"

lemma literal_block_lines:
  assumes plain: "block_plain c" and rest: "ends_block n rest" and n: "n < k"
  shows "literal_block n (block_lines (replicate k (CHR '' '')) c @ rest) = Some (clip (SplitC (CHR 0x0A) c), after_block rest)"
proof -
  define L where "L = SplitC (CHR 0x0A) c"
  define es where "es = takeWhile (\<lambda>l. l = []) L"
  define M where "M = dropWhile (\<lambda>l. l = []) L"
  let ?pad = "\<lambda>l. replicate k (CHR '' '') @ l"
  have L: "L = es @ M" and es: "list_all (\<lambda>l. l = []) es"
    by (simp_all add: es_def M_def list_all_iff) (use set_takeWhileD in fastforce)
  have lines: "block_lines (replicate k (CHR '' '')) c = map ?pad es @ map ?pad M"
    by (simp add: block_lines_def L flip: L_def)
  have bes: "list_all blank (map ?pad es)" using es by (induction es) (simp_all add: blank_spaces)
  have deep: "list_all (\<lambda>l. blank l \<or> k \<le> indent l) (map ?pad L)" by (simp add: list_all_iff indent_pad)
  show ?thesis
  proof (cases M)
    case Nil
    have "dropWhile blank (map ?pad es @ rest) = dropWhile blank rest"
      by (rule while_all_append(1) [OF bes])
    moreover have "clip L = []" using L Nil es by (simp add: clip_empty)
    ultimately show ?thesis using rest Nil
      by (auto simp: lines literal_block_def ends_block_def after_block_def blank_def simp flip: L_def)
  next
    case (Cons m M')
    have "m \<noteq> []" using Cons M_def by (metis (mono_tags) hd_dropWhile list.sel(1) list.distinct(1))
    moreover have "hd m \<noteq> CHR '' ''" using plain Cons by (simp add: block_plain_def flip: L_def M_def)
    ultimately have m: "indent (?pad m) = k" "\<not> blank (?pad m)"
      by (auto simp: indent_pad_word blank_pad) (cases m; simp add: blank_def)
    have dw: "dropWhile blank (map ?pad es @ map ?pad M @ rest) = ?pad m # map ?pad M' @ rest"
      and tw: "takeWhile blank (map ?pad es @ map ?pad M @ rest) = map ?pad es"
      using while_all_append [OF bes, of "map ?pad M @ rest"] m(2) by (simp_all add: Cons)
    have short: "\<not> list_ex (\<lambda>b. k < length b) (map ?pad es)" using es by (auto simp: list_ex_iff list_all_iff)
    let ?in = "\<lambda>l. blank l \<or> k \<le> indent l"
    have "takeWhile ?in (map ?pad L @ rest) = map ?pad L @ takeWhile ?in rest"
      "dropWhile ?in (map ?pad L @ rest) = dropWhile ?in rest"
      by (rule while_all_append [OF deep])+
    moreover have "takeWhile ?in rest = (if rest = [[]] then [[]] else []) \<and> dropWhile ?in rest = after_block rest"
      using rest n by (auto simp: ends_block_def after_block_def blank_def)
    ultimately have "takeWhile ?in (map ?pad L @ rest) = map ?pad L @ (if rest = [[]] then [[]] else [])"
      "dropWhile ?in (map ?pad L @ rest) = after_block rest" by simp_all
    moreover have "map (drop k) (map ?pad L) = L" by (simp add: comp_def)
    ultimately show ?thesis
      using dw tw short m n L clip_snoc_empty [of "es @ M"] by (simp add: lines literal_block_def Let_def flip: L_def)
  qed
qed

lemma read_cmds_lines:
  assumes "list_all block_plain cs"
  shows "read_cmds (concat (map runcmd_lines cs) @ [[]]) = Some (map (\<lambda>c. clip (SplitC (CHR 0x0A) c)) cs)"
  using assms
proof (induction cs)
  case (Cons c cs)
  let ?rest = "concat (map runcmd_lines cs) @ [[]]"
  have fin: "ends_block 2 ?rest"
    by (cases cs) (simp_all add: ends_block_def runcmd_lines_def blank_def indent_def)
  have "literal_block 2 (block_lines ''    '' c @ ?rest) = Some (clip (SplitC (CHR 0x0A) c), after_block ?rest)"
    using literal_block_lines [of c 2 ?rest 4] fin Cons.prems by (simp add: eval_nat_numeral)
  moreover have "read_cmds (after_block ?rest) = Some (map (\<lambda>c. clip (SplitC (CHR 0x0A) c)) cs)"
  proof (cases "?rest = [[]]")
    case True
    then have "cs = []" by (cases cs) (simp_all add: runcmd_lines_def)
    with True show ?thesis by (simp add: after_block_def read_cmds.simps)
  next
    case False
    then have "after_block ?rest = ?rest" by (simp only: after_block_def if_False)
    with Cons.IH Cons.prems show ?thesis by simp
  qed
  ultimately show ?case by (subst read_cmds.simps) (simp add: runcmd_lines_def)
qed (simp add: read_cmds.simps indent_def)


lemma read_files_lines:
  assumes "list_all (\<lambda>f. block_plain (wf_Content f)) fs" and tail: "ends_block 0 rest" and "\<And>l r. rest = l # r \<Longrightarrow> \<not> HasPrefix l ''  - path: ''"
  shows "read_files (concat (map write_file_lines fs) @ rest) = Some (map (\<lambda>f. (wf_Path f, clip (SplitC (CHR 0x0A) (wf_Content f)))) fs)"
  using assms(1)
proof (induction fs)
  case Nil
  obtain l r where rest: "rest = l # r" using tail by (auto simp: ends_block_def)
  have "CutPrefix l ''  - path: '' = None" using assms(3) [OF rest] by (simp add: CutPrefix_def)
  moreover have "indent l = 0" using tail rest by (auto simp: ends_block_def indent_def)
  ultimately show ?case by (simp add: read_files.simps rest)
next
  case (Cons f fs)
  let ?rest = "concat (map write_file_lines fs) @ rest"
  have fin: "ends_block 4 ?rest"
    using tail by (cases fs) (auto simp: ends_block_def write_file_lines_def blank_def indent_def)
  have block: "literal_block 4 (block_lines ''      '' (wf_Content f) @ ?rest) = Some (clip (SplitC (CHR 0x0A) (wf_Content f)), after_block ?rest)"
    using literal_block_lines [of "wf_Content f" 4 ?rest 6] fin Cons.prems by (simp add: eval_nat_numeral)
  have head: "list_all (\<lambda>l. l \<noteq> ''    content: |'') (write_file_head f)" by (simp add: write_file_head_def)
  have "read_files (after_block ?rest) = Some (map (\<lambda>f. (wf_Path f, clip (SplitC (CHR 0x0A) (wf_Content f)))) fs)"
  proof (cases "?rest = [[]]")
    case True
    then have "fs = []" by (cases fs) (simp_all add: write_file_lines_def)
    with True show ?thesis by (simp add: after_block_def read_files.simps)
  next
    case False
    then have "after_block ?rest = ?rest" by (simp only: after_block_def if_False)
    with Cons.IH Cons.prems show ?thesis by simp
  qed
  moreover have "CutPrefix (''  - path: '' @ p) ''  - path: '' = Some p" for p by (simp add: CutPrefix_Some_iff)
  ultimately show ?case
    using block while_all_append(1) [OF head]
    by (subst read_files.simps) (simp add: write_file_lines_def)
qed

definition plain_config :: "CloudInitConfig \<Rightarrow> bool" where
  "plain_config cfg \<longleftrightarrow>
     one_line (ci_Hostname cfg) \<and> one_line (ci_User cfg) \<and> one_line (ci_DefaultUser cfg) \<and> one_line (ci_Password cfg) \<and>
     list_all one_line (ci_SSHKeys cfg) \<and> list_all one_line (ci_Packages cfg) \<and>
     list_all (\<lambda>f. one_line (wf_Path f) \<and> one_line (wf_Permissions f) \<and> one_line (wf_Owner f) \<and> one_line (wf_Encoding f) \<and>
       block_plain (wf_Content f)) (ci_WriteFiles cfg) \<and>
     list_all block_plain (ci_RunCmds cfg)"

lemma one_line_block: "one_line ind \<Longrightarrow> list_all one_line (block_lines ind c)"
  using SplitC_no_sep [of _ "CHR 0x0A" c] by (auto simp: block_lines_def list_all_iff one_line_def)

lemma one_line_items: "one_line ind \<Longrightarrow> list_all one_line ks \<Longrightarrow> list_all one_line (item_lines ind ks)"
  by (auto simp: item_lines_def list_all_iff)

lemma one_line_write_file:
  "one_line (wf_Path f) \<and> one_line (wf_Permissions f) \<and> one_line (wf_Owner f) \<and> one_line (wf_Encoding f) \<Longrightarrow>
   list_all one_line (write_file_lines f)"
  by (simp add: write_file_lines_def write_file_head_def one_line_block)

lemma one_line_concat: "(\<And>x. x \<in> set xs \<Longrightarrow> list_all one_line (g x)) \<Longrightarrow> list_all one_line (concat (map g xs))"
  by (auto simp: list_all_iff)

lemma read_cmds_indented:
  assumes a: "one_line a" "\<not> blank a" and b: "b \<noteq> []" "hd b \<noteq> CHR '' ''" "hd b \<noteq> CHR 0x0A"
  shows "read_cmds (runcmd_lines (CHR '' '' # a @ nl @ b) @ rest) = None"
proof -
  obtain x t ts where x: "SplitC (CHR 0x0A) b = (x # t) # ts" "x \<noteq> CHR '' ''"
    using b by (cases b; cases "SplitC (CHR 0x0A) (tl b)") auto
  let ?first = "''     '' @ a" and ?second = "''    '' @ x # t"
  have lines: "block_lines ''    '' (CHR '' '' # a @ nl @ b) = ?first # ?second # map (\<lambda>l. ''    '' @ l) ts"
    using SplitC_append_sep [of "CHR 0x0A" "CHR '' '' # a" b] a(1) x by (simp add: block_lines_def nl_def one_line_def)
  have first: "\<not> blank ?first" "5 \<le> indent ?first" using a(2) by (simp_all add: blank_def indent_def)
  have second: "\<not> blank ?second" "indent ?second = 4" using x(2) by (simp_all add: blank_def indent_def)
  let ?rest = "?second # map (\<lambda>l. ''    '' @ l) ts @ rest"
  have "\<exists>c. literal_block 2 (?first # ?rest) = Some (c, ?rest)"
    using first second by (simp add: literal_block_def Let_def)
  then obtain c where "literal_block 2 (block_lines ''    '' (CHR '' '' # a @ nl @ b) @ rest) = Some (c, ?rest)"
    by (auto simp: lines)
  moreover have "read_cmds ?rest = None" using second(2) by (subst read_cmds.simps) simp
  ultimately show ?thesis by (subst read_cmds.simps) (simp add: runcmd_lines_def)
qed

lemma one_line_runcmd: "list_all one_line (runcmd_section cfg)"
  by (auto simp: runcmd_section_def runcmd_lines_def one_line_block intro!: one_line_concat)

lemma sections_RunCmds [simp]:
  "head_section (cfg\<lparr>ci_RunCmds := r\<rparr>) = head_section cfg" "files_section (cfg\<lparr>ci_RunCmds := r\<rparr>) = files_section cfg"
  "packages_section (cfg\<lparr>ci_RunCmds := r\<rparr>) = packages_section cfg"
  by (simp_all add: head_section_def users_section_def hasUsersBlock_def files_section_def packages_section_def)

lemma plain_sections:
  assumes "plain_config cfg"
  shows "list_all one_line (head_section cfg)" "list_all one_line (files_section cfg)"
    "list_all one_line (packages_section cfg)" "list_all one_line (runcmd_section cfg)"
proof -
  show "list_all one_line (head_section cfg)"
    using assms by (simp add: head_section_def users_section_def plain_config_def one_line_items)
  show "list_all one_line (files_section cfg)"
    using assms by (auto simp: files_section_def plain_config_def list_all_iff [of _ "ci_WriteFiles cfg"]
        intro!: one_line_concat one_line_write_file)
  show "list_all one_line (packages_section cfg)"
    using assms by (simp add: packages_section_def plain_config_def one_line_items)
  show "list_all one_line (runcmd_section cfg)" by (rule one_line_runcmd)
qed

text \<open>What a literal block keeps of a text: everything but the line breaks at its end, of which one
  is left.\<close>

definition kept :: "string \<Rightarrow> string" where
  "kept c = (let t = TrimRightF (\<lambda>x. x = CHR 0x0A) c in if t = [] then [] else t @ nl)"

lemma SplitC_snoc: "SplitC d (s @ [x]) = (if x = d then SplitC d s @ [[]] else butlast (SplitC d s) @ [last (SplitC d s) @ [x]])"
  by (induction s) (auto split: list.splits simp: butlast_append)

lemma emit_Join: "ls \<noteq> [] \<Longrightarrow> emit_lines ls = Join ls [CHR 0x0A] @ nl"
  by (induction ls rule: induct_list012) (simp_all add: emit_lines_def nl_def)

lemma clip_SplitC: "clip (SplitC (CHR 0x0A) c) = kept c"
proof (induction c rule: rev_induct)
  case (snoc x s)
  show ?case
  proof (cases "x = CHR 0x0A")
    case True
    then show ?thesis using snoc by (simp add: SplitC_snoc kept_def TrimRightF_def)
  next
    case False
    let ?L = "SplitC (CHR 0x0A) (s @ [x])"
    have "rev (dropWhile (\<lambda>l. l = []) (rev ?L)) = ?L" using False by (simp add: SplitC_snoc)
    then have "clip ?L = Join ?L [CHR 0x0A] @ nl" unfolding clip_def by (simp add: emit_Join)
    then show ?thesis using False by (simp add: Join_SplitC kept_def TrimRightF_def)
  qed
qed (simp add: clip_def emit_lines_def kept_def TrimRightF_def)

lemma section_of_emit:
  assumes "list_all (\<lambda>l. l \<noteq> key) a" and "list_all one_line (a @ key # b)"
  shows "section_of key (emit_lines (a @ key # b)) = b @ [[]]"
  using SplitC_emit_lines [OF assms(2)] while_all_append(1) [OF assms(1)] by (simp add: section_of_def)

lemma section_of_absent:
  assumes "list_all (\<lambda>l. l \<noteq> key) a" and "list_all one_line a" and "key \<noteq> []"
  shows "section_of key (emit_lines a) = []"
  using SplitC_emit_lines [OF assms(2)] while_all_append(1) [OF assms(1), of "[[]]"] assms(3) by (simp add: section_of_def)

lemma not_key_concat: "(\<And>x. x \<in> set xs \<Longrightarrow> list_all P (g x)) \<Longrightarrow> list_all P (concat (map g xs))"
  by (auto simp: list_all_iff)

lemma not_key:
  assumes "key = c # k" and "c \<noteq> CHR '' ''"
  shows "list_all (\<lambda>l. l \<noteq> key) (item_lines (CHR '' '' # ind) ks)" "list_all (\<lambda>l. l \<noteq> key) (block_lines (CHR '' '' # ind) t)"
    "list_all (\<lambda>l. l \<noteq> key) (write_file_lines f)"
  using assms by (auto simp: item_lines_def block_lines_def write_file_lines_def write_file_head_def list_all_iff)

lemma section_runcmd:
  assumes "list_all one_line (head_section cfg)" "list_all one_line (files_section cfg)"
    "list_all one_line (packages_section cfg)" "list_all one_line (runcmd_section cfg)"
  shows "section_of ''runcmd:'' (renderUserData cfg) =
    (if first_boot_cmds cfg \<noteq> [] then concat (map runcmd_lines (first_boot_cmds cfg)) @ [[]] else [])"
proof -
  let ?a = "head_section cfg @ files_section cfg @ packages_section cfg"
  have a: "list_all (\<lambda>l. l \<noteq> ''runcmd:'') ?a"
    by (auto simp: head_section_def users_section_def files_section_def packages_section_def not_key intro!: not_key_concat)
  show ?thesis
    using section_of_emit [OF a, of "concat (map runcmd_lines (first_boot_cmds cfg))"] section_of_absent [OF a] assms
    by (auto simp: renderUserData_def runcmd_section_def)
qed

lemma pw_cmd_plain:
  assumes "one_line t" and "one_line pw"
  shows "one_line (pw_cmd t pw)" "block_plain (pw_cmd t pw)"
proof -
  have "one_line (ReplaceC (CHR 0x27) [CHR 0x27, CHR 0x5C, CHR 0x27, CHR 0x27] s)" if "one_line s" for s
    using that by (induction s) simp_all
  then show one: "one_line (pw_cmd t pw)" using assms by (simp add: pw_cmd_def)
  then have "SplitC (CHR 0x0A) (pw_cmd t pw) = [pw_cmd t pw]" by (intro SplitC_no_sep_id) (simp add: one_line_def)
  then show "block_plain (pw_cmd t pw)" by (simp add: block_plain_def pw_cmd_def)
qed

lemma first_boot_cmds_plain: "plain_config cfg \<Longrightarrow> list_all block_plain (first_boot_cmds cfg)"
  by (auto simp: first_boot_cmds_def plain_config_def pw_targets_def intro!: pw_cmd_plain(2))

text \<open>The two sections of the rendered user data, read back.\<close>

lemma user_data_sections:
  assumes plain: "plain_config cfg"
  shows "read_runcmd (renderUserData cfg) = Some (map kept (first_boot_cmds cfg)) \<and>
    read_write_files (renderUserData cfg) = Some (map (\<lambda>f. (wf_Path f, kept (wf_Content f))) (ci_WriteFiles cfg))"
proof
  note one = plain_sections [OF plain]
  have "section_of ''runcmd:'' (renderUserData cfg) =
    (if first_boot_cmds cfg \<noteq> [] then concat (map runcmd_lines (first_boot_cmds cfg)) @ [[]] else [])"
    by (rule section_runcmd [OF one])
  then show "read_runcmd (renderUserData cfg) = Some (map kept (first_boot_cmds cfg))"
    using read_cmds_lines [OF first_boot_cmds_plain [OF plain]]
    by (simp add: read_runcmd_def clip_SplitC read_cmds.simps [of "[]"] split: if_splits)
  let ?r = "packages_section cfg @ runcmd_section cfg"
  have h: "list_all (\<lambda>l. l \<noteq> ''write_files:'') (head_section cfg)" "list_all (\<lambda>l. l \<noteq> ''write_files:'') ?r"
    by (auto simp: head_section_def users_section_def packages_section_def runcmd_section_def runcmd_lines_def not_key intro!: not_key_concat)
  have sec: "section_of ''write_files:'' (renderUserData cfg) =
    (if ci_WriteFiles cfg \<noteq> [] then concat (map write_file_lines (ci_WriteFiles cfg)) @ ?r @ [[]] else [])"
    using section_of_emit [OF h(1), of "concat (map write_file_lines (ci_WriteFiles cfg)) @ ?r"]
      section_of_absent [of "''write_files:''" "head_section cfg @ ?r"] h one
    by (auto simp: renderUserData_def files_section_def)
  have tail: "ends_block 0 (?r @ [[]])" "\<And>l r. ?r @ [[]] = l # r \<Longrightarrow> \<not> HasPrefix l ''  - path: ''"
    by (auto simp: packages_section_def runcmd_section_def ends_block_def blank_def indent_def split: if_splits)
  have "list_all (\<lambda>f. block_plain (wf_Content f)) (ci_WriteFiles cfg)"
    using plain by (simp add: plain_config_def list_all_iff)
  from read_files_lines [OF this tail]
  show "read_write_files (renderUserData cfg) = Some (map (\<lambda>f. (wf_Path f, kept (wf_Content f))) (ci_WriteFiles cfg))"
    by (simp add: read_write_files_def sec clip_SplitC read_files.simps [of "[]"] split: if_splits)
qed


text \<open>The texts in the image as strings.\<close>

definition text_of :: "bytes \<Rightarrow> string" where
  "text_of b = map (\<lambda>w. char_of (unat w)) b"

lemma text_of_ascii_bytes [simp]: "text_of (ascii_bytes s) = s"
  by (induction s) (simp_all add: text_of_def ascii_bytes_def unat_of_char)

text \<open>From the configuration to the guest.  On a host with no ISO tool, \<open>Generate\<close> writes an
  image labelled \<open>cidata\<close> in which the guest finds the file \<open>user-data\<close>; a YAML reader of that file
  gets under \<open>runcmd\<close> the password commands followed by the configured commands, and under
  \<open>write_files\<close> the configured files, each text unchanged up to the line breaks at its end - also
  when it has several lines, or characters that have a meaning in YAML.  The hypotheses ask that the
  one-line fields are one line, that no command or content starts with a blank, and that the texts
  are within the writer's limit.\<close>

lemma Generate_delivers:
  assumes plain: "plain_config cfg"
    and size: "length (renderUserData cfg) \<le> maxFileBytes" "length (renderMetaData cfg) \<le> maxFileBytes"
    and tools: "\<not> onPath ''xorriso''" "\<not> onPath ''genisoimage''" "\<not> (darwin \<and> onPath ''hdiutil'')"
  shows "\<exists>img ud. Generate onPath darwin tool_image dir cfg =
      Inr [(PathJoin [dir, ''user-data''], ascii_bytes (renderUserData cfg)),
           (PathJoin [dir, ''meta-data''], ascii_bytes (renderMetaData cfg)), (PathJoin [dir, ''cidata.iso''], img)] \<and>
    volume_label img = writeStrField 32 ''cidata'' False \<and>
    read_file 17 (ucs2BE ''user-data'') img = Some ud \<and>
    read_runcmd (text_of ud) = Some (map kept (first_boot_cmds cfg)) \<and>
    read_write_files (text_of ud) = Some (map (\<lambda>f. (wf_Path f, kept (wf_Content f))) (ci_WriteFiles cfg))"
proof -
  let ?ud = "ascii_bytes (renderUserData cfg)" and ?md = "ascii_bytes (renderMetaData cfg)"
  have "seed_fits [\<lparr>if_name = ''user-data'', if_data = ?ud\<rparr>, \<lparr>if_name = ''meta-data'', if_data = ?md\<rparr>]"
    using size by (simp add: seed_fits_def rec_len_def)
  from writeISO_readable [OF this, of "''cidata''"] obtain img where
    "buildISONative ?ud ?md = Inr img" "volume_label img = writeStrField 32 ''cidata'' False"
    "read_file 17 (ucs2BE ''user-data'') img = Some ?ud"
    by (auto simp: buildISONative_def)
  moreover have "buildISO onPath darwin i u m = WriteNative" for i u m
    using tools by (simp add: buildISO_def mkisofsTool_def)
  ultimately show ?thesis
    using user_data_sections [OF plain] by (intro exI [of _ img] exI [of _ ?ud]) (simp add: Generate_def Let_def)
qed

definition demo_cloud_init :: CloudInitConfig where
  "demo_cloud_init = \<lparr>ci_Hostname = ''dev'', ci_User = ''me'', ci_Password = ''it'' @ [CHR 0x27] @ ''s'', ci_DefaultUser = ''ubuntu'',
     ci_SSHKeys = [''ssh-ed25519 AAAA''], ci_Packages = [''git''], ci_RunCmds = [''echo a: b'' @ nl @ ''  # done''],
     ci_WriteFiles = [\<lparr>wf_Path = ''/etc/motd'', wf_Content = ''runcmd:'' @ nl, wf_Permissions = [], wf_Owner = [], wf_Defer = False, wf_Encoding = []\<rparr>]\<rparr>"

lemma demo_cloud_init_ok:
  "plain_config demo_cloud_init" "length (renderUserData demo_cloud_init) \<le> maxFileBytes"
  "length (renderMetaData demo_cloud_init) \<le> maxFileBytes"
proof -
  show "plain_config demo_cloud_init" by code_simp
  have "length (renderUserData demo_cloud_init) \<le> 1000" "length (renderMetaData demo_cloud_init) \<le> 1000"
    by code_simp+
  then show "length (renderUserData demo_cloud_init) \<le> maxFileBytes" "length (renderMetaData demo_cloud_init) \<le> maxFileBytes"
    by (simp_all add: maxFileBytes_def)
qed

text \<open>The password command hands \<open>chpasswd\<close> the account and the password: a shell that reads the
  argument of \<open>echo\<close> gets \<open>account:password\<close> as one word whatever characters the password has, and
  goes on with the pipe.\<close>

theorem password_word:
  assumes "CHR 0x27 \<notin> set t"
  shows "\<exists>arg. pw_cmd t pw = ''echo '' @ arg \<and> sh_word False arg = Some (t @ '':'' @ pw, '' | chpasswd'')"
proof -
  let ?esc = "ReplaceC CHR 0x27 [CHR 0x27, CHR 0x5C, CHR 0x27, CHR 0x27] pw"
  have "sh_word True ((t @ '':'') @ ?esc @ CHR 0x27 # '' | chpasswd'') = Some (t @ '':'' @ pw, '' | chpasswd'')"
    using assms by (subst sh_word_quoted) (simp_all add: sh_word_escaped)
  then show ?thesis by (simp add: pw_cmd_def)
qed

theorem password_word_witness:
  "\<exists>arg. pw_cmd ''me'' [CHR 0x27] = ''echo '' @ arg \<and> sh_word False arg = Some (''me:'' @ [CHR 0x27], '' | chpasswd'')"
  using password_word [of "''me''" "[CHR 0x27]"] by simp



end
