(* ===== verification/Create.thy ===== *)
theory Create
  imports Cloud_Init Lifecycle_Safety
begin

text \<open>
  Creating a VM: \<open>Manager.Create\<close> of \<open>internal/vm/manager.go\<close> with the check of its disks for data
  (\<open>diskcheck.go\<close>) and, for Linux guests on Virtualization.framework, the preparation of raw disks
  (\<open>backend_vz.go\<close>).

  \<open>CreateEnv\<close> is what a create asks of the host.  Disk images are the files \<open>w_files\<close> of the world;
  \<open>ce_stat\<close> answers for firmware, kernel and initrd files.  \<open>ce_device\<close> is what the first read of a
  block device returns (\<open>None\<close>: it cannot be opened), \<open>ce_imageInfo\<close> the output of \<open>qemu-img info\<close>,
  \<open>ce_answer\<close> the word typed at the prompt.  The seed files that were written are returned with their
  bytes; the copy of the UEFI variables, which no disk entry names, is not a file of the world.
\<close>

subsection \<open>Disks that hold data\<close>

record CreateEnv =
  ce_host :: Host
  ce_provider :: ProviderConfig
  ce_home :: string
  ce_stat :: "string \<Rightarrow> bool"
  ce_mkdir :: bool
  ce_device :: "string \<Rightarrow> byte list option"
  ce_imageInfo :: "string \<Rightarrow> string option"
  ce_answer :: string
  ce_copyOk :: "string \<Rightarrow> bool"
  ce_onPath :: "string \<Rightarrow> bool"
  ce_toolImage :: "iso_plan \<Rightarrow> bytes \<Rightarrow> bytes \<Rightarrow> (iso_error, bytes) result"
  ce_qemuImg :: "string list \<Rightarrow> bool"
  ce_freePort :: "int option"

record DiskWarning =
  dw_Path :: string
  dw_Reason :: string

definition gpt_magic :: "byte list" where
  "gpt_magic = [0x45, 0x46, 0x49, 0x20, 0x50, 0x41, 0x52, 0x54]"

definition checkBlockDevice :: "CreateEnv \<Rightarrow> string \<Rightarrow> DiskWarning option" where
  "checkBlockDevice env p =
     (case ce_device env p of
        None \<Rightarrow> Some \<lparr>dw_Path = p, dw_Reason = ''could not open device to inspect''\<rparr>
      | Some buf \<Rightarrow>
          if length buf < 512 then None
          else if buf ! 510 = 0x55 \<and> buf ! 511 = 0xAA then
            Some \<lparr>dw_Path = p, dw_Reason = (if buf ! (446 + 4) = 0xEE then ''GPT partition table detected''
                                            else ''MBR partition table detected'')\<rparr>
          else if take 8 buf = gpt_magic then Some \<lparr>dw_Path = p, dw_Reason = ''GPT header detected at sector 0''\<rparr>
          else None)"

definition checkImageFile :: "CreateEnv \<Rightarrow> string \<Rightarrow> DiskWarning option" where
  "checkImageFile env p =
     (case ce_imageInfo env p of
        None \<Rightarrow> None
      | Some out \<Rightarrow>
          (case List.map_filter (\<lambda>l. CutPrefix l ''virtual size:'') (SplitC (CHR 0x0A) out) of
             [] \<Rightarrow> None
           | v # _ \<Rightarrow> Some \<lparr>dw_Path = p, dw_Reason = ''existing image file (virtual size '' @ TrimSpace v @ '')''\<rparr>))"

definition check_disk :: "CreateEnv \<Rightarrow> VMConfig \<Rightarrow> World \<Rightarrow> DiskConfig \<Rightarrow> DiskWarning option" where
  "check_disk env cfg w d =
     (if IsInstallISO d then None
      else if (dc_Passthrough d \<or> dc_ImageFile d) \<and> SkipInstall cfg then None
      else if dc_Passthrough d then checkBlockDevice env (dc_Path d)
      else if dc_Path d \<notin> set (w_files w) then None
      else checkImageFile env (dc_Path d))"

definition CheckDisksForData :: "CreateEnv \<Rightarrow> VMConfig \<Rightarrow> World \<Rightarrow> DiskWarning list" where
  "CheckDisksForData env cfg w =
     (if VMConfig_BackendName cfg = VZ then [] else List.map_filter (check_disk env cfg w) (Disks cfg))"

definition confirmed :: "CreateEnv \<Rightarrow> DiskWarning list \<Rightarrow> bool" where
  "confirmed env warnings \<longleftrightarrow> warnings = [] \<or> ToLower (TrimSpace (ce_answer env)) = ''y''"

subsection \<open>Linux guests on Virtualization.framework\<close>

datatype vz_error = VZHost | VZGpu string | VZTpm | VZVirtiofs | VZBridge | VZPassthrough string
  | VZRelative string | VZMissing string | VZFormat string | VZNoQemuImg | VZConvert | VZResize | VZCreateDisk

definition vzRawDiskPath :: "string \<Rightarrow> string" where
  "vzRawDiskPath p =
     (case List.find (HasSuffix p) [''.qcow2'', ''.qcow'', ''.img'', ''.vmdk'', ''.vdi'', ''.vhd''] of
        Some suf \<Rightarrow> TrimSuffix p suf @ ''.raw''
      | None \<Rightarrow> if HasSuffix p ''.raw'' then p else PathJoin [p, ''disk-os.raw''])"

definition vzRepointDisk :: "DiskConfig \<Rightarrow> string \<Rightarrow> DiskConfig" where
  "vzRepointDisk d target = d\<lparr>dc_Path := target, dc_Format := ''raw'', dc_BackingFile := [], dc_Cache := []\<rparr>"

definition vzQemuImgPath :: "CreateEnv \<Rightarrow> string option" where
  "vzQemuImgPath env =
     (let p = PathJoin [ce_home env, ''.vee'', ''bin'', ''qemu-img''] in
      if ce_stat env p then Some p else if ce_onPath env ''qemu-img'' then Some ''qemu-img'' else None)"

text \<open>One disk, with the images that exist: a run of \<open>qemu-img\<close> that fails leaves no image behind.  The
  directory of the image is taken to be there or to be created.\<close>

definition materializeVZDisk ::
  "CreateEnv \<Rightarrow> DiskConfig \<Rightarrow> string list \<Rightarrow> string list \<times> (vz_error, DiskConfig) result" where
  "materializeVZDisk env d files =
     (let target = vzRawDiskPath (dc_Path d) in
      if target \<in> set files then (files, Inr (vzRepointDisk d target))
      else case vzQemuImgPath env of
             None \<Rightarrow> (files, Inl VZNoQemuImg)
           | Some img \<Rightarrow>
               if dc_BackingFile d \<noteq> [] then
                 if \<not> ce_qemuImg env [img, ''convert'', ''-O'', ''raw'', dc_BackingFile d, target] then (files, Inl VZConvert)
                 else if dc_Size d \<noteq> [] \<and> \<not> ce_qemuImg env [img, ''resize'', ''-f'', ''raw'', target, dc_Size d]
                 then (files, Inl VZResize)
                 else (target # files, Inr (vzRepointDisk d target))
               else if \<not> ce_qemuImg env [img, ''create'', ''-f'', ''raw'', target, dc_Size d]
               then (files, Inl VZCreateDisk)
               else (target # files, Inr (vzRepointDisk d target)))"

fun materializeVZLinuxDisks ::
  "CreateEnv \<Rightarrow> DiskConfig list \<Rightarrow> string list \<Rightarrow> string list \<times> (vz_error, DiskConfig list) result" where
  "materializeVZLinuxDisks env [] files = (files, Inr [])"
| "materializeVZLinuxDisks env (d # ds) files =
     (let r = (if dc_Media d = ''cdrom'' then (files, Inr d)
               else if dc_Format d \<in> {[], ''raw'', ''qcow2''} then materializeVZDisk env d files
               else (files, Inl (VZFormat (dc_Format d))))
      in case r of
           (files1, Inl e) \<Rightarrow> (files1, Inl e)
         | (files1, Inr d1) \<Rightarrow>
             (case materializeVZLinuxDisks env ds files1 of
                (files2, Inl e) \<Rightarrow> (files2, Inl e)
              | (files2, Inr ds1) \<Rightarrow> (files2, Inr (d1 # ds1))))"

text \<open>The refusals.  The code looks at the kernel and the initrd in either order; the model names the
  kernel first.\<close>

definition vz_refusal :: "CreateEnv \<Rightarrow> VMConfig \<Rightarrow> vz_error option" where
  "vz_refusal env cfg =
     (if \<not> IsMacOS (ce_host env) \<or> goarch (ce_host env) \<noteq> ''arm64'' then Some VZHost
      else if gc_Mode (GPU cfg) \<noteq> [] \<and> gc_Mode (GPU cfg) \<noteq> GPUNone then Some (VZGpu (gc_Mode (GPU cfg)))
      else if (case TPM cfg of None \<Rightarrow> False | Some t \<Rightarrow> tc_Enabled t) then Some VZTpm
      else if VirtiofsMounts cfg \<noteq> [] then Some VZVirtiofs
      else if nc_Mode (NIC cfg) = ''bridge'' then Some VZBridge
      else case List.find dc_Passthrough (Disks cfg) of
             Some d \<Rightarrow> Some (VZPassthrough (dc_Path d))
           | None \<Rightarrow>
               (case List.find (\<lambda>p. p \<noteq> [] \<and> (\<not> IsAbs p \<or> \<not> ce_stat env p)) [Kernel cfg, Initrd cfg] of
                  Some p \<Rightarrow> Some (if IsAbs p then VZMissing p else VZRelative p)
                | None \<Rightarrow> None))"

definition vz_dropped :: "VMConfig \<Rightarrow> VMConfig" where
  "vz_dropped cfg =
     (let cfg1 = (if SPICE cfg \<noteq> None
                  then cfg\<lparr>SPICE := None, Services := filter (\<lambda>s. se_Protocol s \<noteq> ServiceSPICE) (Services cfg)\<rparr>
                  else cfg);
          cfg2 = (if SSHPort cfg1 > 0 then cfg1\<lparr>SSHPort := 0\<rparr> else cfg1)
      in cfg2\<lparr>UEFI := \<lparr>uc_Enabled = False, uc_CodePath = [], uc_VarsPath = []\<rparr>\<rparr>)"

definition prepareVZLinuxCreate :: "CreateEnv \<Rightarrow> VMConfig \<Rightarrow> World \<Rightarrow> World \<times> (vz_error, VMConfig) result" where
  "prepareVZLinuxCreate env cfg w =
     (case vz_refusal env cfg of
        Some e \<Rightarrow> (w, Inl e)
      | None \<Rightarrow>
          (case materializeVZLinuxDisks env (Disks (vz_dropped cfg)) (w_files w) of
             (files, Inl e) \<Rightarrow> (w\<lparr>w_files := files\<rparr>, Inl e)
           | (files, Inr ds) \<Rightarrow> (w\<lparr>w_files := files\<rparr>, Inr ((vz_dropped cfg)\<lparr>Disks := ds\<rparr>))))"

text \<open>The disks a start hands to the vz helper, as path and read-only flag.\<close>

fun vzDiskSpecs :: "(string \<Rightarrow> bool) \<Rightarrow> DiskConfig list \<Rightarrow> (vz_error, (string \<times> bool) list) result" where
  "vzDiskSpecs stat [] = Inr []"
| "vzDiskSpecs stat (d # ds) =
     (if dc_Passthrough d then Inl (VZPassthrough (dc_Path d))
      else if dc_Format d \<noteq> [] \<and> dc_Format d \<noteq> ''raw'' then Inl (VZFormat (dc_Format d))
      else if \<not> IsAbs (dc_Path d) then Inl (VZRelative (dc_Path d))
      else if dc_Media d = ''cdrom'' \<and> \<not> stat (dc_Path d) then vzDiskSpecs stat ds
      else bind_r (vzDiskSpecs stat ds) (\<lambda>r. Inr ((dc_Path d, dc_Media d = ''cdrom'' \<or> dc_Readonly d) # r)))"

subsection \<open>Create\<close>

datatype create_error = UnknownBackendName string | MacOSNeedsVZ | CmdlineWithoutKernel | KernelNeedsVZ | KernelForMacOS
  | NestedOnVZ | NestedArch string | CreateMkdir | CreateAborted | CreateVZ vz_error | UEFIVarsCopy string
  | CloudInitSeed iso_error | InstallerSeed iso_error | NoSPICEPort | CreateSave

definition create_refusal :: "Host \<Rightarrow> VMConfig \<Rightarrow> create_error option" where
  "create_refusal h cfg =
     (if \<not> Valid_backend (Backend cfg) then Some (UnknownBackendName (Backend cfg))
      else if MacOS cfg \<noteq> None \<and> VMConfig_BackendName cfg \<noteq> VZ then Some MacOSNeedsVZ
      else if Kernel cfg = [] \<and> (Cmdline cfg \<noteq> [] \<or> Initrd cfg \<noteq> []) then Some CmdlineWithoutKernel
      else if Kernel cfg \<noteq> [] \<and> VMConfig_BackendName cfg \<noteq> VZ then Some KernelNeedsVZ
      else if Kernel cfg \<noteq> [] \<and> MacOS cfg \<noteq> None then Some KernelForMacOS
      else if Nested cfg \<and> VMConfig_BackendName cfg \<noteq> QEMU then Some NestedOnVZ
      else if Nested cfg \<and> DefaultGuestArch h \<noteq> ''aarch64'' then Some (NestedArch (DefaultGuestArch h))
      else None)"

definition ce_dir :: "CreateEnv \<Rightarrow> VMConfig \<Rightarrow> string" where
  "ce_dir env cfg = vmDir (StoragePath (ce_provider env)) (Name cfg)"

definition vz_step :: "CreateEnv \<Rightarrow> VMConfig \<Rightarrow> World \<Rightarrow> World \<times> (create_error, VMConfig) result" where
  "vz_step env cfg w =
     (if VMConfig_BackendName cfg = VZ \<and> MacOS cfg = None then
        (case prepareVZLinuxCreate env cfg w of
           (w1, Inl e) \<Rightarrow> (w1, Inl (CreateVZ e))
         | (w1, Inr cfg1) \<Rightarrow> (w1, Inr cfg1))
      else (w, Inr cfg))"

definition force_uefi :: "CreateEnv \<Rightarrow> VMConfig \<Rightarrow> VMConfig" where
  "force_uefi env cfg =
     (if VMConfig_BackendName cfg = QEMU \<and> DefaultGuestArch (ce_host env) = ''aarch64''
      then cfg\<lparr>UEFI := (UEFI cfg)\<lparr>uc_Enabled := True\<rparr>\<rparr> else cfg)"

definition uefi_vars_source :: "CreateEnv \<Rightarrow> VMConfig \<Rightarrow> string" where
  "uefi_vars_source env cfg =
     (if uc_VarsPath (UEFI cfg) \<noteq> [] then uc_VarsPath (UEFI cfg)
      else if Arch cfg \<noteq> [] \<and> Arch cfg \<noteq> DefaultGuestArch (ce_host env)
      then fst (snd (FirmwareForArch (ce_stat env) (ce_home env) (Arch cfg)))
      else OVMFVarsPath (ce_provider env))"

definition uefi_step :: "CreateEnv \<Rightarrow> VMConfig \<Rightarrow> (create_error, VMConfig) result" where
  "uefi_step env cfg0 =
     (let cfg = force_uefi env cfg0 in
      if VMConfig_BackendName cfg = QEMU \<and> uc_Enabled (UEFI cfg) then
        if ce_copyOk env (uefi_vars_source env cfg)
        then Inr (cfg\<lparr>UEFI := (UEFI cfg)\<lparr>uc_VarsPath := PathJoin [ce_dir env cfg, ''OVMF_VARS.fd'']\<rparr>\<rparr>)
        else Inl (UEFIVarsCopy (uefi_vars_source env cfg))
      else Inr cfg)"

definition seed_disk :: "Host \<Rightarrow> string \<Rightarrow> DiskConfig" where
  "seed_disk h isoPath =
     \<lparr>dc_Path = isoPath, dc_Size = [], dc_Format = [], dc_Interface = (if goarch h = ''arm64'' then ''virtio'' else ''ide''),
      dc_Media = ''cdrom'', dc_Cache = ''none'', dc_Readonly = True, dc_BackingFile = [], dc_Serial = [],
      dc_Passthrough = False, dc_ImageFile = False, dc_BootIndex = 0, dc_InstallISO = True, dc_Scratch = False\<rparr>"

text \<open>The steps that write seeds return what they wrote, also when they fail.\<close>

type_synonym seeds = "(string \<times> bytes) list"

type_synonym seed_step = "seeds \<times> (create_error, VMConfig) result"

definition cloud_init_step :: "CreateEnv \<Rightarrow> VMConfig \<Rightarrow> seed_step" where
  "cloud_init_step env cfg =
     (case CloudInit cfg of
        Some ci \<Rightarrow>
          if VMConfig_BackendName cfg = QEMU \<or> MacOS cfg = None then
            (let dir = ce_dir env cfg in
             case Generate (ce_onPath env) (IsMacOS (ce_host env)) (ce_toolImage env) dir ci of
               Inl e \<Rightarrow> ([(PathJoin [dir, ''user-data''], ascii_bytes (renderUserData ci)),
                         (PathJoin [dir, ''meta-data''], ascii_bytes (renderMetaData ci))], Inl (CloudInitSeed e))
             | Inr files \<Rightarrow>
                 (files, Inr (cfg\<lparr>Disks := Disks cfg @ [seed_disk (ce_host env) (PathJoin [dir, ''cidata.iso''])]\<rparr>)))
          else ([], Inr cfg)
      | None \<Rightarrow> ([], Inr cfg))"

definition installer_seed_step :: "CreateEnv \<Rightarrow> VMConfig \<Rightarrow> seed_step" where
  "installer_seed_step env cfg =
     (if SeedFiles cfg \<noteq> [] \<and> VMConfig_BackendName cfg = QEMU then
        (case GenerateSeed (map (\<lambda>f. \<lparr>if_name = sf_Name f, if_data = ascii_bytes (sf_Content f)\<rparr>) (SeedFiles cfg)) of
           Inl e \<Rightarrow> ([], Inl (InstallerSeed e))
         | Inr img \<Rightarrow>
             (let isoPath = PathJoin [ce_dir env cfg, ''seed.iso''] in
              ([(isoPath, img)], Inr (cfg\<lparr>Disks := Disks cfg @ [seed_disk (ce_host env) isoPath]\<rparr>))))
      else ([], Inr cfg))"

definition spice_step :: "CreateEnv \<Rightarrow> VMConfig \<Rightarrow> (create_error, VMConfig) result" where
  "spice_step env cfg =
     (case SPICE cfg of
        None \<Rightarrow> Inr cfg
      | Some sp \<Rightarrow>
          if VMConfig_BackendName cfg = QEMU \<and> sc_Port sp = 0 then
            (case ce_freePort env of
               None \<Rightarrow> Inl NoSPICEPort
             | Some port \<Rightarrow>
                 Inr (cfg\<lparr>SPICE := Some (sp\<lparr>sc_Port := port\<rparr>),
                          Services := map (\<lambda>s. if se_Protocol s = ServiceSPICE then s\<lparr>se_Port := port\<rparr> else s) (Services cfg)\<rparr>))
          else Inr cfg)"

definition create_config :: "CreateEnv \<Rightarrow> VMConfig \<Rightarrow> seed_step" where
  "create_config env cfg =
     (case uefi_step env cfg of
        Inl e \<Rightarrow> ([], Inl e)
      | Inr cfg1 \<Rightarrow>
          (case cloud_init_step env cfg1 of
             (s1, Inl e) \<Rightarrow> (s1, Inl e)
           | (s1, Inr cfg2) \<Rightarrow>
               (case installer_seed_step env cfg2 of
                  (s2, Inl e) \<Rightarrow> (s1 @ s2, Inl e)
                | (s2, Inr cfg3) \<Rightarrow> (s1 @ s2, spice_step env cfg3))))"

definition write_seeds :: "seeds \<Rightarrow> World \<Rightarrow> World" where
  "write_seeds seeds w = w\<lparr>w_files := map fst seeds @ w_files w\<rparr>"

definition Create :: "CreateEnv \<Rightarrow> VMConfig \<Rightarrow> World \<Rightarrow> World \<times> (create_error, seeds) result" where
  "Create env cfg w =
     (case create_refusal (ce_host env) cfg of
        Some e \<Rightarrow> (w, Inl e)
      | None \<Rightarrow>
          if \<not> ce_mkdir env then (w, Inl CreateMkdir)
          else if \<not> confirmed env (CheckDisksForData env cfg w) then (w, Inl CreateAborted)
          else (case vz_step env cfg w of
                  (w1, Inl e) \<Rightarrow> (w1, Inl e)
                | (w1, Inr cfg1) \<Rightarrow>
                    (case create_config env cfg1 of
                       (seeds, Inl e) \<Rightarrow> (write_seeds seeds w1, Inl e)
                     | (seeds, Inr cfg2) \<Rightarrow>
                         (case saveConfig cfg2 (write_seeds seeds w1) of
                            (w2, False) \<Rightarrow> (w2, Inl CreateSave)
                          | (w2, True) \<Rightarrow> (w2, Inr seeds)))))"

subsection \<open>What a create changes\<close>

lemma vz_dropped_simps [simp]:
  "Name (vz_dropped cfg) = Name cfg" "Backend (vz_dropped cfg) = Backend cfg" "Disks (vz_dropped cfg) = Disks cfg"
  "CloudInit (vz_dropped cfg) = CloudInit cfg" "MacOS (vz_dropped cfg) = MacOS cfg" "SkipInstall (vz_dropped cfg) = SkipInstall cfg"
  by (simp_all add: vz_dropped_def Let_def)

lemma materialize_grows:
  "set files \<subseteq> set (fst (materializeVZLinuxDisks env ds files))"
proof (induction ds arbitrary: files)
  case (Cons d ds)
  have one: "set files \<subseteq> set (fst (materializeVZDisk env d files))"
    by (auto simp: materializeVZDisk_def Let_def split: option.splits)
  define r where "r = (if dc_Media d = ''cdrom'' then (files, Inr d)
    else if dc_Format d \<in> {[], ''raw'', ''qcow2''} then materializeVZDisk env d files else (files, Inl (VZFormat (dc_Format d))))"
  obtain f1 x where r: "r = (f1, x)" by (cases r)
  have f1: "set files \<subseteq> set f1" using one r by (auto simp: r_def split: if_splits)
  have "set f1 \<subseteq> set (fst (materializeVZLinuxDisks env ds f1))" by (rule Cons.IH)
  then show ?case using f1
    by (cases x; cases "materializeVZLinuxDisks env ds f1"; cases "snd (materializeVZLinuxDisks env ds f1)")
      (auto simp: r_def [symmetric] r)
qed simp

text \<open>Two worlds that differ in the files only, where no file has disappeared.\<close>

definition more_files :: "World \<Rightarrow> World \<Rightarrow> bool" where
  "more_files w w' \<longleftrightarrow> (\<exists>files. w' = w\<lparr>w_files := files\<rparr> \<and> set (w_files w) \<subseteq> set files)"

lemma more_files_refl: "more_files w w"
  unfolding more_files_def by (rule exI [of _ "w_files w"]) simp

lemma more_files_seeds:
  assumes "more_files w w1"
  shows "more_files w (write_seeds s w1)"
proof -
  obtain files where "w1 = w\<lparr>w_files := files\<rparr>" "set (w_files w) \<subseteq> set files" using assms by (auto simp: more_files_def)
  then show ?thesis unfolding more_files_def write_seeds_def by (intro exI [of _ "map fst s @ files"]) auto
qed

lemma more_files_simps:
  assumes "more_files w w'"
  shows "w_configs w' = w_configs w" "w_states w' = w_states w" "w_procs w' = w_procs w" "w_readonly w' = w_readonly w"
  using assms by (auto simp: more_files_def)

lemma vz_step_shape:
  assumes "vz_step env cfg w = (w1, r)"
  shows "more_files w w1"
    and "r = Inr cfg1 \<Longrightarrow> Name cfg1 = Name cfg \<and> Backend cfg1 = Backend cfg \<and> CloudInit cfg1 = CloudInit cfg \<and>
      MacOS cfg1 = MacOS cfg \<and> SkipInstall cfg1 = SkipInstall cfg"
proof -
  have "w1 = w \<or> (\<exists>files. w1 = w\<lparr>w_files := files\<rparr> \<and> files = fst (materializeVZLinuxDisks env (Disks cfg) (w_files w)))"
    using assms by (auto simp: vz_step_def prepareVZLinuxCreate_def split: if_splits option.splits prod.splits sum.splits)
  then show "more_files w w1" using materialize_grows more_files_refl unfolding more_files_def by metis
  show "Name cfg1 = Name cfg \<and> Backend cfg1 = Backend cfg \<and> CloudInit cfg1 = CloudInit cfg \<and>
      MacOS cfg1 = MacOS cfg \<and> SkipInstall cfg1 = SkipInstall cfg" if "r = Inr cfg1"
    using assms that by (auto simp: vz_step_def prepareVZLinuxCreate_def split: if_splits option.splits prod.splits sum.splits)
qed

text \<open>The steps on the configuration keep what identifies the VM, and only append seed disks.\<close>

definition same_vm :: "VMConfig \<Rightarrow> VMConfig \<Rightarrow> bool" where
  "same_vm c d \<longleftrightarrow> Name d = Name c \<and> Backend d = Backend c \<and> CloudInit d = CloudInit c \<and> MacOS d = MacOS c \<and>
     SkipInstall d = SkipInstall c \<and> SeedFiles d = SeedFiles c \<and> (\<exists>xs. Disks d = Disks c @ xs)"

lemma same_vm_trans: "same_vm a b \<Longrightarrow> same_vm b c \<Longrightarrow> same_vm a c"
  by (auto simp: same_vm_def)

lemma same_vm_backend: "same_vm c d \<Longrightarrow> VMConfig_BackendName d = VMConfig_BackendName c"
  by (simp add: same_vm_def VMConfig_BackendName_def)

lemma same_vm_dir: "same_vm c d \<Longrightarrow> ce_dir env d = ce_dir env c"
  by (simp add: same_vm_def ce_dir_def)

lemma steps_same_vm:
  "uefi_step env cfg = Inr c \<Longrightarrow> same_vm cfg c" "cloud_init_step env cfg = (s, Inr c) \<Longrightarrow> same_vm cfg c"
  "installer_seed_step env cfg = (s, Inr c) \<Longrightarrow> same_vm cfg c" "spice_step env cfg = Inr c \<Longrightarrow> same_vm cfg c"
  by (auto simp: uefi_step_def force_uefi_def cloud_init_step_def installer_seed_step_def spice_step_def same_vm_def Let_def
      split: if_splits option.splits sum.splits)

lemma create_config_steps:
  assumes "create_config env cfg = (s, Inr c)"
  obtains c1 c2 s1 c3 s2 where "uefi_step env cfg = Inr c1" "cloud_init_step env c1 = (s1, Inr c2)"
    "installer_seed_step env c2 = (s2, Inr c3)" "spice_step env c3 = Inr c" "s = s1 @ s2"
    "same_vm cfg c1" "same_vm c1 c2" "same_vm c2 c3" "same_vm c3 c" "same_vm cfg c"
proof -
  obtain c1 where a: "uefi_step env cfg = Inr c1"
    using assms by (cases "uefi_step env cfg") (auto simp: create_config_def)
  obtain s1 x1 where b0: "cloud_init_step env c1 = (s1, x1)" by (cases "cloud_init_step env c1")
  obtain c2 where b: "cloud_init_step env c1 = (s1, Inr c2)"
    using assms a b0 by (cases x1) (auto simp: create_config_def)
  obtain s2 x2 where d0: "installer_seed_step env c2 = (s2, x2)" by (cases "installer_seed_step env c2")
  obtain c3 where d: "installer_seed_step env c2 = (s2, Inr c3)" and e: "spice_step env c3 = Inr c" "s = s1 @ s2"
    using assms a b d0 by (cases x2) (auto simp: create_config_def)
  note same = steps_same_vm(1) [OF a] steps_same_vm(2) [OF b] steps_same_vm(3) [OF d] steps_same_vm(4) [OF e(1)]
  have "same_vm cfg c" by (rule same_vm_trans [OF same_vm_trans [OF same_vm_trans [OF same(1,2)] same(3)] same(4)])
  with that [OF a b d e same] show ?thesis .
qed

lemma Create_success:
  assumes "Create env cfg w = (w', Inr seeds)"
  obtains w1 cfg1 cfg2 where "vz_step env cfg w = (w1, Inr cfg1)" "more_files w w1"
    "create_config env cfg1 = (seeds, Inr cfg2)" "same_vm cfg1 cfg2" "Name cfg2 = Name cfg"
    "w' = w\<lparr>w_configs := put_config cfg2 (w_configs w), w_files := map fst seeds @ w_files w1\<rparr>" "loadConfig w' (Name cfg) = Some cfg2"
proof -
  obtain w1 r1 where v: "vz_step env cfg w = (w1, r1)" by (cases "vz_step env cfg w")
  have more: "more_files w w1" by (rule vz_step_shape(1) [OF v])
  then obtain files where w1: "w1 = w\<lparr>w_files := files\<rparr>" by (auto simp: more_files_def)
  obtain cfg1 cfg2 where c: "r1 = Inr cfg1" "create_config env cfg1 = (seeds, Inr cfg2)"
    and w': "w' = w\<lparr>w_configs := put_config cfg2 (w_configs w), w_files := map fst seeds @ w_files w1\<rparr>"
    using assms v w1
    by (auto simp: Create_def saveConfig_def write_seeds_def split: sum.splits if_splits prod.splits option.splits)
  have same: "same_vm cfg1 cfg2" using c(2) by (rule create_config_steps)
  with vz_step_shape(2) [OF v c(1)] have name: "Name cfg2 = Name cfg" by (simp add: same_vm_def)
  have "loadConfig w' (Name cfg) = Some cfg2" by (simp add: w' loadConfig_def map_of_put_config name)
  with that [OF v [unfolded c(1)] more c(2) same name w'] show ?thesis .
qed


text \<open>The demonstration environment and VM: an x86 Linux host with no ISO tool, an Apple Silicon host with
  \<open>qemu-img\<close>.\<close>

definition demo_cenv :: CreateEnv where
  "demo_cenv = \<lparr>ce_host = demo_host, ce_provider = demo_provider, ce_home = ''/h'', ce_stat = (\<lambda>_. True), ce_mkdir = True,
     ce_device = (\<lambda>_. None), ce_imageInfo = (\<lambda>_. None), ce_answer = [], ce_copyOk = (\<lambda>_. True), ce_onPath = (\<lambda>_. False),
     ce_toolImage = (\<lambda>_ _ _. Inl IsoPanic), ce_qemuImg = (\<lambda>_. True), ce_freePort = Some 5900\<rparr>"

definition demo_new_vm :: VMConfig where
  "demo_new_vm = demo_auto\<lparr>Name := ''db'', CloudInit := Some demo_cloud_init\<rparr>"



lemma demo_new_vm_simps:
  "create_refusal (ce_host demo_cenv) demo_new_vm = None" "ce_mkdir demo_cenv" "VMConfig_BackendName demo_new_vm = QEMU"
  "QEMU \<noteq> VZ" "list_all (\<lambda>d. \<not> dc_Passthrough d) (Disks demo_new_vm)" "DefaultGuestArch (ce_host demo_cenv) \<noteq> ''aarch64''"
  "\<not> uc_Enabled (UEFI demo_new_vm)" "CloudInit demo_new_vm = Some demo_cloud_init" "SeedFiles demo_new_vm = []"
  "SPICE demo_new_vm = None" "MacOS demo_new_vm = None"
  by code_simp+

lemma demo_created:
  assumes "\<not> w_readonly w" and "w_files w = []"
  shows "\<exists>w' seeds. Create demo_cenv demo_new_vm w = (w', Inr seeds)"
proof -
  note simps = demo_new_vm_simps
  have "check_disk demo_cenv demo_new_vm w d = None" if "d \<in> set (Disks demo_new_vm)" for d
    using that simps(5) assms(2) by (auto simp: check_disk_def list_all_iff)
  then have "CheckDisksForData demo_cenv demo_new_vm w = []"
    by (auto simp: CheckDisksForData_def List.map_filter_def filter_empty_conv)
  moreover have "vz_step demo_cenv demo_new_vm w = (w, Inr demo_new_vm)" using simps(3,4) by (simp add: vz_step_def)
  moreover have "\<exists>s c. create_config demo_cenv demo_new_vm = (s, Inr c)"
  proof -
    have "\<not> ce_onPath demo_cenv t" for t by (simp add: demo_cenv_def)
    then obtain files where "Generate (ce_onPath demo_cenv) (IsMacOS (ce_host demo_cenv)) (ce_toolImage demo_cenv)
        (ce_dir demo_cenv demo_new_vm) demo_cloud_init = Inr files"
      using Generate_delivers [OF demo_cloud_init_ok, of "ce_onPath demo_cenv"] by blast
    moreover have "uefi_step demo_cenv demo_new_vm = Inr demo_new_vm"
      using simps by (simp add: uefi_step_def force_uefi_def)
    ultimately show ?thesis
      using simps by (simp add: create_config_def cloud_init_step_def installer_seed_step_def spice_step_def Let_def)
  qed
  ultimately show ?thesis
    using simps(1,2) assms(1) by (auto simp: Create_def confirmed_def saveConfig_def write_seeds_def)
qed


text \<open>C39: creating a VM over an installed one of the same name stores the new configuration with its
  seed, but keeps the old state: the installation is still recorded as ready, so the first start strips
  the seed again and the guest never sees it.\<close>

theorem recreate_strips_seed:
  assumes created: "Create env cfg w = (w', Inr seeds)" and ci: "CloudInit cfg = Some ci" and mac: "MacOS cfg = None"
    and old: "\<not> Running (loadState w (Name cfg))" "InstallState (loadState w (Name cfg)) = InstallStateReady"
  shows "\<exists>cfg'. loadConfig w' (Name cfg) = Some cfg' \<and> hasInstallISO cfg' \<and>
    (\<forall>senv w2 cfg2 st2. prepare senv (Name cfg) cfg' w' = (w2, Inr (cfg2, st2)) \<longrightarrow> installer_free cfg2)"
proof -
  obtain w1 cfg1 cfg2 where v: "vz_step env cfg w = (w1, Inr cfg1)" and cc: "create_config env cfg1 = (seeds, Inr cfg2)"
    and w': "w' = w\<lparr>w_configs := put_config cfg2 (w_configs w), w_files := map fst seeds @ w_files w1\<rparr>"
      "loadConfig w' (Name cfg) = Some cfg2"
    using created by (rule Create_success)
  obtain c1 c2 s1 c3 s2 where st: "cloud_init_step env c1 = (s1, Inr c2)"
    and same: "same_vm cfg1 c1" "same_vm c2 c3" "same_vm c3 cfg2"
    using cc by (rule create_config_steps)
  have c1: "CloudInit c1 = Some ci" "MacOS c1 = None"
    using vz_step_shape(2) [OF v refl] same(1) ci mac by (simp_all add: same_vm_def)
  have "hasInstallISO c2"
    using st c1 by (auto simp: cloud_init_step_def hasInstallISO_def seed_disk_def IsInstallISO_def Let_def split: sum.splits)
  then have "hasInstallISO cfg2" using same(2,3) by (auto simp: same_vm_def hasInstallISO_def)
  moreover have "loadState w' = loadState w" by (simp add: w'(1) loadState_def fun_eq_iff)
  ultimately show ?thesis using w'(2) old prepare_ready by (metis (no_types, lifting))
qed

theorem recreate_strips_seed_witness:
  "\<exists>w' seeds cfg'. Create demo_cenv demo_new_vm (demo_world\<lparr>w_states := [''db'' \<mapsto> demo_stopped]\<rparr>) = (w', Inr seeds) \<and>
     loadConfig w' ''db'' = Some cfg' \<and> hasInstallISO cfg' \<and>
     (\<forall>w2 cfg2 st2. prepare demo_senv ''db'' cfg' w' = (w2, Inr (cfg2, st2)) \<longrightarrow> installer_free cfg2)"
proof -
  let ?w = "demo_world\<lparr>w_states := [''db'' \<mapsto> demo_stopped]\<rparr>"
  have nm: "Name demo_new_vm = ''db''" by (simp add: demo_new_vm_def)
  have "\<not> w_readonly ?w" "w_files ?w = []" by (simp_all add: demo_world_def)
  from demo_created [OF this] obtain w' seeds where c: "Create demo_cenv demo_new_vm ?w = (w', Inr seeds)" by blast
  have "\<not> Running (loadState ?w (Name demo_new_vm))" "InstallState (loadState ?w (Name demo_new_vm)) = InstallStateReady"
    by (simp_all add: nm loadState_def demo_stopped_def VMState_zero_def)
  from recreate_strips_seed [OF c demo_new_vm_simps(8,11) this] c show ?thesis by (auto simp: nm)
qed

subsection \<open>From create to start on Virtualization.framework\<close>

lemma PathJoin_IsAbs:
  assumes "IsAbs p"
  shows "IsAbs (PathJoin [p, q])"
proof -
  have "p \<noteq> []" using assms by (auto simp: IsAbs_def)
  then have "PathJoin [p, q] = Clean (p @ (if q = [] then [] else ''/'' @ q))" by (simp add: PathJoin_def)
  then show ?thesis using Clean_rooted [OF IsAbs_append [OF assms]] by (simp add: IsAbs_def)
qed

lemma TrimSuffix_abs:
  assumes "IsAbs p" and "HasSuffix p suf" and "hd suf = CHR ''.''" and "suf \<noteq> []"
  shows "IsAbs (TrimSuffix p suf @ x)"
proof -
  obtain t where t: "p = t @ suf" using assms(2) by (auto simp: HasSuffix_iff)
  have "t \<noteq> []" using assms(1,3,4) t by (cases suf) (auto simp: IsAbs_def)
  then have "IsAbs t" using assms(1) t by (cases t) (auto simp: IsAbs_def)
  then show ?thesis by (simp add: t IsAbs_append)
qed

lemma vzRawDiskPath_abs:
  assumes "IsAbs p"
  shows "IsAbs (vzRawDiskPath p)"
proof (cases "List.find (HasSuffix p) [''.qcow2'', ''.qcow'', ''.img'', ''.vmdk'', ''.vdi'', ''.vhd'']")
  case None
  then show ?thesis using assms by (simp only: vzRawDiskPath_def option.case) (simp add: PathJoin_IsAbs)
next
  case (Some suf)
  then have "HasSuffix p suf" "suf \<in> set [''.qcow2'', ''.qcow'', ''.img'', ''.vmdk'', ''.vdi'', ''.vhd'']"
    by (auto simp only: find_Some_iff) (metis nth_mem)
  then have "IsAbs (TrimSuffix p suf @ ''.raw'')" by (intro TrimSuffix_abs [OF assms]) auto
  then show ?thesis by (simp only: vzRawDiskPath_def Some option.case)
qed

text \<open>A disk that a start on Virtualization.framework takes.\<close>

definition vz_usable :: "DiskConfig \<Rightarrow> bool" where
  "vz_usable d \<longleftrightarrow> \<not> dc_Passthrough d \<and> dc_Format d \<in> {[], ''raw''} \<and> IsAbs (dc_Path d)"

lemma vzDiskSpecs_usable:
  "list_all vz_usable ds \<Longrightarrow> \<exists>specs. vzDiskSpecs stat ds = Inr specs"
  by (induction ds) (auto simp: vz_usable_def)

definition vz_image :: "string list \<Rightarrow> DiskConfig \<Rightarrow> bool" where
  "vz_image files d \<longleftrightarrow> dc_Media d = ''cdrom'' \<or> dc_Format d = ''raw'' \<and> dc_BackingFile d = [] \<and> dc_Path d \<in> set files"

lemma materializeVZDisk_ok:
  assumes "materializeVZDisk env d files = (files1, Inr d1)" and "IsAbs (dc_Path d)" and "\<not> dc_Passthrough d"
  shows "vz_usable d1 \<and> vz_image files1 d1"
  using assms vzRawDiskPath_abs [OF assms(2)]
  by (auto simp: materializeVZDisk_def vzRepointDisk_def vz_usable_def vz_image_def Let_def split: if_splits option.splits)

lemma materializeVZLinuxDisks_ok:
  assumes "materializeVZLinuxDisks env ds files = (files', Inr ds')"
    and "list_all (\<lambda>d. \<not> dc_Passthrough d \<and> IsAbs (dc_Path d) \<and> (dc_Media d = ''cdrom'' \<longrightarrow> dc_Format d \<in> {[], ''raw''})) ds"
  shows "list_all vz_usable ds' \<and> list_all (vz_image files') ds'"
  using assms
proof (induction ds arbitrary: files ds')
  case (Cons d ds)
  define r where "r = (if dc_Media d = ''cdrom'' then (files, Inr d)
    else if dc_Format d \<in> {[], ''raw'', ''qcow2''} then materializeVZDisk env d files else (files, Inl (VZFormat (dc_Format d))))"
  obtain f1 d1 ds1 where r: "r = (f1, Inr d1)" and m: "materializeVZLinuxDisks env ds f1 = (files', Inr ds1)" "ds' = d1 # ds1"
    using Cons.prems(1) by (auto simp: r_def [symmetric] split: prod.splits sum.splits)
  have "vz_usable d1 \<and> vz_image f1 d1"
  proof (cases "dc_Media d = ''cdrom''")
    case True
    then show ?thesis using r Cons.prems(2) by (auto simp: r_def vz_usable_def vz_image_def)
  next
    case False
    then have "materializeVZDisk env d files = (f1, Inr d1)" using r by (auto simp: r_def split: if_splits)
    then show ?thesis using Cons.prems(2) materializeVZDisk_ok by simp
  qed
  moreover have "set f1 \<subseteq> set files'" using materialize_grows [of f1 env ds] m(1) by simp
  ultimately show ?case using Cons.IH [OF m(1)] Cons.prems(2) m(2) by (auto simp: vz_image_def)
qed simp

text \<open>C13: what a create prepares for Virtualization.framework is what a start takes.  After a successful
  create of a Linux guest with absolute disk paths, the start's translation of the stored disks
  succeeds, and every disk that is not a CD image is a standalone raw image that exists.\<close>

theorem created_vz_disks_start:
  assumes created: "Create env cfg w = (w', Inr seeds)" and vz: "VMConfig_BackendName cfg = VZ" and mac: "MacOS cfg = None"
    and disks: "list_all (\<lambda>d. IsAbs (dc_Path d) \<and> (dc_Media d = ''cdrom'' \<longrightarrow> dc_Format d \<in> {[], ''raw''})) (Disks cfg)"
    and storage: "IsAbs (StoragePath (ce_provider env))"
  shows "\<exists>cfg' specs. loadConfig w' (Name cfg) = Some cfg' \<and> vzDiskSpecs stat (Disks cfg') = Inr specs \<and>
    list_all (vz_image (w_files w')) (Disks cfg')"
proof -
  obtain w1 cfg1 cfg2 where v: "vz_step env cfg w = (w1, Inr cfg1)" and cc: "create_config env cfg1 = (seeds, Inr cfg2)"
    and w': "w' = w\<lparr>w_configs := put_config cfg2 (w_configs w), w_files := map fst seeds @ w_files w1\<rparr>"
      "loadConfig w' (Name cfg) = Some cfg2"
    using created by (rule Create_success)
  have none: "vz_refusal env cfg = None"
    and m: "materializeVZLinuxDisks env (Disks cfg) (w_files w) = (w_files w1, Inr (Disks cfg1))"
    using v vz mac by (auto simp: vz_step_def prepareVZLinuxCreate_def split: option.splits prod.splits sum.splits)
  have "list_all (\<lambda>d. \<not> dc_Passthrough d) (Disks cfg)"
    using none by (auto simp: vz_refusal_def find_None_iff list_all_iff split: if_splits option.splits)
  then have "list_all vz_usable (Disks cfg1) \<and> list_all (vz_image (w_files w1)) (Disks cfg1)"
    using disks by (intro materializeVZLinuxDisks_ok [OF m]) (auto simp: list_all_iff)
  moreover have "\<exists>xs. Disks cfg2 = Disks cfg1 @ xs \<and> list_all (\<lambda>d. vz_usable d \<and> dc_Media d = ''cdrom'') xs"
  proof -
    have "VMConfig_BackendName cfg1 = VMConfig_BackendName cfg"
      using vz_step_shape(2) [OF v refl] by (simp add: VMConfig_BackendName_def)
    then have b: "VMConfig_BackendName cfg1 = VZ" "QEMU \<noteq> VZ" using vz by (simp_all add: QEMU_def VZ_def)
    obtain c1 c2 s1 c3 s2 where st: "uefi_step env cfg1 = Inr c1" "cloud_init_step env c1 = (s1, Inr c2)"
      "installer_seed_step env c2 = (s2, Inr c3)" "spice_step env c3 = Inr cfg2"
      and same: "same_vm cfg1 c1" "same_vm c1 c2" "same_vm c2 c3"
      using cc by (rule create_config_steps)
    have bk: "VMConfig_BackendName c1 = VZ" "VMConfig_BackendName c2 = VZ" "VMConfig_BackendName c3 = VZ"
      using same_vm_backend [OF same(1)] same_vm_backend [OF same(2)] same_vm_backend [OF same(3)] b by simp_all
    have "Disks c1 = Disks cfg1" using st(1) b by (auto simp: uefi_step_def force_uefi_def Let_def)
    moreover have "c3 = c2" "cfg2 = c3"
      using st(3,4) bk b(2) by (auto simp: installer_seed_step_def spice_step_def split: option.splits)
    moreover have "Disks c2 = Disks c1 \<or> (\<exists>p. Disks c2 = Disks c1 @ [seed_disk (ce_host env) (PathJoin [ce_dir env c1, p])])"
      using st(2) by (auto simp: cloud_init_step_def Let_def split: option.splits sum.splits if_splits)
    moreover have "vz_usable (seed_disk h (PathJoin [ce_dir env c1, p]))" for h p
      using storage by (simp add: vz_usable_def seed_disk_def ce_dir_def vmDir_def PathJoin_IsAbs)
    ultimately show ?thesis by (auto simp: seed_disk_def)
  qed
  ultimately have "list_all vz_usable (Disks cfg2)" "list_all (vz_image (w_files w')) (Disks cfg2)"
    by (auto simp: list_all_iff vz_image_def w'(1))
  then show ?thesis using w'(2) vzDiskSpecs_usable [of "Disks cfg2" stat] by blast
qed

definition demo_mac_env :: CreateEnv where
  "demo_mac_env = demo_cenv\<lparr>ce_host := demo_host\<lparr>goos := ''darwin'', goarch := ''arm64''\<rparr>\<rparr>"

definition demo_vz_vm :: VMConfig where
  "demo_vz_vm = VMConfig_zero\<lparr>Name := ''lin'', Backend := ''vz'',
     Disks := [DiskConfig_zero\<lparr>dc_Path := ''/d/lin.qcow2'', dc_Format := ''qcow2'', dc_BackingFile := ''/iso/ubuntu.img'', dc_Size := ''20G''\<rparr>]\<rparr>"

theorem created_vz_disks_start_witness:
  "\<exists>w' cfg'. Create demo_mac_env demo_vz_vm demo_world = (w', Inr []) \<and> loadConfig w' ''lin'' = Some cfg' \<and>
     (\<exists>specs. vzDiskSpecs (\<lambda>_. True) (Disks cfg') = Inr specs)"
proof -
  have "snd (Create demo_mac_env demo_vz_vm demo_world) = Inr []" by code_simp
  then obtain w' where c: "Create demo_mac_env demo_vz_vm demo_world = (w', Inr [])" by (metis prod.collapse)
  have "VMConfig_BackendName demo_vz_vm = VZ" "MacOS demo_vz_vm = None"
    "list_all (\<lambda>d. IsAbs (dc_Path d) \<and> (dc_Media d = ''cdrom'' \<longrightarrow> dc_Format d \<in> {[], ''raw''})) (Disks demo_vz_vm)"
    "IsAbs (StoragePath (ce_provider demo_mac_env))" "Name demo_vz_vm = ''lin''" by code_simp+
  with created_vz_disks_start [OF c, of "\<lambda>_. True"] c show ?thesis by auto
qed

end
